(* ===== verification/Prelude.thy ===== *)
theory Prelude
  imports Main "HOL-Library.FSet" "HOL-Library.Finite_Map" "HOL-Library.Word"
    "HOL-Library.AList" "HOL-Library.List_Lexorder" "HOL-Library.Char_ord"
begin

text \<open>
  Vocabulary shared by every component.

  \<^item> \<open>result\<close> is Rust's \<open>Result\<close> with a third outcome for a panic (an \<open>assert!\<close>, an \<open>expect\<close>, or an
    arithmetic overflow in a build with overflow checks); \<open>and_then\<close> is the \<open>?\<close> operator.
  \<^item> \<open>try_fold\<close> is a \<open>for\<close> loop whose body may leave early with \<open>?\<close>.
  \<^item> Fixed width unsigned integers are natural numbers, with the overflow of the checked build written
    out by \<open>u64_add\<close>, \<open>u32_add\<close> and their relatives.
  \<^item> \<open>BTreeMap\<close> and \<open>HashMap\<close> are finite maps, \<open>BTreeSet\<close> and \<open>HashSet\<close> finite sets, \<open>IndexMap\<close> an
    association list in insertion order and \<open>IndexSet\<close> a distinct list.
\<close>

named_theorems result_simps \<open>inversion of successful computations\<close>

section \<open>Results\<close>

datatype ('a, 'e) result = Ok 'a | Err 'e | Panic string

primrec and_then :: "('a, 'e) result \<Rightarrow> ('a \<Rightarrow> ('b, 'e) result) \<Rightarrow> ('b, 'e) result" where
  "and_then (Ok x) f = f x"
| "and_then (Err e) f = Err e"
| "and_then (Panic m) f = Panic m"

primrec map_err :: "('e \<Rightarrow> 'f) \<Rightarrow> ('a, 'e) result \<Rightarrow> ('a, 'f) result" where
  "map_err h (Ok x) = Ok x"
| "map_err h (Err e) = Err (h e)"
| "map_err h (Panic m) = Panic m"

primrec is_ok :: "('a, 'e) result \<Rightarrow> bool" where
  "is_ok (Ok x) = True"
| "is_ok (Err e) = False"
| "is_ok (Panic m) = False"

primrec ok_or :: "'e \<Rightarrow> 'a option \<Rightarrow> ('a, 'e) result" where
  "ok_or e None = Err e"
| "ok_or e (Some x) = Ok x"

primrec expect :: "string \<Rightarrow> 'a option \<Rightarrow> ('a, 'e) result" where
  "expect m None = Panic m"
| "expect m (Some x) = Ok x"

definition ensure :: "bool \<Rightarrow> 'e \<Rightarrow> (unit, 'e) result" where
  "ensure b e = (if b then Ok () else Err e)"

definition assert_or_panic :: "bool \<Rightarrow> string \<Rightarrow> (unit, 'e) result" where
  "assert_or_panic b m = (if b then Ok () else Panic m)"

primrec try_fold :: "('s \<Rightarrow> 'a \<Rightarrow> ('s, 'e) result) \<Rightarrow> 's \<Rightarrow> 'a list \<Rightarrow> ('s, 'e) result" where
  "try_fold f s [] = Ok s"
| "try_fold f s (x # xs) = and_then (f s x) (\<lambda>s'. try_fold f s' xs)"

lemma and_then_Ok_iff [result_simps]: "and_then r f = Ok y \<longleftrightarrow> (\<exists>x. r = Ok x \<and> f x = Ok y)"
  by (cases r) auto

lemma and_then_Err_iff: "and_then r f = Err e \<longleftrightarrow> r = Err e \<or> (\<exists>x. r = Ok x \<and> f x = Err e)"
  by (cases r) auto

lemma and_then_assoc: "and_then (and_then r f) g = and_then r (\<lambda>x. and_then (f x) g)"
  by (cases r) auto

lemma map_err_Ok_iff [result_simps]: "map_err h r = Ok x \<longleftrightarrow> r = Ok x"
  by (cases r) auto

lemma ok_or_Ok_iff [result_simps]: "ok_or e v = Ok x \<longleftrightarrow> v = Some x"
  by (cases v) auto

lemma expect_Ok_iff [result_simps]: "expect m v = Ok x \<longleftrightarrow> v = Some x"
  by (cases v) auto

lemma ensure_Ok_iff [result_simps]: "ensure b e = Ok u \<longleftrightarrow> b"
  by (simp add: ensure_def)

lemma assert_or_panic_Ok_iff [result_simps]: "assert_or_panic b m = Ok u \<longleftrightarrow> b"
  by (simp add: assert_or_panic_def)

lemma ensure_simps [simp]: "ensure True e = Ok ()" "ensure False e = Err e"
  by (simp_all add: ensure_def)

lemma assert_or_panic_simps [simp]:
  "assert_or_panic True m = Ok ()" "assert_or_panic False m = Panic m"
  by (simp_all add: assert_or_panic_def)

lemma is_ok_iff: "is_ok r \<longleftrightarrow> (\<exists>x. r = Ok x)"
  by (cases r) auto

lemma try_fold_append:
  "try_fold f s (xs @ ys) = and_then (try_fold f s xs) (\<lambda>s'. try_fold f s' ys)"
  by (induction xs arbitrary: s) (simp_all add: and_then_assoc)

text \<open>A property of the loop state that every successful iteration keeps holds after the loop.\<close>

lemma try_fold_invariant:
  assumes "try_fold f s xs = Ok s'" and "I s"
    and "\<And>s x s'. \<lbrakk>x \<in> set xs; I s; f s x = Ok s'\<rbrakk> \<Longrightarrow> I s'"
  shows "I s'"
  using assms by (induction xs arbitrary: s) (auto simp: result_simps)

section \<open>Fixed width unsigned integers\<close>

definition u32_max :: nat where "u32_max = 4294967295"
definition u64_max :: nat where "u64_max = 18446744073709551615"

definition u64_add :: "nat \<Rightarrow> nat \<Rightarrow> (nat, 'e) result" where
  "u64_add a b = (if a + b \<le> u64_max then Ok (a + b) else Panic ''attempt to add with overflow'')"

definition u64_sub :: "nat \<Rightarrow> nat \<Rightarrow> (nat, 'e) result" where
  "u64_sub a b = (if b \<le> a then Ok (a - b) else Panic ''attempt to subtract with overflow'')"

definition u64_mul :: "nat \<Rightarrow> nat \<Rightarrow> (nat, 'e) result" where
  "u64_mul a b = (if a * b \<le> u64_max then Ok (a * b) else Panic ''attempt to multiply with overflow'')"

definition u32_add :: "nat \<Rightarrow> nat \<Rightarrow> (nat, 'e) result" where
  "u32_add a b = (if a + b \<le> u32_max then Ok (a + b) else Panic ''attempt to add with overflow'')"

definition u32_sub :: "nat \<Rightarrow> nat \<Rightarrow> (nat, 'e) result" where
  "u32_sub a b = (if b \<le> a then Ok (a - b) else Panic ''attempt to subtract with overflow'')"

lemma u64_add_Ok_iff [result_simps]: "u64_add a b = Ok c \<longleftrightarrow> c = a + b \<and> a + b \<le> u64_max"
  by (auto simp: u64_add_def)

lemma u64_sub_Ok_iff [result_simps]: "u64_sub a b = Ok c \<longleftrightarrow> c = a - b \<and> b \<le> a"
  by (auto simp: u64_sub_def)

lemma u64_mul_Ok_iff [result_simps]: "u64_mul a b = Ok c \<longleftrightarrow> c = a * b \<and> a * b \<le> u64_max"
  by (auto simp: u64_mul_def)

lemma u32_add_Ok_iff [result_simps]: "u32_add a b = Ok c \<longleftrightarrow> c = a + b \<and> a + b \<le> u32_max"
  by (auto simp: u32_add_def)

lemma u32_sub_Ok_iff [result_simps]: "u32_sub a b = Ok c \<longleftrightarrow> c = a - b \<and> b \<le> a"
  by (auto simp: u32_sub_def)

section \<open>Identifiers\<close>

text \<open>
  Object keys, hashes, public keys and commitments are 32 byte arrays in the code, compared
  byte by byte from the first; reading them as big endian 256 bit words keeps that order.
\<close>

type_synonym bytes32 = "256 word"
type_synonym resource_address = bytes32
type_synonym component_address = bytes32
type_synonym vault_id = bytes32
type_synonym template_address = bytes32
type_synonym public_key = bytes32
type_synonym commitment = bytes32
type_synonym bucket_id = nat
type_synonym proof_id = nat
type_synonym lock_id = nat

section \<open>Ordered sets\<close>

text \<open>\<open>BTreeSet::pop_first\<close>: remove and return the least element.\<close>

definition pop_first :: "'a::linorder fset \<Rightarrow> ('a \<times> 'a fset) option" where
  "pop_first s = (if s = {||} then None else Some (fMin s, s |-| {|fMin s|}))"

lemma pop_first_None_iff [simp]: "pop_first s = None \<longleftrightarrow> s = {||}"
  by (simp add: pop_first_def)

lemma pop_first_SomeD:
  assumes "pop_first s = Some (x, r)"
  shows "x |\<in>| s" "r = s |-| {|x|}" "fcard s = Suc (fcard r)" "\<And>y. y |\<in>| r \<Longrightarrow> x < y"
proof -
  have ne: "s \<noteq> {||}" and x: "x = fMin s" and r: "r = s |-| {|x|}"
    using assms by (auto simp: pop_first_def split: if_splits)
  show mem: "x |\<in>| s" using ne x by (simp add: fMin_in)
  show "r = s |-| {|x|}" by (rule r)
  show "fcard s = Suc (fcard r)"
    using mem r by (metis fcard_Suc_fminus1)
  show "x < y" if "y |\<in>| r" for y
    using that r x by (auto simp: fMin_le order.strict_iff_order)
qed

section \<open>Finite sets and maps\<close>

lemma distinct_sorted_list_of_fset [simp]: "distinct (sorted_list_of_fset s)"
  by (simp add: sorted_list_of_fset.rep_eq)

lemma fset_of_sorted_list [simp]: "fset_of_list (sorted_list_of_fset s) = s"
  by (simp add: fset_eq_iff fset_of_list_elem)

lemma fcard_funion_disjoint: "a |\<inter>| b = {||} \<Longrightarrow> fcard (a |\<union>| b) = fcard a + fcard b"
  using fcard_funion_finter[of a b] by simp

lemma fcard_fminus: "b |\<subseteq>| a \<Longrightarrow> fcard (a |-| b) = fcard a - fcard b"
  by (rule fcard_funion_fsubset)

lemma fmupd_fmadd: "k |\<notin>| fmdom n \<Longrightarrow> fmupd k v m ++\<^sub>f n = fmupd k v (m ++\<^sub>f n)"
  by (rule fmap_ext) auto

lemma fmap_of_sorted_list [simp]: "fmap_of_list (sorted_list_of_fmap m) = m"
proof (rule fmap_ext)
  fix k
  show "fmlookup (fmap_of_list (sorted_list_of_fmap m)) k = fmlookup m k"
    by (cases "fmlookup m k")
       (simp_all add: fmlookup_of_list sorted_list_of_fmap_def map_of_map_restrict restrict_map_def
         fmdomI fmdom_notI)
qed

lemma fmrestrict_set_empty [simp]: "fmrestrict_set {} m = fmempty"
  and fmdrop_set_empty [simp]: "fmdrop_set {} m = m"
  by (rule fmap_ext, simp)+

lemma mem_fmdom_fmrestrict_set [simp]: "k |\<in>| fmdom (fmrestrict_set A m) \<longleftrightarrow> k \<in> A \<and> k |\<in>| fmdom m"
  and mem_fmdom_fmdrop_set [simp]: "k |\<in>| fmdom (fmdrop_set A m) \<longleftrightarrow> k \<notin> A \<and> k |\<in>| fmdom m"
  by (auto simp: fmlookup_dom_iff)

lemma fmadd_fmrestrict_insert:
  assumes "fmlookup m k = Some v" "k \<notin> A"
  shows "fmupd k v c ++\<^sub>f fmrestrict_set A (fmdrop k m) = c ++\<^sub>f fmrestrict_set (insert k A) m"
  using assms by (intro fmap_ext) (auto simp: fmlookup_dom_iff)

lemma fmdrop_set_insert: "fmdrop_set A (fmdrop k m) = fmdrop_set (insert k A) m"
  by (rule fmap_ext) auto

lemma fmdom_fmrestrict: "A |\<subseteq>| fmdom m \<Longrightarrow> fmdom (fmrestrict_set (fset A) m) = A"
  by (auto simp: fset_eq_iff)

section \<open>Insertion ordered maps\<close>

text \<open>
  \<open>IndexMap::insert\<close> overwrites in place or appends, which is \<^const>\<open>AList.update\<close>;
  \<open>shift_remove\<close> is \<^const>\<open>AList.delete\<close>.
\<close>

lemma map_of_update [simp]: "map_of (AList.update k v m) = (map_of m)(k \<mapsto> v)"
  by (rule update_conv')

lemma map_of_delete [simp]: "map_of (AList.delete k m) = (map_of m)(k := None)"
  by (rule delete_conv')

definition index_set_insert :: "'a \<Rightarrow> 'a list \<Rightarrow> 'a list" where
  "index_set_insert x xs = (if x \<in> set xs then xs else xs @ [x])"

lemma set_index_set_insert [simp]: "set (index_set_insert x xs) = insert x (set xs)"
  by (auto simp: index_set_insert_def)

lemma distinct_index_set_insert [simp]: "distinct (index_set_insert x xs) = distinct xs"
  by (auto simp: index_set_insert_def)

end
