(* ===== verification/Amount.thy ===== *)
theory Amount
  imports Prelude
begin

text \<open>
  \<open>Amount\<close> (crates/template_lib_types/src/amount/amount.rs): a newtype over the 192 bit signed
  integer \<open>I192\<close> of the bnum crate. A value is an \<^typ>\<open>int\<close>; \<open>in_i192\<close> is the range of the type and
  every operation returns a value in that range. The operators \<open>+\<close> and \<open>-\<close> are bnum's: on overflow
  they panic in a build with debug assertions and wrap otherwise, so they take the build's
  \<open>overflow_mode\<close>.
\<close>

named_theorems amount_simps \<open>definitions of the amount operations\<close>

type_synonym amount = int

datatype overflow_mode = PanicOnOverflow | WrapOnOverflow

definition Amount_MAX :: amount where "Amount_MAX = 2 ^ 191 - 1"
definition Amount_MIN :: amount where "Amount_MIN = - (2 ^ 191)"

definition in_i192 :: "int \<Rightarrow> bool" where
  "in_i192 x \<longleftrightarrow> Amount_MIN \<le> x \<and> x \<le> Amount_MAX"

definition wrap_i192 :: "int \<Rightarrow> int" where
  "wrap_i192 x = (x + 2 ^ 191) mod 2 ^ 192 - 2 ^ 191"

definition clamp_i192 :: "int \<Rightarrow> int" where
  "clamp_i192 x = max Amount_MIN (min Amount_MAX x)"

definition i192_op :: "overflow_mode \<Rightarrow> int \<Rightarrow> (amount, 'e) result" where
  "i192_op om x = (if in_i192 x then Ok x
     else case om of PanicOnOverflow \<Rightarrow> Panic ''attempt to perform arithmetic with overflow''
                   | WrapOnOverflow \<Rightarrow> Ok (wrap_i192 x))"

section \<open>Operations\<close>

definition is_zero :: "amount \<Rightarrow> bool" where [amount_simps]: "is_zero a \<longleftrightarrow> a = 0"
definition is_positive :: "amount \<Rightarrow> bool" where [amount_simps]: "is_positive a \<longleftrightarrow> a > 0"
definition is_negative :: "amount \<Rightarrow> bool" where [amount_simps]: "is_negative a \<longleftrightarrow> a < 0"
definition is_non_negative :: "amount \<Rightarrow> bool" where
  [amount_simps]: "is_non_negative a \<longleftrightarrow> is_positive a \<or> is_zero a"

definition amount_add :: "overflow_mode \<Rightarrow> amount \<Rightarrow> amount \<Rightarrow> (amount, 'e) result" where
  "amount_add om a b = i192_op om (a + b)"

definition amount_sub :: "overflow_mode \<Rightarrow> amount \<Rightarrow> amount \<Rightarrow> (amount, 'e) result" where
  "amount_sub om a b = i192_op om (a - b)"

definition checked_add :: "amount \<Rightarrow> amount \<Rightarrow> amount option" where
  "checked_add a b = (if in_i192 (a + b) then Some (a + b) else None)"

definition checked_add_positive :: "amount \<Rightarrow> amount \<Rightarrow> amount option" where
  "checked_add_positive a b =
     (if is_negative a \<or> is_negative b then None else checked_add a b)"

definition saturating_add :: "amount \<Rightarrow> amount \<Rightarrow> amount" where
  "saturating_add a b = clamp_i192 (a + b)"

definition checked_sub :: "amount \<Rightarrow> amount \<Rightarrow> amount option" where
  "checked_sub a b = (if in_i192 (a - b) then Some (a - b) else None)"

fun sum_from_positive_loop :: "amount \<Rightarrow> amount list \<Rightarrow> amount option" where
  "sum_from_positive_loop acc [] = Some acc"
| "sum_from_positive_loop acc (a # as) =
     (case checked_add_positive acc a of None \<Rightarrow> None | Some s \<Rightarrow> sum_from_positive_loop s as)"

definition sum_from_positive :: "amount list \<Rightarrow> amount option" where
  "sum_from_positive as = sum_from_positive_loop 0 as"

definition saturating_sub :: "amount \<Rightarrow> amount \<Rightarrow> amount" where
  "saturating_sub a b = clamp_i192 (a - b)"

definition saturating_sub_positive :: "overflow_mode \<Rightarrow> amount \<Rightarrow> amount \<Rightarrow> (amount option, 'e) result" where
  "saturating_sub_positive om a b =
     (if a < b then Ok None else and_then (amount_sub om a b) (\<lambda>d. Ok (Some d)))"

definition checked_sub_positive :: "overflow_mode \<Rightarrow> amount \<Rightarrow> amount \<Rightarrow> (amount option, 'e) result" where
  "checked_sub_positive om a b =
     (if is_negative a \<or> is_negative b then Ok None else saturating_sub_positive om a b)"

definition checked_mul :: "amount \<Rightarrow> amount \<Rightarrow> amount option" where
  "checked_mul a b = (if in_i192 (a * b) then Some (a * b) else None)"

definition saturating_mul :: "amount \<Rightarrow> amount \<Rightarrow> amount" where
  "saturating_mul a b = clamp_i192 (a * b)"

text \<open>Rust's integer division truncates towards zero and the remainder takes the dividend's sign.\<close>

definition tdiv :: "int \<Rightarrow> int \<Rightarrow> int" where
  "tdiv n d = sgn n * sgn d * (\<bar>n\<bar> div \<bar>d\<bar>)"

definition trem :: "int \<Rightarrow> int \<Rightarrow> int" where
  "trem n d = n - d * tdiv n d"

definition checked_div :: "amount \<Rightarrow> amount \<Rightarrow> amount option" where
  "checked_div a b = (if b = 0 \<or> \<not> in_i192 (tdiv a b) then None else Some (tdiv a b))"

definition checked_rem :: "amount \<Rightarrow> amount \<Rightarrow> amount option" where
  "checked_rem a b = (if b = 0 \<or> \<not> in_i192 (tdiv a b) then None else Some (trem a b))"

text \<open>
  The last addition of \<open>checked_div_ceil\<close> needs no overflow mode: with a non-zero remainder the divisor
  is at least two in absolute value, so the quotient is at most half of the largest amount.
\<close>

definition checked_div_ceil :: "amount \<Rightarrow> amount \<Rightarrow> amount option" where
  "checked_div_ceil n d =
     (if is_zero d then None
      else case checked_div n d of
        None \<Rightarrow> None
      | Some q \<Rightarrow> (case checked_rem n d of
          None \<Rightarrow> None
        | Some r \<Rightarrow> if is_zero r \<or> is_negative q then Some q else Some (q + 1)))"

definition div_ceil :: "amount \<Rightarrow> amount \<Rightarrow> (amount, 'e) result" where
  "div_ceil a b = expect ''division by zero'' (checked_div_ceil a b)"

definition to_u64_checked :: "amount \<Rightarrow> nat option" where
  "to_u64_checked a = (if 0 \<le> a \<and> a \<le> int u64_max then Some (nat a) else None)"

definition non_negative_checked :: "amount \<Rightarrow> amount option" where
  "non_negative_checked a = (if is_negative a then None else Some a)"

definition negative_checked :: "amount \<Rightarrow> amount option" where
  "negative_checked a = (if is_positive a then None else Some a)"

section \<open>Byte encoding\<close>

text \<open>
  The bits of an \<open>I192\<close> are three little endian 64 bit digits, and the code copies the eight bytes of
  each digit with two nested counting loops.
\<close>

definition to_le_digits :: "amount \<Rightarrow> 64 word list" where
  "to_le_digits a = map (\<lambda>i. word_of_int (a div 2 ^ (64 * i))) [0..<3]"

definition from_le_digits :: "64 word list \<Rightarrow> amount" where
  "from_le_digits ds = wrap_i192 (horner_sum uint (2 ^ 64) ds)"

definition u64_to_le_bytes :: "64 word \<Rightarrow> 8 word list" where
  "u64_to_le_bytes w = map (\<lambda>j. ucast (drop_bit (8 * j) w)) [0..<8]"

definition u64_from_le_bytes :: "8 word list \<Rightarrow> 64 word" where
  "u64_from_le_bytes bs = word_of_int (horner_sum uint (2 ^ 8) bs)"

function copy_digit :: "8 word list \<Rightarrow> nat \<Rightarrow> nat \<Rightarrow> 8 word list \<Rightarrow> 8 word list" where
  "copy_digit digit_bytes i j bytes =
     (if j < 8 then copy_digit digit_bytes i (j + 1) (bytes[i * 8 + j := digit_bytes ! j]) else bytes)"
  by pat_completeness auto
termination copy_digit by (relation "measure (\<lambda>(_, _, j, _). 8 - j)") auto

function to_le_bytes_loop :: "64 word list \<Rightarrow> nat \<Rightarrow> 8 word list \<Rightarrow> 8 word list" where
  "to_le_bytes_loop digits i bytes =
     (if i < 3 then to_le_bytes_loop digits (i + 1) (copy_digit (u64_to_le_bytes (digits ! i)) i 0 bytes)
      else bytes)"
  by pat_completeness auto
termination to_le_bytes_loop by (relation "measure (\<lambda>(_, i, _). 3 - i)") auto

definition to_le_bytes :: "amount \<Rightarrow> 8 word list" where
  "to_le_bytes a = to_le_bytes_loop (to_le_digits a) 0 (replicate 24 0)"

function gather_digit :: "8 word list \<Rightarrow> nat \<Rightarrow> nat \<Rightarrow> 8 word list \<Rightarrow> 8 word list" where
  "gather_digit bytes init_index j digit_bytes =
     (if j < init_index + 8
      then gather_digit bytes init_index (j + 1) (digit_bytes[j - init_index := bytes ! j])
      else digit_bytes)"
  by pat_completeness auto
termination gather_digit by (relation "measure (\<lambda>(_, n, j, _). n + 8 - j)") auto

function from_le_bytes_loop :: "8 word list \<Rightarrow> nat \<Rightarrow> 64 word list \<Rightarrow> 64 word list" where
  "from_le_bytes_loop bytes i out =
     (if i < 3 then from_le_bytes_loop bytes (i + 1)
        (out[i := u64_from_le_bytes (gather_digit bytes (i * 8) (i * 8) (replicate 8 0))])
      else out)"
  by pat_completeness auto
termination from_le_bytes_loop by (relation "measure (\<lambda>(_, i, _). 3 - i)") auto

declare copy_digit.simps [simp del] to_le_bytes_loop.simps [simp del]
  gather_digit.simps [simp del] from_le_bytes_loop.simps [simp del]

definition from_le_bytes :: "8 word list \<Rightarrow> amount" where
  "from_le_bytes bytes = from_le_digits (from_le_bytes_loop bytes 0 (replicate 3 0))"

section \<open>Arithmetic facts\<close>

lemma in_i192_I [intro]: "\<lbrakk>Amount_MIN \<le> x; x \<le> Amount_MAX\<rbrakk> \<Longrightarrow> in_i192 x"
  by (simp add: in_i192_def)

lemma in_i192_0 [simp]: "in_i192 0" and in_i192_1 [simp]: "in_i192 1"
  by (simp_all add: in_i192_def Amount_MAX_def Amount_MIN_def)

lemma wrap_i192_in_range [simp]: "in_i192 (wrap_i192 x)"
proof -
  have "0 \<le> (x + 2 ^ 191) mod 2 ^ 192" "(x + 2 ^ 191) mod 2 ^ 192 < (2 ^ 192 :: int)"
    by simp_all
  then show ?thesis by (simp add: in_i192_def wrap_i192_def Amount_MAX_def Amount_MIN_def)
qed

lemma wrap_i192_id: "in_i192 x \<Longrightarrow> wrap_i192 x = x"
  by (simp add: in_i192_def wrap_i192_def Amount_MAX_def Amount_MIN_def)

lemma clamp_i192_in_range [simp]: "in_i192 (clamp_i192 x)"
  by (simp add: clamp_i192_def in_i192_def Amount_MAX_def Amount_MIN_def)

lemma i192_op_in_range: "i192_op om x = Ok y \<Longrightarrow> in_i192 y"
  by (auto simp: i192_op_def split: if_splits overflow_mode.splits)

lemma i192_op_exact: "in_i192 x \<Longrightarrow> i192_op om x = Ok x"
  by (simp add: i192_op_def)

lemma amount_add_exact [simp]: "in_i192 (a + b) \<Longrightarrow> amount_add om a b = Ok (a + b)"
  by (simp add: amount_add_def i192_op_exact)

lemma amount_sub_exact [simp]: "in_i192 (a - b) \<Longrightarrow> amount_sub om a b = Ok (a - b)"
  by (simp add: amount_sub_def i192_op_exact)

text \<open>With overflow checks on, an operator that returns has computed the mathematical value.\<close>

lemma amount_add_panic_Ok_iff [result_simps]:
  "amount_add PanicOnOverflow a b = Ok c \<longleftrightarrow> c = a + b \<and> in_i192 (a + b)"
  by (auto simp: amount_add_def i192_op_def)

lemma amount_sub_panic_Ok_iff [result_simps]:
  "amount_sub PanicOnOverflow a b = Ok c \<longleftrightarrow> c = a - b \<and> in_i192 (a - b)"
  by (auto simp: amount_sub_def i192_op_def)

lemma amount_sub_le_exact:
  "\<lbrakk>0 \<le> b; b \<le> a; in_i192 a\<rbrakk> \<Longrightarrow> amount_sub om a b = Ok (a - b)"
  by (rule amount_sub_exact) (simp add: in_i192_def Amount_MIN_def)

lemma amount_op_not_Err [simp]:
  "amount_add om a b \<noteq> Err e" "amount_sub om a b \<noteq> Err e"
  by (auto simp: amount_add_def amount_sub_def i192_op_def split: overflow_mode.splits)

lemma in_i192_diff_nonneg [simp]:
  "\<lbrakk>0 \<le> b; b \<le> a; in_i192 a\<rbrakk> \<Longrightarrow> in_i192 (a - b)"
  by (simp add: in_i192_def Amount_MIN_def)

lemma in_i192_le: "\<lbrakk>in_i192 b; 0 \<le> a; a \<le> b\<rbrakk> \<Longrightarrow> in_i192 a"
  by (simp add: in_i192_def Amount_MIN_def)

lemma in_i192_merge:
  assumes "in_i192 (a + l + b)" "0 \<le> a" "0 \<le> l" "0 \<le> b"
  shows "in_i192 (a + b)" "in_i192 (a + b + l)"
  using assms by (simp_all add: in_i192_def Amount_MIN_def)

lemma in_i192_transfer:
  assumes "in_i192 (n + l)" "0 \<le> n" "0 \<le> m" "m \<le> l"
  shows "in_i192 (n + m)" "in_i192 (l - m)" "in_i192 (n + m + (l - m))"
  using assms by (simp_all add: in_i192_def Amount_MIN_def)

lemma checked_add_Some_iff [result_simps]:
  "checked_add a b = Some c \<longleftrightarrow> c = a + b \<and> in_i192 (a + b)"
  by (auto simp: checked_add_def)

lemma checked_add_positive_Some_iff [result_simps]:
  "checked_add_positive a b = Some c \<longleftrightarrow> 0 \<le> a \<and> 0 \<le> b \<and> c = a + b \<and> in_i192 (a + b)"
  by (auto simp: checked_add_positive_def checked_add_def is_negative_def)

lemma sum_from_positive_loop_Some_iff:
  assumes "0 \<le> acc" and "in_i192 acc"
  shows "sum_from_positive_loop acc as = Some s \<longleftrightarrow>
    (\<forall>a\<in>set as. 0 \<le> a) \<and> s = acc + sum_list as \<and> in_i192 s"
  using assms
proof (induction as arbitrary: acc)
  case (Cons a as)
  show ?case
  proof (cases "0 \<le> a \<and> in_i192 (acc + a)")
    case True
    then show ?thesis using Cons by (auto simp: checked_add_positive_def checked_add_def amount_simps)
  next
    case False
    have "0 \<le> sum_list as" if "\<forall>x\<in>set as. 0 \<le> x"
      using that by (simp add: sum_list_nonneg)
    then show ?thesis using False Cons.prems
      by (auto simp: checked_add_positive_def checked_add_def amount_simps in_i192_def Amount_MIN_def)
  qed
qed auto

section \<open>Digits and bytes\<close>

lemma upt_3: "[0..<3] = [0, 1, 2 :: nat]" by (simp add: upt_rec)
lemma upt_8: "[0..<8] = [0, 1, 2, 3, 4, 5, 6, 7 :: nat]" by (simp add: upt_rec)

lemma horner_sum_digits:
  "horner_sum (\<lambda>j. x div 2 ^ (k * j) mod 2 ^ k) (2 ^ k) [0..<n] = (x :: int) mod 2 ^ (k * n)"
proof (induction n arbitrary: x)
  case (Suc n)
  have "horner_sum (\<lambda>j. x div 2 ^ (k * j) mod 2 ^ k) (2 ^ k) [0..<Suc n]
      = x mod 2 ^ k + 2 ^ k * horner_sum (\<lambda>j. (x div 2 ^ k) div 2 ^ (k * j) mod 2 ^ k) (2 ^ k) [0..<n]"
    by (simp add: upt_conv_Cons map_Suc_upt[symmetric] horner_sum_foldr foldr_map comp_def
      power_add zdiv_zmult2_eq del: upt_Suc)
  also have "\<dots> = x mod 2 ^ (k * Suc n)"
    unfolding Suc.IH by (simp add: power_add zmod_zmult2_eq)
  finally show ?case .
qed simp

lemma u64_le_bytes_roundtrip: "u64_from_le_bytes (u64_to_le_bytes w) = w"
proof -
  have uw: "uint w mod 18446744073709551616 = uint w" using uint_lt2p[of w] by simp
  have "horner_sum uint (2 ^ 8) (u64_to_le_bytes w) = uint w mod 2 ^ (8 * 8)"
    unfolding horner_sum_digits[symmetric] u64_to_le_bytes_def
    by (simp add: horner_sum_foldr foldr_map comp_def unsigned_ucast_eq unsigned_drop_bit_eq)
       (simp add: take_bit_eq_mod drop_bit_eq_div uw)
  also have "... = uint w" using uint_lt2p[of w] by (simp)
  finally show ?thesis by (simp add: u64_from_le_bytes_def)
qed

lemma le_digits_roundtrip: "in_i192 a \<Longrightarrow> from_le_digits (to_le_digits a) = a"
proof -
  assume r: "in_i192 a"
  have s: "horner_sum uint (2 ^ 64) (to_le_digits a) = a mod 2 ^ (64 * 3)"
    unfolding horner_sum_digits[symmetric] to_le_digits_def
    by (simp add: horner_sum_foldr foldr_map comp_def uint_word_of_int)
  show ?thesis
    unfolding from_le_digits_def s using wrap_i192_id[OF r] 
    by (simp add: wrap_i192_def mod_simps)
qed

lemma copy_digit_nth:
  "length (copy_digit ds i j bytes) = length bytes"
  "k < length bytes \<Longrightarrow> copy_digit ds i j bytes ! k =
     (if i * 8 + j \<le> k \<and> k < i * 8 + 8 then ds ! (k - i * 8) else bytes ! k)"
proof (induction ds i j bytes rule: copy_digit.induct)
  case (1 ds i j bytes)
  { case 1 then show ?case using "1.IH"(1) by (subst copy_digit.simps) simp
  next case 2 then show ?case using "1.IH"(2)
     by (subst copy_digit.simps) (auto simp: nth_list_update not_less_eq_eq
       intro!: arg_cong[where f = "(!) ds"]) }
qed

lemma gather_digit_nth:
  "length (gather_digit bytes n j out) = length out"
  "\<lbrakk>k < length out; n \<le> j\<rbrakk> \<Longrightarrow> gather_digit bytes n j out ! k =
     (if j \<le> n + k \<and> k < 8 then bytes ! (n + k) else out ! k)"
proof (induction bytes n j out rule: gather_digit.induct)
  case (1 bytes n j out)
  { case 1 then show ?case using "1.IH"(1) by (subst gather_digit.simps) simp
  next case 2 then show ?case using "1.IH"(2)
     by (subst gather_digit.simps) (auto simp: nth_list_update) }
qed

lemma length_u64_to_le_bytes [simp]: "length (u64_to_le_bytes w) = 8"
  by (simp add: u64_to_le_bytes_def)

lemma to_le_bytes_loop_nth:
  assumes "k < 24"
  shows "to_le_bytes_loop ds 0 (replicate 24 0) ! k = u64_to_le_bytes (ds ! (k div 8)) ! (k mod 8)"
proof -
  consider "k div 8 = 0" "k < 8" | "k div 8 = 1" "8 \<le> k" "k < 16" | "k div 8 = 2" "16 \<le> k"
    using assms by linarith
  then show ?thesis using assms minus_div_mult_eq_mod[of k 8]
    by cases (simp_all add: to_le_bytes_loop.simps copy_digit_nth numeral_2_eq_2)
qed

lemma gather_to_le_bytes:
  assumes "i < 3"
  shows "gather_digit (to_le_bytes_loop ds 0 (replicate 24 0)) (i * 8) (i * 8) (replicate 8 0)
     = u64_to_le_bytes (ds ! i)"
  using assms by (intro nth_equalityI) (simp_all add: gather_digit_nth to_le_bytes_loop_nth)

lemma from_to_le_bytes_loop:
  assumes "length ds = 3"
  shows "from_le_bytes_loop (to_le_bytes_loop ds 0 (replicate 24 0)) 0 (replicate 3 0) = ds"
proof -
  have "from_le_bytes_loop (to_le_bytes_loop ds 0 (replicate 24 0)) 0 (replicate 3 0)
      = [ds ! 0, ds ! 1, ds ! 2]"
  using gather_to_le_bytes[of 0 ds] gather_to_le_bytes[of 1 ds]  gather_to_le_bytes[of 2 ds]
    by (simp add: from_le_bytes_loop.simps u64_le_bytes_roundtrip numeral_3_eq_3)
  also have "\<dots> = ds" using assms by (auto simp: numeral_3_eq_3 numeral_2_eq_2 length_Suc_conv)
  finally show ?thesis .
qed

section \<open>Properties\<close>

text \<open>The manual byte encoding of an amount is inverted by the manual decoding: for every
  value of the type, decoding its 24 little endian bytes gives the value back.\<close>

theorem amount_le_bytes_roundtrip:
  assumes "in_i192 a"
  shows "from_le_bytes (to_le_bytes a) = a"
  using le_digits_roundtrip[OF assms]
  by (simp add: from_le_bytes_def to_le_bytes_def from_to_le_bytes_loop to_le_digits_def)

theorem amount_le_bytes_roundtrip_witness:
  "from_le_bytes (to_le_bytes (- 5)) = - 5"
  by (rule amount_le_bytes_roundtrip) (simp add: in_i192_def Amount_MIN_def Amount_MAX_def)

text \<open>Rounding up a quotient. For a positive divisor the result is the ceiling of the quotient,
  except for a dividend strictly between minus the divisor and zero, where the code answers one
  although the ceiling is zero.\<close>

theorem checked_div_ceil_rounding:
  assumes "d > 0" "in_i192 n" "in_i192 d"
  shows "checked_div_ceil n d = Some (if - d < n \<and> n < 0 then 1 else - ((- n) div d))"
proof -
  have ab: "\<bar>n\<bar> div d \<le> \<bar>n\<bar>" "0 \<le> \<bar>n\<bar> div d" 
    using assms  zdiv_mono2[of "\<bar>n\<bar>" 1 d] by (auto simp: pos_imp_zdiv_nonneg_iff)
  have q: "tdiv n d = (if 0 \<le> n then n div d else - ((- n) div d))"
    using assms by (auto simp: tdiv_def sgn_if)
  have rng: "in_i192 (tdiv n d)"
    using ab assms(2) unfolding q in_i192_def Amount_MIN_def Amount_MAX_def by auto
  have up: "- ((- n) div d) = (if n mod d = 0 then n div d else n div d + 1)" 
    using assms(1) by (simp add: zdiv_zminus1_eq_if) 
  show ?thesis
  proof (cases "0 \<le> n")
    case True
    have "trem n d = n mod d" using True by (simp add: trem_def q minus_mult_div_eq_mod)
    moreover have "0 \<le> n div d" using True assms(1) by (simp add: pos_imp_zdiv_nonneg_iff)
    ultimately show ?thesis using True rng assms(1) up
      by (simp add: checked_div_ceil_def checked_div_def checked_rem_def q amount_simps)
  next
    case False
    have rr: "trem n d = - ((- n) mod d)" using False
      by (simp add: trem_def q minus_div_mult_eq_mod [symmetric] algebra_simps)
    show ?thesis
    proof (cases "- d < n")
      case True
      then have "(- n) div d = 0" "(- n) mod d = - n" using False by auto
      then show ?thesis using True False rng assms(1) rr
        by (simp add: checked_div_ceil_def checked_div_def checked_rem_def q amount_simps)
    next
      case nd: False
      then have "(-n) div d > 0" using assms(1) False by (simp add: pos_imp_zdiv_pos_iff)
      then show ?thesis using nd False rng assms(1) 
        by (simp add: checked_div_ceil_def checked_div_def checked_rem_def q amount_simps)
    qed
  qed
qed

theorem checked_div_ceil_rounding_witness:
  "checked_div_ceil (- 1) 2 = Some 1 \<and> checked_div_ceil 7 2 = Some 4 \<and> checked_div_ceil (- 7) 2 = Some (- 3)"
  using checked_div_ceil_rounding[of 2 "- 1"] checked_div_ceil_rounding[of 2 7]
    checked_div_ceil_rounding[of 2 "- 7"]
  by (simp add: in_i192_def Amount_MIN_def Amount_MAX_def)

text \<open>Summing non-negative amounts succeeds exactly when no amount is negative and the total is
  representable, and then returns the total.\<close>

theorem sum_from_positive_Some_iff:
  "sum_from_positive as = Some s \<longleftrightarrow>
    list_all (\<lambda>a. 0 \<le> a) as \<and> s = sum_list as \<and> in_i192 s"
  by (simp add: sum_from_positive_def sum_from_positive_loop_Some_iff list_all_iff)

end
