(* ===== verification/Confidential.thy ===== *)
theory Confidential
  imports Amount
begin

text \<open>
  Confidential outputs and the validation of withdraw proofs: the statement types of
  crates/template_lib/src/models (confidential_proof.rs, unspent_output.rs, viewable_balance.rs),
  crates/engine_types/src/confidential (validation.rs, withdraw.rs) and the range proof and ElGamal
  checks of crates/engine_types/src/crypto.

  A Ristretto point or scalar that has been decoded is represented by its canonical 32 bytes, so
  decoding is a check and encoding the identity. The group, the hash functions, the signature scheme
  and the range proof verifier belong to other crates; they are the fields of the record \<open>crypto\<close>,
  which every definition that needs them takes as its first argument.
\<close>

section \<open>Errors of resource operations\<close>

datatype resource_type = TFungible | TNonFungible | TConfidential | TStealth

datatype non_fungible_id =
    U256 "256 word"
  | NfString string
  | Uint32 "32 word"
  | Uint64 "64 word"

text \<open>The human readable details of the source's errors are dropped.\<close>

datatype resource_error =
    ResourceTypeMismatch resource_type resource_type
  | ResourceAddressMismatch resource_address resource_address
  | InsufficientBalance
  | InvariantError
  | OperationNotAllowed
  | NonFungibleTokenIdNotFound non_fungible_id
  | InvalidBalanceProof
  | InvalidConfidentialProof
  | InvalidRangeProof
  | InvalidConfidentialMintWithChange
  | InvalidSpend
  | UtxoBurnFailed

section \<open>Order of token ids\<close>

text \<open>The order the source derives: variants in declaration order, then their contents.\<close>

instantiation non_fungible_id :: linorder
begin

fun nf_rank :: "non_fungible_id \<Rightarrow> nat" where
  "nf_rank (U256 _) = 0" | "nf_rank (NfString _) = 1" | "nf_rank (Uint32 _) = 2" | "nf_rank (Uint64 _) = 3"

fun less_eq_non_fungible_id :: "non_fungible_id \<Rightarrow> non_fungible_id \<Rightarrow> bool" where
  "less_eq_non_fungible_id (U256 a) (U256 b) = (a \<le> b)"
| "less_eq_non_fungible_id (NfString a) (NfString b) = (a \<le> b)"
| "less_eq_non_fungible_id (Uint32 a) (Uint32 b) = (a \<le> b)"
| "less_eq_non_fungible_id (Uint64 a) (Uint64 b) = (a \<le> b)"
| "less_eq_non_fungible_id x y = (nf_rank x \<le> nf_rank y)"

definition less_non_fungible_id :: "non_fungible_id \<Rightarrow> non_fungible_id \<Rightarrow> bool" where
  "less_non_fungible_id x y = (x \<le> y \<and> \<not> y \<le> x)"

instance
proof
  fix x y z :: non_fungible_id
  show "x < y \<longleftrightarrow> x \<le> y \<and> \<not> y \<le> x" by (rule less_non_fungible_id_def)
  show "x \<le> x" by (cases x) auto
  show "x \<le> z" if "x \<le> y" "y \<le> z" using that by (cases x; cases y; cases z) auto
  show "x = y" if "x \<le> y" "y \<le> x" using that by (cases x; cases y) auto
  show "x \<le> y \<or> y \<le> x" by (cases x; cases y) auto
qed

end

section \<open>Statements and proofs\<close>

record viewable_balance_proof =
  elgamal_encrypted :: bytes32
  elgamal_public_nonce :: bytes32
  c_prime :: bytes32
  e_prime :: bytes32
  r_prime :: bytes32
  s_v :: bytes32
  s_m :: bytes32
  s_r :: bytes32

record elgamal_verifiable_balance =
  evb_encrypted :: bytes32
  evb_public_nonce :: bytes32

record unspent_output =
  uo_commitment :: commitment
  uo_sender_public_nonce :: public_key
  uo_encrypted_data :: "8 word list"
  uo_minimum_value_promise :: nat
  uo_viewable_balance_proof :: "viewable_balance_proof option"

record private_output =
  public_nonce :: public_key
  encrypted_data :: "8 word list"
  minimum_value_promise :: nat
  viewable_balance :: "elgamal_verifiable_balance option"

record validated_private_output =
  vo_commitment :: commitment
  vo_public_nonce :: public_key
  vo_encrypted_data :: "8 word list"
  vo_minimum_value_promise :: nat
  vo_viewable_balance :: "elgamal_verifiable_balance option"

definition to_private_output :: "validated_private_output \<Rightarrow> private_output" where
  "to_private_output o' =
     \<lparr>public_nonce = vo_public_nonce o', encrypted_data = vo_encrypted_data o',
      minimum_value_promise = vo_minimum_value_promise o', viewable_balance = vo_viewable_balance o'\<rparr>"

record confidential_output_statement =
  cos_output :: "unspent_output option"
  cos_change_statement :: "unspent_output option"
  cos_range_proof :: "8 word list"
  cos_output_revealed_amount :: amount
  cos_change_revealed_amount :: amount

record signature_bytes =
  sig_public_nonce :: bytes32
  sig_signature :: bytes32

definition signature_zero :: signature_bytes where
  "signature_zero = \<lparr>sig_public_nonce = 0, sig_signature = 0\<rparr>"

record confidential_withdraw_proof =
  cwp_inputs :: "commitment list"
  cwp_input_revealed_amount :: amount
  cwp_output_proof :: confidential_output_statement
  cwp_balance_proof :: signature_bytes

definition mint_revealed :: "amount \<Rightarrow> confidential_output_statement" where
  "mint_revealed a =
     \<lparr>cos_output = None, cos_change_statement = None, cos_range_proof = [],
      cos_output_revealed_amount = a, cos_change_revealed_amount = 0\<rparr>"

definition revealed_withdraw :: "amount \<Rightarrow> confidential_withdraw_proof" where
  "revealed_withdraw a =
     \<lparr>cwp_inputs = [], cwp_input_revealed_amount = a, cwp_output_proof = mint_revealed a,
      cwp_balance_proof = signature_zero\<rparr>"

definition is_revealed_only :: "confidential_withdraw_proof \<Rightarrow> bool" where
  "is_revealed_only p \<longleftrightarrow>
     cos_range_proof (cwp_output_proof p) = [] \<and>
     cwp_inputs p = [] \<and>
     cos_output (cwp_output_proof p) = None \<and>
     cos_change_statement (cwp_output_proof p) = None \<and>
     cwp_balance_proof p = signature_zero \<and>
     cwp_input_revealed_amount p > 0 \<and>
     (case checked_add (cos_output_revealed_amount (cwp_output_proof p))
             (cos_change_revealed_amount (cwp_output_proof p)) of
        None \<Rightarrow> False | Some a \<Rightarrow> a > 0)"

record validated_confidential_proof =
  vcp_output :: "validated_private_output option"
  vcp_change_output :: "validated_private_output option"
  vcp_output_revealed_amount :: amount
  vcp_change_revealed_amount :: amount

record validated_confidential_withdraw_proof =
  vcw_output :: "validated_private_output option"
  vcw_change_output :: "validated_private_output option"
  vcw_input_revealed_amount :: amount
  vcw_output_revealed_amount :: amount
  vcw_change_revealed_amount :: amount

section \<open>External cryptography\<close>

record crypto =
  point_ok :: "bytes32 \<Rightarrow> bool"
  scalar_ok :: "bytes32 \<Rightarrow> bool"
  point_add :: "bytes32 \<Rightarrow> bytes32 \<Rightarrow> bytes32"
  point_sub :: "bytes32 \<Rightarrow> bytes32 \<Rightarrow> bytes32"
  point_scale :: "bytes32 \<Rightarrow> bytes32 \<Rightarrow> bytes32"
  public_key_of :: "bytes32 \<Rightarrow> bytes32"
  commit :: "bytes32 \<Rightarrow> bytes32 \<Rightarrow> bytes32"
  viewable_balance_challenge :: "commitment \<Rightarrow> public_key \<Rightarrow> viewable_balance_proof \<Rightarrow> bytes32"
  confidential_withdraw_message :: "bytes32 \<Rightarrow> bytes32 \<Rightarrow> amount \<Rightarrow> amount \<Rightarrow> 8 word list"
  signature_ok :: "signature_bytes \<Rightarrow> bool"
  verify_raw_uniform :: "signature_bytes \<Rightarrow> bytes32 \<Rightarrow> 8 word list \<Rightarrow> bool"
  verify_range_proof :: "nat \<Rightarrow> 8 word list \<Rightarrow> (commitment \<times> nat) list \<Rightarrow> bool"

section \<open>Commitments to revealed amounts\<close>

text \<open>A scalar is little endian; the value fits because an amount has fewer than 192 bits.\<close>

definition convert_amount_to_secret :: "amount \<Rightarrow> bytes32 option" where
  "convert_amount_to_secret a =
     (if is_negative a then None
      else Some (word_rcat (to_le_bytes a @ replicate 8 0)))"

definition commit_amount_checked :: "crypto \<Rightarrow> bytes32 \<Rightarrow> amount \<Rightarrow> bytes32 option" where
  "commit_amount_checked cr m a = map_option (commit cr m) (convert_amount_to_secret a)"

definition commit_amount :: "crypto \<Rightarrow> bytes32 \<Rightarrow> amount \<Rightarrow> (bytes32, 'e) result" where
  "commit_amount cr m a = expect ''commitment amount is negative'' (commit_amount_checked cr m a)"

section \<open>Range proofs\<close>

function next_power_of_two_from :: "nat \<Rightarrow> nat \<Rightarrow> nat" where
  "next_power_of_two_from p n = (if n \<le> p \<or> p = 0 then p else next_power_of_two_from (2 * p) n)"
  by pat_completeness auto
termination next_power_of_two_from by (relation "measure (\<lambda>(p, n). n - p)") auto

declare next_power_of_two_from.simps [simp del]

definition next_power_of_two :: "nat \<Rightarrow> nat" where
  "next_power_of_two n = next_power_of_two_from 1 n"

definition MAX_LAZY_BP_AGG_FACTORS :: nat where "MAX_LAZY_BP_AGG_FACTORS = 8"

definition get_static_range_proof_service :: "nat \<Rightarrow> (nat, 'e) result" where
  "get_static_range_proof_service n =
     (if next_power_of_two n \<in> {1, 2, 4, 8} then Ok (next_power_of_two n)
      else Panic ''Unsupported BP aggregation factor'')"

definition validate_bullet_proof ::
  "crypto \<Rightarrow> 8 word list \<Rightarrow> unspent_output list \<Rightarrow> (unit, resource_error) result" where
  "validate_bullet_proof cr range_proof outputs =
     and_then (try_fold (\<lambda>stmts o'.
         if point_ok cr (uo_commitment o')
         then Ok (stmts @ [(uo_commitment o', uo_minimum_value_promise o')])
         else Err InvalidConfidentialProof) [] outputs)
       (\<lambda>statements.
          let agg_factor = length statements in
          if agg_factor = 0
          then (if range_proof = [] then Ok () else Err InvalidConfidentialProof)
          else if agg_factor > MAX_LAZY_BP_AGG_FACTORS then Err InvalidConfidentialProof
          else let padded = statements @ replicate (next_power_of_two agg_factor - agg_factor) (0, 0) in
               and_then (get_static_range_proof_service agg_factor)
                 (\<lambda>service. if verify_range_proof cr service range_proof padded
                             then Ok () else Err InvalidRangeProof))"

section \<open>Viewable balance proofs\<close>

definition validate_elgamal_verifiable_balance_proof ::
  "crypto \<Rightarrow> commitment \<Rightarrow> public_key option \<Rightarrow> viewable_balance_proof option
     \<Rightarrow> (elgamal_verifiable_balance option, resource_error) result" where
  "validate_elgamal_verifiable_balance_proof cr cmt view_key proof =
     (case view_key of
        None \<Rightarrow> (if proof = None then Ok None else Err InvalidConfidentialProof)
      | Some vk \<Rightarrow> (case proof of
          None \<Rightarrow> Err InvalidConfidentialProof
        | Some p \<Rightarrow>
            if \<not> point_ok cr (elgamal_encrypted p) then Err InvalidConfidentialProof
            else if elgamal_public_nonce p = 0 then Err InvalidConfidentialProof
            else if \<not> point_ok cr (elgamal_public_nonce p) then Err InvalidConfidentialProof
            else if \<not> point_ok cr (c_prime p) then Err InvalidConfidentialProof
            else if \<not> point_ok cr (e_prime p) then Err InvalidConfidentialProof
            else if \<not> point_ok cr (r_prime p) then Err InvalidConfidentialProof
            else if \<not> scalar_ok cr (s_v p) then Err InvalidConfidentialProof
            else if \<not> scalar_ok cr (s_m p) then Err InvalidConfidentialProof
            else if \<not> scalar_ok cr (s_r p) then Err InvalidConfidentialProof
            else let e = viewable_balance_challenge cr cmt vk p in
              if point_add cr (point_scale cr e cmt) (c_prime p) \<noteq> commit cr (s_m p) (s_v p)
              then Err InvalidConfidentialProof
              else if point_add cr (point_scale cr e (elgamal_encrypted p)) (e_prime p)
                   \<noteq> point_add cr (public_key_of cr (s_v p)) (point_scale cr (s_r p) vk)
              then Err InvalidConfidentialProof
              else if point_add cr (point_scale cr e (elgamal_public_nonce p)) (r_prime p)
                   \<noteq> public_key_of cr (s_r p)
              then Err InvalidConfidentialProof
              else Ok (Some \<lparr>evb_encrypted = elgamal_encrypted p,
                             evb_public_nonce = elgamal_public_nonce p\<rparr>)))"

section \<open>Statement validation\<close>

definition validate_unspent_output ::
  "crypto \<Rightarrow> public_key option \<Rightarrow> unspent_output \<Rightarrow> (validated_private_output, resource_error) result" where
  "validate_unspent_output cr view_key stmt =
     (if \<not> point_ok cr (uo_commitment stmt) then Err InvalidConfidentialProof
      else if \<not> point_ok cr (uo_sender_public_nonce stmt) then Err InvalidConfidentialProof
      else and_then (validate_elgamal_verifiable_balance_proof cr (uo_commitment stmt) view_key
               (uo_viewable_balance_proof stmt))
        (\<lambda>vb. Ok \<lparr>vo_commitment = uo_commitment stmt, vo_public_nonce = uo_sender_public_nonce stmt,
                   vo_encrypted_data = uo_encrypted_data stmt,
                   vo_minimum_value_promise = uo_minimum_value_promise stmt,
                   vo_viewable_balance = vb\<rparr>))"

text \<open>\<open>Option::map(..).transpose()\<close>\<close>

definition traverse_option :: "('a \<Rightarrow> ('b, 'e) result) \<Rightarrow> 'a option \<Rightarrow> ('b option, 'e) result" where
  "traverse_option f v = (case v of None \<Rightarrow> Ok None | Some x \<Rightarrow> and_then (f x) (\<lambda>y. Ok (Some y)))"

definition option_list :: "'a option \<Rightarrow> 'a list" where
  "option_list v = (case v of None \<Rightarrow> [] | Some x \<Rightarrow> [x])"

definition validate_confidential_statement ::
  "crypto \<Rightarrow> confidential_output_statement \<Rightarrow> public_key option
     \<Rightarrow> (validated_confidential_proof, resource_error) result" where
  "validate_confidential_statement cr proof view_key =
     (if is_negative (cos_output_revealed_amount proof) \<or> is_negative (cos_change_revealed_amount proof)
      then Err InvalidConfidentialProof
      else and_then (traverse_option (validate_unspent_output cr view_key) (cos_output proof))
        (\<lambda>maybe_output. and_then (traverse_option (validate_unspent_output cr view_key) (cos_change_statement proof))
        (\<lambda>maybe_change. and_then
           (if maybe_output = None \<and> maybe_change = None
            then ensure (cos_range_proof proof = []) InvalidConfidentialProof
            else validate_bullet_proof cr (cos_range_proof proof)
                   (option_list (cos_output proof) @ option_list (cos_change_statement proof)))
        (\<lambda>_. Ok \<lparr>vcp_output = maybe_output, vcp_change_output = maybe_change,
                  vcp_output_revealed_amount = cos_output_revealed_amount proof,
                  vcp_change_revealed_amount = cos_change_revealed_amount proof\<rparr>))))"

section \<open>Withdraw validation\<close>

definition validate_confidential_withdraw ::
  "crypto \<Rightarrow> commitment list \<Rightarrow> public_key option \<Rightarrow> confidential_withdraw_proof
     \<Rightarrow> (validated_confidential_withdraw_proof, resource_error) result" where
  "validate_confidential_withdraw cr inputs view_key wp =
     (let op = cwp_output_proof wp; input_revealed = cwp_input_revealed_amount wp in
      and_then (validate_confidential_statement cr op view_key) (\<lambda>vp.
      if is_negative input_revealed then Err InvalidBalanceProof
      else and_then (ok_or InvalidConfidentialProof
             (checked_add_positive (cos_output_revealed_amount op) (cos_change_revealed_amount op)))
      (\<lambda>total_output_revealed.
         if is_revealed_only wp
         then (if (case checked_sub input_revealed total_output_revealed of
                     None \<Rightarrow> True | Some v \<Rightarrow> \<not> is_zero v)
               then Err InvalidBalanceProof
               else Ok \<lparr>vcw_output = None, vcw_change_output = vcp_change_output vp,
                         vcw_input_revealed_amount = input_revealed,
                         vcw_output_revealed_amount = cos_output_revealed_amount op,
                         vcw_change_revealed_amount = cos_change_revealed_amount op\<rparr>)
         else if \<not> signature_ok cr (cwp_balance_proof wp) then Err InvalidBalanceProof
         else
           let output_commitment = (case vcp_output vp of None \<Rightarrow> 0 | Some o' \<Rightarrow> vo_commitment o') in
           and_then (commit_amount cr 0 input_revealed) (\<lambda>revealed_input_commitment.
           let agg_inputs = point_add cr (foldl (point_add cr) 0 inputs) revealed_input_commitment in
           and_then (commit_amount cr 0 total_output_revealed) (\<lambda>revealed_output_commitment.
           let output_with_revealed = point_add cr output_commitment revealed_output_commitment;
               change_commitment = (case vcp_change_output vp of None \<Rightarrow> 0 | Some o' \<Rightarrow> vo_commitment o');
               public_excess = point_sub cr (point_sub cr agg_inputs output_with_revealed) change_commitment;
               message = confidential_withdraw_message cr public_excess
                           (sig_public_nonce (cwp_balance_proof wp)) input_revealed total_output_revealed
           in if \<not> verify_raw_uniform cr (cwp_balance_proof wp) public_excess message
              then Err InvalidBalanceProof
              else Ok \<lparr>vcw_output = vcp_output vp, vcw_change_output = vcp_change_output vp,
                        vcw_input_revealed_amount = input_revealed,
                        vcw_output_revealed_amount = cos_output_revealed_amount op,
                        vcw_change_revealed_amount = cos_change_revealed_amount op\<rparr>)))))"

end
