(* ===== verification/ResourceContainer.thy ===== *)
theory ResourceContainer
  imports Confidential
begin

text \<open>
  \<open>ResourceContainer\<close> (crates/engine_types/src/resource_container.rs), the type of everything a
  bucket, a vault or a locked proof holds. Every method of the impl block is a definition here; a
  method that takes \<open>&mut self\<close> returns the updated container, and on an error the caller drops the
  whole transaction state, so no container is returned then.
\<close>

named_theorems container_simps \<open>unfolding of the container operations\<close>

datatype resource_container =
    Fungible (address: resource_address) (f_amount: amount) (f_locked: amount)
  | NonFungible (address: resource_address) (token_ids: "non_fungible_id fset")
      (locked_token_ids: "non_fungible_id fset")
  | Confidential (address: resource_address) (commitments: "(commitment, private_output) fmap")
      (revealed_amount: amount) (locked_commitments: "(commitment, private_output) fmap")
      (locked_revealed_amount: amount)
  | Stealth (address: resource_address) (st_amount: amount) (st_locked: amount)

type_synonym 'a rc_result = "('a, resource_error) result"

section \<open>Constructors\<close>

definition fungible :: "resource_address \<Rightarrow> amount \<Rightarrow> resource_container rc_result" where
  "fungible addr a =
     (if is_non_negative a then Ok (Fungible addr a 0) else Panic ''amount must be non-negative'')"

definition non_fungible :: "resource_address \<Rightarrow> non_fungible_id fset \<Rightarrow> resource_container" where
  "non_fungible addr ids = NonFungible addr ids {||}"

definition confidential ::
  "resource_address \<Rightarrow> (commitment, private_output) fmap \<Rightarrow> amount \<Rightarrow> resource_container rc_result" where
  "confidential addr cs a =
     (if is_non_negative a then Ok (Confidential addr cs a fmempty 0)
      else Panic ''revealed amount must be non-negative'')"

definition stealth :: "resource_address \<Rightarrow> amount \<Rightarrow> resource_container rc_result" where
  "stealth addr a =
     (if is_non_negative a then Ok (Stealth addr a 0) else Panic ''revealed amount must be non-negative'')"

text \<open>Collecting an optional output into a map of commitments.\<close>

definition output_map :: "validated_private_output option \<Rightarrow> (commitment, private_output) fmap" where
  "output_map v = (case v of None \<Rightarrow> fmempty
     | Some o' \<Rightarrow> fmupd (vo_commitment o') (to_private_output o') fmempty)"

definition mint_confidential ::
  "crypto \<Rightarrow> resource_address \<Rightarrow> confidential_output_statement \<Rightarrow> public_key option
     \<Rightarrow> resource_container rc_result" where
  "mint_confidential cr addr proof view_key =
     (if cos_change_statement proof \<noteq> None then Err InvalidConfidentialMintWithChange
      else if \<not> is_zero (cos_change_revealed_amount proof) then Err InvalidConfidentialProof
      else and_then (validate_confidential_statement cr proof view_key) (\<lambda>vp.
           and_then (assert_or_panic (vcp_change_output vp = None) ''invariant failed'') (\<lambda>_.
           Ok (Confidential addr (output_map (vcp_output vp)) (vcp_output_revealed_amount vp) fmempty 0))))"

section \<open>Observers\<close>

definition amount_of :: "resource_container \<Rightarrow> amount" where
  "amount_of c = (case c of
     Fungible _ a _ \<Rightarrow> a
   | NonFungible _ ids _ \<Rightarrow> int (fcard ids)
   | Confidential _ _ r _ _ \<Rightarrow> r
   | Stealth _ r _ \<Rightarrow> r)"

definition number_of_confidential_commitments :: "resource_container \<Rightarrow> nat" where
  "number_of_confidential_commitments c = (case c of
     Confidential _ cs _ lcs _ \<Rightarrow> fcard (fmdom cs) + fcard (fmdom lcs) | _ \<Rightarrow> 0)"

definition locked_amount_of :: "resource_container \<Rightarrow> amount" where
  "locked_amount_of c = (case c of
     Fungible _ _ l \<Rightarrow> l
   | NonFungible _ _ l \<Rightarrow> int (fcard l)
   | Confidential _ _ _ _ l \<Rightarrow> l
   | Stealth _ _ l \<Rightarrow> l)"

definition get_commitment_count :: "resource_container \<Rightarrow> nat" where
  "get_commitment_count c = (case c of Confidential _ cs _ _ _ \<Rightarrow> fcard (fmdom cs) | _ \<Rightarrow> 0)"

definition resource_type_of :: "resource_container \<Rightarrow> resource_type" where
  "resource_type_of c = (case c of
     Fungible _ _ _ \<Rightarrow> TFungible
   | NonFungible _ _ _ \<Rightarrow> TNonFungible
   | Confidential _ _ _ _ _ \<Rightarrow> TConfidential
   | Stealth _ _ _ \<Rightarrow> TStealth)"

definition non_fungible_token_ids :: "resource_container \<Rightarrow> non_fungible_id fset" where
  "non_fungible_token_ids c = (case c of NonFungible _ ids _ \<Rightarrow> ids | _ \<Rightarrow> {||})"

definition into_non_fungible_ids :: "resource_container \<Rightarrow> non_fungible_id fset option" where
  "into_non_fungible_ids c = (case c of NonFungible _ ids _ \<Rightarrow> Some ids | _ \<Rightarrow> None)"

definition get_confidential_commitments ::
  "resource_container \<Rightarrow> (commitment, private_output) fmap option" where
  "get_confidential_commitments c = (case c of Confidential _ cs _ _ _ \<Rightarrow> Some cs | _ \<Rightarrow> None)"

section \<open>Deposit\<close>

text \<open>Insert entries into a commitment map; a commitment that is already there is an error.\<close>

definition insert_commitments ::
  "(commitment, private_output) fmap \<Rightarrow> (commitment \<times> private_output) list
     \<Rightarrow> (commitment, private_output) fmap rc_result" where
  "insert_commitments = try_fold (\<lambda>m (k, v).
     if fmlookup m k \<noteq> None then Err InvariantError else Ok (fmupd k v m))"

definition deposit ::
  "overflow_mode \<Rightarrow> resource_container \<Rightarrow> resource_container \<Rightarrow> resource_container rc_result" where
  "deposit om self other =
     (if address self \<noteq> address other
      then Err (ResourceAddressMismatch (address self) (address other))
      else case (self, other) of
        (Fungible addr a l, Fungible _ b _) \<Rightarrow>
          and_then (amount_add om a b) (\<lambda>a'. Ok (Fungible addr a' l))
      | (NonFungible addr ids l, NonFungible _ ids' _) \<Rightarrow>
          (if fcard ids + fcard ids' > u64_max then Err OperationNotAllowed
           else Ok (NonFungible addr (ids |\<union>| ids') l))
      | (Confidential addr cs r lcs lr, Confidential _ cs' r' _ _) \<Rightarrow>
          and_then (insert_commitments cs (sorted_list_of_fmap cs')) (\<lambda>cs''.
          and_then (amount_add om r r') (\<lambda>r''. Ok (Confidential addr cs'' r'' lcs lr)))
      | (Stealth addr r l, Stealth _ r' _) \<Rightarrow>
          and_then (amount_add om r r') (\<lambda>r''. Ok (Stealth addr r'' l))
      | _ \<Rightarrow> Err (ResourceTypeMismatch (resource_type_of self) (resource_type_of other)))"

section \<open>Withdraw\<close>

text \<open>\<open>n\<close> times \<open>pop_first().expect(..)\<close>, collected into a set.\<close>

fun pop_n :: "nat \<Rightarrow> 'a::linorder fset \<Rightarrow> 'a fset \<Rightarrow> ('a fset \<times> 'a fset, 'e) result" where
  "pop_n 0 ids taken = Ok (ids, taken)"
| "pop_n (Suc n) ids taken = (case pop_first ids of
     None \<Rightarrow> Panic ''Invariant violation: token_ids.len() < amt''
   | Some (x, rest) \<Rightarrow> pop_n n rest (finsert x taken))"

definition usize_of_amount :: "amount \<Rightarrow> (nat, 'e) result" where
  "usize_of_amount a = expect ''checked that amount <= token_ids.len()'' (to_u64_checked a)"

definition withdraw ::
  "overflow_mode \<Rightarrow> resource_container \<Rightarrow> amount
     \<Rightarrow> (resource_container \<times> resource_container) rc_result" where
  "withdraw om self amt =
     (if \<not> is_positive amt then Err InvariantError
      else case self of
        Fungible addr a l \<Rightarrow>
          (if amt > a then Err InsufficientBalance
           else and_then (amount_sub om a amt) (\<lambda>a'.
                and_then (fungible addr amt) (\<lambda>r. Ok (Fungible addr a' l, r))))
      | NonFungible addr ids l \<Rightarrow>
          (if amt > int (fcard ids) then Err InsufficientBalance
           else and_then (usize_of_amount amt) (\<lambda>n.
                and_then (pop_n n ids {||}) (\<lambda>(ids', taken).
                Ok (NonFungible addr ids' l, non_fungible addr taken))))
      | Confidential addr cs r lcs lr \<Rightarrow>
          (if amt > r then Err InsufficientBalance
           else and_then (amount_sub om r amt) (\<lambda>r'.
                and_then (confidential addr fmempty amt) (\<lambda>c. Ok (Confidential addr cs r' lcs lr, c))))
      | Stealth addr r l \<Rightarrow>
          (if amt > r then Err InsufficientBalance
           else and_then (amount_sub om r amt) (\<lambda>r'.
                and_then (stealth addr amt) (\<lambda>c. Ok (Stealth addr r' l, c)))))"

definition withdraw_all ::
  "overflow_mode \<Rightarrow> resource_container \<Rightarrow> (resource_container \<times> resource_container) rc_result" where
  "withdraw_all om self = (case self of
     Confidential addr cs r lcs lr \<Rightarrow>
       and_then (confidential addr cs r) (\<lambda>c. Ok (Confidential addr fmempty 0 lcs lr, c))
   | _ \<Rightarrow> withdraw om self (amount_of self))"

text \<open>Take each id out of a set; a missing id is an error.\<close>

definition take_ids ::
  "non_fungible_id fset \<Rightarrow> non_fungible_id list \<Rightarrow> (non_fungible_id fset \<times> non_fungible_id fset) rc_result" where
  "take_ids ids wanted = try_fold (\<lambda>(ids, taken) i.
     if i |\<in>| ids then Ok (ids |-| {|i|}, finsert i taken) else Err (NonFungibleTokenIdNotFound i))
     (ids, {||}) wanted"

definition withdraw_by_ids ::
  "resource_container \<Rightarrow> non_fungible_id fset \<Rightarrow> (resource_container \<times> resource_container) rc_result" where
  "withdraw_by_ids self wanted = (case self of
     NonFungible addr ids l \<Rightarrow>
       and_then (take_ids ids (sorted_list_of_fset wanted)) (\<lambda>(ids', taken).
       Ok (NonFungible addr ids' l, non_fungible addr taken))
   | _ \<Rightarrow> Err OperationNotAllowed)"

definition remove_inputs ::
  "crypto \<Rightarrow> (commitment, private_output) fmap \<Rightarrow> commitment list
     \<Rightarrow> (commitment, private_output) fmap rc_result" where
  "remove_inputs cr = try_fold (\<lambda>m k.
     if \<not> point_ok cr k then Err InvalidConfidentialProof
     else if fmlookup m k = None then Err InvalidConfidentialProof
     else Ok (fmdrop k m))"

definition withdraw_confidential ::
  "crypto \<Rightarrow> overflow_mode \<Rightarrow> resource_container \<Rightarrow> confidential_withdraw_proof \<Rightarrow> public_key option
     \<Rightarrow> (resource_container \<times> resource_container) rc_result" where
  "withdraw_confidential cr om self proof view_key = (case self of
     Confidential addr cs r lcs lr \<Rightarrow>
       and_then (remove_inputs cr cs (cwp_inputs proof)) (\<lambda>cs1.
       and_then (validate_confidential_withdraw cr (cwp_inputs proof) view_key proof) (\<lambda>vp.
       if r < vcw_input_revealed_amount vp then Err InsufficientBalance
       else and_then (amount_sub om r (vcw_input_revealed_amount vp)) (\<lambda>r1.
       and_then (case vcw_change_output vp of
           None \<Rightarrow> Ok (cs1, r1)
         | Some change \<Rightarrow>
             if fmlookup cs1 (vo_commitment change) \<noteq> None then Err InvariantError
             else if r1 < vcw_change_revealed_amount vp then Err InsufficientBalance
             else and_then (amount_add om r1 (vcw_change_revealed_amount vp)) (\<lambda>r2.
                  Ok (fmupd (vo_commitment change) (to_private_output change) cs1, r2)))
         (\<lambda>(cs2, r2).
       and_then (confidential addr (output_map (vcw_output vp)) (vcw_output_revealed_amount vp)) (\<lambda>out.
       Ok (Confidential addr cs2 r2 lcs lr, out))))))
   | _ \<Rightarrow> Err OperationNotAllowed)"

definition take_commitments ::
  "(commitment, private_output) fmap \<Rightarrow> commitment list
     \<Rightarrow> ((commitment, private_output) fmap \<times> (commitment, private_output) fmap) rc_result" where
  "take_commitments m wanted = try_fold (\<lambda>(m, taken) k.
     case fmlookup m k of None \<Rightarrow> Err InvalidConfidentialProof
     | Some v \<Rightarrow> Ok (fmdrop k m, fmupd k v taken)) (m, fmempty) wanted"

definition recall_confidential_commitments ::
  "overflow_mode \<Rightarrow> resource_container \<Rightarrow> commitment fset \<Rightarrow> amount
     \<Rightarrow> (resource_container \<times> resource_container) rc_result" where
  "recall_confidential_commitments om self wanted amt = (case self of
     Confidential addr cs r lcs lr \<Rightarrow>
       (if r < amt then Err InsufficientBalance
        else and_then (amount_sub om r amt) (\<lambda>r'.
             and_then (take_commitments cs (sorted_list_of_fset wanted)) (\<lambda>(cs', recalled).
             and_then (confidential addr recalled amt) (\<lambda>c.
             Ok (Confidential addr cs' r' lcs lr, c)))))
   | _ \<Rightarrow> Err OperationNotAllowed)"

section \<open>Locking\<close>

definition lock_all ::
  "overflow_mode \<Rightarrow> resource_container \<Rightarrow> (resource_container \<times> resource_container) rc_result" where
  "lock_all om self = (case self of
     Fungible addr a l \<Rightarrow>
       (if is_zero a then Err InsufficientBalance
        else and_then (amount_add om l a) (\<lambda>l'.
             and_then (fungible addr a) (\<lambda>c. Ok (Fungible addr 0 l', c))))
   | NonFungible addr ids l \<Rightarrow>
       (if ids = {||} then Err InsufficientBalance
        else Ok (NonFungible addr {||} (l |\<union>| ids), non_fungible addr ids))
   | Confidential addr cs r lcs lr \<Rightarrow>
       (if cs = fmempty then Err InsufficientBalance
        else and_then (amount_add om lr r) (\<lambda>lr'.
             and_then (confidential addr cs r) (\<lambda>c.
             Ok (Confidential addr fmempty r (lcs ++\<^sub>f cs) lr', c))))
   | Stealth addr r l \<Rightarrow>
       (if is_zero r then Err InsufficientBalance
        else and_then (amount_add om l r) (\<lambda>l'.
             and_then (fungible addr r) (\<lambda>c. Ok (Stealth addr 0 l', c)))))"

definition unlock_ids ::
  "non_fungible_id fset \<Rightarrow> non_fungible_id fset \<Rightarrow> non_fungible_id list
     \<Rightarrow> (non_fungible_id fset \<times> non_fungible_id fset) rc_result" where
  "unlock_ids ids locked wanted = try_fold (\<lambda>(ids, locked) i.
     if i |\<in>| locked then Ok (finsert i ids, locked |-| {|i|}) else Err InvariantError)
     (ids, locked) wanted"

definition unlock_commitments ::
  "(commitment, private_output) fmap \<Rightarrow> (commitment, private_output) fmap \<Rightarrow> commitment list
     \<Rightarrow> ((commitment, private_output) fmap \<times> (commitment, private_output) fmap) rc_result" where
  "unlock_commitments cs lcs wanted = try_fold (\<lambda>(cs, lcs) k.
     case fmlookup lcs k of None \<Rightarrow> Err InvariantError
     | Some v \<Rightarrow> if fmlookup cs k \<noteq> None then Err InvariantError
                 else Ok (fmupd k v cs, fmdrop k lcs)) (cs, lcs) wanted"

definition unlock ::
  "overflow_mode \<Rightarrow> resource_container \<Rightarrow> resource_container \<Rightarrow> resource_container rc_result" where
  "unlock om self c =
     (if resource_type_of self \<noteq> resource_type_of c
      then Err (ResourceTypeMismatch (resource_type_of self) (resource_type_of c))
      else if address self \<noteq> address c then Err (ResourceAddressMismatch (address self) (address c))
      else case self of
        Fungible addr a l \<Rightarrow>
          (if l < amount_of c then Err InsufficientBalance
           else and_then (amount_add om a (amount_of c)) (\<lambda>a'.
                and_then (amount_sub om l (amount_of c)) (\<lambda>l'. Ok (Fungible addr a' l'))))
      | NonFungible addr ids l \<Rightarrow>
          (if fcard l < fcard (non_fungible_token_ids c) then Err InsufficientBalance
           else and_then (unlock_ids ids l (sorted_list_of_fset (non_fungible_token_ids c)))
             (\<lambda>(ids', l'). Ok (NonFungible addr ids' l')))
      | Confidential addr cs r lcs lr \<Rightarrow>
          (if fcard (fmdom lcs) < get_commitment_count c then Err InsufficientBalance
           else if lr < amount_of c then Err InvariantError
           else and_then (unlock_commitments cs lcs
               (case get_confidential_commitments c of None \<Rightarrow> []
                | Some m \<Rightarrow> sorted_list_of_fset (fmdom m))) (\<lambda>(cs', lcs').
             and_then (amount_add om r (amount_of c)) (\<lambda>r'.
             and_then (amount_sub om lr (amount_of c)) (\<lambda>lr'.
             Ok (Confidential addr cs' r' lcs' lr')))))
      | Stealth addr r l \<Rightarrow>
          (if l < amount_of c then Err InsufficientBalance
           else and_then (amount_add om r (amount_of c)) (\<lambda>r'.
                and_then (amount_sub om l (amount_of c)) (\<lambda>l'. Ok (Stealth addr r' l')))))"

definition lock_by_non_fungible_ids ::
  "resource_container \<Rightarrow> non_fungible_id fset \<Rightarrow> (resource_container \<times> resource_container) rc_result" where
  "lock_by_non_fungible_ids self wanted = (case self of
     NonFungible addr ids l \<Rightarrow>
       and_then (try_fold (\<lambda>(ids, newly, l) i.
           if i |\<in>| ids then Ok (ids |-| {|i|}, finsert i newly, finsert i l)
           else Err (NonFungibleTokenIdNotFound i)) (ids, {||}, l) (sorted_list_of_fset wanted))
         (\<lambda>(ids', newly, l'). Ok (NonFungible addr ids' l', non_fungible addr newly))
   | _ \<Rightarrow> Err OperationNotAllowed)"

definition lock_by_amount ::
  "overflow_mode \<Rightarrow> resource_container \<Rightarrow> amount
     \<Rightarrow> (resource_container \<times> resource_container) rc_result" where
  "lock_by_amount om self amt = (case self of
     Fungible addr a l \<Rightarrow>
       (if amt > a then Err InsufficientBalance
        else and_then (amount_sub om a amt) (\<lambda>a'.
             and_then (amount_add om l amt) (\<lambda>l'.
             and_then (fungible addr amt) (\<lambda>c. Ok (Fungible addr a' l', c)))))
   | NonFungible addr ids l \<Rightarrow>
       (if amt > int (fcard ids) then Err InsufficientBalance
        else and_then (usize_of_amount amt) (\<lambda>n.
             and_then (pop_n n ids {||}) (\<lambda>(ids', taken).
             Ok (NonFungible addr ids' (l |\<union>| taken), non_fungible addr taken))))
   | Confidential addr cs r lcs lr \<Rightarrow>
       (if amt > r then Err InsufficientBalance
        else and_then (amount_sub om r amt) (\<lambda>r'.
             and_then (amount_add om lr amt) (\<lambda>lr'.
             and_then (confidential addr fmempty amt) (\<lambda>c. Ok (Confidential addr cs r' lcs lr', c)))))
   | Stealth addr r l \<Rightarrow>
       (if amt > r then Err InsufficientBalance
        else and_then (amount_sub om r amt) (\<lambda>r'.
             and_then (amount_add om l amt) (\<lambda>l'.
             and_then (stealth addr amt) (\<lambda>c. Ok (Stealth addr r' l', c))))))"

end
