(* ===== verification/ContainerLaws.thy ===== *)
theory ContainerLaws
  imports ResourceContainer
begin

text \<open>
  The contract of a resource container. The abstraction of a container is two counts per asset, what
  is free and what is locked: \<open>Units\<close> for amounts, \<open>Token\<close> for non-fungible ids and \<open>Commitment\<close> for
  confidential outputs. \<open>wf_container\<close> is the type invariant. The laws say of each operation when it
  succeeds, that it then keeps the invariant, and which counts it moves; the properties at the end
  state them over the code's model, together with the cases where value is created, lost or stuck.
\<close>

section \<open>What a container holds\<close>

datatype asset = Units | Token non_fungible_id | Commitment commitment

definition units :: "int \<Rightarrow> asset \<Rightarrow> int" where
  "units n a = (case a of Units \<Rightarrow> n | _ \<Rightarrow> 0)"

definition tokens :: "non_fungible_id fset \<Rightarrow> asset \<Rightarrow> int" where
  "tokens ids a = (case a of Token i \<Rightarrow> of_bool (i |\<in>| ids) | _ \<Rightarrow> 0)"

definition commits :: "(commitment, private_output) fmap \<Rightarrow> asset \<Rightarrow> int" where
  "commits m a = (case a of Commitment k \<Rightarrow> of_bool (k |\<in>| fmdom m) | _ \<Rightarrow> 0)"

definition holds_free :: "resource_container \<Rightarrow> asset \<Rightarrow> int" where
  "holds_free c a = (case c of
     Fungible _ n _ \<Rightarrow> units n a
   | NonFungible _ ids _ \<Rightarrow> tokens ids a
   | Confidential _ cs r _ _ \<Rightarrow> commits cs a + units r a
   | Stealth _ r _ \<Rightarrow> units r a)"

definition holds_locked :: "resource_container \<Rightarrow> asset \<Rightarrow> int" where
  "holds_locked c a = (case c of
     Fungible _ _ l \<Rightarrow> units l a
   | NonFungible _ _ l \<Rightarrow> tokens l a
   | Confidential _ _ _ lcs lr \<Rightarrow> commits lcs a + units lr a
   | Stealth _ _ l \<Rightarrow> units l a)"

definition wf_container :: "resource_container \<Rightarrow> bool" where
  "wf_container c = (case c of
     Fungible _ n l \<Rightarrow> 0 \<le> n \<and> 0 \<le> l \<and> in_i192 (n + l)
   | NonFungible _ ids l \<Rightarrow> ids |\<inter>| l = {||} \<and> fcard ids + fcard l \<le> u64_max
   | Confidential _ cs r lcs lr \<Rightarrow>
       fmdom cs |\<inter>| fmdom lcs = {||} \<and> 0 \<le> r \<and> 0 \<le> lr \<and> in_i192 (r + lr)
   | Stealth _ r l \<Rightarrow> 0 \<le> r \<and> 0 \<le> l \<and> in_i192 (r + l))"

text \<open>Two containers of one resource that hold different tokens and commitments and whose amounts
  together fit the type.\<close>

definition mergeable :: "resource_container \<Rightarrow> resource_container \<Rightarrow> bool" where
  "mergeable c d \<longleftrightarrow> address c = address d \<and> (case (c, d) of
     (Fungible _ n l, Fungible _ m _) \<Rightarrow> in_i192 (n + l + m)
   | (NonFungible _ ids l, NonFungible _ ids' _) \<Rightarrow>
       (ids |\<union>| l) |\<inter>| ids' = {||} \<and> fcard ids + fcard l + fcard ids' \<le> u64_max
   | (Confidential _ cs r lcs lr, Confidential _ cs' r' _ _) \<Rightarrow>
       (fmdom cs |\<union>| fmdom lcs) |\<inter>| fmdom cs' = {||} \<and> in_i192 (r + lr + r')
   | (Stealth _ r l, Stealth _ r' _) \<Rightarrow> in_i192 (r + l + r')
   | _ \<Rightarrow> False)"

text \<open>A container that is part of what another container has locked.\<close>

definition releasable :: "resource_container \<Rightarrow> resource_container \<Rightarrow> bool" where
  "releasable c p \<longleftrightarrow> address c = address p \<and> (case (c, p) of
     (Fungible _ _ l, Fungible _ m _) \<Rightarrow> m \<le> l
   | (NonFungible _ _ l, NonFungible _ ids' _) \<Rightarrow> ids' |\<subseteq>| l
   | (Confidential _ _ _ lcs lr, Confidential _ cs' r' _ _) \<Rightarrow> fmdom cs' |\<subseteq>| fmdom lcs \<and> r' \<le> lr
   | (Stealth _ _ l, Stealth _ m _) \<Rightarrow> m \<le> l
   | _ \<Rightarrow> False)"

text \<open>An instance of the external cryptography in which every point decodes and no signature or range
  proof verifies; it is enough for proofs that carry neither.\<close>

definition sample_crypto :: crypto where
  "sample_crypto = \<lparr>point_ok = \<lambda>_. True, scalar_ok = \<lambda>_. True, point_add = \<lambda>_ _. 0, point_sub = \<lambda>_ _. 0,
     point_scale = \<lambda>_ _. 0, public_key_of = \<lambda>_. 0, commit = \<lambda>_ _. 0, viewable_balance_challenge = \<lambda>_ _ _. 0,
     confidential_withdraw_message = \<lambda>_ _ _ _. [], signature_ok = \<lambda>_. False,
     verify_raw_uniform = \<lambda>_ _ _. False, verify_range_proof = \<lambda>_ _ _. False\<rparr>"

section \<open>Loops over sets and maps\<close>

lemma pop_n_spec:
  "n \<le> fcard ids \<Longrightarrow> \<exists>popped. popped |\<subseteq>| ids \<and> fcard popped = n \<and>
     (\<forall>x y. x |\<in>| popped \<longrightarrow> y |\<in>| ids |-| popped \<longrightarrow> x < y) \<and>
     pop_n n ids taken = (Ok (ids |-| popped, taken |\<union>| popped) :: (_, 'e) result)"
proof (induction n arbitrary: ids taken)
  case (Suc n)
  then have "ids \<noteq> {||}" by (metis fcard_fempty not_less_eq_eq zero_le)
  then obtain x rest where p: "pop_first ids = Some (x, rest)"
    by (auto simp: pop_first_def)
  note P = pop_first_SomeD[OF p]
  then have "n \<le> fcard rest" using Suc.prems by simp
  from Suc.IH[OF this, of "finsert x taken"] obtain q where
    q: "q |\<subseteq>| rest" "fcard q = n" "\<forall>u y. u |\<in>| q \<longrightarrow> y |\<in>| rest |-| q \<longrightarrow> u < y"
      "pop_n n rest (finsert x taken) = (Ok (rest |-| q, finsert x taken |\<union>| q) :: (_, 'e) result)"
    by (elim exE conjE) (rule that; assumption)
  have xq: "x |\<notin>| q" using q(1) P(2) by auto
  show ?case
  proof (intro exI conjI)
    show "finsert x q |\<subseteq>| ids" using q(1) P(1,2) by auto
    show "fcard (finsert x q) = Suc n" using xq q(2) by (simp add: fcard_finsert_disjoint)
    show "\<forall>u y. u |\<in>| finsert x q \<longrightarrow> y |\<in>| ids |-| finsert x q \<longrightarrow> u < y"
      using q(3) P(2,4) by auto
    have "rest |-| q = ids |-| finsert x q" using P(2) by auto
    then show "pop_n (Suc n) ids taken = (Ok (ids |-| finsert x q, taken |\<union>| finsert x q) :: (_, 'e) result)"
      using q(4) p by simp
  qed
qed (auto intro: exI[of _ "{||}"])

lemma try_fold_take_ids:
  assumes "distinct wanted"
  shows "try_fold (\<lambda>(ids, taken) i.
     if i |\<in>| ids then Ok (ids |-| {|i|}, finsert i taken) else Err (NonFungibleTokenIdNotFound i))
     (ids, taken) wanted = Ok (ids', taken') \<longleftrightarrow>
   fset_of_list wanted |\<subseteq>| ids \<and> ids' = ids |-| fset_of_list wanted \<and> taken' = taken |\<union>| fset_of_list wanted"
  using assms
proof (induction wanted arbitrary: ids taken)
  case (Cons i wanted)
  then have "i |\<notin>| fset_of_list wanted" by (simp add: fset_of_list_elem)
  then show ?case using Cons by auto
qed auto

lemma take_ids_Ok_iff:
  "take_ids ids (sorted_list_of_fset wanted) = Ok (ids', taken) \<longleftrightarrow>
   wanted |\<subseteq>| ids \<and> ids' = ids |-| wanted \<and> taken = wanted"
  unfolding take_ids_def by (subst try_fold_take_ids) auto

lemma try_fold_lock_ids:
  assumes "distinct wanted"
  shows "try_fold (\<lambda>(ids, newly, l) i.
           if i |\<in>| ids then Ok (ids |-| {|i|}, finsert i newly, finsert i l)
           else Err (NonFungibleTokenIdNotFound i)) (ids, newly, l) wanted = Ok (ids', newly', l') \<longleftrightarrow>
   fset_of_list wanted |\<subseteq>| ids \<and> ids' = ids |-| fset_of_list wanted \<and> newly' = newly |\<union>| fset_of_list wanted
     \<and> l' = l |\<union>| fset_of_list wanted"
  using assms
proof (induction wanted arbitrary: ids newly l)
  case (Cons i wanted)
  then have "i |\<notin>| fset_of_list wanted" by (simp add: fset_of_list_elem)
  then show ?case using Cons by auto
qed auto

lemma try_fold_unlock_ids:
  assumes "distinct wanted"
  shows "try_fold (\<lambda>(ids, lk) i.
     if i |\<in>| lk then Ok (finsert i ids, lk |-| {|i|}) else Err InvariantError)
     (ids, lk) wanted = Ok (ids', lk') \<longleftrightarrow>
   fset_of_list wanted |\<subseteq>| lk \<and> ids' = ids |\<union>| fset_of_list wanted \<and> lk' = lk |-| fset_of_list wanted"
  using assms
proof (induction wanted arbitrary: ids lk)
  case (Cons i wanted)
  then have "i |\<notin>| fset_of_list wanted" by (simp add: fset_of_list_elem)
  then show ?case using Cons by auto
qed auto

lemma unlock_ids_Ok_iff:
  "unlock_ids ids l (sorted_list_of_fset wanted) = Ok (ids', l') \<longleftrightarrow>
   wanted |\<subseteq>| l \<and> ids' = ids |\<union>| wanted \<and> l' = l |-| wanted"
  unfolding unlock_ids_def by (subst try_fold_unlock_ids) auto

lemma insert_commitments_Ok_iff:
  assumes "distinct (map fst xs)"
  shows "insert_commitments m xs = Ok m' \<longleftrightarrow>
    fset (fmdom m) \<inter> fst ` set xs = {} \<and> m' = m ++\<^sub>f fmap_of_list xs"
  unfolding insert_commitments_def using assms
proof (induction xs arbitrary: m)
  case (Cons x xs)
  obtain k v where x: "x = (k, v)" by fastforce
  have k: "k \<notin> fst ` set xs" using Cons.prems x by auto
  then have kn: "k |\<notin>| fmdom (fmap_of_list xs)" by (simp add: fset_of_list.rep_eq)
  have IH: "try_fold (\<lambda>m (k, v). if fmlookup m k \<noteq> None then Err InvariantError else Ok (fmupd k v m))
       (fmupd k v m) xs = Ok m' \<longleftrightarrow>
     fset (fmdom (fmupd k v m)) \<inter> fst ` set xs = {} \<and> m' = fmupd k v m ++\<^sub>f fmap_of_list xs"
    using Cons by simp
  show ?case
  proof (cases "fmlookup m k")
    case None
    then have "k \<notin> fset (fmdom m)" by (simp add: fmdom_notI)
    then show ?thesis using IH k None by (simp add: x fmupd_fmadd[OF kn])
  next
    case (Some w)
    then show ?thesis using fmdomI[OF Some] by (simp add: x)
  qed
qed auto

lemma insert_commitments_fmap: 
  "insert_commitments m (sorted_list_of_fmap m2) = Ok m' \<longleftrightarrow>
    fmdom m |\<inter>| fmdom m2 = {||} \<and> m' = m ++\<^sub>f m2"
proof -
  have "map fst (sorted_list_of_fmap m2) = sorted_list_of_fset (fmdom m2)"
    by (simp add: sorted_list_of_fmap_def comp_def)
  then have "distinct (map fst (sorted_list_of_fmap m2))" "fst ` set (sorted_list_of_fmap m2) = fset (fmdom m2)"
    by (simp_all flip: set_map)
  then show ?thesis by (subst insert_commitments_Ok_iff) (auto simp: fset_eq_iff)
qed

lemma unlock_commitments_Ok_iff:
  assumes "distinct ws"
  shows "unlock_commitments cs lcs ws = Ok (cs', lcs') \<longleftrightarrow>
    set ws \<subseteq> fset (fmdom lcs) \<and> set ws \<inter> fset (fmdom cs) = {} \<and>
    cs' = cs ++\<^sub>f fmrestrict_set (set ws) lcs \<and> lcs' = fmdrop_set (set ws) lcs"
  using assms
proof (induction ws arbitrary: cs lcs)
  case Nil
  then show ?case by (auto simp: unlock_commitments_def)
next
  case (Cons k ws)
  show ?case
  proof (cases "fmlookup lcs k")
    case None
    then show ?thesis by (auto simp: unlock_commitments_def fmdom_notI)
  next
    case (Some v)
    have dom: "k |\<in>| fmdom lcs" using Some by (rule fmdomI)
    have r: "fmupd k v cs ++\<^sub>f fmrestrict_set (set ws) (fmdrop k lcs)
        = cs ++\<^sub>f fmrestrict_set (set (k # ws)) lcs"
      using Cons.prems fmadd_fmrestrict_insert[OF Some] by simp
    have d: "fmdrop_set (set ws) (fmdrop k lcs) = fmdrop_set (set (k # ws)) lcs"
      by (simp add: fmdrop_set_insert)
    have IH: "unlock_commitments (fmupd k v cs) (fmdrop k lcs) ws = Ok (cs', lcs') \<longleftrightarrow>
      set ws \<subseteq> fset (fmdom (fmdrop k lcs)) \<and> set ws \<inter> fset (fmdom (fmupd k v cs)) = {} \<and>
      cs' = cs ++\<^sub>f fmrestrict_set (set (k # ws)) lcs \<and> lcs' = fmdrop_set (set (k # ws)) lcs"
      using Cons.IH[of "fmupd k v cs" "fmdrop k lcs"] Cons.prems unfolding r d by simp
    have step: "unlock_commitments cs lcs (k # ws) =
        (if k |\<in>| fmdom cs then Err InvariantError else unlock_commitments (fmupd k v cs) (fmdrop k lcs) ws)"
      using Some by (cases "fmlookup cs k") (simp_all add: unlock_commitments_def fmdomI fmdom_notI)
    show ?thesis unfolding step using IH dom Cons.prems by auto
  qed
qed

lemma take_commitments_Ok_iff:
  "take_commitments m (sorted_list_of_fset ws) = Ok (m', t) \<longleftrightarrow>
    ws |\<subseteq>| fmdom m \<and> m' = fmdrop_set (fset ws) m \<and> t = fmrestrict_set (fset ws) m"
proof -
  have "try_fold (\<lambda>(m, taken) k.
     case fmlookup m k of None \<Rightarrow> Err InvalidConfidentialProof
     | Some v \<Rightarrow> Ok (fmdrop k m, fmupd k v taken)) (m, t0) xs = Ok (m', t) \<longleftrightarrow>
     set xs \<subseteq> fset (fmdom m) \<and> m' = fmdrop_set (set xs) m \<and> t = t0 ++\<^sub>f fmrestrict_set (set xs) m"
    if "distinct xs" for xs m t0
    using that
  proof (induction xs arbitrary: m t0)
    case Nil
    then show ?case by auto
  next
    case (Cons k xs)
    show ?case
    proof (cases "fmlookup m k")
      case None
      then show ?thesis by (auto simp: fmdom_notI)
    next
      case (Some v)
      have r: "fmupd k v t0 ++\<^sub>f fmrestrict_set (set xs) (fmdrop k m) = t0 ++\<^sub>f fmrestrict_set (set (k # xs)) m"
        using Cons.prems fmadd_fmrestrict_insert[OF Some] by simp
      have d: "fmdrop_set (set xs) (fmdrop k m) = fmdrop_set (set (k # xs)) m"
        by (simp add: fmdrop_set_insert)
      have sub: "set xs \<subseteq> fset (fmdom (fmdrop k m)) \<longleftrightarrow> set (k # xs) \<subseteq> fset (fmdom m)"
        using Cons.prems fmdomI[OF Some] by auto
      show ?thesis using Cons.IH[of "fmdrop k m" "fmupd k v t0"] Cons.prems Some unfolding r d sub by simp
    qed
  qed
  from this[of "sorted_list_of_fset ws" m fmempty] show ?thesis
    by (simp add: take_commitments_def less_eq_fset.rep_eq)
qed

section \<open>Counting\<close>

lemmas holding_defs = holds_free_def holds_locked_def units_def tokens_def commits_def

lemma asset_count_simps [simp]:
  "units 0 a = 0" "tokens {||} a = 0" "commits fmempty a = 0"
  by (auto simp: holding_defs split: asset.splits)

lemma units_add: "units (m + n) a = units m a + units n a"
  and units_diff: "units (m - n) a = units m a - units n a"
  by (auto simp: units_def split: asset.splits)

lemma tokens_union: "ids |\<inter>| ids' = {||} \<Longrightarrow> tokens (ids |\<union>| ids') a = tokens ids a + tokens ids' a"
  by (auto simp: tokens_def fset_eq_iff split: asset.splits)

lemma tokens_minus: "ids' |\<subseteq>| ids \<Longrightarrow> tokens (ids |-| ids') a = tokens ids a - tokens ids' a"
  by (auto simp: tokens_def split: asset.splits)

lemma commits_add: "fmdom m |\<inter>| fmdom n = {||} \<Longrightarrow> commits (m ++\<^sub>f n) a = commits m a + commits n a"
  by (auto simp: commits_def fset_eq_iff split: asset.splits)

lemma usize_of_amount_ok: "\<lbrakk>0 \<le> amt; amt \<le> int n; n \<le> u64_max\<rbrakk> \<Longrightarrow> usize_of_amount amt = Ok (nat amt)"
  by (simp add: usize_of_amount_def to_u64_checked_def)

lemma deposit_ok:
  assumes "wf_container c" "wf_container d" "mergeable c d"
  obtains c' where "deposit om c d = Ok c'" "wf_container c'" "address c' = address c"
    "resource_type_of c' = resource_type_of c"
    "\<And>a. holds_free c' a = holds_free c a + holds_free d a" "\<And>a. holds_locked c' a = holds_locked c a"
proof (cases c)
  case (Fungible addr n l)
  then obtain m k where d: "d = Fungible addr m k" using assms(3) by (cases d) (auto simp: mergeable_def)
  have w: "0 \<le> n" "0 \<le> l" "0 \<le> m" "in_i192 (n + l + m)"
    using assms by (simp_all add: wf_container_def mergeable_def Fungible d)
  then show ?thesis using in_i192_merge[of n l m]
    by (intro that[of "Fungible addr (n + m) l"])
       (simp_all add: Fungible d deposit_def wf_container_def resource_type_of_def
          holds_free_def holds_locked_def units_add)
next
  case (NonFungible addr ids l)
  then obtain ids' k where d: "d = NonFungible addr ids' k" using assms(3) by (cases d) (auto simp: mergeable_def)
  have w: "ids |\<inter>| l = {||}" "ids |\<inter>| ids' = {||}" "ids' |\<inter>| l = {||}"
      "fcard ids + fcard l + fcard ids' \<le> u64_max"
    using assms by (auto simp: wf_container_def mergeable_def NonFungible d inf_sup_distrib2)
  then show ?thesis
    by (intro that[of "NonFungible addr (ids |\<union>| ids') l"])
       (simp_all add: NonFungible d deposit_def wf_container_def resource_type_of_def
          holds_free_def holds_locked_def tokens_union fcard_funion_disjoint inf_sup_distrib2)
next
  case (Confidential addr cs r lcs lr)
  then obtain cs' r' l1 l2 where d: "d = Confidential addr cs' r' l1 l2"
    using assms(3) by (cases d) (auto simp: mergeable_def)
  have w: "0 \<le> r" "0 \<le> lr" "0 \<le> r'" "in_i192 (r + lr + r')" "fmdom cs |\<inter>| fmdom lcs = {||}"
      "fmdom cs |\<inter>| fmdom cs' = {||}" "fmdom cs' |\<inter>| fmdom lcs = {||}"
    using assms by (auto simp: wf_container_def mergeable_def Confidential d inf_sup_distrib2)
  have "insert_commitments cs (sorted_list_of_fmap cs') = Ok (cs ++\<^sub>f cs')"
    using w by (simp add: insert_commitments_fmap)
  then show ?thesis using w in_i192_merge[of r lr r']
    by (intro that[of "Confidential addr (cs ++\<^sub>f cs') (r + r') lcs lr"])
       (simp_all add: Confidential d deposit_def wf_container_def resource_type_of_def
          holds_free_def holds_locked_def units_add commits_add inf_sup_distrib2)
next
  case (Stealth addr n l)
  then obtain m k where d: "d = Stealth addr m k" using assms(3) by (cases d) (auto simp: mergeable_def)
  have w: "0 \<le> n" "0 \<le> l" "0 \<le> m" "in_i192 (n + l + m)"
    using assms by (simp_all add: wf_container_def mergeable_def Stealth d)
  then show ?thesis using in_i192_merge[of n l m]
    by (intro that[of "Stealth addr (n + m) l"])
       (simp_all add: Stealth d deposit_def wf_container_def resource_type_of_def
          holds_free_def holds_locked_def units_add)
qed

lemmas rc_ctor_defs = fungible_def non_fungible_def confidential_def stealth_def amount_simps

lemma withdraw_ok:
  assumes "wf_container c" "0 < amt" "amt \<le> amount_of c"
  obtains c' r where "withdraw om c amt = Ok (c', r)" "wf_container c'" "wf_container r"
    "amount_of r = amt" "address c' = address c" "address r = address c"
    "resource_type_of c' = resource_type_of c" "resource_type_of r = resource_type_of c"
    "\<And>a. holds_free c' a + holds_free r a = holds_free c a" "\<And>a. holds_locked c' a = holds_locked c a" "\<And>a. holds_locked r a = 0"
    "deposit om c' r = Ok c" "mergeable c' r"
proof (cases c)
  case (Fungible addr n l)
  have w: "0 \<le> n" "0 \<le> l" "in_i192 (n + l)" "amt \<le> n" "in_i192 n" "in_i192 (n - amt)"
      "in_i192 (n - amt + l)" "in_i192 amt"
    using assms by (simp_all add: wf_container_def Fungible amount_of_def in_i192_def Amount_MIN_def)
  then show ?thesis using assms(2)
    by (intro that[of "Fungible addr (n - amt) l" "Fungible addr amt 0"])
       (simp_all add: Fungible withdraw_def deposit_def wf_container_def mergeable_def amount_of_def
          resource_type_of_def holds_free_def holds_locked_def units_diff rc_ctor_defs algebra_simps)
next
  case (NonFungible addr ids l)
  have w: "ids |\<inter>| l = {||}" "fcard ids + fcard l \<le> u64_max" "amt \<le> int (fcard ids)" "fcard ids \<le> u64_max"
    using assms by (simp_all add: wf_container_def NonFungible amount_of_def)
  then have n: "nat amt \<le> fcard ids" by linarith
  obtain q where q: "q |\<subseteq>| ids" "fcard q = nat amt"
      "pop_n (nat amt) ids {||} = (Ok (ids |-| q, {||} |\<union>| q) :: _ rc_result)"
    using pop_n_spec[OF n, of "{||}"] by blast
  have "(ids |-| q) |\<union>| q = ids" "(ids |-| q) |\<inter>| q = {||}" "(ids |-| q) |\<inter>| l = {||}" "l |\<inter>| q = {||}"
    using q(1) w(1) by auto
  moreover have "fcard (ids |-| q) + fcard q = fcard ids"
    using fcard_fminus[OF q(1)] fcard_mono[OF q(1)] by simp
  moreover have "usize_of_amount amt = (Ok (nat amt) :: _ rc_result)" 
    using usize_of_amount_ok[of amt "fcard ids"] assms(2) w by simp
  ultimately show ?thesis using assms(2) w q
    by (intro that[of "NonFungible addr (ids |-| q) l" "NonFungible addr q {||}"])
       (simp_all add: NonFungible withdraw_def deposit_def wf_container_def mergeable_def amount_of_def
          resource_type_of_def holds_free_def holds_locked_def tokens_minus rc_ctor_defs inf_sup_distrib2 fcard_fempty)
next
  case (Confidential addr cs n lcs l)
  have w: "fmdom cs |\<inter>| fmdom lcs = {||}" "0 \<le> n" "0 \<le> l" "in_i192 (n + l)" "amt \<le> n" "in_i192 n" "in_i192 (n - amt)"
      "in_i192 (n - amt + l)" "in_i192 amt"
    using assms by (simp_all add: wf_container_def Confidential amount_of_def in_i192_def Amount_MIN_def)
  have e: "insert_commitments cs (sorted_list_of_fmap fmempty) = Ok cs"
    by (simp add: insert_commitments_fmap)
  from w assms(2) show ?thesis 
    by (intro that[of "Confidential addr cs (n - amt) lcs l" "Confidential addr fmempty amt fmempty 0"])
       (simp_all add: Confidential withdraw_def deposit_def wf_container_def mergeable_def amount_of_def
          resource_type_of_def holds_free_def holds_locked_def units_diff rc_ctor_defs e algebra_simps)
next
  case (Stealth addr n l)
  have w: "0 \<le> n" "0 \<le> l" "in_i192 (n + l)" "amt \<le> n" "in_i192 n" "in_i192 (n - amt)"
      "in_i192 (n - amt + l)" "in_i192 amt"
    using assms by (simp_all add: wf_container_def Stealth amount_of_def in_i192_def Amount_MIN_def)
  then show ?thesis using assms(2)
    by (intro that[of "Stealth addr (n - amt) l" "Stealth addr amt 0"])
       (simp_all add: Stealth withdraw_def deposit_def wf_container_def mergeable_def amount_of_def
          resource_type_of_def holds_free_def holds_locked_def units_diff rc_ctor_defs algebra_simps)
qed

lemma withdraw_not_ok:
  "amt \<le> 0 \<Longrightarrow> withdraw om c amt = Err InvariantError"
  "\<lbrakk>0 < amt; amount_of c < amt\<rbrakk> \<Longrightarrow> withdraw om c amt = Err InsufficientBalance"
  by (auto simp: withdraw_def amount_of_def amount_simps split: resource_container.splits)

lemma commits_restrict:
  "A |\<subseteq>| fmdom m \<Longrightarrow> commits (fmdrop_set (fset A) m) a + commits (fmrestrict_set (fset A) m) a = commits m a"
  by (auto simp: commits_def split: asset.splits)

lemma commits_cong: "fmdom m = fmdom n \<Longrightarrow> commits m a = commits n a"
  by (simp add: commits_def split: asset.splits)

lemma unlock_ok:
  assumes "wf_container c" "wf_container p" "releasable c p"
  obtains c' where "unlock om c p = Ok c'" "wf_container c'" "address c' = address c"
    "resource_type_of c' = resource_type_of c"
    "\<And>a. holds_free c' a = holds_free c a + holds_free p a" "\<And>a. holds_locked c' a = holds_locked c a - holds_free p a"
proof (cases c)
  case (Fungible addr n l)
  then obtain m k where p: "p = Fungible addr m k" using assms(3) by (cases p) (auto simp: releasable_def)
  have w: "0 \<le> n" "0 \<le> m" "m \<le> l" "in_i192 (n + l)"
    using assms by (simp_all add: wf_container_def releasable_def Fungible p)
  then show ?thesis using in_i192_transfer[of n l m]
    by (intro that[of "Fungible addr (n + m) (l - m)"])
       (simp_all add: Fungible p unlock_def wf_container_def resource_type_of_def amount_of_def
          holds_free_def holds_locked_def units_add units_diff)
next
  case (NonFungible addr ids l)
  then obtain ids' k where p: "p = NonFungible addr ids' k" using assms(3) by (cases p) (auto simp: releasable_def)
  have w: "ids |\<inter>| l = {||}" "ids' |\<subseteq>| l" "fcard ids + fcard l \<le> u64_max" "fcard ids' \<le> fcard l"
    using assms by (auto simp: wf_container_def releasable_def NonFungible p fcard_mono)
  have d: "ids |\<inter>| ids' = {||}" "(ids |\<union>| ids') |\<inter>| (l |-| ids') = {||}" using w by auto
  have f: "unlock_ids ids l (sorted_list_of_fset ids') = Ok (ids |\<union>| ids', l |-| ids')"
    using w by (simp add: unlock_ids_Ok_iff)
  show ?thesis using w d f fcard_fminus[OF w(2)]
    by (intro that[of "NonFungible addr (ids |\<union>| ids') (l |-| ids')"])
       (simp_all add: NonFungible p unlock_def wf_container_def resource_type_of_def
          non_fungible_token_ids_def holds_free_def holds_locked_def tokens_union tokens_minus fcard_funion_disjoint)
next
  case (Confidential addr cs n lcs l)
  then obtain cs' m l1 l2 where p: "p = Confidential addr cs' m l1 l2"
    using assms(3) by (cases p) (auto simp: releasable_def)
  have w: "0 \<le> n" "0 \<le> m" "m \<le> l" "in_i192 (n + l)" "fmdom cs |\<inter>| fmdom lcs = {||}"
      "fmdom cs' |\<subseteq>| fmdom lcs" "fcard (fmdom cs') \<le> fcard (fmdom lcs)"
    using assms by (auto simp: wf_container_def releasable_def Confidential p fcard_mono)
  let ?cs = "cs ++\<^sub>f fmrestrict_set (fset (fmdom cs')) lcs"
  let ?lcs = "fmdrop_set (fset (fmdom cs')) lcs"
  have f: "unlock_commitments cs lcs (sorted_list_of_fset (fmdom cs')) = Ok (?cs, ?lcs)"
    using w(5,6) by (subst unlock_commitments_Ok_iff) (auto simp: fset_eq_iff)
  have d: "fmdom ?cs |\<inter>| fmdom ?lcs = {||}" using w(5,6) by (auto simp: fset_eq_iff)
  have c1: "commits ?cs a = commits cs a + commits cs' a" for a
    using w(5,6) by (subst commits_add) (auto simp: fset_eq_iff fmdom_fmrestrict commits_def split: asset.splits)
  have c2: "commits ?lcs a = commits lcs a - commits cs' a" for a
    using commits_restrict[OF w(6), of a] commits_cong[OF fmdom_fmrestrict[OF w(6)], of a] by simp
  show ?thesis using w d f c1 c2 in_i192_transfer[of n l m]
    by (intro that[of "Confidential addr ?cs (n + m) ?lcs (l - m)"])
       (simp_all add: Confidential p unlock_def wf_container_def resource_type_of_def amount_of_def
          get_commitment_count_def get_confidential_commitments_def holds_free_def holds_locked_def units_add units_diff)
next
  case (Stealth addr n l)
  then obtain m k where p: "p = Stealth addr m k" using assms(3) by (cases p) (auto simp: releasable_def)
  have w: "0 \<le> n" "0 \<le> m" "m \<le> l" "in_i192 (n + l)"
    using assms by (simp_all add: wf_container_def releasable_def Stealth p)
  then show ?thesis using in_i192_transfer[of n l m]
    by (intro that[of "Stealth addr (n + m) (l - m)"])
       (simp_all add: Stealth p unlock_def wf_container_def resource_type_of_def amount_of_def
          holds_free_def holds_locked_def units_add units_diff)
qed

lemma lock_by_amount_ok:
  assumes "wf_container c" "0 \<le> amt" "amt \<le> amount_of c"
  obtains c' p where "lock_by_amount om c amt = Ok (c', p)" "wf_container c'" "wf_container p"
    "amount_of p = amt" "address c' = address c" "address p = address c"
    "resource_type_of c' = resource_type_of c" "resource_type_of p = resource_type_of c"
    "\<And>a. holds_free c' a + holds_free p a = holds_free c a" "\<And>a. holds_locked c' a = holds_locked c a + holds_free p a"
    "\<And>a. holds_locked p a = 0" "releasable c' p" "unlock om c' p = Ok c"
proof (cases c)
  case (Fungible addr n l)
  have w: "0 \<le> n" "0 \<le> l" "in_i192 (n + l)" "amt \<le> n" "in_i192 n" "in_i192 (n - amt)" "in_i192 (l + amt)"
      "in_i192 l" "in_i192 amt" "in_i192 (n - amt + (l + amt))"
    using assms by (simp_all add: wf_container_def Fungible amount_of_def in_i192_def Amount_MIN_def)
  then show ?thesis using assms(2)
    by (intro that[of "Fungible addr (n - amt) (l + amt)" "Fungible addr amt 0"])
       (simp_all add: Fungible lock_by_amount_def unlock_def wf_container_def releasable_def amount_of_def
          resource_type_of_def holds_free_def holds_locked_def units_diff units_add rc_ctor_defs)
next
  case (NonFungible addr ids l)
  have w: "ids |\<inter>| l = {||}" "fcard ids + fcard l \<le> u64_max" "amt \<le> int (fcard ids)" "fcard ids \<le> u64_max"
    using assms by (simp_all add: wf_container_def NonFungible amount_of_def)
  then have n: "nat amt \<le> fcard ids" by linarith
  obtain q where q: "q |\<subseteq>| ids" "fcard q = nat amt"
      "pop_n (nat amt) ids {||} = (Ok (ids |-| q, {||} |\<union>| q) :: _ rc_result)"
    using pop_n_spec[OF n, of "{||}"] by blast
  have s: "(ids |-| q) |\<union>| q = ids" "(ids |-| q) |\<inter>| (l |\<union>| q) = {||}" "l |\<inter>| q = {||}" "(l |\<union>| q) |-| q = l"
    using q(1) w(1) by auto
  have u: "unlock_ids (ids |-| q) (l |\<union>| q) (sorted_list_of_fset q) = Ok (ids, l)"
    by (subst unlock_ids_Ok_iff) (use s in auto)
  have k: "fcard (ids |-| q) + fcard q = fcard ids" "fcard (l |\<union>| q) = fcard l + fcard q"
    using fcard_fminus[OF q(1)] fcard_mono[OF q(1)] fcard_funion_disjoint[OF s(3)] by simp_all
  have z: "usize_of_amount amt = (Ok (nat amt) :: _ rc_result)"
    using usize_of_amount_ok[of amt "fcard ids"] assms(2) w by simp
  show ?thesis using assms(2) w q s u k z
    by (intro that[of "NonFungible addr (ids |-| q) (l |\<union>| q)" "NonFungible addr q {||}"])
       (simp_all add: NonFungible lock_by_amount_def unlock_def wf_container_def releasable_def amount_of_def
          resource_type_of_def holds_free_def holds_locked_def tokens_minus tokens_union rc_ctor_defs fcard_fempty
          non_fungible_token_ids_def)
next
  case (Confidential addr cs n lcs l)
  have w: "0 \<le> n" "0 \<le> l" "in_i192 (n + l)" "amt \<le> n" "in_i192 n" "in_i192 (n - amt)" "in_i192 (l + amt)"
      "in_i192 l" "in_i192 amt" "in_i192 (n - amt + (l + amt))" "fmdom cs |\<inter>| fmdom lcs = {||}"
    using assms by (simp_all add: wf_container_def Confidential amount_of_def in_i192_def Amount_MIN_def)
  have e: "unlock_commitments cs lcs (sorted_list_of_fset {||}) = Ok (cs, lcs)"
    by (subst unlock_commitments_Ok_iff) auto
  from w e assms(2) show ?thesis
    by (intro that[of "Confidential addr cs (n - amt) lcs (l + amt)" "Confidential addr fmempty amt fmempty 0"])
       (simp_all add: Confidential lock_by_amount_def unlock_def wf_container_def releasable_def amount_of_def
          resource_type_of_def holds_free_def holds_locked_def units_diff units_add rc_ctor_defs fcard_fempty
          get_commitment_count_def get_confidential_commitments_def)
next
  case (Stealth addr n l)
  have w: "0 \<le> n" "0 \<le> l" "in_i192 (n + l)" "amt \<le> n" "in_i192 n" "in_i192 (n - amt)" "in_i192 (l + amt)"
      "in_i192 l" "in_i192 amt" "in_i192 (n - amt + (l + amt))"
    using assms by (simp_all add: wf_container_def Stealth amount_of_def in_i192_def Amount_MIN_def)
  then show ?thesis using assms(2)
    by (intro that[of "Stealth addr (n - amt) (l + amt)" "Stealth addr amt 0"])
       (simp_all add: Stealth lock_by_amount_def unlock_def wf_container_def releasable_def amount_of_def
          resource_type_of_def holds_free_def holds_locked_def units_diff units_add rc_ctor_defs)
qed

lemma withdraw_all_ok:
  assumes "wf_container c" "resource_type_of c = TConfidential \<or> 0 < amount_of c"
  obtains c' r where "withdraw_all om c = Ok (c', r)" "wf_container c'" "wf_container r"
    "\<And>a. holds_free c' a = 0" "\<And>a. holds_free r a = holds_free c a" "\<And>a. holds_locked c' a = holds_locked c a"
proof (cases "resource_type_of c = TConfidential")
  case True
  then obtain addr cs n lcs l where c: "c = Confidential addr cs n lcs l"
    by (cases c) (auto simp: resource_type_of_def)
  have w: "0 \<le> n" "0 \<le> l" "in_i192 (n + l)" "in_i192 n" "in_i192 l"
    using assms(1) by (simp_all add: c wf_container_def in_i192_def Amount_MIN_def)
  then show ?thesis
    by (intro that[of "Confidential addr fmempty 0 lcs l" "Confidential addr cs n fmempty 0"])
       (simp_all add: c withdraw_all_def wf_container_def holds_free_def holds_locked_def rc_ctor_defs less_le)
next
  case False
  then have pos: "0 < amount_of c" using assms(2) by simp
  have e: "withdraw_all om c = withdraw om c (amount_of c)"
    using False by (cases c) (simp_all add: withdraw_all_def resource_type_of_def)
  obtain c' r where w: "withdraw om c (amount_of c) = Ok (c', r)" "wf_container c'" "wf_container r"
      "amount_of r = amount_of c" "resource_type_of c' = resource_type_of c"
      "resource_type_of r = resource_type_of c"
      "\<And>a. holds_free c' a + holds_free r a = holds_free c a" "\<And>a. holds_locked c' a = holds_locked c a"
    using withdraw_ok[OF assms(1) pos order.refl, of om] by metis
  have "holds_free c' a = 0" for a
  proof (cases c)
    case (NonFungible addr ids l)
    then obtain addr' q l' where r: "r = NonFungible addr' q l'"
      using w(6) by (cases r) (auto simp: resource_type_of_def)
    obtain addr' ids' l' where c': "c' = NonFungible addr' ids' l'"
      using w(5) NonFungible by (cases c') (auto simp: resource_type_of_def)
    have "tokens ids' (Token i) + tokens q (Token i) = tokens ids (Token i)" for i
      using w(7)[of "Token i"] by (simp add: holds_free_def r c' NonFungible)
    then have m: "of_bool (i |\<in>| ids') + of_bool (i |\<in>| q) = (of_bool (i |\<in>| ids) :: int)" for i
      by (simp add: tokens_def)
    have sub: "i |\<in>| q \<Longrightarrow> i |\<in>| ids" and dis: "i |\<in>| ids' \<Longrightarrow> i |\<in>| ids \<and> i |\<notin>| q" for i
      using m[of i] by (auto simp: of_bool_def split: if_splits)
    have "q |\<subseteq>| ids" using sub by auto
    moreover have "fcard q = fcard ids" using w(4) by (simp add: amount_of_def r NonFungible)
    ultimately have "q = ids" using pfsubset_fcard_mono[of q ids] by (auto simp: less_le)
    then have "ids' = {||}" using dis by auto
    then show ?thesis by (simp add: c' holds_free_def)
  qed (use w(4-7) False in \<open>cases r; cases c'; simp add: amount_of_def resource_type_of_def holds_free_def units_def split: asset.splits\<close>)+
  then show ?thesis using w e by (intro that[of c' r]) auto
qed

lemma withdraw_by_ids_ok_iff:
  "withdraw_by_ids c wanted = Ok (c', r) \<longleftrightarrow>
     (\<exists>addr ids l. c = NonFungible addr ids l \<and> wanted |\<subseteq>| ids \<and>
        c' = NonFungible addr (ids |-| wanted) l \<and> r = NonFungible addr wanted {||})"
  by (cases c) (auto simp: withdraw_by_ids_def result_simps take_ids_Ok_iff non_fungible_def)

lemma lock_by_non_fungible_ids_ok_iff:
  "lock_by_non_fungible_ids c wanted = Ok (c', p) \<longleftrightarrow>
     (\<exists>addr ids l. c = NonFungible addr ids l \<and> wanted |\<subseteq>| ids \<and>
        c' = NonFungible addr (ids |-| wanted) (l |\<union>| wanted) \<and> p = NonFungible addr wanted {||})"
  by (cases c) (auto simp: lock_by_non_fungible_ids_def result_simps try_fold_lock_ids non_fungible_def)

lemma remove_inputs_Ok_iff:
  "remove_inputs cr m ks = Ok m' \<longleftrightarrow>
     distinct ks \<and> list_all (point_ok cr) ks \<and> set ks \<subseteq> fset (fmdom m) \<and> m' = fmdrop_set (set ks) m"
proof (induction ks arbitrary: m)
  case (Cons k ks)
  have "set ks \<subseteq> fset (fmdom (fmdrop k m)) \<longleftrightarrow> k \<notin> set ks \<and> set ks \<subseteq> fset (fmdom m)" by auto
  moreover have "remove_inputs cr m (k # ks) = Ok m' \<longleftrightarrow>
      point_ok cr k \<and> k |\<in>| fmdom m \<and> remove_inputs cr (fmdrop k m) ks = Ok m'"
    by (cases "fmlookup m k") (auto simp: remove_inputs_def fmdomI fmdom_notI)
  ultimately show ?case using Cons by (auto simp: fmdrop_set_insert)
qed (auto simp: remove_inputs_def)

lemma recall_ok:
  assumes "wf_container (Confidential addr cs r lcs lr)" "0 \<le> amt" "amt \<le> r" "wanted |\<subseteq>| fmdom cs"
  shows "recall_confidential_commitments om (Confidential addr cs r lcs lr) wanted amt =
    Ok (Confidential addr (fmdrop_set (fset wanted) cs) (r - amt) lcs lr,
        Confidential addr (fmrestrict_set (fset wanted) cs) amt fmempty 0)"
proof -
  have "amount_sub om r amt = (Ok (r - amt) :: _ rc_result)"
    using assms by (intro amount_sub_le_exact) (auto simp: wf_container_def in_i192_def Amount_MIN_def)
  moreover have "take_commitments cs (sorted_list_of_fset wanted) =
      Ok (fmdrop_set (fset wanted) cs, fmrestrict_set (fset wanted) cs)"
    using assms(4) by (simp add: take_commitments_Ok_iff)
  ultimately show ?thesis using assms(2,3)
    by (simp add: recall_confidential_commitments_def rc_ctor_defs less_le)
qed

lemma traverse_option_None [simp]: "traverse_option f None = Ok None"
  by (simp add: traverse_option_def)

lemma validate_revealed_only_Ok_iff:
  assumes "is_revealed_only wp"
  shows "validate_confidential_withdraw cr inputs vk wp = Ok v \<longleftrightarrow>
    0 \<le> cos_output_revealed_amount (cwp_output_proof wp) \<and>
    0 \<le> cos_change_revealed_amount (cwp_output_proof wp) \<and>
    cwp_input_revealed_amount wp = cos_output_revealed_amount (cwp_output_proof wp)
       + cos_change_revealed_amount (cwp_output_proof wp) \<and>
    v = \<lparr>vcw_output = None, vcw_change_output = None,
         vcw_input_revealed_amount = cwp_input_revealed_amount wp,
         vcw_output_revealed_amount = cos_output_revealed_amount (cwp_output_proof wp),
         vcw_change_revealed_amount = cos_change_revealed_amount (cwp_output_proof wp)\<rparr>"
proof -
  define op where "op = cwp_output_proof wp"
  have s: "cos_output op = None" "cos_change_statement op = None" "cos_range_proof op = []"
      "0 < cwp_input_revealed_amount wp"
      "in_i192 (cos_output_revealed_amount op + cos_change_revealed_amount op)"
    using assms by (auto simp: is_revealed_only_def op_def checked_add_def split: if_splits)
  show ?thesis
    unfolding validate_confidential_withdraw_def Let_def op_def[symmetric]
    using s assms
    by (auto simp: validate_confidential_statement_def amount_simps checked_add_positive_def
        checked_add_def checked_sub_def split: if_splits)
qed

lemma withdraw_confidential_revealed_only:
  assumes "wf_container (Confidential addr cs r lcs lr)" "is_revealed_only wp"
  shows "withdraw_confidential cr om (Confidential addr cs r lcs lr) wp vk = Ok (c', out) \<longleftrightarrow>
    0 \<le> cos_output_revealed_amount (cwp_output_proof wp) \<and>
    0 \<le> cos_change_revealed_amount (cwp_output_proof wp) \<and>
    cwp_input_revealed_amount wp = cos_output_revealed_amount (cwp_output_proof wp)
       + cos_change_revealed_amount (cwp_output_proof wp) \<and>
    cwp_input_revealed_amount wp \<le> r \<and>
    c' = Confidential addr cs (r - cwp_input_revealed_amount wp) lcs lr \<and>
    out = Confidential addr fmempty (cos_output_revealed_amount (cwp_output_proof wp)) fmempty 0"
proof -
  have i: "cwp_inputs wp = []" "0 < cwp_input_revealed_amount wp"
    using assms(2) by (simp_all add: is_revealed_only_def)
  have r: "amount_sub om r (cwp_input_revealed_amount wp) = (Ok x :: _ rc_result) \<longleftrightarrow> x = r - cwp_input_revealed_amount wp"
    if "cwp_input_revealed_amount wp \<le> r" for x
    using that i(2) assms(1) amount_sub_le_exact[of "cwp_input_revealed_amount wp" r om]
    by (auto simp: wf_container_def in_i192_def Amount_MIN_def)
  show ?thesis
    using r i by (auto simp: withdraw_confidential_def remove_inputs_Ok_iff result_simps
        validate_revealed_only_Ok_iff[OF assms(2)] confidential_def output_map_def amount_simps
        split: if_splits)
qed

section \<open>Properties\<close>

text \<open>C31: withdrawing an amount, on every branch. From a well formed container the call never
  panics; it fails with an invariant error exactly when the amount is not positive and with an
  insufficient balance exactly when more is asked for than is free; otherwise the remaining and the
  withdrawn container are well formed, the withdrawn one holds exactly the amount, and together they
  hold asset by asset what the container held free, while the locked part is untouched.\<close>

theorem withdraw_spec:
  assumes "wf_container c"
  shows "case withdraw om c amt of
      Ok (c', r) \<Rightarrow> 0 < amt \<and> amt \<le> amount_of c \<and> wf_container c' \<and> wf_container r \<and>
        amount_of r = amt \<and> address r = address c \<and> resource_type_of r = resource_type_of c \<and>
        (\<forall>a. holds_free c' a + holds_free r a = holds_free c a) \<and>
        (\<forall>a. holds_locked c' a = holds_locked c a)
    | Err e \<Rightarrow> (if amt \<le> 0 then e = InvariantError else amount_of c < amt \<and> e = InsufficientBalance)
    | Panic m \<Rightarrow> False"
proof -
  consider "amt \<le> 0" | "0 < amt" "amount_of c < amt" | "0 < amt" "amt \<le> amount_of c" by linarith
  then show ?thesis
  proof cases
    case 3
    show ?thesis by (rule withdraw_ok[OF assms 3, where om = om]) (use 3 in simp)
  qed (simp_all add: withdraw_not_ok)
qed

theorem withdraw_spec_witness:
  "wf_container (Fungible 7 100 5) \<and> withdraw PanicOnOverflow (Fungible 7 100 5) 30 = Ok (Fungible 7 70 5, Fungible 7 30 0)
   \<and> holds_free (Fungible 7 70 5) Units + holds_free (Fungible 7 30 0) Units = holds_free (Fungible 7 100 5) Units"
proof -
  have w: "wf_container (Fungible 7 100 5)" by (simp add: wf_container_def in_i192_def Amount_MIN_def Amount_MAX_def)
  have e: "withdraw PanicOnOverflow (Fungible 7 100 5) 30 = Ok (Fungible 7 70 5, Fungible 7 30 0)"
    by (simp add: withdraw_def rc_ctor_defs amount_sub_def i192_op_def in_i192_def Amount_MIN_def Amount_MAX_def)
  show ?thesis using withdraw_spec[OF w, where om = PanicOnOverflow and amt = 30] w e by simp
qed

text \<open>Putting back what was withdrawn restores the container exactly, for every kind of
  resource.\<close>

theorem withdraw_deposit_roundtrip:
  assumes "wf_container c" and "withdraw om c amt = Ok (c', r)"
  shows "deposit om c' r = Ok c"
proof -
  have "0 < amt" "amt \<le> amount_of c"
    using assms(2) withdraw_not_ok(1)[of amt om c] withdraw_not_ok(2)[of amt c om]
    by (force simp: not_le[symmetric])+
  then show ?thesis
    by (rule withdraw_ok[OF assms(1), where om = om]) (use assms(2) in simp)
qed

theorem withdraw_deposit_roundtrip_witness:
  "deposit WrapOnOverflow (Stealth 1 4 2) (Stealth 1 6 0) = Ok (Stealth 1 10 2)"
  by (rule withdraw_deposit_roundtrip[of "Stealth 1 10 2" WrapOnOverflow 6])
     (simp_all add: wf_container_def withdraw_def rc_ctor_defs amount_sub_def i192_op_def in_i192_def
        Amount_MIN_def Amount_MAX_def)

text \<open>A deposit of a container with the same resource, other tokens and commitments, and an amount
  that fits, succeeds; the result is well formed and holds asset by asset the sum of both.\<close>

theorem deposit_conserves:
  assumes "wf_container c" and "wf_container d" and "mergeable c d"
  shows "\<exists>c'. deposit om c d = Ok c' \<and> wf_container c' \<and>
    (\<forall>a. holds_free c' a = holds_free c a + holds_free d a) \<and> (\<forall>a. holds_locked c' a = holds_locked c a)"
  by (rule deposit_ok[OF assms, where om = om]) simp

theorem deposit_conserves_witness:
  "\<exists>c'. deposit PanicOnOverflow (NonFungible 3 {|Uint32 1|} {||}) (NonFungible 3 {|Uint32 2|} {||}) = Ok c' \<and>
     holds_free c' (Token (Uint32 2)) = 1"
  using deposit_conserves[of "NonFungible 3 {|Uint32 1|} {||}" "NonFungible 3 {|Uint32 2|} {||}" PanicOnOverflow]
  by (auto simp: wf_container_def mergeable_def u64_max_def fcard_fempty fcard_finsert_disjoint holds_free_def tokens_def)

text \<open>C39: locking part of a container for a proof and releasing the same part. The call succeeds for
  every non-negative amount that is free and moves exactly that amount from the free to the locked
  side; unlocking with the returned part gives the original container back.\<close>

theorem lock_unlock_roundtrip:
  assumes "wf_container c" and "0 \<le> amt" and "amt \<le> amount_of c"
  shows "\<exists>c' p. lock_by_amount om c amt = Ok (c', p) \<and> wf_container c' \<and> amount_of p = amt \<and>
    (\<forall>a. holds_free c' a + holds_free p a = holds_free c a) \<and>
    (\<forall>a. holds_locked c' a = holds_locked c a + holds_free p a) \<and>
    unlock om c' p = Ok c"
  by (rule lock_by_amount_ok[OF assms, where om = om]) simp

theorem lock_unlock_roundtrip_witness:
  "\<exists>c' p. lock_by_amount PanicOnOverflow (Fungible 2 50 0) 20 = Ok (c', p) \<and> unlock PanicOnOverflow c' p = Ok (Fungible 2 50 0)"
  using lock_unlock_roundtrip[of "Fungible 2 50 0" 20 PanicOnOverflow]
  by (auto simp: wf_container_def amount_of_def in_i192_def Amount_MIN_def Amount_MAX_def)

text \<open>Locking everything a confidential container holds leaves the revealed amount free as well as
  locked, so a lock followed by the matching unlock adds the revealed amount to the container once
  more.\<close>

theorem lock_all_confidential_duplicates_revealed:
  assumes "wf_container (Confidential addr cs r lcs lr)" and "cs \<noteq> fmempty" and "in_i192 (2 * r + lr)"
  shows "\<exists>c' p c''. lock_all om (Confidential addr cs r lcs lr) = Ok (c', p) \<and> unlock om c' p = Ok c'' \<and>
    holds_free c'' Units = 2 * holds_free (Confidential addr cs r lcs lr) Units \<and>
    holds_locked c'' Units = holds_locked (Confidential addr cs r lcs lr) Units"
proof -
  let ?c' = "Confidential addr fmempty r (lcs ++\<^sub>f cs) (lr + r)"
  let ?p = "Confidential addr cs r fmempty 0"
  have w: "0 \<le> r" "0 \<le> lr" "in_i192 (r + lr)" "in_i192 (r + (lr + r))" "fmdom cs |\<inter>| fmdom lcs = {||}"
    using assms by (simp_all add: wf_container_def algebra_simps)
  have "in_i192 (lr + r)" "in_i192 r" using w by (auto simp: in_i192_def Amount_MIN_def)
  then have lk: "lock_all om (Confidential addr cs r lcs lr) = Ok (?c', ?p)"
    using assms(2) w by (auto simp: lock_all_def rc_ctor_defs)
  have "wf_container ?c'" "wf_container ?p" "releasable ?c' ?p"
    using w \<open>in_i192 r\<close> by (auto simp: wf_container_def releasable_def)
  then obtain c'' where "unlock om ?c' ?p = Ok c''" "\<And>a. holds_free c'' a = holds_free ?c' a + holds_free ?p a"
      "\<And>a. holds_locked c'' a = holds_locked ?c' a - holds_free ?p a"
    by (rule unlock_ok[where om = om]) (rule that)
  then show ?thesis using lk by (auto simp: holding_defs)
qed

theorem lock_all_confidential_duplicates_revealed_witness:
  "\<exists>c' p c''. lock_all PanicOnOverflow
       (Confidential 1 (fmupd 9 \<lparr>public_nonce = 0, encrypted_data = [], minimum_value_promise = 0,
           viewable_balance = None\<rparr> fmempty) 100 fmempty 0) = Ok (c', p) \<and>
     unlock PanicOnOverflow c' p = Ok c'' \<and> holds_free c'' Units = 200"
proof -
  let ?m = "fmupd 9 \<lparr>public_nonce = 0, encrypted_data = [], minimum_value_promise = 0,
    viewable_balance = None\<rparr> fmempty :: (commitment, private_output) fmap"
  have ne: "?m \<noteq> fmempty" by (metis fmempty_lookup fmupd_lookup option.distinct(1))
  have w: "wf_container (Confidential 1 ?m 100 fmempty 0)"
    by (simp add: wf_container_def in_i192_def Amount_MIN_def Amount_MAX_def)
  have i: "in_i192 (2 * 100 + 0)" by (simp add: in_i192_def Amount_MIN_def Amount_MAX_def)
  show ?thesis using lock_all_confidential_duplicates_revealed[OF w ne i, of PanicOnOverflow]
    by (auto simp: holding_defs)
qed

text \<open>The part that \<open>lock_all\<close> returns for a stealth container is a fungible one, so no later
  unlock of it is accepted: the locked funds cannot be released.\<close>

theorem lock_all_stealth_not_releasable:
  assumes "lock_all om (Stealth addr r l) = Ok (c', p)"
  shows "unlock om' c' p = Err (ResourceTypeMismatch TStealth TFungible) \<and> holds_locked c' Units = wrap_i192 (l + r)"
  using assms
  by (auto simp: lock_all_def result_simps rc_ctor_defs unlock_def resource_type_of_def holding_defs
      amount_add_def i192_op_def wrap_i192_id split: if_splits overflow_mode.splits)

theorem lock_all_stealth_not_releasable_witness:
  "unlock PanicOnOverflow (Stealth 4 0 10) (Fungible 4 10 0) = Err (ResourceTypeMismatch TStealth TFungible)"
  using lock_all_stealth_not_releasable[of PanicOnOverflow 4 10 0 "Stealth 4 0 10" "Fungible 4 10 0" PanicOnOverflow]
  by (simp add: lock_all_def rc_ctor_defs amount_add_def i192_op_def in_i192_def Amount_MIN_def Amount_MAX_def)

text \<open>A confidential withdraw proof that only moves revealed funds, whatever the cryptography:
  it is accepted exactly when its revealed input is the sum of a non-negative revealed output and a
  non-negative revealed change and is covered by the container; the container then loses the whole
  input and the output is withdrawn, so the change amount is not returned to the container.\<close>

theorem revealed_only_withdraw_loses_change:
  assumes "wf_container (Confidential addr cs r lcs lr)" and "is_revealed_only wp"
    and "withdraw_confidential cr om (Confidential addr cs r lcs lr) wp vk = Ok (c', out)"
  shows "holds_free c' Units + holds_free out Units
      = holds_free (Confidential addr cs r lcs lr) Units - cos_change_revealed_amount (cwp_output_proof wp)
    \<and> cwp_input_revealed_amount wp = holds_free out Units + cos_change_revealed_amount (cwp_output_proof wp)"
  using assms(3) unfolding withdraw_confidential_revealed_only[OF assms(1,2)] by (simp add: holding_defs)

theorem revealed_only_withdraw_loses_change_witness:
  "let wp = \<lparr>cwp_inputs = [], cwp_input_revealed_amount = 10,
       cwp_output_proof = (mint_revealed 6)\<lparr>cos_change_revealed_amount := 4\<rparr>,
       cwp_balance_proof = signature_zero\<rparr>;
     c = Confidential 1 fmempty 50 fmempty 0; c' = Confidential 1 fmempty 40 fmempty 0;
     out = Confidential 1 fmempty 6 fmempty 0
   in withdraw_confidential sample_crypto PanicOnOverflow c wp None = Ok (c', out) \<and>
      holds_free c' Units + holds_free out Units = holds_free c Units - 4"
proof -
  let ?wp = "\<lparr>cwp_inputs = [], cwp_input_revealed_amount = 10,
       cwp_output_proof = (mint_revealed 6)\<lparr>cos_change_revealed_amount := 4\<rparr>,
       cwp_balance_proof = signature_zero\<rparr>"
  have w: "wf_container (Confidential 1 fmempty 50 fmempty 0)"
    by (simp add: wf_container_def in_i192_def Amount_MIN_def Amount_MAX_def)
  have ro: "is_revealed_only ?wp"
    by (simp add: is_revealed_only_def mint_revealed_def checked_add_def in_i192_def Amount_MIN_def Amount_MAX_def)
  have e: "withdraw_confidential sample_crypto PanicOnOverflow (Confidential 1 fmempty 50 fmempty 0) ?wp None
     = Ok (Confidential 1 fmempty 40 fmempty 0, Confidential 1 fmempty 6 fmempty 0)"
    unfolding withdraw_confidential_revealed_only[OF w ro] by (simp add: mint_revealed_def)
  show ?thesis using revealed_only_withdraw_loses_change[OF w ro e] e by (simp add: mint_revealed_def Let_def)
qed
end
