(* ===== verification/Holders.thy ===== *)
theory Holders
  imports ContainerLaws
begin

text \<open>
  The types that hold a container: \<open>Bucket\<close> (crates/engine_types/src/bucket.rs), \<open>Vault\<close> (vault.rs),
  \<open>LockedResource\<close> and \<open>Proof\<close> (proof.rs), and the freeze flags of a vault
  (crates/template_lib/src/args/freeze_flags.rs). The locale \<open>resource_holder\<close> is the contract that
  buckets and vaults share; it is interpreted for both.
\<close>

section \<open>Freeze flags\<close>

unbundle bit_operations_syntax

type_synonym vault_freeze_flags = "8 word"

datatype vault_freeze_flag = FreezeDeposits | FreezeWithdrawals

primrec flag_byte :: "vault_freeze_flag \<Rightarrow> 8 word" where
  "flag_byte FreezeDeposits = 1"
| "flag_byte FreezeWithdrawals = 2"

definition ALL_FLAGS :: "8 word" where "ALL_FLAGS = 3"

definition flags_contains :: "vault_freeze_flags \<Rightarrow> vault_freeze_flag \<Rightarrow> bool" where
  "flags_contains fl f \<longleftrightarrow> fl AND flag_byte f \<noteq> 0"

definition flags_validate :: "vault_freeze_flags \<Rightarrow> bool" where
  "flags_validate fl \<longleftrightarrow> fl AND ALL_FLAGS = fl"

definition flag_from_byte :: "8 word \<Rightarrow> vault_freeze_flag option" where
  "flag_from_byte b =
     (if b = flag_byte FreezeDeposits then Some FreezeDeposits
      else if b = flag_byte FreezeWithdrawals then Some FreezeWithdrawals else None)"

text \<open>One call of the iterator's closure: the new mask and the item, and the items up to the first
  \<open>None\<close>, where a \<open>for\<close> loop or \<open>count\<close> stops. Two items at most fit below the mask's bound.\<close>

definition flags_next :: "vault_freeze_flags \<Rightarrow> 8 word \<Rightarrow> (8 word \<times> vault_freeze_flag option, unit) result" where
  "flags_next fl m =
     (if m > ALL_FLAGS then Ok (m, None)
      else if fl AND m \<noteq> 0
      then and_then (expect ''mask is always a valid flag'' (flag_from_byte m))
             (\<lambda>f. Ok (push_bit 1 m, Some f))
      else Ok (push_bit 1 m, None))"

fun flags_collect :: "nat \<Rightarrow> vault_freeze_flags \<Rightarrow> 8 word \<Rightarrow> vault_freeze_flag list" where
  "flags_collect 0 fl m = []"
| "flags_collect (Suc n) fl m = (case flags_next fl m of
     Ok (m', Some f) \<Rightarrow> f # flags_collect n fl m' | _ \<Rightarrow> [])"

definition flags_iter :: "vault_freeze_flags \<Rightarrow> vault_freeze_flag list" where
  "flags_iter fl = flags_collect 3 fl 1"

section \<open>Buckets, vaults and proofs\<close>

datatype container_ref = BucketRef bucket_id | VaultRef vault_id

record locked_resource =
  lr_container :: container_ref
  lr_locked :: resource_container

record resource_proof =
  proof_locked :: locked_resource

definition proof_new :: "locked_resource \<Rightarrow> resource_proof" where
  "proof_new l = \<lparr>proof_locked = l\<rparr>"

definition proof_container :: "resource_proof \<Rightarrow> container_ref" where
  "proof_container p = lr_container (proof_locked p)"

definition proof_resource_container :: "resource_proof \<Rightarrow> resource_container" where
  "proof_resource_container p = lr_locked (proof_locked p)"

definition proof_amount :: "resource_proof \<Rightarrow> amount" where
  "proof_amount p = amount_of (lr_locked (proof_locked p))"

definition proof_resource_address :: "resource_proof \<Rightarrow> resource_address" where
  "proof_resource_address p = address (lr_locked (proof_locked p))"

definition proof_non_fungible_token_ids :: "resource_proof \<Rightarrow> non_fungible_id fset" where
  "proof_non_fungible_token_ids p = non_fungible_token_ids (lr_locked (proof_locked p))"

record bucket =
  b_id :: bucket_id
  b_container :: resource_container

definition bucket_new :: "bucket_id \<Rightarrow> resource_container \<Rightarrow> bucket" where
  "bucket_new i c = \<lparr>b_id = i, b_container = c\<rparr>"

definition bucket_take :: "overflow_mode \<Rightarrow> bucket \<Rightarrow> amount \<Rightarrow> (bucket \<times> resource_container) rc_result" where
  "bucket_take om b a = and_then (withdraw om (b_container b) a) (\<lambda>(c, r). Ok (b\<lparr>b_container := c\<rparr>, r))"

definition bucket_take_confidential ::
  "crypto \<Rightarrow> overflow_mode \<Rightarrow> bucket \<Rightarrow> confidential_withdraw_proof \<Rightarrow> public_key option
     \<Rightarrow> (bucket \<times> resource_container) rc_result" where
  "bucket_take_confidential cr om b wp vk =
     and_then (withdraw_confidential cr om (b_container b) wp vk) (\<lambda>(c, r). Ok (b\<lparr>b_container := c\<rparr>, r))"

definition bucket_join :: "overflow_mode \<Rightarrow> bucket \<Rightarrow> bucket \<Rightarrow> bucket rc_result" where
  "bucket_join om b other =
     and_then (deposit om (b_container b) (b_container other)) (\<lambda>c. Ok (b\<lparr>b_container := c\<rparr>))"

definition bucket_lock_all :: "overflow_mode \<Rightarrow> bucket \<Rightarrow> (bucket \<times> locked_resource) rc_result" where
  "bucket_lock_all om b = and_then (lock_all om (b_container b)) (\<lambda>(c, l).
     Ok (b\<lparr>b_container := c\<rparr>, \<lparr>lr_container = BucketRef (b_id b), lr_locked = l\<rparr>))"

definition bucket_lock_by_non_fungible_ids ::
  "bucket \<Rightarrow> non_fungible_id fset \<Rightarrow> (bucket \<times> locked_resource) rc_result" where
  "bucket_lock_by_non_fungible_ids b ids = and_then (lock_by_non_fungible_ids (b_container b) ids) (\<lambda>(c, l).
     Ok (b\<lparr>b_container := c\<rparr>, \<lparr>lr_container = BucketRef (b_id b), lr_locked = l\<rparr>))"

definition bucket_lock_by_amount ::
  "overflow_mode \<Rightarrow> bucket \<Rightarrow> amount \<Rightarrow> (bucket \<times> locked_resource) rc_result" where
  "bucket_lock_by_amount om b a = and_then (lock_by_amount om (b_container b) a) (\<lambda>(c, l).
     Ok (b\<lparr>b_container := c\<rparr>, \<lparr>lr_container = BucketRef (b_id b), lr_locked = l\<rparr>))"

definition bucket_unlock :: "overflow_mode \<Rightarrow> bucket \<Rightarrow> resource_proof \<Rightarrow> bucket rc_result" where
  "bucket_unlock om b p =
     and_then (unlock om (b_container b) (proof_resource_container p)) (\<lambda>c. Ok (b\<lparr>b_container := c\<rparr>))"

record vault =
  v_container :: resource_container
  v_freeze_flags :: vault_freeze_flags

definition vault_new :: "resource_container \<Rightarrow> vault" where
  "vault_new c = \<lparr>v_container = c, v_freeze_flags = 0\<rparr>"

definition vault_deposit :: "overflow_mode \<Rightarrow> vault \<Rightarrow> bucket \<Rightarrow> vault rc_result" where
  "vault_deposit om v b =
     and_then (deposit om (v_container v) (b_container b)) (\<lambda>c. Ok (v\<lparr>v_container := c\<rparr>))"

definition vault_withdraw :: "overflow_mode \<Rightarrow> vault \<Rightarrow> amount \<Rightarrow> (vault \<times> resource_container) rc_result" where
  "vault_withdraw om v a = and_then (withdraw om (v_container v) a) (\<lambda>(c, r). Ok (v\<lparr>v_container := c\<rparr>, r))"

definition vault_withdraw_non_fungibles ::
  "vault \<Rightarrow> non_fungible_id fset \<Rightarrow> (vault \<times> resource_container) rc_result" where
  "vault_withdraw_non_fungibles v ids =
     and_then (withdraw_by_ids (v_container v) ids) (\<lambda>(c, r). Ok (v\<lparr>v_container := c\<rparr>, r))"

definition vault_withdraw_confidential ::
  "crypto \<Rightarrow> overflow_mode \<Rightarrow> vault \<Rightarrow> confidential_withdraw_proof \<Rightarrow> public_key option
     \<Rightarrow> (vault \<times> resource_container) rc_result" where
  "vault_withdraw_confidential cr om v wp vk =
     and_then (withdraw_confidential cr om (v_container v) wp vk) (\<lambda>(c, r). Ok (v\<lparr>v_container := c\<rparr>, r))"

definition vault_recall_all :: "overflow_mode \<Rightarrow> vault \<Rightarrow> (vault \<times> resource_container) rc_result" where
  "vault_recall_all om v = and_then (withdraw_all om (v_container v)) (\<lambda>(c, r). Ok (v\<lparr>v_container := c\<rparr>, r))"

definition vault_recall_confidential ::
  "overflow_mode \<Rightarrow> vault \<Rightarrow> commitment fset \<Rightarrow> amount \<Rightarrow> (vault \<times> resource_container) rc_result" where
  "vault_recall_confidential om v cs a =
     and_then (recall_confidential_commitments om (v_container v) cs a) (\<lambda>(c, r). Ok (v\<lparr>v_container := c\<rparr>, r))"

definition vault_set_freeze :: "vault \<Rightarrow> vault_freeze_flags \<Rightarrow> vault" where
  "vault_set_freeze v fl = v\<lparr>v_freeze_flags := fl\<rparr>"

definition vault_unfreeze :: "vault \<Rightarrow> vault" where
  "vault_unfreeze v = vault_set_freeze v 0"

definition vault_lock_all :: "overflow_mode \<Rightarrow> vault \<Rightarrow> vault_id \<Rightarrow> (vault \<times> locked_resource) rc_result" where
  "vault_lock_all om v i = and_then (lock_all om (v_container v)) (\<lambda>(c, l).
     Ok (v\<lparr>v_container := c\<rparr>, \<lparr>lr_container = VaultRef i, lr_locked = l\<rparr>))"

definition vault_lock_by_non_fungible_ids ::
  "vault \<Rightarrow> vault_id \<Rightarrow> non_fungible_id fset \<Rightarrow> (vault \<times> locked_resource) rc_result" where
  "vault_lock_by_non_fungible_ids v i ids = and_then (lock_by_non_fungible_ids (v_container v) ids) (\<lambda>(c, l).
     Ok (v\<lparr>v_container := c\<rparr>, \<lparr>lr_container = VaultRef i, lr_locked = l\<rparr>))"

definition vault_lock_by_amount ::
  "overflow_mode \<Rightarrow> vault \<Rightarrow> vault_id \<Rightarrow> amount \<Rightarrow> (vault \<times> locked_resource) rc_result" where
  "vault_lock_by_amount om v i a = and_then (lock_by_amount om (v_container v) a) (\<lambda>(c, l).
     Ok (v\<lparr>v_container := c\<rparr>, \<lparr>lr_container = VaultRef i, lr_locked = l\<rparr>))"

definition vault_unlock :: "overflow_mode \<Rightarrow> vault \<Rightarrow> resource_proof \<Rightarrow> vault rc_result" where
  "vault_unlock om v p =
     and_then (unlock om (v_container v) (proof_resource_container p)) (\<lambda>c. Ok (v\<lparr>v_container := c\<rparr>))"

section \<open>The contract of a holder\<close>

text \<open>What a holder promises: \<open>put\<close>, \<open>take_out\<close>, \<open>lock_part\<close> and \<open>release\<close> keep the contents well
  formed and move assets without creating or destroying any.\<close>

locale resource_holder =
  fixes content :: "'h \<Rightarrow> resource_container"
    and put :: "'h \<Rightarrow> resource_container \<Rightarrow> 'h rc_result"
    and take_out :: "'h \<Rightarrow> amount \<Rightarrow> ('h \<times> resource_container) rc_result"
    and lock_part :: "'h \<Rightarrow> amount \<Rightarrow> ('h \<times> resource_container) rc_result"
    and release :: "'h \<Rightarrow> resource_container \<Rightarrow> 'h rc_result"
  assumes put_law: "\<lbrakk>wf_container (content h); wf_container d; mergeable (content h) d\<rbrakk> \<Longrightarrow>
      \<exists>h'. put h d = Ok h' \<and> wf_container (content h') \<and>
        (\<forall>a. holds_free (content h') a = holds_free (content h) a + holds_free d a) \<and>
        (\<forall>a. holds_locked (content h') a = holds_locked (content h) a)"
    and take_out_law: "\<lbrakk>wf_container (content h); take_out h n = Ok (h', r)\<rbrakk> \<Longrightarrow>
      0 < n \<and> n \<le> amount_of (content h) \<and> wf_container (content h') \<and> wf_container r \<and>
      amount_of r = n \<and> put h' r = Ok h \<and>
      (\<forall>a. holds_free (content h') a + holds_free r a = holds_free (content h) a) \<and>
      (\<forall>a. holds_locked (content h') a = holds_locked (content h) a)"
    and lock_part_law: "\<lbrakk>wf_container (content h); lock_part h n = Ok (h', p); 0 \<le> n\<rbrakk> \<Longrightarrow>
      wf_container (content h') \<and> wf_container p \<and> release h' p = Ok h \<and>
      (\<forall>a. holds_free (content h') a + holds_free p a = holds_free (content h) a) \<and>
      (\<forall>a. holds_locked (content h') a = holds_locked (content h) a + holds_free p a)"
begin

definition total :: "'h \<Rightarrow> asset \<Rightarrow> int" where
  "total h a = holds_free (content h) a + holds_locked (content h) a"

lemma put_total:
  "\<lbrakk>wf_container (content h); wf_container d; mergeable (content h) d\<rbrakk> \<Longrightarrow>
     \<exists>h'. put h d = Ok h' \<and> wf_container (content h') \<and> (\<forall>a. total h' a = total h a + holds_free d a)"
  using put_law[of h d] by (auto simp: total_def)

lemma take_out_total:
  "\<lbrakk>wf_container (content h); take_out h n = Ok (h', r)\<rbrakk> \<Longrightarrow>
     wf_container (content h') \<and> wf_container r \<and> total h' a + holds_free r a = total h a"
  using take_out_law[of h n h' r] by (simp add: total_def)

lemma lock_part_total:
  assumes "wf_container (content h)" "lock_part h n = Ok (h', p)" "0 \<le> n"
  shows "total h' a = total h a"
proof -
  have "holds_free (content h') a + holds_free p a = holds_free (content h) a"
    "holds_locked (content h') a = holds_locked (content h) a + holds_free p a"
    using lock_part_law[OF assms] by simp_all
  then show ?thesis by (simp add: total_def)
qed

end

text \<open>Moving value from one kind of holder to another.\<close>

locale holder_transfer =
  src: resource_holder content1 put1 take_out1 lock_part1 release1 +
  dst: resource_holder content2 put2 take_out2 lock_part2 release2
  for content1 :: "'g \<Rightarrow> resource_container" and put1 take_out1 lock_part1 release1
    and content2 :: "'h \<Rightarrow> resource_container" and put2 take_out2 lock_part2 release2
begin

lemma transfer_conserves:
  assumes "wf_container (content1 g)" "wf_container (content2 h)"
    and "take_out1 g n = Ok (g', r)" "mergeable (content2 h) r"
  shows "\<exists>h'. put2 h r = Ok h' \<and> wf_container (content1 g') \<and> wf_container (content2 h') \<and>
    (\<forall>a. src.total g' a + dst.total h' a = src.total g a + dst.total h a)"
proof -
  have t: "wf_container (content1 g')" "wf_container r" "\<And>a. src.total g' a + holds_free r a = src.total g a"
    using src.take_out_total[OF assms(1,3)] by auto
  obtain h' where "put2 h r = Ok h'" "wf_container (content2 h')" "\<forall>a. dst.total h' a = dst.total h a + holds_free r a"
    using dst.put_total[OF assms(2) t(2) assms(4)] by blast
  then show ?thesis using t by (intro exI[of _ h']) (auto simp: algebra_simps)
qed

end

section \<open>Buckets and vaults keep the contract\<close>

lemma withdraw_OkD:
  assumes "wf_container c" "withdraw om c n = Ok (c', r)"
  shows "0 < n \<and> n \<le> amount_of c \<and> wf_container c' \<and> wf_container r \<and> amount_of r = n \<and>
    deposit om c' r = Ok c \<and> (\<forall>a. holds_free c' a + holds_free r a = holds_free c a) \<and>
    (\<forall>a. holds_locked c' a = holds_locked c a)"
proof -
  have n: "0 < n" "n \<le> amount_of c"
    using assms(2) withdraw_not_ok(1)[of n om c] withdraw_not_ok(2)[of n c om]
    by (force simp: not_le[symmetric])+
  show ?thesis by (rule withdraw_ok[OF assms(1) n, where om = om]) (use assms(2) n in simp)
qed

lemma lock_by_amount_OkD:
  assumes "wf_container c" "lock_by_amount om c n = Ok (c', p)" "0 \<le> n"
  shows "wf_container c' \<and> wf_container p \<and> unlock om c' p = Ok c \<and>
    (\<forall>a. holds_free c' a + holds_free p a = holds_free c a) \<and>
    (\<forall>a. holds_locked c' a = holds_locked c a + holds_free p a)"
proof -
  have n: "n \<le> amount_of c"
    using assms(2) by (auto simp: lock_by_amount_def amount_of_def split: resource_container.splits if_splits)
  show ?thesis by (rule lock_by_amount_ok[OF assms(1,3) n, where om = om]) (use assms(2) in simp)
qed

definition bucket_put :: "overflow_mode \<Rightarrow> bucket \<Rightarrow> resource_container \<Rightarrow> bucket rc_result" where
  "bucket_put om b d = bucket_join om b (bucket_new (b_id b) d)"

definition bucket_lock_part :: "overflow_mode \<Rightarrow> bucket \<Rightarrow> amount \<Rightarrow> (bucket \<times> resource_container) rc_result" where
  "bucket_lock_part om b n = and_then (bucket_lock_by_amount om b n) (\<lambda>(b', l). Ok (b', lr_locked l))"

definition bucket_release :: "overflow_mode \<Rightarrow> bucket \<Rightarrow> resource_container \<Rightarrow> bucket rc_result" where
  "bucket_release om b p = bucket_unlock om b (proof_new \<lparr>lr_container = BucketRef (b_id b), lr_locked = p\<rparr>)"

definition vault_put :: "overflow_mode \<Rightarrow> vault \<Rightarrow> resource_container \<Rightarrow> vault rc_result" where
  "vault_put om v d = vault_deposit om v (bucket_new 0 d)"

definition vault_lock_part :: "overflow_mode \<Rightarrow> vault \<Rightarrow> amount \<Rightarrow> (vault \<times> resource_container) rc_result" where
  "vault_lock_part om v n = and_then (vault_lock_by_amount om v 0 n) (\<lambda>(v', l). Ok (v', lr_locked l))"

definition vault_release :: "overflow_mode \<Rightarrow> vault \<Rightarrow> resource_container \<Rightarrow> vault rc_result" where
  "vault_release om v p = vault_unlock om v (proof_new \<lparr>lr_container = VaultRef 0, lr_locked = p\<rparr>)"

lemmas bucket_holder_defs = bucket_put_def bucket_lock_part_def bucket_release_def bucket_join_def
  bucket_new_def bucket_take_def bucket_lock_by_amount_def bucket_unlock_def proof_new_def
  proof_resource_container_def

lemmas vault_holder_defs = vault_put_def vault_lock_part_def vault_release_def vault_deposit_def
  bucket_new_def vault_withdraw_def vault_lock_by_amount_def vault_unlock_def proof_new_def
  proof_resource_container_def

interpretation bucket_holder: resource_holder b_container "bucket_put om" "bucket_take om"
  "bucket_lock_part om" "bucket_release om" for om
proof
  fix h h' :: bucket and d r p :: resource_container and n :: amount
  show "\<exists>h'. bucket_put om h d = Ok h' \<and> wf_container (b_container h') \<and>
      (\<forall>a. holds_free (b_container h') a = holds_free (b_container h) a + holds_free d a) \<and>
      (\<forall>a. holds_locked (b_container h') a = holds_locked (b_container h) a)"
    if "wf_container (b_container h)" "wf_container d" "mergeable (b_container h) d"
    by (rule deposit_ok[OF that, where om = om]) (simp add: bucket_holder_defs)
  show "0 < n \<and> n \<le> amount_of (b_container h) \<and> wf_container (b_container h') \<and> wf_container r \<and>
      amount_of r = n \<and> bucket_put om h' r = Ok h \<and>
      (\<forall>a. holds_free (b_container h') a + holds_free r a = holds_free (b_container h) a) \<and>
      (\<forall>a. holds_locked (b_container h') a = holds_locked (b_container h) a)"
    if wf: "wf_container (b_container h)" and ok: "bucket_take om h n = Ok (h', r)"
  proof -
    obtain c where c: "withdraw om (b_container h) n = Ok (c, r)" "h' = h\<lparr>b_container := c\<rparr>"
      using ok by (auto simp: bucket_holder_defs result_simps)
    show ?thesis using withdraw_OkD[OF wf c(1)] by (simp add: c(2) bucket_holder_defs)
  qed
  show "wf_container (b_container h') \<and> wf_container p \<and> bucket_release om h' p = Ok h \<and>
      (\<forall>a. holds_free (b_container h') a + holds_free p a = holds_free (b_container h) a) \<and>
      (\<forall>a. holds_locked (b_container h') a = holds_locked (b_container h) a + holds_free p a)"
    if wf: "wf_container (b_container h)" and ok: "bucket_lock_part om h n = Ok (h', p)" and n: "0 \<le> n"
  proof -
    obtain c where c: "lock_by_amount om (b_container h) n = Ok (c, p)" "h' = h\<lparr>b_container := c\<rparr>"
      using ok by (auto simp: bucket_holder_defs result_simps)
    show ?thesis using lock_by_amount_OkD[OF wf c(1) n] by (simp add: c(2) bucket_holder_defs)
  qed
qed

interpretation vault_holder: resource_holder v_container "vault_put om" "vault_withdraw om"
  "vault_lock_part om" "vault_release om" for om
proof
  fix h h' :: vault and d r p :: resource_container and n :: amount
  show "\<exists>h'. vault_put om h d = Ok h' \<and> wf_container (v_container h') \<and>
      (\<forall>a. holds_free (v_container h') a = holds_free (v_container h) a + holds_free d a) \<and>
      (\<forall>a. holds_locked (v_container h') a = holds_locked (v_container h) a)"
    if "wf_container (v_container h)" "wf_container d" "mergeable (v_container h) d"
    by (rule deposit_ok[OF that, where om = om]) (simp add: vault_holder_defs)
  show "0 < n \<and> n \<le> amount_of (v_container h) \<and> wf_container (v_container h') \<and> wf_container r \<and>
      amount_of r = n \<and> vault_put om h' r = Ok h \<and>
      (\<forall>a. holds_free (v_container h') a + holds_free r a = holds_free (v_container h) a) \<and>
      (\<forall>a. holds_locked (v_container h') a = holds_locked (v_container h) a)"
    if wf: "wf_container (v_container h)" and ok: "vault_withdraw om h n = Ok (h', r)"
  proof -
    obtain c where c: "withdraw om (v_container h) n = Ok (c, r)" "h' = h\<lparr>v_container := c\<rparr>"
      using ok by (auto simp: vault_holder_defs result_simps)
    show ?thesis using withdraw_OkD[OF wf c(1)] by (simp add: c(2) vault_holder_defs)
  qed
  show "wf_container (v_container h') \<and> wf_container p \<and> vault_release om h' p = Ok h \<and>
      (\<forall>a. holds_free (v_container h') a + holds_free p a = holds_free (v_container h) a) \<and>
      (\<forall>a. holds_locked (v_container h') a = holds_locked (v_container h) a + holds_free p a)"
    if wf: "wf_container (v_container h)" and ok: "vault_lock_part om h n = Ok (h', p)" and n: "0 \<le> n"
  proof -
    obtain c where c: "lock_by_amount om (v_container h) n = Ok (c, p)" "h' = h\<lparr>v_container := c\<rparr>"
      using ok by (auto simp: vault_holder_defs result_simps)
    show ?thesis using lock_by_amount_OkD[OF wf c(1) n] by (simp add: c(2) vault_holder_defs)
  qed
qed

interpretation vault_to_vault: holder_transfer v_container "vault_put om" "vault_withdraw om"
  "vault_lock_part om" "vault_release om" v_container "vault_put om" "vault_withdraw om"
  "vault_lock_part om" "vault_release om" for om
  by unfold_locales

section \<open>Properties\<close>

text \<open>Moving an amount from one vault to another through a bucket, the path every payment takes,
  neither creates nor destroys value: the deposit of what was withdrawn succeeds, both vaults stay well
  formed, and for every asset the free and locked holdings of the two vaults add up to the same total
  as before.\<close>

theorem vault_transfer_conserves:
  assumes "wf_container (v_container v)" and "wf_container (v_container w)"
    and "vault_withdraw om v n = Ok (v', r)" and "mergeable (v_container w) r"
  shows "\<exists>w'. vault_deposit om w (bucket_new i r) = Ok w' \<and>
    wf_container (v_container v') \<and> wf_container (v_container w') \<and>
    (\<forall>a. holds_free (v_container v') a + holds_locked (v_container v') a +
          (holds_free (v_container w') a + holds_locked (v_container w') a)
        = holds_free (v_container v) a + holds_locked (v_container v) a +
          (holds_free (v_container w) a + holds_locked (v_container w) a))"
  using vault_to_vault.transfer_conserves[OF assms]
  by (simp add: vault_put_def vault_holder.total_def vault_deposit_def bucket_new_def)

theorem vault_transfer_conserves_witness:
  "\<exists>w'. vault_deposit PanicOnOverflow (vault_new (Fungible 8 1 0)) (bucket_new 3 (Fungible 8 25 0)) = Ok w' \<and>
     holds_free (v_container w') Units = 26"
  using vault_transfer_conserves[of "vault_new (Fungible 8 40 0)" "vault_new (Fungible 8 1 0)" PanicOnOverflow 25
      "vault_new (Fungible 8 15 0)" "Fungible 8 25 0" 3]
  by (auto simp: vault_new_def vault_withdraw_def withdraw_def rc_ctor_defs amount_sub_def i192_op_def
      wf_container_def mergeable_def in_i192_def Amount_MIN_def Amount_MAX_def vault_deposit_def bucket_new_def
      deposit_def amount_add_def holding_defs)

text \<open>The iterator over the set flags stops at the first flag that is not set: a vault frozen for
  withdrawals only is reported as having no flag.\<close>

lemma flags_iter_stops_early:
  "flags_contains 2 FreezeWithdrawals \<and> flags_iter 2 = []"
  "flags_iter 3 = [FreezeDeposits, FreezeWithdrawals]"
  by (simp_all add: flags_contains_def flags_iter_def flags_next_def ALL_FLAGS_def numeral_3_eq_3 flag_from_byte_def)
end
