(* ===== verification/AccessRules.thy ===== *)
theory AccessRules
  imports Confidential
begin

text \<open>
  Access and owner rules as data: crates/template_lib/src/auth (access_rules.rs, owner_rule.rs,
  auth_hook.rs). How a rule is decided against the state of a running transaction is in the theory
  Authorization.
\<close>

record non_fungible_address =
  nf_resource_address :: resource_address
  nf_id :: non_fungible_id

datatype rule_requirement =
    RequireResource resource_address
  | RequireNonFungible non_fungible_address
  | ScopedToComponent component_address
  | ScopedToTemplate template_address

datatype require_rule =
    RequireOne rule_requirement
  | RequireAnyOf "rule_requirement list"
  | RequireAllOf "rule_requirement list"

datatype restricted_access_rule =
    Require require_rule
  | AnyOf "restricted_access_rule list"
  | AllOf "restricted_access_rule list"

datatype access_rule =
    AllowAll
  | DenyAll
  | Restricted restricted_access_rule

definition restricted_and :: "restricted_access_rule \<Rightarrow> restricted_access_rule \<Rightarrow> restricted_access_rule" where
  "restricted_and a b = AllOf [a, b]"

definition restricted_or :: "restricted_access_rule \<Rightarrow> restricted_access_rule \<Rightarrow> restricted_access_rule" where
  "restricted_or a b = AnyOf [a, b]"

fun access_rule_and :: "access_rule \<Rightarrow> access_rule \<Rightarrow> access_rule" where
  "access_rule_and AllowAll AllowAll = AllowAll"
| "access_rule_and DenyAll _ = DenyAll"
| "access_rule_and _ DenyAll = DenyAll"
| "access_rule_and (Restricted a) (Restricted b) = Restricted (restricted_and a b)"
| "access_rule_and (Restricted a) AllowAll = Restricted a"
| "access_rule_and AllowAll (Restricted a) = Restricted a"

fun access_rule_or :: "access_rule \<Rightarrow> access_rule \<Rightarrow> access_rule" where
  "access_rule_or AllowAll _ = AllowAll"
| "access_rule_or _ AllowAll = AllowAll"
| "access_rule_or DenyAll DenyAll = DenyAll"
| "access_rule_or (Restricted a) (Restricted b) = Restricted (restricted_or a b)"
| "access_rule_or (Restricted a) DenyAll = Restricted a"
| "access_rule_or DenyAll (Restricted a) = Restricted a"

record component_access_rules =
  method_access :: "(string, access_rule) fmap"
  default_rule :: access_rule

definition component_access_rules_new :: component_access_rules where
  "component_access_rules_new = \<lparr>method_access = fmempty, default_rule = DenyAll\<rparr>"

definition component_access_rules_allow_all :: component_access_rules where
  "component_access_rules_allow_all = \<lparr>method_access = fmempty, default_rule = AllowAll\<rparr>"

definition add_method_rule :: "component_access_rules \<Rightarrow> string \<Rightarrow> access_rule \<Rightarrow> component_access_rules" where
  "add_method_rule r name rule = r\<lparr>method_access := fmupd name rule (method_access r)\<rparr>"

definition get_method_access_rule :: "component_access_rules \<Rightarrow> string \<Rightarrow> access_rule" where
  "get_method_access_rule r name =
     (case fmlookup (method_access r) name of None \<Rightarrow> default_rule r | Some rule \<Rightarrow> rule)"

datatype resource_auth_action =
    ActMint | ActBurn | ActRecall | ActWithdraw | ActDeposit | ActUpdateNonFungibleData
  | ActUpdateAccessRules | ActFreeze

definition is_recall :: "resource_auth_action \<Rightarrow> bool" where
  "is_recall a \<longleftrightarrow> a = ActRecall"

record resource_access_rules =
  mintable :: access_rule
  burnable :: access_rule
  recallable :: access_rule
  withdrawable :: access_rule
  depositable :: access_rule
  update_non_fungible_data :: access_rule
  update_access_rules :: access_rule
  freezable :: access_rule

definition resource_access_rules_new :: resource_access_rules where
  "resource_access_rules_new =
     \<lparr>mintable = DenyAll, burnable = DenyAll, recallable = DenyAll, withdrawable = AllowAll,
      depositable = AllowAll, update_non_fungible_data = AllowAll, update_access_rules = DenyAll,
      freezable = DenyAll\<rparr>"

definition resource_access_rules_deny_all :: resource_access_rules where
  "resource_access_rules_deny_all =
     \<lparr>mintable = DenyAll, burnable = DenyAll, recallable = DenyAll, withdrawable = DenyAll,
      depositable = DenyAll, update_non_fungible_data = DenyAll, update_access_rules = DenyAll,
      freezable = DenyAll\<rparr>"

primrec get_access_rule :: "resource_access_rules \<Rightarrow> resource_auth_action \<Rightarrow> access_rule" where
  "get_access_rule r ActMint = mintable r"
| "get_access_rule r ActBurn = burnable r"
| "get_access_rule r ActRecall = recallable r"
| "get_access_rule r ActWithdraw = withdrawable r"
| "get_access_rule r ActDeposit = depositable r"
| "get_access_rule r ActUpdateNonFungibleData = update_non_fungible_data r"
| "get_access_rule r ActUpdateAccessRules = update_access_rules r"
| "get_access_rule r ActFreeze = freezable r"

datatype owner_rule =
    OwnedBySigner
  | NoOwner
  | ByAccessRule access_rule
  | ByPublicKey public_key

record ownership =
  own_key :: "public_key option"
  own_rule :: owner_rule

record auth_hook =
  hook_component_address :: component_address
  hook_method :: string

end
