(* ===== verification/Substates.thy ===== *)
theory Substates
  imports Holders AccessRules
begin

text \<open>
  Substates, the versioned objects of the ledger: crates/engine_types/src (substate.rs, resource.rs,
  component.rs, non_fungible.rs, utxo.rs, validator_fee.rs, published_template.rs,
  transaction_receipt.rs, fees.rs). The CBOR value type of the \<open>ciborium\<close> crate, which components
  and tokens carry as opaque data, is \<open>bor_value\<close>.
\<close>

datatype bor_value =
    BorInteger int
  | BorBytes "8 word list"
  | BorFloat "64 word"
  | BorText string
  | BorBool bool
  | BorNull
  | BorTag nat bor_value
  | BorArray "bor_value list"
  | BorMap "(bor_value \<times> bor_value) list"

type_synonym metadata = "(string, string) fmap"

section \<open>Identifiers\<close>

record utxo_address =
  utxo_resource_address :: resource_address
  utxo_id :: commitment

datatype substate_id =
    ComponentId component_address
  | ResourceId resource_address
  | VaultId vault_id
  | ClaimedOutputTombstoneId bytes32
  | NonFungibleId non_fungible_address
  | TransactionReceiptId bytes32
  | TemplateId bytes32
  | ValidatorFeePoolId bytes32
  | UtxoId utxo_address

definition as_component_address :: "substate_id \<Rightarrow> component_address option" where
  "as_component_address i = (case i of ComponentId a \<Rightarrow> Some a | _ \<Rightarrow> None)"

definition as_resource_address :: "substate_id \<Rightarrow> resource_address option" where
  "as_resource_address i = (case i of ResourceId a \<Rightarrow> Some a | _ \<Rightarrow> None)"

definition as_vault_id :: "substate_id \<Rightarrow> vault_id option" where
  "as_vault_id i = (case i of VaultId a \<Rightarrow> Some a | _ \<Rightarrow> None)"

definition as_utxo_address :: "substate_id \<Rightarrow> utxo_address option" where
  "as_utxo_address i = (case i of UtxoId a \<Rightarrow> Some a | _ \<Rightarrow> None)"

definition as_non_fungible_address :: "substate_id \<Rightarrow> non_fungible_address option" where
  "as_non_fungible_address i = (case i of NonFungibleId a \<Rightarrow> Some a | _ \<Rightarrow> None)"

text \<open>The network constants, read as big endian words of their 32 bytes.\<close>

definition PUBLIC_IDENTITY_RESOURCE_ADDRESS :: resource_address where
  "PUBLIC_IDENTITY_RESOURCE_ADDRESS = push_bit 248 1"

definition XTR :: resource_address where
  "XTR = word_rcat (replicate 32 (1 :: 8 word))"

definition is_root :: "substate_id \<Rightarrow> bool" where
  "is_root i = (case i of ComponentId _ \<Rightarrow> True | UtxoId _ \<Rightarrow> True | ClaimedOutputTombstoneId _ \<Rightarrow> True | _ \<Rightarrow> False)"

definition is_public_key_identity :: "substate_id \<Rightarrow> bool" where
  "is_public_key_identity i = (case i of
     NonFungibleId a \<Rightarrow> nf_resource_address a = PUBLIC_IDENTITY_RESOURCE_ADDRESS | _ \<Rightarrow> False)"

definition is_vault :: "substate_id \<Rightarrow> bool" where
  "is_vault i = (case i of VaultId _ \<Rightarrow> True | _ \<Rightarrow> False)"

definition is_transaction_receipt :: "substate_id \<Rightarrow> bool" where
  "is_transaction_receipt i = (case i of TransactionReceiptId _ \<Rightarrow> True | _ \<Rightarrow> False)"

definition is_template :: "substate_id \<Rightarrow> bool" where
  "is_template i = (case i of TemplateId _ \<Rightarrow> True | _ \<Rightarrow> False)"

section \<open>Resources\<close>

record resource =
  r_resource_type :: resource_type
  r_owner_rule :: owner_rule
  r_owner_key :: "public_key option"
  r_access_rules :: resource_access_rules
  r_metadata :: metadata
  r_total_supply :: "amount option"
  r_view_key :: "public_key option"
  r_auth_hook :: "auth_hook option"
  r_divisibility :: nat

definition resource_new ::
  "resource_type \<Rightarrow> public_key option \<Rightarrow> owner_rule \<Rightarrow> resource_access_rules \<Rightarrow> metadata
     \<Rightarrow> public_key option \<Rightarrow> auth_hook option \<Rightarrow> nat \<Rightarrow> bool \<Rightarrow> resource" where
  "resource_new ty okey orule rules md vk hook dv tracking =
     \<lparr>r_resource_type = ty, r_owner_rule = orule, r_owner_key = okey, r_access_rules = rules,
      r_metadata = md, r_total_supply = (if tracking then Some 0 else None), r_view_key = vk,
      r_auth_hook = hook, r_divisibility = (if ty = TNonFungible then 0 else dv)\<rparr>"

definition resource_ownership :: "resource \<Rightarrow> ownership" where
  "resource_ownership r = \<lparr>own_key = r_owner_key r, own_rule = r_owner_rule r\<rparr>"

definition to_view_key_public_key :: "crypto \<Rightarrow> resource \<Rightarrow> public_key option option" where
  "to_view_key_public_key cr r = (case r_view_key r of
     None \<Rightarrow> Some None
   | Some vk \<Rightarrow> if point_ok cr vk then Some (Some vk) else None)"

definition increase_total_supply :: "resource \<Rightarrow> amount \<Rightarrow> (resource \<times> bool, 'e) result" where
  "increase_total_supply r amt =
     (if \<not> is_non_negative amt then Panic ''Invariant violation in increase_total_supply''
      else case r_total_supply r of
        None \<Rightarrow> Ok (r, True)
      | Some s \<Rightarrow> (case checked_add s amt of
          Some s' \<Rightarrow> Ok (r\<lparr>r_total_supply := Some s'\<rparr>, True)
        | None \<Rightarrow> Ok (r, False)))"

definition decrease_total_supply :: "overflow_mode \<Rightarrow> resource \<Rightarrow> amount \<Rightarrow> (resource, 'e) result" where
  "decrease_total_supply om r amt =
     (if \<not> is_non_negative amt then Panic ''Invariant violation in decrease_total_supply''
      else case r_total_supply r of
        None \<Rightarrow> Ok r
      | Some s \<Rightarrow> and_then (checked_sub_positive om s amt) (\<lambda>v.
          and_then (expect ''decrease total supply by more than total supply'' v)
            (\<lambda>s'. Ok (r\<lparr>r_total_supply := Some s'\<rparr>))))"

section \<open>Components, tokens, outputs and fee pools\<close>

record component_header =
  c_template_address :: template_address
  c_module_name :: string
  c_owner_key :: "public_key option"
  c_owner_rule :: owner_rule
  c_access_rules :: component_access_rules
  c_entity_id :: "160 word"
  c_state :: bor_value

definition component_ownership :: "component_header \<Rightarrow> ownership" where
  "component_ownership c = \<lparr>own_key = c_owner_key c, own_rule = c_owner_rule c\<rparr>"

text \<open>\<open>NonFungibleContainer\<close>: \<open>None\<close> once the token is burnt.\<close>

record non_fungible_data =
  nf_data :: bor_value
  nf_mutable_data :: bor_value

type_synonym non_fungible_container = "non_fungible_data option"

definition nft_is_burnt :: "non_fungible_container \<Rightarrow> bool" where
  "nft_is_burnt c \<longleftrightarrow> c = None"

definition nft_burn :: "non_fungible_container \<Rightarrow> non_fungible_container" where
  "nft_burn c = None"

record utxo_output =
  uto_output :: private_output
  uto_owner_public_key :: public_key
  uto_tag :: nat

record utxo =
  ux_output :: "utxo_output option"
  ux_is_frozen :: bool

definition utxo_new :: "utxo_output \<Rightarrow> utxo" where
  "utxo_new o' = \<lparr>ux_output = Some o', ux_is_frozen = False\<rparr>"

definition utxo_freeze :: "utxo \<Rightarrow> utxo" where "utxo_freeze u = u\<lparr>ux_is_frozen := True\<rparr>"
definition utxo_unfreeze :: "utxo \<Rightarrow> utxo" where "utxo_unfreeze u = u\<lparr>ux_is_frozen := False\<rparr>"
definition utxo_burn :: "utxo \<Rightarrow> utxo" where "utxo_burn u = u\<lparr>ux_output := None\<rparr>"

record validator_fee_pool =
  vfp_claim_public_key :: public_key
  vfp_amount :: nat

definition fee_pool_ownership :: "validator_fee_pool \<Rightarrow> ownership" where
  "fee_pool_ownership p = \<lparr>own_key = Some (vfp_claim_public_key p), own_rule = OwnedBySigner\<rparr>"

definition withdraw_direct :: "validator_fee_pool \<Rightarrow> nat \<Rightarrow> validator_fee_pool \<times> bool" where
  "withdraw_direct p a = (if a \<le> vfp_amount p then (p\<lparr>vfp_amount := vfp_amount p - a\<rparr>, True) else (p, False))"

definition deposit_direct :: "validator_fee_pool \<Rightarrow> nat \<Rightarrow> validator_fee_pool \<times> bool" where
  "deposit_direct p a =
     (if vfp_amount p + a \<le> u64_max then (p\<lparr>vfp_amount := vfp_amount p + a\<rparr>, True) else (p, False))"

definition fee_pool_withdraw_all ::
  "validator_fee_pool \<Rightarrow> (validator_fee_pool \<times> resource_container) rc_result" where
  "fee_pool_withdraw_all p =
     (if vfp_amount p = 0 then Err InsufficientBalance
      else Ok (p\<lparr>vfp_amount := 0\<rparr>, Stealth XTR (int (vfp_amount p)) 0))"

record published_template =
  pt_author :: public_key
  pt_binary_hash :: bytes32

record validator_fee_withdrawal =
  vfw_address :: bytes32
  vfw_amount :: nat

section \<open>Fee accounting data\<close>

datatype fee_source =
    FeeInitial | FeeRuntimeCall | FeeStorage | FeeEvents | FeeLogs | FeeTransactionWeight
  | FeeSignatureVerification

type_synonym fee_breakdown = "(fee_source \<times> nat) list"

record fee_receipt =
  total_fee_payment :: nat
  total_fees_paid :: nat
  total_fee_overcharge :: nat
  cost_breakdown :: fee_breakdown

record event =
  ev_substate_id :: "substate_id option"
  ev_template_address :: template_address
  ev_tx_hash :: bytes32
  ev_topic :: string
  ev_payload :: metadata

datatype log_level = LogError | LogWarn | LogInfo | LogDebug

record log_entry =
  log_message :: string
  log_lvl :: log_level

record transaction_receipt =
  tr_transaction_hash :: bytes32
  tr_events :: "event list"
  tr_logs :: "log_entry list"
  tr_fee_receipt :: fee_receipt

section \<open>Substates and diffs\<close>

datatype substate_value =
    ComponentValue component_header
  | ResourceValue resource
  | VaultValue vault
  | NonFungibleValue non_fungible_container
  | ClaimedOutputTombstoneValue nat
  | TransactionReceiptValue transaction_receipt
  | TemplateValue published_template
  | ValidatorFeePoolValue validator_fee_pool
  | UtxoValue utxo

definition as_component :: "substate_value \<Rightarrow> component_header option" where
  "as_component v = (case v of ComponentValue c \<Rightarrow> Some c | _ \<Rightarrow> None)"

definition as_resource :: "substate_value \<Rightarrow> resource option" where
  "as_resource v = (case v of ResourceValue r \<Rightarrow> Some r | _ \<Rightarrow> None)"

definition as_vault :: "substate_value \<Rightarrow> vault option" where
  "as_vault v = (case v of VaultValue x \<Rightarrow> Some x | _ \<Rightarrow> None)"

definition as_non_fungible :: "substate_value \<Rightarrow> non_fungible_container option" where
  "as_non_fungible v = (case v of NonFungibleValue x \<Rightarrow> Some x | _ \<Rightarrow> None)"

definition as_validator_fee_pool :: "substate_value \<Rightarrow> validator_fee_pool option" where
  "as_validator_fee_pool v = (case v of ValidatorFeePoolValue x \<Rightarrow> Some x | _ \<Rightarrow> None)"

definition as_utxo :: "substate_value \<Rightarrow> utxo option" where
  "as_utxo v = (case v of UtxoValue x \<Rightarrow> Some x | _ \<Rightarrow> None)"

record substate =
  sub_value :: substate_value
  sub_version :: nat

definition previous_version :: "substate \<Rightarrow> nat option" where
  "previous_version s = (if sub_version s = 0 then None else Some (sub_version s - 1))"

record substate_diff =
  up_substates :: "(substate_id \<times> substate) list"
  down_substates :: "(substate_id \<times> nat) list"
  fee_withdrawals :: "validator_fee_withdrawal list"

definition diff_new :: substate_diff where
  "diff_new = \<lparr>up_substates = [], down_substates = [], fee_withdrawals = []\<rparr>"

definition diff_up :: "substate_diff \<Rightarrow> substate_id \<Rightarrow> substate \<Rightarrow> substate_diff" where
  "diff_up d i s = d\<lparr>up_substates := up_substates d @ [(i, s)]\<rparr>"

definition diff_down :: "substate_diff \<Rightarrow> substate_id \<Rightarrow> nat \<Rightarrow> substate_diff" where
  "diff_down d i v = d\<lparr>down_substates := down_substates d @ [(i, v)]\<rparr>"

definition set_once_fee_withdrawals ::
  "substate_diff \<Rightarrow> validator_fee_withdrawal list \<Rightarrow> (substate_diff, 'e) result" where
  "set_once_fee_withdrawals d ws =
     (if fee_withdrawals d = [] then Ok (d\<lparr>fee_withdrawals := ws\<rparr>)
      else Panic ''Fee withdrawals set more than once'')"

section \<open>Supply and fee pools\<close>

lemma increase_total_supply_spec:
  "increase_total_supply r amt = Ok (r', ok) \<Longrightarrow> 0 \<le> amt \<and>
     (case r_total_supply r of
        None \<Rightarrow> ok \<and> r' = r
      | Some s \<Rightarrow> ok = in_i192 (s + amt) \<and>
          r' = (if ok then r\<lparr>r_total_supply := Some (s + amt)\<rparr> else r))"
  by (auto simp: increase_total_supply_def checked_add_def amount_simps
      split: option.splits if_splits)

lemma decrease_total_supply_spec:
  assumes "r_total_supply r = Some s" "0 \<le> s" "in_i192 s" "0 \<le> amt"
  shows "decrease_total_supply om r amt =
    (if amt \<le> s then Ok (r\<lparr>r_total_supply := Some (s - amt)\<rparr>)
     else Panic ''decrease total supply by more than total supply'')"
  using assms by (auto simp: decrease_total_supply_def checked_sub_positive_def
      saturating_sub_positive_def amount_simps)

end
