(* ===== verification/IndexedValues.thy ===== *)
theory IndexedValues
  imports Substates
begin

text \<open>
  The index of well known types inside a CBOR value: crates/tari_bor/src/walker.rs,
  crates/template_lib/src/models/binary_tag.rs and crates/engine_types/src/indexed_value.rs. A tagged
  leaf is decoded by serde; the decoders of the few leaf types are the fields of \<open>bor_decoder\<close>.
\<close>

datatype indexed_value_error = BorError | InvalidTag nat | CustomError

record bor_decoder =
  de_object_key :: "bor_value \<Rightarrow> bytes32 option"
  de_hash :: "bor_value \<Rightarrow> bytes32 option"
  de_array32 :: "bor_value \<Rightarrow> bytes32 option"
  de_u32 :: "bor_value \<Rightarrow> nat option"
  de_non_fungible_address :: "bor_value \<Rightarrow> non_fungible_address option"
  de_metadata :: "bor_value \<Rightarrow> metadata option"
  de_utxo_address :: "bor_value \<Rightarrow> utxo_address option"

datatype well_known_value =
    WkComponentAddress component_address
  | WkResourceAddress resource_address
  | WkTransactionReceiptAddress bytes32
  | WkNonFungibleAddress non_fungible_address
  | WkBucketId bucket_id
  | WkMetadata metadata
  | WkVaultId vault_id
  | WkProofId proof_id
  | WkClaimedOutputTombstoneAddress bytes32
  | WkPublishedTemplateAddress bytes32
  | WkValidatorNodeFeePool bytes32
  | WkComponentAddressAllocation nat
  | WkResourceAddressAllocation nat
  | WkUtxo utxo_address

definition decode_as :: "('a \<Rightarrow> well_known_value) \<Rightarrow> 'a option \<Rightarrow> (well_known_value, indexed_value_error) result" where
  "decode_as f v = (case v of None \<Rightarrow> Err BorError | Some x \<Rightarrow> Ok (f x))"

definition try_from_tag_and_value ::
  "bor_decoder \<Rightarrow> nat \<Rightarrow> bor_value \<Rightarrow> (well_known_value, indexed_value_error) result" where
  "try_from_tag_and_value d tag v =
     (if tag = 128 then decode_as WkComponentAddress (de_object_key d v)
      else if tag = 129 then decode_as WkMetadata (de_metadata d v)
      else if tag = 130 then decode_as WkNonFungibleAddress (de_non_fungible_address d v)
      else if tag = 131 then decode_as WkResourceAddress (de_object_key d v)
      else if tag = 132 then decode_as WkVaultId (de_object_key d v)
      else if tag = 133 then decode_as WkBucketId (de_u32 d v)
      else if tag = 134 then decode_as WkTransactionReceiptAddress (de_hash d v)
      else if tag = 135 then decode_as WkProofId (de_u32 d v)
      else if tag = 136 then decode_as WkClaimedOutputTombstoneAddress (de_object_key d v)
      else if tag = 137 then decode_as WkPublishedTemplateAddress (de_hash d v)
      else if tag = 138 then decode_as WkValidatorNodeFeePool (de_array32 d v)
      else if tag = 139 then decode_as WkComponentAddressAllocation (de_u32 d v)
      else if tag = 140 then decode_as WkResourceAddressAllocation (de_u32 d v)
      else if tag = 141 then decode_as WkUtxo (de_utxo_address d v)
      else Err (InvalidTag tag))"

section \<open>The walker\<close>

text \<open>A visitor returns its new state and whether to break off the walk.\<close>

type_synonym 's visitor = "'s \<Rightarrow> well_known_value \<Rightarrow> ('s \<times> bool, indexed_value_error) result"

function (sequential) walk_all_depth ::
  "bor_decoder \<Rightarrow> 's visitor \<Rightarrow> nat \<Rightarrow> nat \<Rightarrow> 's \<Rightarrow> bor_value \<Rightarrow> ('s \<times> bool, indexed_value_error) result"
  and walk_values ::
  "bor_decoder \<Rightarrow> 's visitor \<Rightarrow> nat \<Rightarrow> nat \<Rightarrow> 's \<Rightarrow> bor_value list \<Rightarrow> ('s \<times> bool, indexed_value_error) result"
  and walk_pairs ::
  "bor_decoder \<Rightarrow> 's visitor \<Rightarrow> nat \<Rightarrow> nat \<Rightarrow> 's \<Rightarrow> (bor_value \<times> bor_value) list
     \<Rightarrow> ('s \<times> bool, indexed_value_error) result" where
  "walk_all_depth d vis mx depth s v =
     (if depth \<ge> mx then Err CustomError
      else case v of
        BorTag tag val \<Rightarrow> and_then (try_from_tag_and_value d tag val) (vis s)
      | BorArray vs \<Rightarrow> walk_values d vis mx (depth + 1) s vs
      | BorMap ps \<Rightarrow> walk_pairs d vis mx (depth + 1) s ps
      | _ \<Rightarrow> Ok (s, False))"
| "walk_values d vis mx depth s [] = Ok (s, False)"
| "walk_values d vis mx depth s (v # vs) =
     and_then (walk_all_depth d vis mx depth s v) (\<lambda>(s', brk).
       if brk then Ok (s', True) else walk_values d vis mx depth s' vs)"
| "walk_pairs d vis mx depth s [] = Ok (s, False)"
| "walk_pairs d vis mx depth s ((k, v) # ps) =
     and_then (walk_all_depth d vis mx depth s k) (\<lambda>(s', brk).
       if brk then Ok (s', True)
       else and_then (walk_all_depth d vis mx depth s' v) (\<lambda>(s'', brk').
         if brk' then Ok (s'', True) else walk_pairs d vis mx depth s'' ps))"
  by pat_completeness auto
termination
  by (relation "measure (\<lambda>x. case x of
        Inl (_, _, _, _, _, v) \<Rightarrow> size v
      | Inr (Inl (_, _, _, _, _, vs)) \<Rightarrow> size_list size vs
      | Inr (Inr (_, _, _, _, _, ps)) \<Rightarrow> size_list (size_prod size size) ps)") auto

declare walk_all_depth.simps [simp del]

definition walk_all ::
  "bor_decoder \<Rightarrow> 's visitor \<Rightarrow> nat \<Rightarrow> 's \<Rightarrow> bor_value \<Rightarrow> ('s, indexed_value_error) result" where
  "walk_all d vis mx s v = and_then (walk_all_depth d vis mx 0 s v) (\<lambda>(s', _). Ok s')"

definition MAX_VISITOR_DEPTH :: nat where "MAX_VISITOR_DEPTH = 50"

section \<open>The index\<close>

record indexed_well_known_types =
  iw_bucket_ids :: "bucket_id list"
  iw_proof_ids :: "proof_id list"
  iw_component_addresses :: "component_address list"
  iw_resource_addresses :: "resource_address list"
  iw_transaction_receipt_addresses :: "bytes32 list"
  iw_non_fungible_addresses :: "non_fungible_address list"
  iw_vault_ids :: "vault_id list"
  iw_metadata :: "metadata list"
  iw_unclaimed_confidential_output_address :: "bytes32 list"
  iw_published_template_addresses :: "bytes32 list"
  iw_validator_node_fee_pools :: "bytes32 list"
  iw_utxos :: "utxo_address list"
  iw_component_address_allocations :: "nat list"
  iw_resource_address_allocations :: "nat list"

definition indexed_new :: indexed_well_known_types where
  "indexed_new =
     \<lparr>iw_bucket_ids = [], iw_proof_ids = [], iw_component_addresses = [], iw_resource_addresses = [],
      iw_transaction_receipt_addresses = [], iw_non_fungible_addresses = [], iw_vault_ids = [],
      iw_metadata = [], iw_unclaimed_confidential_output_address = [],
      iw_published_template_addresses = [], iw_validator_node_fee_pools = [], iw_utxos = [],
      iw_component_address_allocations = [], iw_resource_address_allocations = []\<rparr>"

definition index_visit :: "indexed_well_known_types visitor" where
  "index_visit i w = Ok (case w of
     WkComponentAddress a \<Rightarrow> i\<lparr>iw_component_addresses := iw_component_addresses i @ [a]\<rparr>
   | WkResourceAddress a \<Rightarrow> i\<lparr>iw_resource_addresses := iw_resource_addresses i @ [a]\<rparr>
   | WkTransactionReceiptAddress a \<Rightarrow>
       i\<lparr>iw_transaction_receipt_addresses := iw_transaction_receipt_addresses i @ [a]\<rparr>
   | WkBucketId b \<Rightarrow> i\<lparr>iw_bucket_ids := iw_bucket_ids i @ [b]\<rparr>
   | WkNonFungibleAddress a \<Rightarrow> i\<lparr>iw_non_fungible_addresses := iw_non_fungible_addresses i @ [a]\<rparr>
   | WkVaultId a \<Rightarrow> i\<lparr>iw_vault_ids := iw_vault_ids i @ [a]\<rparr>
   | WkMetadata m \<Rightarrow> i\<lparr>iw_metadata := iw_metadata i @ [m]\<rparr>
   | WkProofId p \<Rightarrow> i\<lparr>iw_proof_ids := iw_proof_ids i @ [p]\<rparr>
   | WkClaimedOutputTombstoneAddress a \<Rightarrow>
       i\<lparr>iw_unclaimed_confidential_output_address := iw_unclaimed_confidential_output_address i @ [a]\<rparr>
   | WkPublishedTemplateAddress a \<Rightarrow>
       i\<lparr>iw_published_template_addresses := iw_published_template_addresses i @ [a]\<rparr>
   | WkValidatorNodeFeePool a \<Rightarrow> i\<lparr>iw_validator_node_fee_pools := iw_validator_node_fee_pools i @ [a]\<rparr>
   | WkComponentAddressAllocation a \<Rightarrow>
       i\<lparr>iw_component_address_allocations := iw_component_address_allocations i @ [a]\<rparr>
   | WkResourceAddressAllocation a \<Rightarrow>
       i\<lparr>iw_resource_address_allocations := iw_resource_address_allocations i @ [a]\<rparr>
   | WkUtxo a \<Rightarrow> i\<lparr>iw_utxos := iw_utxos i @ [a]\<rparr>, False)"

definition from_value :: "bor_decoder \<Rightarrow> bor_value \<Rightarrow> (indexed_well_known_types, indexed_value_error) result" where
  "from_value d v = walk_all d index_visit MAX_VISITOR_DEPTH indexed_new v"

definition well_known_substate_id :: "well_known_value \<Rightarrow> substate_id option" where
  "well_known_substate_id w = (case w of
     WkComponentAddress a \<Rightarrow> Some (ComponentId a)
   | WkResourceAddress a \<Rightarrow> Some (ResourceId a)
   | WkTransactionReceiptAddress a \<Rightarrow> Some (TransactionReceiptId a)
   | WkNonFungibleAddress a \<Rightarrow> Some (NonFungibleId a)
   | WkVaultId a \<Rightarrow> Some (VaultId a)
   | WkClaimedOutputTombstoneAddress a \<Rightarrow> Some (ClaimedOutputTombstoneId a)
   | WkPublishedTemplateAddress a \<Rightarrow> Some (TemplateId a)
   | WkValidatorNodeFeePool a \<Rightarrow> Some (ValidatorFeePoolId a)
   | WkUtxo a \<Rightarrow> Some (UtxoId a)
   | _ \<Rightarrow> None)"

text \<open>The closure of \<open>value_contains_substate\<close>: an address leaf overwrites \<open>found\<close>, another leaf leaves
  it, and the walk breaks as soon as it is set.\<close>

definition contains_visit :: "substate_id \<Rightarrow> bool visitor" where
  "contains_visit i found w = (let found' = (case well_known_substate_id w of
       None \<Rightarrow> found | Some a \<Rightarrow> i = a) in Ok (found', found'))"

definition value_contains_substate ::
  "bor_decoder \<Rightarrow> bor_value \<Rightarrow> substate_id \<Rightarrow> (bool, indexed_value_error) result" where
  "value_contains_substate d v i = walk_all d (contains_visit i) MAX_VISITOR_DEPTH False v"

definition referenced_substates :: "indexed_well_known_types \<Rightarrow> substate_id list" where
  "referenced_substates i =
     map ComponentId (iw_component_addresses i) @ map ResourceId (iw_resource_addresses i) @
     map TransactionReceiptId (iw_transaction_receipt_addresses i) @
     map NonFungibleId (iw_non_fungible_addresses i) @ map VaultId (iw_vault_ids i) @
     map ClaimedOutputTombstoneId (iw_unclaimed_confidential_output_address i) @
     map UtxoId (iw_utxos i) @ map TemplateId (iw_published_template_addresses i) @
     map ValidatorFeePoolId (iw_validator_node_fee_pools i)"

definition diff_vec :: "'a list \<Rightarrow> 'a list \<Rightarrow> 'a list" where
  "diff_vec a b = filter (\<lambda>x. x \<notin> set b) a"

definition indexed_diff :: "indexed_well_known_types \<Rightarrow> indexed_well_known_types \<Rightarrow> indexed_well_known_types" where
  "indexed_diff a b =
     \<lparr>iw_bucket_ids = diff_vec (iw_bucket_ids a) (iw_bucket_ids b),
      iw_proof_ids = diff_vec (iw_proof_ids a) (iw_proof_ids b),
      iw_component_addresses = diff_vec (iw_component_addresses a) (iw_component_addresses b),
      iw_resource_addresses = diff_vec (iw_resource_addresses a) (iw_resource_addresses b),
      iw_transaction_receipt_addresses =
        diff_vec (iw_transaction_receipt_addresses a) (iw_transaction_receipt_addresses b),
      iw_non_fungible_addresses = diff_vec (iw_non_fungible_addresses a) (iw_non_fungible_addresses b),
      iw_vault_ids = diff_vec (iw_vault_ids a) (iw_vault_ids b),
      iw_metadata = diff_vec (iw_metadata a) (iw_metadata b),
      iw_unclaimed_confidential_output_address =
        diff_vec (iw_unclaimed_confidential_output_address a) (iw_unclaimed_confidential_output_address b),
      iw_published_template_addresses =
        diff_vec (iw_published_template_addresses a) (iw_published_template_addresses b),
      iw_validator_node_fee_pools = diff_vec (iw_validator_node_fee_pools a) (iw_validator_node_fee_pools b),
      iw_utxos = diff_vec (iw_utxos a) (iw_utxos b),
      iw_component_address_allocations =
        diff_vec (iw_component_address_allocations a) (iw_component_address_allocations b),
      iw_resource_address_allocations =
        diff_vec (iw_resource_address_allocations a) (iw_resource_address_allocations b)\<rparr>"

text \<open>\<open>FromIterator\<close> joins indexes field by field, but not all fields.\<close>

definition indexed_extend :: "indexed_well_known_types \<Rightarrow> indexed_well_known_types \<Rightarrow> indexed_well_known_types" where
  "indexed_extend a b = a
     \<lparr>iw_bucket_ids := iw_bucket_ids a @ iw_bucket_ids b,
      iw_proof_ids := iw_proof_ids a @ iw_proof_ids b,
      iw_component_addresses := iw_component_addresses a @ iw_component_addresses b,
      iw_resource_addresses := iw_resource_addresses a @ iw_resource_addresses b,
      iw_transaction_receipt_addresses :=
        iw_transaction_receipt_addresses a @ iw_transaction_receipt_addresses b,
      iw_non_fungible_addresses := iw_non_fungible_addresses a @ iw_non_fungible_addresses b,
      iw_vault_ids := iw_vault_ids a @ iw_vault_ids b,
      iw_metadata := iw_metadata a @ iw_metadata b,
      iw_unclaimed_confidential_output_address :=
        iw_unclaimed_confidential_output_address a @ iw_unclaimed_confidential_output_address b\<rparr>"

definition indexed_from_iter :: "indexed_well_known_types list \<Rightarrow> indexed_well_known_types" where
  "indexed_from_iter vs = foldl indexed_extend indexed_new vs"

text \<open>\<open>IndexedValue\<close>: a value together with its index.\<close>

record indexed_value =
  iv_indexed :: indexed_well_known_types
  iv_value :: bor_value

definition indexed_value_from_value :: "bor_decoder \<Rightarrow> bor_value \<Rightarrow> (indexed_value, indexed_value_error) result" where
  "indexed_value_from_value d v =
     and_then (map_err (\<lambda>_. CustomError) (from_value d v)) (\<lambda>i. Ok \<lparr>iv_indexed = i, iv_value = v\<rparr>)"

text \<open>\<open>IndexedValue::referenced_substates\<close>: the components, resources, non-fungibles and vaults only.\<close>

definition value_referenced_substates :: "indexed_value \<Rightarrow> substate_id list" where
  "value_referenced_substates v =
     map ComponentId (iw_component_addresses (iv_indexed v)) @ map ResourceId (iw_resource_addresses (iv_indexed v)) @
     map NonFungibleId (iw_non_fungible_addresses (iv_indexed v)) @ map VaultId (iw_vault_ids (iv_indexed v))"

section \<open>Membership in the index\<close>

text \<open>The set of substates an index mentions, and the relation between a walk that builds an index and a
  walk that looks for one substate: the indexing walk never breaks and only adds, and if the substate
  was not yet indexed, the looking walk answers whether it is indexed now.\<close>

definition refs :: "indexed_well_known_types \<Rightarrow> substate_id set" where
  "refs i = set (referenced_substates i)"

definition agrees :: "substate_id \<Rightarrow> indexed_well_known_types \<Rightarrow> (indexed_well_known_types \<times> bool, indexed_value_error) result
    \<Rightarrow> (bool \<times> bool, indexed_value_error) result \<Rightarrow> bool" where
  "agrees x i r c \<longleftrightarrow> (\<forall>i' brk. r = Ok (i', brk) \<longrightarrow> \<not> brk \<and> refs i \<subseteq> refs i' \<and>
     (x \<notin> refs i \<longrightarrow> c = Ok (x \<in> refs i', x \<in> refs i')))"

text \<open>A decoder that reads every object key from an integer.\<close>

definition sample_decoder :: bor_decoder where
  "sample_decoder = \<lparr>de_object_key = (\<lambda>v. case v of BorInteger i \<Rightarrow> Some (word_of_int i) | _ \<Rightarrow> None),
     de_hash = \<lambda>_. None, de_array32 = \<lambda>_. None, de_u32 = \<lambda>_. None, de_non_fungible_address = \<lambda>_. None,
     de_metadata = \<lambda>_. None, de_utxo_address = \<lambda>_. None\<rparr>"

lemma refs_alt: "refs i = ComponentId ` set (iw_component_addresses i) \<union> ResourceId ` set (iw_resource_addresses i) \<union>
     TransactionReceiptId ` set (iw_transaction_receipt_addresses i) \<union>
     NonFungibleId ` set (iw_non_fungible_addresses i) \<union> VaultId ` set (iw_vault_ids i) \<union>
     ClaimedOutputTombstoneId ` set (iw_unclaimed_confidential_output_address i) \<union>
     UtxoId ` set (iw_utxos i) \<union> TemplateId ` set (iw_published_template_addresses i) \<union>
     ValidatorFeePoolId ` set (iw_validator_node_fee_pools i)"
  by (simp add: refs_def referenced_substates_def Un_assoc)
lemma index_visit_refs:
  assumes "index_visit i w = Ok (i', brk)"
  shows "\<not> brk" "refs i' = refs i \<union> set_option (well_known_substate_id w)"
proof -
  show "\<not> brk" using assms by (simp add: index_visit_def)
  show "refs i' = refs i \<union> set_option (well_known_substate_id w)"
    using assms by (cases w; clarsimp simp: index_visit_def refs_alt well_known_substate_id_def)
qed
lemma agrees_Ok: "agrees x i (Ok (i, False)) (Ok (False, False))"
  by (simp add: agrees_def)

lemma agrees_Err: "agrees x i (Err e) c"
  by (simp add: agrees_def)

lemma agrees_visit: "agrees x i (and_then t (index_visit i)) (and_then t (contains_visit x False))"
proof (cases t)
  case (Ok w)
  then show ?thesis
    using index_visit_refs[of i w]
    by (auto simp: agrees_def contains_visit_def Let_def split: option.splits)
qed (auto simp: agrees_def)

lemma agrees_seq:
  assumes "agrees x i r c" and "\<And>i'. r = Ok (i', False) \<Longrightarrow> agrees x i' (f i') (g False)"
  shows "agrees x i (and_then r (\<lambda>(i', brk). if brk then Ok (i', True) else f i'))
     (and_then c (\<lambda>(b, brk). if brk then Ok (b, True) else g b))"
proof (cases r)
  case (Ok p)
  obtain i' brk where p: "p = (i', brk)" by fastforce
  have b: "\<not> brk" "refs i \<subseteq> refs i'" "x \<notin> refs i \<longrightarrow> c = Ok (x \<in> refs i', x \<in> refs i')"
    using assms(1) Ok p by (auto simp: agrees_def)
  have f: "agrees x i' (f i') (g False)" using assms(2) Ok p b(1) by simp
  show ?thesis
  proof (cases "x \<in> refs i'")
    case True
    then show ?thesis using b f by (auto simp: Ok p agrees_def)
  next
    case False
    then show ?thesis using b f by (auto simp: Ok p agrees_def)
  qed
qed (auto simp: agrees_def)

lemma walk_agrees:
  "vis = index_visit \<Longrightarrow> agrees x s (walk_all_depth d vis mx depth s v) (walk_all_depth d (contains_visit x) mx depth False v)"
  "vis = index_visit \<Longrightarrow> agrees x s (walk_values d vis mx depth s vs) (walk_values d (contains_visit x) mx depth False vs)"
  "vis = index_visit \<Longrightarrow> agrees x s (walk_pairs d vis mx depth s ps) (walk_pairs d (contains_visit x) mx depth False ps)"
proof (induction d vis mx depth s v and d vis mx depth s vs and d vis mx depth s ps
    rule: walk_all_depth_walk_values_walk_pairs.induct)
  case (1 d vis mx depth s v)
  then show ?case
    by (subst (1 2) walk_all_depth.simps)
       (auto simp: agrees_Ok agrees_Err agrees_visit not_le split: bor_value.splits)
next
  case (3 d vis mx depth s v vs)
  then show ?case by (auto intro!: agrees_seq)
next
  case (5 d vis mx depth s k v ps)
  then show ?case by (auto intro!: agrees_seq) blast
qed (auto simp: agrees_Ok)

section \<open>Properties\<close>

text \<open>C38: the ownership test of the engine and the index of a component's state agree. Whenever a
  value can be indexed, the allocation free search for a substate answers exactly whether that
  substate is among the referenced substates of the index, for every decoder of the leaves.\<close>

theorem value_contains_substate_iff_indexed:
  assumes "from_value d v = Ok i"
  shows "value_contains_substate d v x = Ok (x \<in> set (referenced_substates i))"
proof -
  obtain brk where w: "walk_all_depth d index_visit MAX_VISITOR_DEPTH 0 indexed_new v = Ok (i, brk)"
    using assms by (auto simp: from_value_def walk_all_def result_simps)
  have "x \<notin> refs indexed_new" by (simp add: refs_def referenced_substates_def indexed_new_def)
  then show ?thesis
    using walk_agrees(1)[of index_visit x indexed_new d MAX_VISITOR_DEPTH 0 v] w
    by (simp add: agrees_def value_contains_substate_def walk_all_def refs_def)
qed

theorem value_contains_substate_iff_indexed_witness:
  "value_contains_substate sample_decoder (BorArray [BorNull, BorTag 132 (BorInteger 7)]) (VaultId 7) = Ok True"
  using value_contains_substate_iff_indexed[of sample_decoder "BorArray [BorNull, BorTag 132 (BorInteger 7)]"
     "indexed_new\<lparr>iw_vault_ids := [7]\<rparr>" "VaultId 7"]
  by (simp add: from_value_def walk_all_def walk_all_depth.simps MAX_VISITOR_DEPTH_def try_from_tag_and_value_def
    decode_as_def sample_decoder_def index_visit_def indexed_new_def referenced_substates_def)

text \<open>Joining indexes loses the entries of five of the fourteen kinds.\<close>

lemma indexed_from_iter_drops:
  "iw_utxos (indexed_from_iter vs) = []"
  "iw_published_template_addresses (indexed_from_iter vs) = []"
  "iw_validator_node_fee_pools (indexed_from_iter vs) = []"
  "iw_component_address_allocations (indexed_from_iter vs) = []"
  "iw_resource_address_allocations (indexed_from_iter vs) = []"
proof -
  have "iw_utxos (foldl indexed_extend i vs) = iw_utxos i \<and>
     iw_published_template_addresses (foldl indexed_extend i vs) = iw_published_template_addresses i \<and>
     iw_validator_node_fee_pools (foldl indexed_extend i vs) = iw_validator_node_fee_pools i \<and>
     iw_component_address_allocations (foldl indexed_extend i vs) = iw_component_address_allocations i \<and>
     iw_resource_address_allocations (foldl indexed_extend i vs) = iw_resource_address_allocations i" for i
    by (induction vs arbitrary: i) (simp_all add: indexed_extend_def)
  from this[of indexed_new] show
    "iw_utxos (indexed_from_iter vs) = []"
    "iw_published_template_addresses (indexed_from_iter vs) = []"
    "iw_validator_node_fee_pools (indexed_from_iter vs) = []"
    "iw_component_address_allocations (indexed_from_iter vs) = []"
    "iw_resource_address_allocations (indexed_from_iter vs) = []"
    by (simp_all add: indexed_from_iter_def indexed_new_def)
qed
end
