(* ===== verification/Locking.thy ===== *)
theory Locking
  imports Substates
begin

text \<open>
  Substate locks: crates/engine/src/runtime/locking.rs and \<open>LockFlag\<close> of
  crates/engine_types/src/lock.rs. The lock table maps lock ids to substates and substates to a lock
  state; its invariant ties the two together, and \<open>lock_step\<close> is the step relation of the table.
\<close>

datatype lock_flag = Read | Write

datatype lock_state = ReadLock nat | WriteLock

datatype lock_error =
    LockIdNotFound lock_id
  | SubstateNotLocked substate_id
  | LockInvariantError
  | InvalidLockRequest substate_id lock_flag lock_state
  | MultipleWriteLockRequested substate_id
  | InvalidLockAccess substate_id lock_flag lock_flag

record locked_substates =
  lock_ids :: "(lock_id, substate_id) fmap"
  locks :: "(substate_id, lock_state) fmap"
  id_counter :: nat

record locked_substate =
  ls_address :: substate_id
  ls_lock_id :: lock_id
  ls_lock_flag :: lock_flag

definition locked_substates_default :: locked_substates where
  "locked_substates_default = \<lparr>lock_ids = fmempty, locks = fmempty, id_counter = 0\<rparr>"

definition as_flag :: "lock_state \<Rightarrow> lock_flag" where
  "as_flag s = (case s of ReadLock _ \<Rightarrow> Read | WriteLock \<Rightarrow> Write)"

definition state_is_read :: "lock_state \<Rightarrow> bool" where
  "state_is_read s = (case s of ReadLock _ \<Rightarrow> True | WriteLock \<Rightarrow> False)"

definition state_is_write :: "lock_state \<Rightarrow> bool" where
  "state_is_write s = (case s of ReadLock _ \<Rightarrow> False | WriteLock \<Rightarrow> True)"

definition has_access :: "lock_state \<Rightarrow> lock_flag \<Rightarrow> bool" where
  "has_access s f = (case f of
     Read \<Rightarrow> state_is_read s \<or> state_is_write s
   | Write \<Rightarrow> state_is_write s)"

definition lock_state_of :: "lock_flag \<Rightarrow> lock_state" where
  "lock_state_of f = (case f of Read \<Rightarrow> ReadLock 1 | Write \<Rightarrow> WriteLock)"

definition next_id :: "locked_substates \<Rightarrow> (locked_substates \<times> lock_id, lock_error) result" where
  "next_id t = (if id_counter t + 1 \<le> u32_max
     then Ok (t\<lparr>id_counter := id_counter t + 1\<rparr>, id_counter t) else Err LockInvariantError)"

definition locked_try_lock ::
  "locked_substates \<Rightarrow> substate_id \<Rightarrow> lock_flag \<Rightarrow> (locked_substates \<times> lock_id, lock_error) result" where
  "locked_try_lock t addr flag = (case fmlookup (locks t) addr of
     Some (ReadLock count) \<Rightarrow>
       (if flag = Write then Err (InvalidLockRequest addr flag (ReadLock count))
        else and_then (u64_add count 1) (\<lambda>count'.
             and_then (next_id (t\<lparr>locks := fmupd addr (ReadLock count') (locks t)\<rparr>)) (\<lambda>(t', i).
             Ok (t'\<lparr>lock_ids := fmupd i addr (lock_ids t')\<rparr>, i))))
   | Some WriteLock \<Rightarrow>
       (if flag = Write then Err (MultipleWriteLockRequested addr)
        else Err (InvalidLockRequest addr flag WriteLock))
   | None \<Rightarrow>
       and_then (next_id (t\<lparr>locks := fmupd addr (lock_state_of flag) (locks t)\<rparr>)) (\<lambda>(t', i).
       Ok (t'\<lparr>lock_ids := fmupd i addr (lock_ids t')\<rparr>, i)))"

definition locked_try_unlock :: "locked_substates \<Rightarrow> lock_id \<Rightarrow> (locked_substates, lock_error) result" where
  "locked_try_unlock t i = (case fmlookup (lock_ids t) i of
     None \<Rightarrow> Err (LockIdNotFound i)
   | Some addr \<Rightarrow>
       let t' = t\<lparr>lock_ids := fmdrop i (lock_ids t)\<rparr> in
       (case fmlookup (locks t) addr of
          Some (ReadLock count) \<Rightarrow>
            and_then (u64_sub count 1) (\<lambda>count'.
              if count' = 0 then Ok (t'\<lparr>locks := fmdrop addr (locks t)\<rparr>)
              else Ok (t'\<lparr>locks := fmupd addr (ReadLock count') (locks t)\<rparr>))
        | Some WriteLock \<Rightarrow> Ok (t'\<lparr>locks := fmdrop addr (locks t)\<rparr>)
        | None \<Rightarrow> Err LockInvariantError))"

definition locked_get :: "locked_substates \<Rightarrow> lock_id \<Rightarrow> lock_flag \<Rightarrow> (locked_substate, lock_error) result" where
  "locked_get t i flag = (case fmlookup (lock_ids t) i of
     None \<Rightarrow> Err (LockIdNotFound i)
   | Some addr \<Rightarrow> (case fmlookup (locks t) addr of
       None \<Rightarrow> Err LockInvariantError
     | Some s \<Rightarrow>
         if \<not> has_access s flag then Err (InvalidLockAccess addr flag (as_flag s))
         else Ok \<lparr>ls_address = addr, ls_lock_id = i, ls_lock_flag = flag\<rparr>))"

definition check_access :: "locked_substate \<Rightarrow> lock_flag \<Rightarrow> (unit, lock_error) result" where
  "check_access l flag =
     (let has = (case flag of Read \<Rightarrow> ls_lock_flag l = Read \<or> ls_lock_flag l = Write
                            | Write \<Rightarrow> ls_lock_flag l = Write)
      in if has then Ok () else Err (InvalidLockAccess (ls_address l) flag (ls_lock_flag l)))"

section \<open>Invariant\<close>

text \<open>The lock ids held on a substate.\<close>

definition holders :: "locked_substates \<Rightarrow> substate_id \<Rightarrow> lock_id set" where
  "holders t addr = {i. fmlookup (lock_ids t) i = Some addr}"

text \<open>Every substate is either unlocked with no holder, read locked with as many holders as the count
  says, or write locked with exactly one holder; ids in use are below the counter, which fits 32 bits.\<close>

definition lock_inv :: "locked_substates \<Rightarrow> bool" where
  "lock_inv t \<longleftrightarrow>
     (\<forall>addr. case fmlookup (locks t) addr of
        None \<Rightarrow> holders t addr = {}
      | Some (ReadLock n) \<Rightarrow> 0 < n \<and> card (holders t addr) = n
      | Some WriteLock \<Rightarrow> card (holders t addr) = 1) \<and>
     (\<forall>i \<in> fset (fmdom (lock_ids t)). i < id_counter t) \<and> id_counter t \<le> u32_max"

datatype lock_op = OpLock substate_id lock_flag | OpUnlock lock_id

inductive lock_step :: "locked_substates \<Rightarrow> lock_op \<Rightarrow> locked_substates \<Rightarrow> bool" where
  step_lock: "locked_try_lock t addr flag = Ok (t', i) \<Longrightarrow> lock_step t (OpLock addr flag) t'"
| step_unlock: "locked_try_unlock t i = Ok t' \<Longrightarrow> lock_step t (OpUnlock i) t'"

inductive lock_reachable :: "locked_substates \<Rightarrow> bool" where
  reach_init: "lock_reachable locked_substates_default"
| reach_step: "\<lbrakk>lock_reachable t; lock_step t op t'\<rbrakk> \<Longrightarrow> lock_reachable t'"

inductive_cases lock_step_cases: "lock_step t op t'"

section \<open>Holders\<close>

lemma finite_holders [simp]: "finite (holders t addr)"
  by (rule finite_subset[of _ "fset (fmdom (lock_ids t))"]) (auto simp: holders_def fmdomI)

lemma holders_insert:
  assumes "fmlookup (lock_ids t) i = None"
  shows "holders (t'\<lparr>lock_ids := fmupd i addr (lock_ids t)\<rparr>) b
      = (if b = addr then insert i (holders t b) else holders t b)"
  using assms by (auto simp: holders_def)

lemma holders_remove:
  assumes "fmlookup (lock_ids t) i = Some addr"
  shows "holders (t'\<lparr>lock_ids := fmdrop i (lock_ids t)\<rparr>) b
      = (if b = addr then holders t b - {i} else holders t b)"
  using assms by (auto simp: holders_def)

lemma holders_cong: "lock_ids t = lock_ids u \<Longrightarrow> holders t b = holders u b"
  by (simp add: holders_def)

lemma lock_inv_at:
  "lock_inv t \<Longrightarrow> (case fmlookup (locks t) addr of
        None \<Rightarrow> holders t addr = {}
      | Some (ReadLock n) \<Rightarrow> 0 < n \<and> card (holders t addr) = n
      | Some WriteLock \<Rightarrow> card (holders t addr) = 1)"
  unfolding lock_inv_def by blast

lemma lock_inv_fresh: "lock_inv t \<Longrightarrow> fmlookup (lock_ids t) (id_counter t) = None"
  unfolding lock_inv_def by (cases "fmlookup (lock_ids t) (id_counter t)") (auto dest: fmdomI)

lemma lock_inv_count_bound:
  assumes "lock_inv t" shows "card (holders t addr) \<le> u32_max"
proof -
  have "holders t addr \<subseteq> {..<id_counter t}"
    using assms by (auto simp: holders_def lock_inv_def dest: fmdomI)
  then have "card (holders t addr) \<le> id_counter t" using card_mono[of "{..<id_counter t}"] by fastforce
  then show ?thesis using assms by (auto simp: lock_inv_def)
qed

definition compatible :: "locked_substates \<Rightarrow> substate_id \<Rightarrow> lock_flag \<Rightarrow> bool" where
  "compatible t addr flag = (case fmlookup (locks t) addr of
     None \<Rightarrow> True | Some (ReadLock _) \<Rightarrow> flag = Read | Some WriteLock \<Rightarrow> False)"

definition next_lock_state :: "lock_state option \<Rightarrow> lock_flag \<Rightarrow> lock_state" where
  "next_lock_state s flag = (case s of Some (ReadLock n) \<Rightarrow> ReadLock (n + 1) | _ \<Rightarrow> lock_state_of flag)"

lemma locked_try_lock_Ok_iff:
  assumes "lock_inv t"
  shows "locked_try_lock t addr flag = Ok (t', i) \<longleftrightarrow>
    compatible t addr flag \<and> id_counter t < u32_max \<and> i = id_counter t \<and>
    t' = t\<lparr>lock_ids := fmupd i addr (lock_ids t),
          locks := fmupd addr (next_lock_state (fmlookup (locks t) addr) flag) (locks t),
          id_counter := id_counter t + 1\<rparr>"
proof (cases "fmlookup (locks t) addr")
  case None
  then show ?thesis by (auto simp: locked_try_lock_def next_id_def compatible_def next_lock_state_def
      Suc_le_eq)
next
  case (Some s)
  show ?thesis
  proof (cases s)
    case (ReadLock n)
    have "card (holders t addr) = n" 
      using lock_inv_at[OF assms, of addr] Some ReadLock by simp
    then have "n + 1 \<le> u64_max" using lock_inv_count_bound[OF assms, of addr] by (simp add: u32_max_def u64_max_def)
    then show ?thesis using Some ReadLock
      by (cases flag) (auto simp: locked_try_lock_def next_id_def compatible_def next_lock_state_def
          Suc_le_eq u64_add_def split: if_splits)
  next
    case WriteLock
    then show ?thesis using Some by (auto simp: locked_try_lock_def compatible_def)
  qed
qed

lemma lock_inv_lock:
  assumes "lock_inv t" "locked_try_lock t addr flag = Ok (t', i)"
  shows "lock_inv t'"
proof -
  have r: "compatible t addr flag" "id_counter t < u32_max" "i = id_counter t"
    and t': "t' = t\<lparr>lock_ids := fmupd i addr (lock_ids t),
          locks := fmupd addr (next_lock_state (fmlookup (locks t) addr) flag) (locks t),
          id_counter := id_counter t + 1\<rparr>"
    using assms(2) by (simp_all add: locked_try_lock_Ok_iff[OF assms(1)])
  have fresh: "fmlookup (lock_ids t) i = None" using lock_inv_fresh[OF assms(1)] r by simp
  have h: "holders t' b = (if b = addr then insert i (holders t b) else holders t b)" for b
    using fresh by (auto simp: t' holders_def)
  have lk: "locks t' = fmupd addr (next_lock_state (fmlookup (locks t) addr) flag) (locks t)"
    by (simp add: t')
  have notin: "i \<notin> holders t addr" using fresh by (simp add: holders_def)
  have "case fmlookup (locks t') b of None \<Rightarrow> holders t' b = {}
      | Some (ReadLock n) \<Rightarrow> 0 < n \<and> card (holders t' b) = n | Some WriteLock \<Rightarrow> card (holders t' b) = 1" for b
    using lock_inv_at[OF assms(1), of b] r(1) notin
    by (cases "b = addr") (auto simp: h lk next_lock_state_def lock_state_of_def compatible_def
        split: option.splits lock_state.splits lock_flag.splits)
  moreover have "\<forall>j \<in> fset (fmdom (lock_ids t')). j < id_counter t'"
    using assms(1) r by (auto simp: t' lock_inv_def)
  moreover have "id_counter t' \<le> u32_max" using r by (simp add: t')
  ultimately show ?thesis unfolding lock_inv_def by blast
qed

lemma locked_try_unlock_spec:
  assumes "lock_inv t" "fmlookup (lock_ids t) i = Some addr"
  shows "locked_try_unlock t i = Ok (t\<lparr>lock_ids := fmdrop i (lock_ids t),
      locks := (if holders t addr = {i} then fmdrop addr (locks t)
                else fmupd addr (ReadLock (card (holders t addr) - 1)) (locks t))\<rparr>)"
proof -
  have mem: "i \<in> holders t addr" using assms(2) by (simp add: holders_def)
  have one: "holders t addr = {i} \<longleftrightarrow> card (holders t addr) = 1"
    using mem by (auto simp: card_Suc_eq)
  have pos: "0 < card (holders t addr)" using mem by (auto simp: card_gt_0_iff)
  show ?thesis using lock_inv_at[OF assms(1), of addr] mem assms(2) pos one
    by (auto simp: locked_try_unlock_def Let_def u64_sub_def split: option.splits lock_state.splits)
qed

lemma lock_inv_unlock:
  assumes "lock_inv t" "locked_try_unlock t i = Ok t'"
  shows "lock_inv t'"
proof -
  obtain addr where a: "fmlookup (lock_ids t) i = Some addr"
    using assms(2) by (auto simp: locked_try_unlock_def split: option.splits)
  have t': "t' = t\<lparr>lock_ids := fmdrop i (lock_ids t),
      locks := (if holders t addr = {i} then fmdrop addr (locks t)
                else fmupd addr (ReadLock (card (holders t addr) - 1)) (locks t))\<rparr>"
    using locked_try_unlock_spec[OF assms(1) a] assms(2) by simp
  have mem: "i \<in> holders t addr" using a by (simp add: holders_def)
  have h: "holders t' b = (if b = addr then holders t b - {i} else holders t b)" for b
    using a by (auto simp: t' holders_def)
  have more: "holders t addr \<noteq> {i} \<Longrightarrow> 0 < card (holders t addr) - 1"
  proof -
    assume "holders t addr \<noteq> {i}"
    then have "holders t addr - {i} \<noteq> {}" using mem by blast
    then show ?thesis using mem card_Diff_singleton[OF mem] by (metis card_gt_0_iff finite_Diff finite_holders)
  qed
  have lk: "locks t' = (if holders t addr = {i} then fmdrop addr (locks t)
                else fmupd addr (ReadLock (card (holders t addr) - 1)) (locks t))"
    by (simp add: t')
  have "case fmlookup (locks t') b of None \<Rightarrow> holders t' b = {}
      | Some (ReadLock n) \<Rightarrow> 0 < n \<and> card (holders t' b) = n | Some WriteLock \<Rightarrow> card (holders t' b) = 1" for b
  proof (cases "b = addr")
    case True
    then show ?thesis using mem more by (auto simp: h lk)
  next
    case False
    then show ?thesis using lock_inv_at[OF assms(1), of b]
      by (auto simp: h lk split: option.splits lock_state.splits)
  qed
  moreover have "\<forall>j \<in> fset (fmdom (lock_ids t')). j < id_counter t'"
    using assms(1) by (auto simp: t' lock_inv_def)
  moreover have "id_counter t' \<le> u32_max" using assms(1) by (simp add: t' lock_inv_def)
  ultimately show ?thesis unfolding lock_inv_def by blast
qed

lemma lock_inv_default [simp]: "lock_inv locked_substates_default"
  by (simp add: lock_inv_def locked_substates_default_def holders_def)

lemma lock_reachable_inv: "lock_reachable t \<Longrightarrow> lock_inv t"
  by (induction rule: lock_reachable.induct) (auto elim!: lock_step_cases intro: lock_inv_lock lock_inv_unlock)

section \<open>Properties\<close>

text \<open>C4: write locks are exclusive. In every lock table the engine can reach, if a lock id grants
  write access to a substate then no other lock id is held on that substate.\<close>
theorem write_lock_exclusive:
  assumes "lock_reachable t" "locked_get t i Write = Ok l"
    and "fmlookup (lock_ids t) j = Some (ls_address l)"
  shows "j = i"
proof -
  have a: "fmlookup (lock_ids t) i = Some (ls_address l)" "fmlookup (locks t) (ls_address l) = Some WriteLock"
    using assms(2) by (auto simp: locked_get_def has_access_def state_is_write_def
        split: option.splits if_splits lock_state.splits)
  then have "card (holders t (ls_address l)) = 1"
    using lock_inv_at[OF lock_reachable_inv[OF assms(1)], of "ls_address l"] by simp
  moreover have "i \<in> holders t (ls_address l)" "j \<in> holders t (ls_address l)"
    using a assms(3) by (simp_all add: holders_def)
  ultimately show ?thesis by (auto simp: card_Suc_eq)
qed

definition sample_lock_table :: locked_substates where
  "sample_lock_table = \<lparr>lock_ids = fmupd 0 (VaultId 7) fmempty,
     locks = fmupd (VaultId 7) WriteLock fmempty, id_counter = 1\<rparr>"

lemma sample_lock_table_reachable: "lock_reachable sample_lock_table"
  by (rule reach_step[OF reach_init step_lock[where addr = "VaultId 7" and flag = Write and i = 0]])
     (simp add: sample_lock_table_def locked_try_lock_def locked_substates_default_def next_id_def
        lock_state_of_def u32_max_def)

theorem write_lock_exclusive_witness:
  "lock_reachable sample_lock_table \<and>
   locked_get sample_lock_table 0 Write = Ok \<lparr>ls_address = VaultId 7, ls_lock_id = 0, ls_lock_flag = Write\<rparr> \<and>
   (0::lock_id) = 0"
  using write_lock_exclusive[of sample_lock_table 0
      "\<lparr>ls_address = VaultId 7, ls_lock_id = 0, ls_lock_flag = Write\<rparr>" 0] sample_lock_table_reachable
  by (simp add: sample_lock_table_def locked_get_def has_access_def state_is_write_def)

text \<open>Releasing a lock undoes taking it. In every reachable lock table, a lock request that
  succeeds can be released, and releasing it gives back the table as it was, except that the id counter
  has moved on; the granted id was not in use before.\<close>
theorem locked_lock_unlock_roundtrip:
  assumes "lock_reachable t" "locked_try_lock t addr flag = Ok (t', i)"
  shows "locked_try_unlock t' i = Ok (t\<lparr>id_counter := id_counter t + 1\<rparr>) \<and>
         fmlookup (lock_ids t) i = None"
proof -
  note inv = lock_reachable_inv[OF assms(1)]
  have r: "compatible t addr flag" "i = id_counter t"
    and t': "t' = t\<lparr>lock_ids := fmupd i addr (lock_ids t),
          locks := fmupd addr (next_lock_state (fmlookup (locks t) addr) flag) (locks t),
          id_counter := id_counter t + 1\<rparr>"
    using assms(2) by (simp_all add: locked_try_lock_Ok_iff[OF inv])
  have fresh: "fmlookup (lock_ids t) i = None" using lock_inv_fresh[OF inv] r by simp
  have ids: "fmdrop i (fmupd i addr (lock_ids t)) = lock_ids t" using fresh by (intro fmap_ext) simp
  have lks: "fmlookup (locks t) addr = None \<Longrightarrow> fmdrop addr (fmupd addr s (locks t)) = locks t"
      "fmlookup (locks t) addr = Some q \<Longrightarrow> fmupd addr q (locks t) = locks t" for s q
    by (auto intro!: fmap_ext)
  show ?thesis using r(1) lock_inv_at[OF inv, of addr] fresh
    by (cases flag) (auto simp: t' locked_try_unlock_def next_lock_state_def lock_state_of_def compatible_def
        u64_sub_def ids lks Let_def split: option.splits lock_state.splits)
qed

theorem locked_lock_unlock_roundtrip_witness:
  "\<exists>t'. locked_try_lock sample_lock_table (VaultId 9) Read = Ok (t', 1) \<and>
     locked_try_unlock t' 1 = Ok (sample_lock_table\<lparr>id_counter := 2\<rparr>)"
proof -
  let ?t = "sample_lock_table\<lparr>lock_ids := fmupd 1 (VaultId 9) (lock_ids sample_lock_table),
    locks := fmupd (VaultId 9) (ReadLock 1) (locks sample_lock_table), id_counter := 2\<rparr>"
  have "locked_try_lock sample_lock_table (VaultId 9) Read = Ok (?t, 1)"
    by (simp add: sample_lock_table_def locked_try_lock_def next_id_def lock_state_of_def u32_max_def)
  then show ?thesis
    using locked_lock_unlock_roundtrip[OF sample_lock_table_reachable, of "VaultId 9" Read ?t 1]
    by (simp add: sample_lock_table_def)
qed

text \<open>Every lock id the table holds can be released, and no other. In every reachable lock table
  an unlock succeeds exactly for the ids in use, and fails with a not found error on the others; the
  internal invariant error and the counter underflow cannot happen.\<close>
theorem locked_try_unlock_never_stuck:
  assumes "lock_reachable t"
  shows "if i |\<in>| fmdom (lock_ids t) then \<exists>t'. locked_try_unlock t i = Ok t'
         else locked_try_unlock t i = Err (LockIdNotFound i)"
proof -
  note inv = lock_reachable_inv[OF assms]
  have "locked_try_unlock t i = Err (LockIdNotFound i)" if "i |\<notin>| fmdom (lock_ids t)"
    using that by (simp add: locked_try_unlock_def fmdom_notD)
  moreover have "\<exists>t'. locked_try_unlock t i = Ok t'" if "i |\<in>| fmdom (lock_ids t)"
    using that locked_try_unlock_spec[OF inv, of i] by (metis fmlookup_dom_iff)
  ultimately show ?thesis by (cases "i |\<in>| fmdom (lock_ids t)") auto
qed

theorem locked_try_unlock_never_stuck_witness:
  "lock_reachable sample_lock_table \<and> (\<exists>t'. locked_try_unlock sample_lock_table 0 = Ok t')"
  using locked_try_unlock_never_stuck[OF sample_lock_table_reachable, of 0] sample_lock_table_reachable
  by (simp add: sample_lock_table_def)
end
