(* ===== verification/RuntimeErrors.thy ===== *)
theory RuntimeErrors
  imports IndexedValues Locking
begin

text \<open>
  The error values of the runtime: \<open>ActionIdent\<close> and \<open>NativeAction\<close> (crates/engine/src/runtime/actions.rs)
  and \<open>RuntimeError\<close> with the errors it wraps (crates/engine/src/runtime/error.rs). Human readable
  details are dropped; the identifiers an error carries are kept.
\<close>

datatype component_action =
    CompCreate | CompGetState | CompSetState | CompSetAccessRules | CompGetTemplateAddress

datatype vault_action =
    VaultCreate | VaultDeposit | VaultWithdraw | VaultGetBalance | VaultGetLockedBalance
  | VaultGetResourceAddress | VaultGetNonFungibleIds | VaultGetCommitmentCount | VaultPayFee
  | VaultCreateProofByResource | VaultCreateProofByFungibleAmount | VaultCreateProofByNonFungibles
  | VaultCreateProofByConfidentialResource | VaultGetNonFungibles

datatype native_action =
    WithdrawValidatorFunds
  | NativeComponent component_action
  | NativeResource resource_auth_action
  | NativeVault vault_action

datatype action_ident =
    Native native_action
  | ComponentCallMethod component_address string

datatype state_store_error = NonExistentShard | CustomStr | StoreNotFound | SubstateDestroyed

datatype assert_error =
    InvalidBucket
  | InvalidResource resource_address resource_address
  | AssertInvalidAmount amount amount

datatype transaction_commit_error =
    DanglingBuckets nat
  | DanglingProofs nat
  | DanglingLockedValueInVault vault_id amount
  | DanglingAddressAllocations nat
  | WorkspaceNotEmpty nat
  | CommitStateStoreErr state_store_error
  | CommitIdProviderErr

datatype argument_validation_error =
    MaxStealthOutputsExceeded nat nat
  | MaxStealthInputsExceeded nat nat
  | TooManyArguments nat nat

datatype (plugins only: size) runtime_error =
    EncodingError
  | IndexedValueErr indexed_value_error
  | StateStoreErr state_store_error
  | WorkspaceErr indexed_value_error
  | SubstateNotFound substate_id
  | RootSubstateNotFound substate_id
  | ReferencedSubstateNotFound substate_id
  | NonExistentSubstateReturned substate_id
  | SubstateOutOfScope substate_id
  | SubstateNotOwned substate_id substate_id
  | LockSubstateMismatch lock_id substate_id
  | ComponentReferencedUnknownSubstate component_address substate_id
  | ValidationFailedBucketNotInScope bucket_id
  | ValidationFailedProofNotInScope proof_id
  | ValidationFailedAddressAllocationNotInScope nat
  | ComponentNotFound component_address
  | LayerOneCommitmentNotFound bytes32
  | InvalidArgument
  | InvalidNumberOfArguments nat nat
  | InvalidAmount amount
  | CurrentFrameError
  | VaultNotFound vault_id
  | VaultFrozen vault_id vault_freeze_flag
  | NonFungibleNotFound resource_address non_fungible_id
  | InvalidOpNonFungibleBurnt resource_address non_fungible_id
  | BucketNotFound bucket_id
  | ProofNotFound proof_id
  | ResourceNotFound resource_address
  | ResourceErr resource_error
  | ResourceSupplyWouldOverflow resource_address amount amount
  | BucketNotEmpty bucket_id
  | ItemNotOnWorkspace nat
  | NoLastInstructionOutput
  | TransactionCommitErr transaction_commit_error
  | TooManyOutputs nat
  | TooManyEntities nat
  | DuplicateNonFungibleId non_fungible_id
  | AccessDenied action_ident
  | AccessDeniedSetComponentState substate_id substate_id
  | AccessDeniedAuthHook action_ident
  | AccessDeniedOwnerRequired action_ident
  | InvalidMethodAccessRule string
  | ModuleError
  | InvalidClaimProof
  | ConfidentialOutputAlreadyClaimed bytes32
  | TemplateNotFound template_address
  | InsufficientFeesPaid nat nat
  | NoFeesPaid
  | NoFeeCheckpoint
  | ComponentAddressMustBeSequential nat
  | FailedToLoadTemplate template_address
  | TransactionReceiptAlreadyExists bytes32
  | TransactionReceiptNotFound
  | ComponentAlreadyExists component_address
  | CrossTemplateCallFunctionError template_address string
  | CrossTemplateCallMethodError component_address string
  | VirtualSubstateNotFound
  | InvalidReturnValue indexed_value_error
  | AuthScopeStackEmpty
  | InvalidOpDepositLockedBucket bucket_id amount
  | DuplicateSubstate substate_id
  | OrphanedSubstate substate_id
  | OrphanedSubstates "substate_id list"
  | CallFrameRemainingOnStack nat
  | DuplicateReference substate_id
  | ArgumentValidationErr argument_validation_error
  | RuntimeInvariantError
  | LockErr lock_error
  | DanglingSubstateLocks nat
  | NoActiveCallFrame
  | MaxCallDepthExceeded nat
  | NotInComponentContext action_ident
  | DuplicateBucket bucket_id
  | DuplicateProof proof_id
  | AddressAllocationNotFound nat
  | AddressAllocationNotUsed nat
  | AddressAllocationTypeMismatch substate_id
  | AddressAllocationNoTemplate
  | InvalidEventTopic string
  | NumericConversionError
  | UnexpectedNonNullInAuthHookReturn
  | NotSupported
  | AssertErr assert_error
  | LimitError

type_synonym 'a rt_result = "('a, runtime_error) result"

text \<open>\<open>IsNotFoundError\<close> and \<open>Optional::optional\<close>: a not-found error becomes \<open>None\<close>.\<close>

definition is_not_found_error :: "runtime_error \<Rightarrow> bool" where
  "is_not_found_error e = (case e of
     SubstateNotFound _ \<Rightarrow> True
   | ComponentNotFound _ \<Rightarrow> True
   | VaultNotFound _ \<Rightarrow> True
   | BucketNotFound _ \<Rightarrow> True
   | ResourceNotFound _ \<Rightarrow> True
   | NonFungibleNotFound _ _ \<Rightarrow> True
   | ProofNotFound _ \<Rightarrow> True
   | _ \<Rightarrow> False)"

definition store_is_not_found :: "state_store_error \<Rightarrow> bool" where
  "store_is_not_found e \<longleftrightarrow> e = StoreNotFound"

definition optional :: "('e \<Rightarrow> bool) \<Rightarrow> ('a, 'e) result \<Rightarrow> ('a option, 'e) result" where
  "optional nf r = (case r of
     Ok a \<Rightarrow> Ok (Some a)
   | Err e \<Rightarrow> (if nf e then Ok None else Err e)
   | Panic m \<Rightarrow> Panic m)"

lemma optional_simps [simp]:
  "optional nf (Ok a) = Ok (Some a)"
  "optional nf (Err e) = (if nf e then Ok None else Err e)"
  "optional nf (Panic m) = Panic m"
  by (simp_all add: optional_def)

end
