(* ===== verification/Store.thy ===== *)
theory Store
  imports RuntimeErrors
begin

text \<open>
  The stores of one transaction execution: \<open>MemoryStateStore\<close> (crates/engine/src/state_store/memory.rs)
  and \<open>WorkingStateStore\<close> (crates/engine/src/runtime/state_store.rs). New and mutated substates are
  kept in insertion order because the substate diff is built from them; a substate that is only read
  stays in the loaded cache. A mutable reference into the store is modelled by the value it points at
  and \<open>put_new\<close>, which writes the value back.
\<close>

section \<open>The memory store\<close>

type_synonym memory_store = "(substate_id, substate) fmap"

definition set_many :: "memory_store \<Rightarrow> (substate_id \<times> substate) list \<Rightarrow> memory_store" where
  "set_many m kvs = fold (\<lambda>(k, v) m. fmupd k v m) kvs m"

definition store_count :: "memory_store \<Rightarrow> nat" where
  "store_count m = fcard (fmdom m)"

definition delete_state :: "memory_store \<Rightarrow> substate_id \<Rightarrow> memory_store" where
  "delete_state m k = fmdrop k m"

definition get_state :: "memory_store \<Rightarrow> substate_id \<Rightarrow> (substate, state_store_error) result" where
  "get_state m k = ok_or StoreNotFound (fmlookup m k)"

definition state_exists :: "memory_store \<Rightarrow> substate_id \<Rightarrow> (bool, state_store_error) result" where
  "state_exists m k = Ok (k |\<in>| fmdom m)"

definition set_state :: "memory_store \<Rightarrow> substate_id \<Rightarrow> substate \<Rightarrow> memory_store" where
  "set_state m k v = fmupd k v m"

section \<open>The working store\<close>

record working_state_store =
  new_substates :: "(substate_id \<times> substate_value) list"
  loaded_substates :: "(substate_id, substate) fmap"
  lock_table :: locked_substates
  downed_utxos :: "utxo_address list"
  state_store :: memory_store

definition store_new :: "memory_store \<Rightarrow> working_state_store" where
  "store_new m = \<lparr>new_substates = [], loaded_substates = fmempty,
     lock_table = locked_substates_default, downed_utxos = [], state_store = m\<rparr>"

definition contains_key :: "('k \<times> 'v) list \<Rightarrow> 'k \<Rightarrow> bool" where
  "contains_key kvs k \<longleftrightarrow> map_of kvs k \<noteq> None"

definition put_new :: "working_state_store \<Rightarrow> substate_id \<Rightarrow> substate_value \<Rightarrow> working_state_store" where
  "put_new s k v = s\<lparr>new_substates := AList.update k v (new_substates s)\<rparr>"

definition store_exists :: "working_state_store \<Rightarrow> substate_id \<Rightarrow> bool rt_result" where
  "store_exists s k =
     (if contains_key (new_substates s) k \<or> k |\<in>| fmdom (loaded_substates s) then Ok True
      else map_err StateStoreErr (state_exists (state_store s) k))"

definition store_insert ::
  "working_state_store \<Rightarrow> substate_id \<Rightarrow> substate_value \<Rightarrow> working_state_store rt_result" where
  "store_insert s k v = and_then (store_exists s k) (\<lambda>ex.
     if ex then Err (DuplicateSubstate k) else Ok (put_new s k v))"

definition load_and_cache :: "working_state_store \<Rightarrow> substate_id \<Rightarrow> working_state_store rt_result" where
  "load_and_cache s k =
     (if contains_key (new_substates s) k then Ok s
      else if k |\<in>| fmdom (loaded_substates s) then Ok s
      else and_then (map_err StateStoreErr (optional store_is_not_found (get_state (state_store s) k))) (\<lambda>o1.
           and_then (ok_or (SubstateNotFound k) o1) (\<lambda>sub.
           Ok (s\<lparr>loaded_substates := fmupd k sub (loaded_substates s)\<rparr>))))"

definition store_try_lock ::
  "working_state_store \<Rightarrow> substate_id \<Rightarrow> lock_flag \<Rightarrow> (working_state_store \<times> lock_id) rt_result" where
  "store_try_lock s k flag = and_then (store_exists s k) (\<lambda>ex.
     if \<not> ex then Err (SubstateNotFound k)
     else and_then (map_err LockErr (locked_try_lock (lock_table s) k flag)) (\<lambda>(t, i).
          and_then (load_and_cache (s\<lparr>lock_table := t\<rparr>) k) (\<lambda>s'. Ok (s', i))))"

definition store_try_unlock :: "working_state_store \<Rightarrow> lock_id \<Rightarrow> working_state_store rt_result" where
  "store_try_unlock s i = and_then (map_err LockErr (locked_try_unlock (lock_table s) i)) (\<lambda>t.
     Ok (s\<lparr>lock_table := t\<rparr>))"

definition get_ref :: "working_state_store \<Rightarrow> substate_id \<Rightarrow> (substate_value, lock_error) result" where
  "get_ref s k = (case map_of (new_substates s) k of
     Some v \<Rightarrow> Ok v
   | None \<Rightarrow> ok_or (SubstateNotLocked k) (map_option sub_value (fmlookup (loaded_substates s) k)))"

definition get_for_mut ::
  "working_state_store \<Rightarrow> substate_id \<Rightarrow> (working_state_store \<times> substate_value, lock_error) result" where
  "get_for_mut s k =
     (let s' = (case fmlookup (loaded_substates s) k of
          Some sub \<Rightarrow> put_new (s\<lparr>loaded_substates := fmdrop k (loaded_substates s)\<rparr>) k (sub_value sub)
        | None \<Rightarrow> s)
      in case map_of (new_substates s') k of
           Some v \<Rightarrow> Ok (s', v)
         | None \<Rightarrow> Err (SubstateNotLocked k))"

definition get_locked_substate ::
  "working_state_store \<Rightarrow> lock_id \<Rightarrow> (substate_id \<times> substate_value) rt_result" where
  "get_locked_substate s i = and_then (map_err LockErr (locked_get (lock_table s) i Read)) (\<lambda>l.
     and_then (map_err LockErr (get_ref s (ls_address l))) (\<lambda>v. Ok (ls_address l, v)))"

definition get_locked_substate_mut ::
  "working_state_store \<Rightarrow> lock_id \<Rightarrow> (working_state_store \<times> substate_id \<times> substate_value) rt_result" where
  "get_locked_substate_mut s i = and_then (map_err LockErr (locked_get (lock_table s) i Write)) (\<lambda>l.
     and_then (map_err LockErr (get_for_mut s (ls_address l))) (\<lambda>(s', v). Ok (s', ls_address l, v)))"

text \<open>The callback gets the substate and returns it, possibly changed, with its own result.\<close>

definition mutate_locked_substate_with ::
  "working_state_store \<Rightarrow> lock_id \<Rightarrow>
   (substate_id \<Rightarrow> substate_value \<Rightarrow> (substate_value \<times> 'r option) rt_result) \<Rightarrow>
   (working_state_store \<times> 'r option) rt_result" where
  "mutate_locked_substate_with s i callback =
     and_then (map_err LockErr (locked_get (lock_table s) i Write)) (\<lambda>l.
     let k = ls_address l in
     case fmlookup (loaded_substates s) k of
       Some sub \<Rightarrow>
         and_then (callback k (sub_value sub)) (\<lambda>(v, ret).
           let s' = s\<lparr>loaded_substates := fmdrop k (loaded_substates s)\<rparr> in
           case ret of
             Some r \<Rightarrow> Ok (put_new s' k v, Some r)
           | None \<Rightarrow> Ok (s'\<lparr>loaded_substates :=
               fmupd k (sub\<lparr>sub_value := v\<rparr>) (loaded_substates s')\<rparr>, None))
     | None \<Rightarrow>
         (case map_of (new_substates s) k of
            None \<Rightarrow> Err (LockErr (SubstateNotLocked k))
          | Some v0 \<Rightarrow> and_then (callback k v0) (\<lambda>(v, ret). Ok (put_new s k v, ret))))"

definition take_mutated_substates ::
  "working_state_store \<Rightarrow> working_state_store \<times> (substate_id \<times> substate_value) list" where
  "take_mutated_substates s = (s\<lparr>new_substates := []\<rparr>, new_substates s)"

definition take_downed_utxos :: "working_state_store \<Rightarrow> working_state_store \<times> utxo_address list" where
  "take_downed_utxos s = (s\<lparr>downed_utxos := []\<rparr>, downed_utxos s)"

definition down_utxo :: "working_state_store \<Rightarrow> lock_id \<Rightarrow> (working_state_store \<times> utxo) rt_result" where
  "down_utxo s i = and_then (map_err LockErr (locked_get (lock_table s) i Write)) (\<lambda>l.
     let k = ls_address l in
     and_then (ok_or RuntimeInvariantError (as_utxo_address k)) (\<lambda>addr.
     case map_of (new_substates s) k of
       Some v \<Rightarrow>
         and_then (expect ''invariant: substate found at utxo address is not a UTXO'' (as_utxo v)) (\<lambda>u.
         Ok (s\<lparr>new_substates := AList.delete k (new_substates s)\<rparr>, u))
     | None \<Rightarrow>
         (case fmlookup (loaded_substates s) k of
            Some sub \<Rightarrow>
              and_then (expect ''invariant: substate found at utxo address is not a UTXO''
                (as_utxo (sub_value sub))) (\<lambda>u.
              Ok (s\<lparr>loaded_substates := fmdrop k (loaded_substates s),
                    downed_utxos := index_set_insert addr (downed_utxos s)\<rparr>, u))
          | None \<Rightarrow> Err (SubstateNotFound k))))"

text \<open>\<open>as_vault\<close> is unwrapped, so a non-vault value under a vault id panics.\<close>

definition new_vaults :: "working_state_store \<Rightarrow> (vault_id \<times> vault) list rt_result" where
  "new_vaults s = try_fold (\<lambda>acc (k, v). case k of
       VaultId vid \<Rightarrow> and_then (expect ''called `Option::unwrap()` on a `None` value'' (as_vault v))
         (\<lambda>vault. Ok (acc @ [(vid, vault)]))
     | _ \<Rightarrow> Ok acc) [] (new_substates s)"

definition store_load_and_cache_component ::
  "working_state_store \<Rightarrow> component_address \<Rightarrow> (working_state_store \<times> component_header) rt_result" where
  "store_load_and_cache_component s a =
     and_then (load_and_cache s (ComponentId a)) (\<lambda>s'.
     and_then (map_err LockErr (get_ref s' (ComponentId a))) (\<lambda>v.
     and_then (ok_or RuntimeInvariantError (as_component v)) (\<lambda>c. Ok (s', c))))"

definition get_unmodified_substate :: "working_state_store \<Rightarrow> substate_id \<Rightarrow> substate rt_result" where
  "get_unmodified_substate s k = (case fmlookup (loaded_substates s) k of
     Some sub \<Rightarrow> Ok sub
   | None \<Rightarrow> and_then (map_err StateStoreErr (optional store_is_not_found (get_state (state_store s) k)))
       (\<lambda>o1. ok_or (SubstateNotFound k) o1))"

section \<open>What the store holds\<close>

text \<open>The value the transaction sees under an id.\<close>

definition current :: "working_state_store \<Rightarrow> substate_id \<Rightarrow> substate_value option" where
  "current s k = (case map_of (new_substates s) k of
     Some v \<Rightarrow> Some v
   | None \<Rightarrow> (case fmlookup (loaded_substates s) k of
       Some sub \<Rightarrow> Some (sub_value sub)
     | None \<Rightarrow> map_option sub_value (fmlookup (state_store s) k)))"

text \<open>The lock table is consistent, mutated and cached substates are apart, and a cached substate is
  the one of the underlying store.\<close>

definition store_inv :: "working_state_store \<Rightarrow> bool" where
  "store_inv s \<longleftrightarrow> lock_inv (lock_table s) \<and> distinct (map fst (new_substates s)) \<and>
     distinct (downed_utxos s) \<and>
     (\<forall>k. map_of (new_substates s) k \<noteq> None \<longrightarrow> fmlookup (loaded_substates s) k = None) \<and>
     (\<forall>k sub. fmlookup (loaded_substates s) k = Some sub \<longrightarrow> fmlookup (state_store s) k = Some sub)"

datatype store_op =
    StoreLock substate_id lock_flag
  | StoreUnlock lock_id
  | StoreWrite lock_id substate_value
  | StoreInsert substate_id substate_value
  | StoreDown lock_id
  | StoreLoad component_address

text \<open>The operations while a transaction runs. Taking the substates out of the store at the end of the transaction
  is not a step.\<close>

inductive store_step :: "working_state_store \<Rightarrow> store_op \<Rightarrow> working_state_store \<Rightarrow> bool" where
  step_store_lock: "store_try_lock s k flag = Ok (s', i) \<Longrightarrow> store_step s (StoreLock k flag) s'"
| step_store_unlock: "store_try_unlock s i = Ok s' \<Longrightarrow> store_step s (StoreUnlock i) s'"
| step_store_write: "get_locked_substate_mut s i = Ok (s', k, v) \<Longrightarrow>
    store_step s (StoreWrite i v') (put_new s' k v')"
| step_store_insert: "store_insert s k v = Ok s' \<Longrightarrow> store_step s (StoreInsert k v) s'"
| step_store_down: "down_utxo s i = Ok (s', u) \<Longrightarrow> store_step s (StoreDown i) s'"
| step_store_load: "store_load_and_cache_component s a = Ok (s', c) \<Longrightarrow> store_step s (StoreLoad a) s'"

inductive store_reachable :: "memory_store \<Rightarrow> working_state_store \<Rightarrow> bool" for m where
  store_init: "store_reachable m (store_new m)"
| store_next: "\<lbrakk>store_reachable m s; store_step s op s'\<rbrakk> \<Longrightarrow> store_reachable m s'"

inductive_cases store_step_cases: "store_step s op s'"

section \<open>Laws of the operations\<close>

declare map_of_eq_Some_iff [simp del]

lemma store_exists_eq: "store_exists s k = Ok (current s k \<noteq> None)"
  by (auto simp: store_exists_def contains_key_def current_def state_exists_def fmlookup_dom_iff
      split: option.splits)

lemma put_new_simps [simp]:
  "map_of (new_substates (put_new s k v)) = (map_of (new_substates s))(k \<mapsto> v)"
  "loaded_substates (put_new s k v) = loaded_substates s" "lock_table (put_new s k v) = lock_table s"
  "downed_utxos (put_new s k v) = downed_utxos s" "state_store (put_new s k v) = state_store s"
  by (simp_all add: put_new_def)

lemma distinct_put_new [simp]:
  "distinct (map fst (new_substates s)) \<Longrightarrow> distinct (map fst (new_substates (put_new s k v)))"
  by (simp add: put_new_def distinct_update)

lemma current_put_new [simp]: "current (put_new s k v) = (current s)(k \<mapsto> v)"
  by (auto simp: current_def split: option.split)

lemma store_insert_Ok_iff:
  "store_insert s k v = Ok s' \<longleftrightarrow> current s k = None \<and> s' = put_new s k v"
  by (auto simp: store_insert_def store_exists_eq)

lemma load_and_cache_Ok_iff:
  "load_and_cache s k = Ok s' \<longleftrightarrow>
     (if map_of (new_substates s) k \<noteq> None \<or> fmlookup (loaded_substates s) k \<noteq> None then s' = s
      else \<exists>sub. fmlookup (state_store s) k = Some sub \<and>
           s' = s\<lparr>loaded_substates := fmupd k sub (loaded_substates s)\<rparr>)"
  by (cases "fmlookup (state_store s) k")
     (auto simp: load_and_cache_def contains_key_def get_state_def store_is_not_found_def fmdom_notI)

lemma load_and_cache_inv:
  assumes "load_and_cache s k = Ok s'" "store_inv s"
  shows "store_inv s'" "current s' = current s" "get_ref s' k = Ok v \<longleftrightarrow> current s k = Some v"
    "lock_table s' = lock_table s" "state_store s' = state_store s"
  using assms by (auto simp: load_and_cache_Ok_iff store_inv_def current_def fun_eq_iff get_ref_def
      split: if_splits option.splits)

lemma store_inv_lock_table: "lock_inv t \<Longrightarrow> store_inv s \<Longrightarrow> store_inv (s\<lparr>lock_table := t\<rparr>)"
  by (simp add: store_inv_def)

lemma current_lock_table [simp]: "current (s\<lparr>lock_table := t\<rparr>) = current s"
  by (auto simp: current_def fun_eq_iff split: option.split)

lemma store_try_lock_Ok:
  assumes "store_try_lock s k flag = Ok (s', i)"
  obtains t where "locked_try_lock (lock_table s) k flag = Ok (t, i)"
    "load_and_cache (s\<lparr>lock_table := t\<rparr>) k = Ok s'" "current s k \<noteq> None"
  using assms by (auto simp: store_try_lock_def store_exists_eq result_simps split: if_splits prod.splits)

lemma store_try_lock_inv:
  assumes "store_try_lock s k flag = Ok (s', i)" "store_inv s"
  shows "store_inv s'" "state_store s' = state_store s" "current s' = current s"
proof -
  obtain t where t: "locked_try_lock (lock_table s) k flag = Ok (t, i)"
    "load_and_cache (s\<lparr>lock_table := t\<rparr>) k = Ok s'" by (rule store_try_lock_Ok[OF assms(1)])
  have "store_inv (s\<lparr>lock_table := t\<rparr>)"
    using lock_inv_lock[OF _ t(1)] assms(2) by (simp add: store_inv_def)
  from load_and_cache_inv[OF t(2) this] show "store_inv s'" "state_store s' = state_store s"
      "current s' = current s" by simp_all
qed

lemma locked_get_Write_Ok_iff:
  "locked_get t i Write = Ok l \<longleftrightarrow> (\<exists>k. fmlookup (lock_ids t) i = Some k \<and>
     fmlookup (locks t) k = Some WriteLock \<and> l = \<lparr>ls_address = k, ls_lock_id = i, ls_lock_flag = Write\<rparr>)"
  by (auto simp: locked_get_def has_access_def state_is_write_def split: option.splits if_splits lock_state.splits)

lemma get_for_mut_Ok:
  assumes "get_for_mut s k = Ok (s', v)" "store_inv s"
  shows "store_inv s'" "state_store s' = state_store s" "current s k = Some v" "current s' = current s"
    "lock_table s' = lock_table s" "downed_utxos s' = downed_utxos s"
    "map_of (new_substates s') k = Some v"
  using assms by (auto simp: get_for_mut_def store_inv_def current_def fun_eq_iff Let_def
      split: option.splits if_splits)

lemma get_locked_substate_mut_Ok:
  assumes "get_locked_substate_mut s i = Ok (s', k, v)"
  obtains "fmlookup (lock_ids (lock_table s)) i = Some k" "fmlookup (locks (lock_table s)) k = Some WriteLock"
    "get_for_mut s k = Ok (s', v)"
  using assms by (auto simp: get_locked_substate_mut_def result_simps locked_get_Write_Ok_iff split: prod.splits)

lemma store_inv_put_new:
  "store_inv s \<Longrightarrow> map_of (new_substates s) k \<noteq> None \<or> current s k = None \<Longrightarrow> store_inv (put_new s k v)"
  by (auto simp: store_inv_def current_def split: option.splits)

lemma as_utxo_address_Some_iff: "as_utxo_address k = Some a \<longleftrightarrow> k = UtxoId a"
  by (cases k) (auto simp: as_utxo_address_def)

lemma as_utxo_Some_iff: "as_utxo v = Some u \<longleftrightarrow> v = UtxoValue u"
  by (cases v) (auto simp: as_utxo_def)

lemma down_utxo_Ok:
  assumes "down_utxo s i = Ok (s', u)"
  obtains (fresh) a where "locked_get (lock_table s) i Write = Ok \<lparr>ls_address = UtxoId a, ls_lock_id = i, ls_lock_flag = Write\<rparr>"
      "map_of (new_substates s) (UtxoId a) = Some (UtxoValue u)"
      "s' = s\<lparr>new_substates := AList.delete (UtxoId a) (new_substates s)\<rparr>"
  | (stored) a sub where "locked_get (lock_table s) i Write = Ok \<lparr>ls_address = UtxoId a, ls_lock_id = i, ls_lock_flag = Write\<rparr>"
      "map_of (new_substates s) (UtxoId a) = None" "fmlookup (loaded_substates s) (UtxoId a) = Some sub"
      "sub_value sub = UtxoValue u"
      "s' = s\<lparr>loaded_substates := fmdrop (UtxoId a) (loaded_substates s),
              downed_utxos := index_set_insert a (downed_utxos s)\<rparr>"
proof -
  obtain k a where k: "fmlookup (lock_ids (lock_table s)) i = Some k"
      "fmlookup (locks (lock_table s)) k = Some WriteLock" "k = UtxoId a"
    using assms by (auto simp: down_utxo_def Let_def result_simps locked_get_Write_Ok_iff as_utxo_address_Some_iff)
  then have l: "locked_get (lock_table s) i Write = Ok \<lparr>ls_address = UtxoId a, ls_lock_id = i, ls_lock_flag = Write\<rparr>"
    by (simp add: locked_get_Write_Ok_iff)
  show thesis
  proof (cases "map_of (new_substates s) (UtxoId a)")
    case None
    then show ?thesis using assms l
      by (auto simp: down_utxo_def Let_def as_utxo_address_def result_simps as_utxo_Some_iff
          split: option.splits intro: stored)
  next
    case (Some v)
    then show ?thesis using assms l
      by (auto simp: down_utxo_def Let_def as_utxo_address_def result_simps as_utxo_Some_iff intro: fresh)
  qed
qed

lemma down_utxo_inv:
  assumes "down_utxo s i = Ok (s', u)" "store_inv s"
  shows "store_inv s' \<and> state_store s' = state_store s"
  using assms(1)
proof (cases rule: down_utxo_Ok)
  case fresh
  then show ?thesis using assms(2) by (auto simp: store_inv_def distinct_delete)
next
  case stored
  then show ?thesis using assms(2) by (auto simp: store_inv_def)
qed

lemma store_step_inv:
  assumes "store_step s op s'" "store_inv s"
  shows "store_inv s' \<and> state_store s' = state_store s"
  using assms(1)
proof cases
  case (step_store_lock k flag i)
  then show ?thesis using store_try_lock_inv assms(2) by blast
next
  case (step_store_unlock i)
  then show ?thesis using assms(2) lock_inv_unlock
    by (fastforce simp: store_try_unlock_def result_simps store_inv_def)
next
  case (step_store_write i s1 k v v')
  obtain g: "get_for_mut s k = Ok (s1, v)" by (rule get_locked_substate_mut_Ok[OF step_store_write(3)])
  show ?thesis using get_for_mut_Ok[OF g assms(2)] step_store_write(2) by (simp add: store_inv_put_new)
next
  case (step_store_insert k v)
  then show ?thesis using assms(2) by (simp add: store_insert_Ok_iff store_inv_put_new)
next
  case (step_store_down i u)
  then show ?thesis using down_utxo_inv assms(2) by blast
next
  case (step_store_load a c)
  then show ?thesis using load_and_cache_inv(1,5) assms(2)
    by (fastforce simp: store_load_and_cache_component_def result_simps)
qed

lemma store_reachable_inv: "store_reachable m s \<Longrightarrow> store_inv s \<and> state_store s = m"
proof (induction rule: store_reachable.induct)
  case store_init
  then show ?case by (simp add: store_new_def store_inv_def)
next
  case (store_next s op s')
  then show ?case using store_step_inv by blast
qed

lemma write_locked_holders:
  assumes "lock_inv t" "fmlookup (lock_ids t) i = Some k" "fmlookup (locks t) k = Some WriteLock"
  shows "holders t k = {i}"
proof -
  have "card (holders t k) = 1" using lock_inv_at[OF assms(1), of k] assms(3) by simp
  moreover have "i \<in> holders t k" using assms(2) by (simp add: holders_def)
  ultimately show ?thesis by (auto simp: card_Suc_eq)
qed

section \<open>A sample store\<close>

text \<open>An input store with one frozen UTXO, the state in which it is write locked, and the state after
  it was unfrozen.\<close>

definition sample_utxo_address :: utxo_address where
  "sample_utxo_address = \<lparr>utxo_resource_address = 5, utxo_id = 11\<rparr>"

definition sample_utxo :: utxo where
  "sample_utxo = \<lparr>ux_output = None, ux_is_frozen = True\<rparr>"

definition sample_utxo_store :: memory_store where
  "sample_utxo_store =
     fmupd (UtxoId sample_utxo_address) \<lparr>sub_value = UtxoValue sample_utxo, sub_version = 4\<rparr> fmempty"

definition sample_locked_store :: working_state_store where
  "sample_locked_store = \<lparr>new_substates = [], loaded_substates = sample_utxo_store,
     lock_table = \<lparr>lock_ids = fmupd 0 (UtxoId sample_utxo_address) fmempty,
       locks = fmupd (UtxoId sample_utxo_address) WriteLock fmempty, id_counter = 1\<rparr>,
     downed_utxos = [], state_store = sample_utxo_store\<rparr>"

definition sample_unfrozen_store :: working_state_store where
  "sample_unfrozen_store = sample_locked_store\<lparr>
     new_substates := [(UtxoId sample_utxo_address, UtxoValue (utxo_unfreeze sample_utxo))],
     loaded_substates := fmempty\<rparr>"

lemma sample_lock_request:
  "store_try_lock (store_new sample_utxo_store) (UtxoId sample_utxo_address) Write = Ok (sample_locked_store, 0)"
  by (simp add: store_try_lock_def store_exists_def contains_key_def store_new_def sample_utxo_store_def
      sample_locked_store_def locked_try_lock_def locked_substates_default_def next_id_def u32_max_def
      lock_state_of_def load_and_cache_def get_state_def state_exists_def)

lemma sample_locked_reachable: "store_reachable sample_utxo_store sample_locked_store"
  by (rule store_next[OF store_init step_store_lock[OF sample_lock_request]])

lemma sample_write:
  "get_locked_substate_mut sample_locked_store 0 = Ok (sample_locked_store\<lparr>
     new_substates := [(UtxoId sample_utxo_address, UtxoValue sample_utxo)], loaded_substates := fmempty\<rparr>,
     UtxoId sample_utxo_address, UtxoValue sample_utxo)"
  by (simp add: get_locked_substate_mut_def sample_locked_store_def locked_get_def has_access_def
      state_is_write_def get_for_mut_def sample_utxo_store_def put_new_def fmdrop_fmupd_same)

lemma sample_unfreeze_step:
  "store_step sample_locked_store (StoreWrite 0 (UtxoValue (utxo_unfreeze sample_utxo))) sample_unfrozen_store"
  using step_store_write[OF sample_write, of "UtxoValue (utxo_unfreeze sample_utxo)"]
  by (simp add: sample_unfrozen_store_def put_new_def sample_locked_store_def)

lemma sample_unfrozen_reachable: "store_reachable sample_utxo_store sample_unfrozen_store"
  by (rule store_next[OF sample_locked_reachable sample_unfreeze_step])

text \<open>A lock gives access to the value: the lock id reads the current value of the substate, and a write
  lock id can write it.\<close>

lemma store_lock_reads:
  assumes "store_inv s" "store_try_lock s k flag = Ok (s', i)"
  shows "\<exists>v. current s k = Some v \<and> get_locked_substate s' i = Ok (k, v) \<and>
     (flag = Write \<longrightarrow> (\<exists>s''. get_locked_substate_mut s' i = Ok (s'', k, v)))"
proof -
  note inv = assms(1)
  obtain t where t: "locked_try_lock (lock_table s) k flag = Ok (t, i)"
    "load_and_cache (s\<lparr>lock_table := t\<rparr>) k = Ok s'" "current s k \<noteq> None"
    by (rule store_try_lock_Ok[OF assms(2)])
  have li: "lock_inv (lock_table s)" using inv by (simp add: store_inv_def)
  have ti: "store_inv (s\<lparr>lock_table := t\<rparr>)" using lock_inv_lock[OF li t(1)] inv by (rule store_inv_lock_table)
  obtain v where v: "current s k = Some v" using t(3) by auto
  have g: "get_ref s' k = Ok v" "lock_table s' = t" "store_inv s'"
    using load_and_cache_inv[OF t(2) ti] v by simp_all
  have "\<exists>st. fmlookup (lock_ids t) i = Some k \<and> fmlookup (locks t) k = Some st \<and> has_access st Read \<and>
      (flag = Write \<longrightarrow> st = WriteLock)"
    using t(1) by (auto simp: locked_try_lock_Ok_iff[OF li] compatible_def next_lock_state_def lock_state_of_def
        has_access_def state_is_read_def state_is_write_def split: option.splits lock_state.splits lock_flag.splits)
  then obtain st where st: "fmlookup (lock_ids t) i = Some k" "fmlookup (locks t) k = Some st" "has_access st Read"
      "flag = Write \<Longrightarrow> st = WriteLock" by blast
  have "get_locked_substate s' i = Ok (k, v)"
    using st g by (simp add: get_locked_substate_def locked_get_def)
  moreover have "\<exists>s''. get_for_mut s' k = Ok (s'', v)"
    using g(1) g(3) by (auto simp: get_ref_def get_for_mut_def result_simps store_inv_def Let_def split: option.splits)
  ultimately show ?thesis using v st g
    by (auto simp: get_locked_substate_mut_def locked_get_def has_access_def state_is_write_def)
qed

section \<open>Properties\<close>

text \<open>C3: the working store implements one map of substates. In every state the store can reach from
  an input store \<open>m\<close>, locking, unlocking and loading leave the visible values alone; a write changes
  exactly the substate its lock id holds exclusively; an insert adds exactly its id, which was not visible
  before; and downing a UTXO, which needs its exclusive lock, leaves every other substate alone and leaves
  visible under its id only what the input store has.\<close>
theorem store_refines_map:
  assumes "store_reachable m s" "store_step s op s'"
  shows "case op of
      StoreLock k flag \<Rightarrow> current s k \<noteq> None \<and> current s' = current s
    | StoreUnlock i \<Rightarrow> current s' = current s
    | StoreWrite i v \<Rightarrow> \<exists>k. holders (lock_table s) k = {i} \<and> current s k \<noteq> None \<and>
        current s' = (current s)(k \<mapsto> v)
    | StoreInsert k v \<Rightarrow> current s k = None \<and> current s' = (current s)(k \<mapsto> v)
    | StoreDown i \<Rightarrow> \<exists>a. holders (lock_table s) (UtxoId a) = {i} \<and> current s (UtxoId a) \<noteq> None \<and>
        current s' = (current s)(UtxoId a := map_option sub_value (fmlookup m (UtxoId a)))
    | StoreLoad a \<Rightarrow> current s' = current s"
proof -
  note inv = conjunct1[OF store_reachable_inv[OF assms(1)]] conjunct2[OF store_reachable_inv[OF assms(1)]]
  have li: "lock_inv (lock_table s)" using inv(1) by (simp add: store_inv_def)
  from assms(2) show ?thesis
  proof cases
    case (step_store_lock k flag i)
    then show ?thesis using store_try_lock_inv(3)[OF _ inv(1)] by (auto elim!: store_try_lock_Ok)
  next
    case (step_store_unlock i)
    then show ?thesis by (auto simp: store_try_unlock_def result_simps)
  next
    case (step_store_write i s1 k v v')
    obtain g: "fmlookup (lock_ids (lock_table s)) i = Some k" "fmlookup (locks (lock_table s)) k = Some WriteLock"
        "get_for_mut s k = Ok (s1, v)" by (rule get_locked_substate_mut_Ok[OF step_store_write(3)])
    show ?thesis using get_for_mut_Ok[OF g(3) inv(1)] write_locked_holders[OF li g(1,2)] step_store_write(1,2)
      by auto
  next
    case (step_store_insert k v)
    then show ?thesis by (simp add: store_insert_Ok_iff)
  next
    case (step_store_down i u)
    from step_store_down(2) show ?thesis
    proof (cases rule: down_utxo_Ok)
      case (fresh a)
      have "current s' = (current s)(UtxoId a := map_option sub_value (fmlookup m (UtxoId a)))"
        using fresh inv by (auto simp: current_def store_inv_def fun_eq_iff split: option.split)
      moreover have "holders (lock_table s) (UtxoId a) = {i}"
        using fresh(1) write_locked_holders[OF li, of i "UtxoId a"] by (simp add: locked_get_Write_Ok_iff)
      moreover have "current s (UtxoId a) \<noteq> None" using fresh by (simp add: current_def)
      ultimately show ?thesis using step_store_down(1) by auto
    next
      case (stored a sub)
      have "current s' = (current s)(UtxoId a := map_option sub_value (fmlookup m (UtxoId a)))"
        using stored inv by (auto simp: current_def store_inv_def fun_eq_iff split: option.split)
      moreover have "holders (lock_table s) (UtxoId a) = {i}"
        using stored(1) write_locked_holders[OF li, of i "UtxoId a"] by (simp add: locked_get_Write_Ok_iff)
      moreover have "current s (UtxoId a) \<noteq> None" using stored by (simp add: current_def)
      ultimately show ?thesis using step_store_down(1) by auto
    qed
  next
    case (step_store_load a c)
    then show ?thesis using load_and_cache_inv(2)[OF _ inv(1)]
      by (auto simp: store_load_and_cache_component_def result_simps)
  qed
qed

theorem store_refines_map_witness:
  "\<exists>k. holders (lock_table sample_locked_store) k = {0} \<and> current sample_locked_store k \<noteq> None \<and>
     current sample_unfrozen_store = (current sample_locked_store)(k \<mapsto> UtxoValue (utxo_unfreeze sample_utxo))"
  using store_refines_map[OF sample_locked_reachable sample_unfreeze_step] by simp

text \<open>The store never loses what the transaction started from. In every reachable state the
  unmodified substate of an id, which gives the version the substate diff brings down, is the one of
  the input store, and an id the input store does not have is not found.\<close>
theorem get_unmodified_substate_spec:
  assumes "store_reachable m s"
  shows "get_unmodified_substate s k = ok_or (SubstateNotFound k) (fmlookup m k)"
proof -
  have *: "state_store s = m" "\<And>sub. fmlookup (loaded_substates s) k = Some sub \<Longrightarrow> fmlookup m k = Some sub"
    using store_reachable_inv[OF assms] by (auto simp: store_inv_def)
  show ?thesis
    by (cases "fmlookup m k"; cases "fmlookup (loaded_substates s) k")
       (use * in \<open>auto simp: get_unmodified_substate_def get_state_def store_is_not_found_def\<close>)
qed

theorem get_unmodified_substate_spec_witness:
  "store_reachable sample_utxo_store sample_locked_store \<and>
   get_unmodified_substate sample_locked_store (UtxoId sample_utxo_address)
     = Ok \<lparr>sub_value = UtxoValue sample_utxo, sub_version = 4\<rparr>"
  using get_unmodified_substate_spec[OF sample_locked_reachable] sample_locked_reachable
  by (simp add: sample_utxo_store_def)

text \<open>C37: a UTXO that was mutated earlier in the transaction is spent without being brought down.
  If a UTXO of the input store is among the mutated substates (a freeze or unfreeze puts it there) when it
  is spent, the spend succeeds, but the UTXO is neither recorded as downed nor persisted, and what the
  input store has stays visible under its id: the UTXO remains spendable.\<close>
theorem mutated_utxo_spent_but_not_downed:
  assumes "store_reachable m s" "fmlookup m (UtxoId a) = Some sub"
    and "locked_get (lock_table s) i Write = Ok \<lparr>ls_address = UtxoId a, ls_lock_id = i, ls_lock_flag = Write\<rparr>"
    and "map_of (new_substates s) (UtxoId a) = Some (UtxoValue u)" "a \<notin> set (downed_utxos s)"
  shows "\<exists>s'. down_utxo s i = Ok (s', u) \<and> a \<notin> set (downed_utxos s') \<and>
     map_of (new_substates s') (UtxoId a) = None \<and> current s' (UtxoId a) = Some (sub_value sub)"
  using assms store_reachable_inv[OF assms(1)]
  by (simp add: down_utxo_def as_utxo_address_def as_utxo_def current_def store_inv_def)

theorem mutated_utxo_spent_but_not_downed_witness:
  "store_reachable sample_utxo_store sample_unfrozen_store \<and>
   (\<exists>s'. down_utxo sample_unfrozen_store 0 = Ok (s', utxo_unfreeze sample_utxo) \<and>
     sample_utxo_address \<notin> set (downed_utxos s') \<and>
     map_of (new_substates s') (UtxoId sample_utxo_address) = None \<and>
     current s' (UtxoId sample_utxo_address) = Some (UtxoValue sample_utxo))"
  using mutated_utxo_spent_but_not_downed[OF sample_unfrozen_reachable, of sample_utxo_address
      "\<lparr>sub_value = UtxoValue sample_utxo, sub_version = 4\<rparr>" 0 "utxo_unfreeze sample_utxo"]
    sample_unfrozen_reachable
  by (simp add: sample_utxo_store_def sample_unfrozen_store_def sample_locked_store_def locked_get_def
      has_access_def state_is_write_def)

end
