(* ===== verification/Fees.thy ===== *)
theory Fees
  imports Store
begin

text \<open>
  Fee accounting: \<open>FeeBreakdown\<close> and \<open>FeeReceipt\<close> (crates/engine_types/src/fees.rs), \<open>FeeState\<close>
  (crates/engine/src/runtime/fee_state.rs) and the settlement of the fees of a transaction, the body of
  \<open>WorkingState::finalize_fees\<close> (crates/engine/src/runtime/working_state.rs). The main results are that
  settlement conserves the fee resource and charges exactly what is due.
\<close>

section \<open>Breakdown and receipt\<close>

text \<open>The derived order of \<open>FeeSource\<close>, which \<open>sort_keys\<close> uses.\<close>

definition fee_source_index :: "fee_source \<Rightarrow> nat" where
  "fee_source_index s = (case s of FeeInitial \<Rightarrow> 0 | FeeRuntimeCall \<Rightarrow> 1 | FeeStorage \<Rightarrow> 2 | FeeEvents \<Rightarrow> 3
     | FeeLogs \<Rightarrow> 4 | FeeTransactionWeight \<Rightarrow> 5 | FeeSignatureVerification \<Rightarrow> 6)"

definition breakdown_add :: "fee_breakdown \<Rightarrow> fee_source \<Rightarrow> nat \<Rightarrow> (fee_breakdown, 'e) result" where
  "breakdown_add b source amt = (case map_of b source of
     Some old \<Rightarrow> and_then (u64_add old amt) (\<lambda>v. Ok (AList.update source v b))
   | None \<Rightarrow> Ok (sort_key (\<lambda>kv. fee_source_index (fst kv)) (b @ [(source, amt)])))"

definition get_total :: "fee_breakdown \<Rightarrow> (nat, 'e) result" where
  "get_total b = try_fold u64_add 0 (map snd b)"

definition total_fees_charged :: "fee_receipt \<Rightarrow> (nat, 'e) result" where
  "total_fees_charged r = get_total (cost_breakdown r)"

definition total_refunded :: "fee_receipt \<Rightarrow> (nat, 'e) result" where
  "total_refunded r = and_then (total_fees_charged r) (\<lambda>c. Ok (total_fee_payment r - c))"

definition unpaid_debt :: "fee_receipt \<Rightarrow> (nat, 'e) result" where
  "unpaid_debt r = and_then (total_fees_charged r) (\<lambda>c. Ok (c - total_fees_paid r))"

definition is_paid_in_full :: "fee_receipt \<Rightarrow> (bool, 'e) result" where
  "is_paid_in_full r = and_then (unpaid_debt r) (\<lambda>d. Ok (d = 0))"

section \<open>Fee state\<close>

record fee_state =
  fee_payments_without_refund :: "resource_container list"
  fee_payments :: "(resource_container \<times> vault_id) list"
  running_total :: nat
  fee_charges :: fee_breakdown

definition fee_state_new :: fee_state where
  "fee_state_new = \<lparr>fee_payments_without_refund = [], fee_payments = [], running_total = 0, fee_charges = []\<rparr>"

definition add_fee_payment_checked ::
  "fee_state \<Rightarrow> resource_container \<Rightarrow> vault_id option \<Rightarrow> fee_state rt_result" where
  "add_fee_payment_checked fs c vault =
     (if address c \<noteq> XTR then Err InvalidArgument
      else case to_u64_checked (amount_of c) of
        None \<Rightarrow> Err (InvalidAmount (amount_of c))
      | Some amt \<Rightarrow>
          (if running_total fs + amt > u64_max then Err (InvalidAmount (amount_of c))
           else
             let fs' = fs\<lparr>running_total := running_total fs + amt\<rparr> in
             (case vault of
                Some vid \<Rightarrow> Ok (fs'\<lparr>fee_payments := fee_payments fs' @ [(c, vid)]\<rparr>)
              | None \<Rightarrow> Ok (fs'\<lparr>fee_payments_without_refund := fee_payments_without_refund fs' @ [c]\<rparr>))))"

definition add_charge :: "fee_state \<Rightarrow> fee_source \<Rightarrow> nat \<Rightarrow> (fee_state, 'e) result" where
  "add_charge fs source amt = and_then (breakdown_add (fee_charges fs) source amt) (\<lambda>b.
     Ok (fs\<lparr>fee_charges := b\<rparr>))"

definition take_fee_charges :: "fee_state \<Rightarrow> fee_state \<times> fee_breakdown" where
  "take_fee_charges fs = (fs\<lparr>fee_charges := []\<rparr>, fee_charges fs)"

definition total_charges :: "fee_state \<Rightarrow> (nat, 'e) result" where
  "total_charges fs = get_total (fee_charges fs)"

definition total_payments :: "fee_state \<Rightarrow> nat" where
  "total_payments fs = running_total fs"

section \<open>Settlement\<close>

type_synonym changeset = "(substate_id \<times> substate_value) list"

text \<open>First loop: payments that cannot be refunded are taken whole. The loop state is the fee
  container, the fees still due and the overcharge; the payments left in the fee state are collected.\<close>

fun collect_non_refundable ::
  "overflow_mode \<Rightarrow> resource_container \<Rightarrow> nat \<Rightarrow> nat \<Rightarrow> resource_container list
     \<Rightarrow> (resource_container \<times> nat \<times> nat \<times> resource_container list) rt_result" where
  "collect_non_refundable om fee remaining over [] = Ok (fee, remaining, over, [])"
| "collect_non_refundable om fee remaining over (resx # rest) =
     and_then (expect ''invalid fee entry in fee state'' (to_u64_checked (amount_of resx))) (\<lambda>paid.
     and_then (map_err ResourceErr (withdraw om resx (amount_of resx))) (\<lambda>(resx', taken).
     and_then (map_err ResourceErr (deposit om fee taken)) (\<lambda>fee'.
     and_then (if remaining < paid then u64_add over (paid - remaining) else Ok over) (\<lambda>over'.
     and_then (collect_non_refundable om fee' (remaining - paid) over' rest) (\<lambda>(fee'', remaining', over'', rest').
     Ok (fee'', remaining', over'', resx' # rest'))))))"

text \<open>Second loop: only what is still due is taken from the refundable payments, in order.\<close>

fun collect_refundable ::
  "overflow_mode \<Rightarrow> resource_container \<Rightarrow> nat \<Rightarrow> (resource_container \<times> vault_id) list
     \<Rightarrow> (resource_container \<times> nat \<times> (resource_container \<times> vault_id) list) rt_result" where
  "collect_refundable om fee remaining [] = Ok (fee, remaining, [])"
| "collect_refundable om fee remaining ((resx, vid) # rest) =
     (if remaining = 0 then Ok (fee, remaining, (resx, vid) # rest)
      else
        and_then (expect ''invalid fee entry in fee state'' (to_u64_checked (amount_of resx))) (\<lambda>paid.
        let due = min paid remaining in
        and_then (map_err ResourceErr (withdraw om resx (int due))) (\<lambda>(resx', taken).
        and_then (map_err ResourceErr (deposit om fee taken)) (\<lambda>fee'.
        and_then (collect_refundable om fee' (remaining - due) rest) (\<lambda>(fee'', remaining', rest').
        Ok (fee'', remaining', (resx', vid) # rest'))))))"

text \<open>Third loop: what is left of each refundable payment goes back to the vault that paid it.\<close>

fun refund_payments ::
  "overflow_mode \<Rightarrow> changeset \<Rightarrow> (resource_container \<times> vault_id) list \<Rightarrow> changeset rt_result" where
  "refund_payments om persist [] = Ok persist"
| "refund_payments om persist ((resx, vid) # rest) =
     (if is_zero (amount_of resx) then refund_payments om persist rest
      else
        and_then (expect ''invariant: vault that made fee payment not in changeset''
          (map_of persist (VaultId vid))) (\<lambda>v.
        and_then (expect ''invariant: substate substate_id for fee refund is not a vault'' (as_vault v)) (\<lambda>vault.
        and_then (map_err ResourceErr (withdraw_all om resx)) (\<lambda>(resx', taken).
        and_then (map_err ResourceErr (deposit om (v_container vault) taken)) (\<lambda>c.
        refund_payments om (AList.update (VaultId vid) (VaultValue (vault\<lparr>v_container := c\<rparr>)) persist) rest)))))"

definition settle_fees ::
  "overflow_mode \<Rightarrow> fee_state \<Rightarrow> changeset \<Rightarrow> (fee_state \<times> changeset \<times> fee_receipt) rt_result" where
  "settle_fees om fs persist =
     and_then (total_charges fs) (\<lambda>total_fees.
     and_then (map_err ResourceErr (stealth XTR 0)) (\<lambda>fee0.
     and_then (collect_non_refundable om fee0 total_fees 0 (fee_payments_without_refund fs))
       (\<lambda>(fee1, remaining1, over, nonref).
     and_then (if remaining1 > 0 then collect_refundable om fee1 remaining1 (fee_payments fs)
               else Ok (fee1, remaining1, fee_payments fs)) (\<lambda>(fee2, remaining2, payments).
     and_then (refund_payments om persist payments) (\<lambda>persist'.
     and_then (expect ''FeeState guarantees that the total fee payments fit in an u64''
       (to_u64_checked (amount_of fee2))) (\<lambda>paid.
     let (fs', charges) = take_fee_charges
       (fs\<lparr>fee_payments_without_refund := nonref, fee_payments := []\<rparr>) in
     Ok (fs', persist', \<lparr>total_fee_payment = total_payments fs, total_fees_paid = paid,
       total_fee_overcharge = over, cost_breakdown = charges\<rparr>)))))))"

section \<open>Laws of settlement\<close>

text \<open>A fee payment of \<open>a\<close> units.\<close>

definition payment :: "nat \<Rightarrow> resource_container" where
  "payment a = Stealth XTR (int a) 0"

lemma amount_of_payment [simp]: "amount_of (payment a) = int a"
  by (simp add: payment_def amount_of_def)

lemma address_payment [simp]: "address (payment a) = XTR"
  by (simp add: payment_def)

lemma in_i192_u64 [simp]: "a \<le> u64_max \<Longrightarrow> in_i192 (int a)"
  by (simp add: in_i192_def Amount_MIN_def Amount_MAX_def u64_max_def)

lemma to_u64_checked_int [simp]: "a \<le> u64_max \<Longrightarrow> to_u64_checked (int a) = Some a"
  by (simp add: to_u64_checked_def)

lemma withdraw_payment:
  assumes "0 < d" "d \<le> a" "a \<le> u64_max"
  shows "(withdraw om (payment a) (int d) :: _ rc_result) = Ok (payment (a - d), payment d)"
proof -
  have "in_i192 (int a - int d)" using assms in_i192_u64[of "a - d"] by (simp add: of_nat_diff)
  then show ?thesis using assms
    by (simp add: payment_def withdraw_def amount_simps rc_ctor_defs of_nat_diff)
qed

lemma deposit_payment:
  assumes "0 \<le> r" "in_i192 (r + int b)"
  shows "(deposit om (Stealth XTR r l) (payment b) :: _ rc_result) = Ok (Stealth XTR (r + int b) l)"
  using assms by (simp add: payment_def deposit_def amount_simps)

lemma deposit_payment_payment:
  assumes "a + b \<le> u64_max"
  shows "(deposit om (payment a) (payment b) :: _ rc_result) = Ok (payment (a + b))"
  using deposit_payment[of "int a" b om 0] in_i192_u64[OF assms] by (simp add: payment_def)

lemma collect_non_refundable_spec:
  assumes "\<And>a. a \<in> set ns \<Longrightarrow> 0 < a" "f + sum_list ns \<le> u64_max" "over + sum_list ns \<le> u64_max"
  shows "collect_non_refundable om (payment f) remaining over (map payment ns) =
    Ok (payment (f + sum_list ns), remaining - sum_list ns, over + (sum_list ns - remaining),
        map (\<lambda>_. payment 0) ns)"
  using assms
proof (induction ns arbitrary: f remaining over)
  case Nil
  then show ?case by simp
next
  case (Cons a ns)
  have a: "0 < a" "a \<le> u64_max" "f + a \<le> u64_max" using Cons.prems by auto
  let ?over = "over + (a - remaining)"
  have "(if remaining < a then u64_add over (a - remaining) else Ok over) = (Ok ?over :: nat rt_result)"
    using Cons.prems(3) by (auto simp: u64_add_def)
  moreover have "collect_non_refundable om (payment (f + a)) (remaining - a) ?over (map payment ns) =
    Ok (payment (f + a + sum_list ns), remaining - a - sum_list ns, ?over + (sum_list ns - (remaining - a)),
        map (\<lambda>_. payment 0) ns)"
    using Cons.prems by (intro Cons.IH) auto
  moreover have "?over + (sum_list ns - (remaining - a)) = over + (sum_list (a # ns) - remaining)"
    by simp
  ultimately show ?case using a withdraw_payment[of a a om] deposit_payment_payment[of f a om]
    by (simp add: ac_simps)
qed

text \<open>What is left of the refundable payments after \<open>r\<close> units were taken from the front.\<close>

fun leftover :: "nat \<Rightarrow> (nat \<times> 'v) list \<Rightarrow> (nat \<times> 'v) list" where
  "leftover r [] = []"
| "leftover r ((a, v) # ps) = (a - min a r, v) # leftover (r - min a r) ps"

lemma leftover_0 [simp]: "leftover 0 ps = ps"
  by (induction ps) auto

lemma sum_leftover: "sum_list (map fst (leftover r ps)) = sum_list (map fst ps) - r"
  by (induction r ps rule: leftover.induct) auto

lemma snd_leftover [simp]: "map snd (leftover r ps) = map snd ps"
  by (induction r ps rule: leftover.induct) auto

abbreviation payments :: "(nat \<times> vault_id) list \<Rightarrow> (resource_container \<times> vault_id) list" where
  "payments ps \<equiv> map (\<lambda>(a, v). (payment a, v)) ps"

lemma collect_refundable_spec:
  assumes "\<And>a v. (a, v) \<in> set ps \<Longrightarrow> 0 < a" "f + sum_list (map fst ps) \<le> u64_max"
  shows "collect_refundable om (payment f) remaining (payments ps) =
    Ok (payment (f + min remaining (sum_list (map fst ps))), remaining - sum_list (map fst ps),
        payments (leftover remaining ps))"
  using assms
proof (induction ps arbitrary: f remaining)
  case Nil
  then show ?case by simp
next
  case (Cons p ps)
  obtain a v where p: "p = (a, v)" by (cases p)
  show ?case
  proof (cases "remaining = 0")
    case False
    let ?d = "min a remaining"
    have a: "0 < ?d" "a \<le> u64_max" "f + ?d \<le> u64_max" using Cons.prems False by (auto simp: p)
    have "collect_refundable om (payment (f + ?d)) (remaining - ?d) (payments ps) =
      Ok (payment (f + ?d + min (remaining - ?d) (sum_list (map fst ps))), remaining - ?d - sum_list (map fst ps),
        payments (leftover (remaining - ?d) ps))"
      using Cons.prems by (intro Cons.IH) (auto simp: p min_def)
    moreover have "f + ?d + min (remaining - ?d) (sum_list (map fst ps)) =
        f + min remaining (sum_list (map fst (p # ps)))"
      "remaining - ?d - sum_list (map fst ps) = remaining - sum_list (map fst (p # ps))"
      using False by (auto simp: p min_def)
    ultimately show ?thesis
      using a False withdraw_payment[of ?d a om] deposit_payment_payment[of f ?d om]
      by (simp add: p Let_def)
  qed (simp add: p)
qed

definition vault_balance :: "changeset \<Rightarrow> vault_id \<Rightarrow> amount" where
  "vault_balance p vid = (case map_of p (VaultId vid) of
     Some (VaultValue v) \<Rightarrow> amount_of (v_container v) | _ \<Rightarrow> 0)"

text \<open>The vault is in the changeset, holds the fee resource, and has room for \<open>n\<close> more units.\<close>

definition can_refund :: "changeset \<Rightarrow> nat \<Rightarrow> vault_id \<Rightarrow> bool" where
  "can_refund p n vid = (case map_of p (VaultId vid) of
     Some (VaultValue v) \<Rightarrow> (case v_container v of
         Stealth addr r l \<Rightarrow> addr = XTR \<and> 0 \<le> r \<and> in_i192 (r + int n)
       | _ \<Rightarrow> False)
   | _ \<Rightarrow> False)"

definition refund_to :: "(nat \<times> vault_id) list \<Rightarrow> vault_id \<Rightarrow> nat" where
  "refund_to ps vid = sum_list (map fst (filter (\<lambda>q. snd q = vid) ps))"

lemma in_i192_downward: "in_i192 (r + int n) \<Longrightarrow> 0 \<le> r \<Longrightarrow> m \<le> n \<Longrightarrow> in_i192 (r + int m)"
  by (auto simp: in_i192_def Amount_MIN_def)

lemma can_refund_cases:
  assumes "can_refund p n vid"
  obtains v r l where "map_of p (VaultId vid) = Some (VaultValue v)" "v_container v = Stealth XTR r l"
    "0 \<le> r" "in_i192 (r + int n)"
  using assms by (auto simp: can_refund_def split: option.splits substate_value.splits resource_container.splits)

lemma can_refund_mono: "can_refund p n v \<Longrightarrow> m \<le> n \<Longrightarrow> can_refund p m v"
  by (auto simp: can_refund_def in_i192_downward
      split: option.splits substate_value.splits resource_container.splits)

lemma refund_payments_spec:
  assumes "\<And>a v. (a, v) \<in> set ps \<Longrightarrow> can_refund p (sum_list (map fst ps)) v"
    and "sum_list (map fst ps) \<le> u64_max"
  shows "\<exists>p'. refund_payments om p (payments ps) = Ok p' \<and>
    (\<forall>vid. vault_balance p' vid = vault_balance p vid + int (refund_to ps vid)) \<and>
    (\<forall>k. k \<notin> VaultId ` set (map snd ps) \<longrightarrow> map_of p' k = map_of p k)"
  using assms
proof (induction ps arbitrary: p)
  case Nil
  then show ?case by (simp add: refund_to_def)
next
  case (Cons q ps)
  obtain a vid where q: "q = (a, vid)" by (cases q)
  obtain v r l where v: "map_of p (VaultId vid) = Some (VaultValue v)" "v_container v = Stealth XTR r l"
    "0 \<le> r" "in_i192 (r + int (a + sum_list (map fst ps)))"
    using can_refund_cases[OF Cons.prems(1)[of a vid]] by (auto simp: q)
  let ?p = "AList.update (VaultId vid) (VaultValue (v\<lparr>v_container := Stealth XTR (r + int a) l\<rparr>)) p"
  show ?case
  proof (cases "a = 0")
    case True
    then have "can_refund p (sum_list (map fst ps)) w" if "(b, w) \<in> set ps" for b w
      using that Cons.prems(1) by (auto simp: q)
    moreover have "sum_list (map fst ps) \<le> u64_max" using Cons.prems(2) by (simp add: q)
    ultimately obtain p' where "refund_payments om p (payments ps) = Ok p'"
      "\<forall>vid. vault_balance p' vid = vault_balance p vid + int (refund_to ps vid)"
      "\<forall>k. k \<notin> VaultId ` set (map snd ps) \<longrightarrow> map_of p' k = map_of p k" using Cons.IH[of p] by blast
    then show ?thesis using True by (intro exI[of _ p']) (auto simp: q is_zero_def refund_to_def)
  next
    case False
    have "can_refund ?p (sum_list (map fst ps)) w" if "(b, w) \<in> set ps" for b w
    proof (cases "w = vid")
      case True
      then show ?thesis using v by (simp add: can_refund_def ac_simps)
    next
      case False
      then have "can_refund p (sum_list (map fst ps)) w"
        using Cons.prems(1)[of b w] that can_refund_mono[of p _ w "sum_list (map fst ps)"] by (simp add: q)
      then show ?thesis using False by (simp add: can_refund_def)
    qed
    moreover have "sum_list (map fst ps) \<le> u64_max" using Cons.prems(2) by (simp add: q)
    ultimately obtain p' where p': "refund_payments om ?p (payments ps) = Ok p'"
      "\<forall>vid. vault_balance p' vid = vault_balance ?p vid + int (refund_to ps vid)"
      "\<forall>k. k \<notin> VaultId ` set (map snd ps) \<longrightarrow> map_of p' k = map_of ?p k"
      using Cons.IH[of ?p] by blast
    have "(withdraw_all om (payment a) :: _ rc_result) = Ok (payment 0, payment a)"
      using withdraw_payment[of a a om] False Cons.prems(2) by (simp add: withdraw_all_def payment_def amount_of_def q)
    moreover have "(deposit om (v_container v) (payment a) :: _ rc_result) = Ok (Stealth XTR (r + int a) l)"
      using deposit_payment[of r a om l] v in_i192_downward[OF v(4), of a] by simp
    ultimately have "refund_payments om p (payments (q # ps)) = Ok p'"
      using p'(1) v(1) False by (simp add: q is_zero_def as_vault_def)
    moreover have "vault_balance ?p w = vault_balance p w + (if w = vid then int a else 0)" for w
      using v by (simp add: vault_balance_def amount_of_def)
    ultimately show ?thesis using p' by (auto simp: q refund_to_def)
  qed
qed

text \<open>Everything the fee state holds is a positive payment in the fee resource, and the running total
  is their sum.\<close>

definition fee_state_ok :: "fee_state \<Rightarrow> nat list \<Rightarrow> (nat \<times> vault_id) list \<Rightarrow> bool" where
  "fee_state_ok fs ns ps \<longleftrightarrow> fee_payments_without_refund fs = map payment ns \<and> fee_payments fs = payments ps \<and>
     (\<forall>a \<in> set ns. 0 < a) \<and> (\<forall>q \<in> set ps. 0 < fst q) \<and>
     running_total fs = sum_list ns + sum_list (map fst ps) \<and> running_total fs \<le> u64_max"

lemma fee_state_ok_new: "fee_state_ok fee_state_new [] []"
  by (simp add: fee_state_ok_def fee_state_new_def)

lemma fee_state_ok_add:
  assumes "fee_state_ok fs ns ps" "0 < a"
  shows "add_fee_payment_checked fs (payment a) vault = Ok fs' \<Longrightarrow>
      (case vault of None \<Rightarrow> fee_state_ok fs' (ns @ [a]) ps | Some vid \<Rightarrow> fee_state_ok fs' ns (ps @ [(a, vid)]))"
  using assms
  by (auto simp: add_fee_payment_checked_def fee_state_ok_def Let_def
      to_u64_checked_def split: if_splits option.splits)

lemma sum_refund_to:
  "(\<Sum>vid \<in> set (map snd ps). refund_to ps vid) = sum_list (map fst ps)"
proof (induction ps)
  case Nil
  then show ?case by simp
next
  case (Cons q ps)
  obtain a v where q: "q = (a, v)" by (cases q)
  have *: "refund_to ((a, v) # ps) w = refund_to ps w + (if w = v then a else 0)" for w
    by (simp add: refund_to_def)
  have z: "w \<notin> set (map snd ps) \<Longrightarrow> refund_to ps w = 0" for w
    by (force simp: refund_to_def filter_empty_conv)
  have "(\<Sum>w \<in> insert v (set (map snd ps)). refund_to ps w) = (\<Sum>w \<in> set (map snd ps). refund_to ps w)"
    using z by (intro sum.mono_neutral_right) auto
  then show ?case using Cons.IH by (simp add: q * sum.distrib)
qed

lemma settle_fees_spec:
  assumes ok: "fee_state_ok fs ns ps" and ch: "(total_charges fs :: nat rt_result) = Ok ch"
    and ready: "\<forall>q \<in> set ps. can_refund p (running_total fs) (snd q)"
  defines "due \<equiv> sum_list ns + min (ch - sum_list ns) (sum_list (map fst ps))"
  shows "\<exists>p' fs'. settle_fees om fs p = Ok (fs', p',
      \<lparr>total_fee_payment = running_total fs, total_fees_paid = due,
       total_fee_overcharge = sum_list ns - ch, cost_breakdown = fee_charges fs\<rparr>) \<and>
    (\<forall>vid. vault_balance p' vid = vault_balance p vid + int (refund_to (leftover (ch - sum_list ns) ps) vid)) \<and>
    (\<forall>k. k \<notin> VaultId ` set (map snd ps) \<longrightarrow> map_of p' k = map_of p k)"
proof -
  let ?N = "sum_list ns" and ?R = "sum_list (map fst ps)" and ?rem = "ch - sum_list ns"
  have fsd: "fee_payments_without_refund fs = map payment ns" "fee_payments fs = payments ps"
    "\<And>a. a \<in> set ns \<Longrightarrow> 0 < a" "\<And>a v. (a, v) \<in> set ps \<Longrightarrow> 0 < a" "?N + ?R \<le> u64_max"
    "running_total fs = ?N + ?R"
    using ok by (auto simp: fee_state_ok_def)
  have c1: "collect_non_refundable om (payment 0) ch 0 (map payment ns) =
      Ok (payment ?N, ?rem, ?N - ch, map (\<lambda>_. payment 0) ns)"
    using collect_non_refundable_spec[of ns 0 0 om ch] fsd by simp
  have c2: "(if ?rem > 0 then collect_refundable om (payment ?N) ?rem (payments ps)
      else Ok (payment ?N, ?rem, payments ps)) = Ok (payment due, ?rem - ?R, payments (leftover ?rem ps))"
    using collect_refundable_spec[of ps ?N om ?rem] fsd by (auto simp: due_def)
  have "can_refund p (sum_list (map fst (leftover ?rem ps))) v" if "(a, v) \<in> set (leftover ?rem ps)" for a v
  proof -
    have "v \<in> set (map snd ps)" using that snd_leftover[of ?rem ps] by (metis image_eqI image_set snd_conv)
    then have "can_refund p (running_total fs) v" using ready by auto
    then show ?thesis using fsd(6) by (simp add: sum_leftover can_refund_mono)
  qed
  moreover have "sum_list (map fst (leftover ?rem ps)) \<le> u64_max" using fsd(5) by (simp add: sum_leftover)
  ultimately obtain p' where
    p': "refund_payments om p (payments (leftover ?rem ps)) = Ok p'"
      "\<forall>vid. vault_balance p' vid = vault_balance p vid + int (refund_to (leftover ?rem ps) vid)"
      "\<forall>k. k \<notin> VaultId ` set (map snd ps) \<longrightarrow> map_of p' k = map_of p k"
    using refund_payments_spec[of "leftover ?rem ps" p om] by (metis (no_types, lifting) snd_leftover)
  have due: "due \<le> u64_max" using fsd(5) by (auto simp: due_def)
  have fee0: "(stealth XTR 0 :: _ rc_result) = Ok (payment 0)" by (simp add: rc_ctor_defs payment_def)
  have "settle_fees om fs p = Ok (fs\<lparr>fee_payments_without_refund := map (\<lambda>_. payment 0) ns,
      fee_payments := [], fee_charges := []\<rparr>, p', \<lparr>total_fee_payment = running_total fs, total_fees_paid = due,
      total_fee_overcharge = ?N - ch, cost_breakdown = fee_charges fs\<rparr>)"
    using p'(1) due c1 c2
    by (cases "?N < ch") (simp_all add: settle_fees_def ch fee0 fsd take_fee_charges_def total_payments_def)
  then show ?thesis using p'(2,3) by blast
qed

section \<open>Properties\<close>

text \<open>C2: settling the fees of a transaction loses and creates nothing. For every fee state built from
  positive payments in the fee resource whose refund vaults are in the changeset, settlement succeeds; the
  fees paid are all non-refundable payments plus only what is still due of the refundable ones, no vault
  loses anything, nothing else in the changeset changes, and what was paid in equals the fees paid plus
  what the refund vaults gained.\<close>
theorem settle_fees_conserves:
  assumes "fee_state_ok fs ns ps" and "(total_charges fs :: nat rt_result) = Ok ch"
    and "\<forall>q \<in> set ps. can_refund p (running_total fs) (snd q)"
  shows "\<exists>fs' p' rc. settle_fees om fs p = Ok (fs', p', rc) \<and>
    total_fees_paid rc = sum_list ns + min (ch - sum_list ns) (sum_list (map fst ps)) \<and>
    (\<forall>vid. vault_balance p vid \<le> vault_balance p' vid) \<and>
    (\<forall>k. k \<notin> VaultId ` set (map snd ps) \<longrightarrow> map_of p' k = map_of p k) \<and>
    int (running_total fs) = int (total_fees_paid rc) +
      (\<Sum>vid \<in> set (map snd ps). vault_balance p' vid - vault_balance p vid)"
proof -
  let ?rest = "leftover (ch - sum_list ns) ps"
  obtain p' fs' where r: "settle_fees om fs p = Ok (fs', p',
      \<lparr>total_fee_payment = running_total fs,
       total_fees_paid = sum_list ns + min (ch - sum_list ns) (sum_list (map fst ps)),
       total_fee_overcharge = sum_list ns - ch, cost_breakdown = fee_charges fs\<rparr>)"
    and b: "\<And>vid. vault_balance p' vid = vault_balance p vid + int (refund_to ?rest vid)"
    and o: "\<forall>k. k \<notin> VaultId ` set (map snd ps) \<longrightarrow> map_of p' k = map_of p k"
    using settle_fees_spec[OF assms, of om] by blast
  have "(\<Sum>vid \<in> set (map snd ps). vault_balance p' vid - vault_balance p vid)
      = int (\<Sum>vid \<in> set (map snd ?rest). refund_to ?rest vid)"
    by (simp only: b snd_leftover) simp
  also have "\<dots> = int (sum_list (map fst ps) - (ch - sum_list ns))"
    by (simp only: sum_refund_to sum_leftover)
  finally have "int (running_total fs) = int (sum_list ns + min (ch - sum_list ns) (sum_list (map fst ps))) +
      (\<Sum>vid \<in> set (map snd ps). vault_balance p' vid - vault_balance p vid)"
    using assms(1) by (auto simp: fee_state_ok_def min_def)
  then show ?thesis using r b o by (intro exI conjI) auto
qed

text \<open>The receipt of a settlement. The debt of the receipt is zero exactly when the payments cover the
  charges, the overcharge is what the non-refundable payments exceed the charges by, and the amount the
  receipt reports as refunded is what was given back to vaults plus that overcharge, which nobody gets
  back.\<close>
theorem settle_fees_receipt:
  assumes "fee_state_ok fs ns ps" and "(total_charges fs :: nat rt_result) = Ok ch"
    and "\<forall>q \<in> set ps. can_refund p (running_total fs) (snd q)"
  shows "\<exists>fs' p' rc. settle_fees om fs p = Ok (fs', p', rc) \<and>
    (is_paid_in_full rc :: bool rt_result) = Ok (ch \<le> running_total fs) \<and>
    total_fee_overcharge rc = sum_list ns - ch \<and>
    (total_refunded rc :: nat rt_result) =
      Ok (running_total fs - total_fees_paid rc + total_fee_overcharge rc)"
proof -
  obtain p' fs' where r: "settle_fees om fs p = Ok (fs', p',
      \<lparr>total_fee_payment = running_total fs,
       total_fees_paid = sum_list ns + min (ch - sum_list ns) (sum_list (map fst ps)),
       total_fee_overcharge = sum_list ns - ch, cost_breakdown = fee_charges fs\<rparr>)"
    using settle_fees_spec[OF assms, of om] by blast
  have "(get_total (fee_charges fs) :: nat rt_result) = Ok ch" using assms(2) by (simp add: total_charges_def)
  moreover have "running_total fs = sum_list ns + sum_list (map fst ps)" using assms(1) by (simp add: fee_state_ok_def)
  ultimately show ?thesis using r
    by (auto simp: is_paid_in_full_def unpaid_debt_def total_fees_charged_def total_refunded_def)
qed

definition sample_fee_state :: fee_state where
  "sample_fee_state = \<lparr>fee_payments_without_refund = [payment 10], fee_payments = [(payment 50, 3), (payment 7, 3)],
     running_total = 67, fee_charges = [(FeeInitial, 20), (FeeStorage, 5)]\<rparr>"

definition sample_changeset :: changeset where
  "sample_changeset = [(VaultId 3, VaultValue \<lparr>v_container = Stealth XTR 100 0, v_freeze_flags = 0\<rparr>)]"

lemma sample_fee_state_ok: "fee_state_ok sample_fee_state [10] [(50, 3), (7, 3)]"
  by (simp add: fee_state_ok_def sample_fee_state_def u64_max_def)

lemma sample_charges: "(total_charges sample_fee_state :: nat rt_result) = Ok 25"
  by (simp add: total_charges_def get_total_def sample_fee_state_def u64_add_def u64_max_def)

lemma sample_can_refund:
  "\<forall>q \<in> set [(50, 3), (7, 3)]. can_refund sample_changeset (running_total sample_fee_state) (snd q)"
  by (simp add: can_refund_def sample_changeset_def sample_fee_state_def in_i192_def Amount_MIN_def Amount_MAX_def)

theorem settle_fees_conserves_witness:
  "\<exists>fs' p' rc. settle_fees PanicOnOverflow sample_fee_state sample_changeset = Ok (fs', p', rc) \<and>
    total_fees_paid rc = 25 \<and> vault_balance p' 3 - vault_balance sample_changeset 3 = 42"
  using settle_fees_conserves[OF sample_fee_state_ok sample_charges sample_can_refund, of PanicOnOverflow]
  by (fastforce simp: sample_fee_state_def)

theorem settle_fees_receipt_witness:
  "\<exists>fs' p' rc. settle_fees PanicOnOverflow sample_fee_state sample_changeset = Ok (fs', p', rc) \<and>
    (is_paid_in_full rc :: bool rt_result) = Ok True \<and> total_fee_overcharge rc = 0"
  using settle_fees_receipt[OF sample_fee_state_ok sample_charges sample_can_refund, of PanicOnOverflow]
  by (fastforce simp: sample_fee_state_def)

end
