(* ===== verification/Scope.thy ===== *)
theory Scope
  imports Fees
begin

text \<open>
  Scopes and call frames: \<open>AuthorizationScope\<close> (crates/engine/src/runtime/auth.rs), \<open>CallScope\<close>,
  \<open>CallFrame\<close> and \<open>PushCallFrame\<close> (crates/engine/src/runtime/scope.rs). A scope says which substates,
  buckets and proofs the code of a frame may use. An \<open>IndexSet\<close> is a distinct list; \<open>swap_remove\<close>
  moves the last element into the gap, as the crate does.
\<close>

section \<open>Ordered sets with swap removal\<close>

definition swap_remove :: "'a \<Rightarrow> 'a list \<Rightarrow> 'a list \<times> bool" where
  "swap_remove x xs =
     (if x \<in> set xs then
        let i = length (takeWhile (\<lambda>y. y \<noteq> x) xs) in
        (if i = length xs - 1 then butlast xs else butlast (xs[i := last xs]), True)
      else (xs, False))"

definition index_set_extend :: "'a list \<Rightarrow> 'a list \<Rightarrow> 'a list" where
  "index_set_extend xs ys = foldl (\<lambda>acc y. index_set_insert y acc) xs ys"

section \<open>The authorization scope\<close>

record authorization_scope =
  virtual_proofs :: "non_fungible_address list"
  auth_proofs :: "proof_id list"

definition auth_scope_new :: "non_fungible_address list \<Rightarrow> authorization_scope" where
  "auth_scope_new vs = \<lparr>virtual_proofs = vs, auth_proofs = []\<rparr>"

definition add_proof :: "authorization_scope \<Rightarrow> proof_id \<Rightarrow> authorization_scope" where
  "add_proof a p = a\<lparr>auth_proofs := auth_proofs a @ [p]\<rparr>"

definition remove_proof :: "authorization_scope \<Rightarrow> proof_id \<Rightarrow> authorization_scope" where
  "remove_proof a p = a\<lparr>auth_proofs := remove1 p (auth_proofs a)\<rparr>"

definition update_from_child :: "authorization_scope \<Rightarrow> authorization_scope \<Rightarrow> authorization_scope" where
  "update_from_child a child = a\<lparr>auth_proofs := auth_proofs a @ auth_proofs child\<rparr>"

section \<open>The call scope\<close>

record call_scope =
  orphans :: "substate_id list"
  owned :: "substate_id list"
  referenced :: "substate_id list"
  component_lock :: "locked_substate option"
  lock_scope :: "lock_id list"
  proof_scope :: "proof_id list"
  bucket_scope :: "bucket_id list"
  auth_scope :: authorization_scope

definition call_scope_new :: call_scope where
  "call_scope_new = \<lparr>orphans = [], owned = [], referenced = [], component_lock = None, lock_scope = [],
     proof_scope = [], bucket_scope = [], auth_scope = auth_scope_new []\<rparr>"

definition call_scope_for_component :: "locked_substate \<Rightarrow> call_scope" where
  "call_scope_for_component l = call_scope_new\<lparr>component_lock := Some l\<rparr>"

definition set_auth_scope :: "call_scope \<Rightarrow> authorization_scope \<Rightarrow> call_scope" where
  "set_auth_scope s a = s\<lparr>auth_scope := a\<rparr>"

definition is_lock_in_scope :: "call_scope \<Rightarrow> lock_id \<Rightarrow> bool" where
  "is_lock_in_scope s i \<longleftrightarrow> i \<in> set (lock_scope s)"

definition is_proof_in_scope :: "call_scope \<Rightarrow> proof_id \<Rightarrow> bool" where
  "is_proof_in_scope s p \<longleftrightarrow> p \<in> set (proof_scope s)"

definition is_bucket_in_scope :: "call_scope \<Rightarrow> bucket_id \<Rightarrow> bool" where
  "is_bucket_in_scope s b \<longleftrightarrow> b \<in> set (bucket_scope s)"

definition is_substate_in_scope :: "call_scope \<Rightarrow> substate_id \<Rightarrow> bool" where
  "is_substate_in_scope s k =
     (if k = ResourceId XTR then True
      else if (case as_non_fungible_address k of
                 Some a \<Rightarrow> nf_resource_address a = PUBLIC_IDENTITY_RESOURCE_ADDRESS
               | None \<Rightarrow> False) then True
      else k \<in> set (owned s) \<or> k \<in> set (referenced s) \<or> k \<in> set (orphans s))"

definition add_lock_to_scope :: "call_scope \<Rightarrow> lock_id \<Rightarrow> call_scope" where
  "add_lock_to_scope s i = s\<lparr>lock_scope := index_set_insert i (lock_scope s)\<rparr>"

definition add_bucket_to_scope :: "call_scope \<Rightarrow> bucket_id \<Rightarrow> call_scope" where
  "add_bucket_to_scope s b = s\<lparr>bucket_scope := index_set_insert b (bucket_scope s)\<rparr>"

definition remove_bucket_from_scope :: "call_scope \<Rightarrow> bucket_id \<Rightarrow> call_scope \<times> bool" where
  "remove_bucket_from_scope s b =
     (let (bs, found) = swap_remove b (bucket_scope s) in (s\<lparr>bucket_scope := bs\<rparr>, found))"

definition add_proof_to_scope :: "call_scope \<Rightarrow> proof_id \<Rightarrow> call_scope" where
  "add_proof_to_scope s p =
     s\<lparr>proof_scope := index_set_insert p (proof_scope s), auth_scope := add_proof (auth_scope s) p\<rparr>"

definition remove_lock_from_scope :: "call_scope \<Rightarrow> lock_id \<Rightarrow> call_scope rt_result" where
  "remove_lock_from_scope s i =
     (let (ls, found) = swap_remove i (lock_scope s) in
      if \<not> found then Err (LockErr (LockIdNotFound i)) else Ok (s\<lparr>lock_scope := ls\<rparr>))"

definition move_node_to_owned :: "call_scope \<Rightarrow> substate_id \<Rightarrow> call_scope rt_result" where
  "move_node_to_owned s k =
     (let (os, found) = swap_remove k (orphans s) in
      if \<not> found then Ok s
      else if k \<in> set (owned s) then Err (DuplicateSubstate k)
      else Ok (s\<lparr>orphans := os, owned := owned s @ [k]\<rparr>))"

definition add_substate_to_scope_unchecked :: "call_scope \<Rightarrow> substate_id \<Rightarrow> call_scope" where
  "add_substate_to_scope_unchecked s k =
     (if is_root k then s\<lparr>owned := index_set_insert k (owned s)\<rparr>
      else s\<lparr>orphans := index_set_insert k (orphans s)\<rparr>)"

definition add_substate_to_scope :: "call_scope \<Rightarrow> substate_id \<Rightarrow> call_scope rt_result" where
  "add_substate_to_scope s k =
     (if is_substate_in_scope s k then Err (DuplicateSubstate k)
      else Ok (add_substate_to_scope_unchecked s k))"

definition add_substate_to_owned :: "call_scope \<Rightarrow> substate_id \<Rightarrow> call_scope" where
  "add_substate_to_owned s k = s\<lparr>referenced := fst (swap_remove k (referenced s)),
     orphans := fst (swap_remove k (orphans s)), owned := index_set_insert k (owned s)\<rparr>"

definition add_substate_to_referenced :: "call_scope \<Rightarrow> substate_id \<Rightarrow> call_scope" where
  "add_substate_to_referenced s k =
     (if is_substate_in_scope s k then s
      else s\<lparr>referenced := index_set_insert k (referenced s)\<rparr>)"

definition update_from_parent :: "call_scope \<Rightarrow> call_scope \<Rightarrow> call_scope" where
  "update_from_parent s parent = s"

definition update_from_child_scope :: "call_scope \<Rightarrow> call_scope \<Rightarrow> call_scope" where
  "update_from_child_scope s child = s\<lparr>
     owned := index_set_extend (owned s) (owned child),
     orphans := foldl (\<lambda>os k. fst (swap_remove k os)) (orphans s) (owned child),
     proof_scope := index_set_extend (proof_scope s) (proof_scope child),
     bucket_scope := index_set_extend (bucket_scope s) (bucket_scope child),
     auth_scope := update_from_child (auth_scope s) (auth_scope child)\<rparr>"

definition include_owned_in_scope :: "call_scope \<Rightarrow> indexed_well_known_types \<Rightarrow> call_scope" where
  "include_owned_in_scope s vs = foldl (\<lambda>s k.
     if is_public_key_identity k \<or> is_transaction_receipt k \<or> is_template k then s
     else add_substate_to_owned s k) s (referenced_substates vs)"

definition include_refs_in_scope :: "call_scope \<Rightarrow> indexed_well_known_types \<Rightarrow> call_scope" where
  "include_refs_in_scope s vs =
     (let s1 = foldl (\<lambda>s k.
            if is_public_key_identity k \<or> is_vault k \<or> is_transaction_receipt k then s
            else add_substate_to_referenced s k) s (referenced_substates vs);
          s2 = foldl add_bucket_to_scope s1 (iw_bucket_ids vs)
      in foldl add_proof_to_scope s2 (iw_proof_ids vs))"

section \<open>Call frames\<close>

type_synonym entity_id = "160 word"

record call_frame =
  frame_scope :: call_scope
  frame_template :: template_address
  frame_module :: string
  frame_entity_id :: entity_id

definition frame_for_static :: "template_address \<Rightarrow> string \<Rightarrow> entity_id \<Rightarrow> call_frame" where
  "frame_for_static t m e =
     \<lparr>frame_scope = call_scope_new, frame_template = t, frame_module = m, frame_entity_id = e\<rparr>"

definition frame_for_component ::
  "template_address \<Rightarrow> string \<Rightarrow> locked_substate \<Rightarrow> entity_id \<Rightarrow> call_frame" where
  "frame_for_component t m l e =
     \<lparr>frame_scope = call_scope_for_component l, frame_template = t, frame_module = m, frame_entity_id = e\<rparr>"

datatype push_call_frame =
    ForComponent template_address string indexed_well_known_types locked_substate
      indexed_well_known_types entity_id
  | Static template_address string indexed_well_known_types entity_id

definition push_component_lock :: "push_call_frame \<Rightarrow> locked_substate option" where
  "push_component_lock p = (case p of ForComponent _ _ _ l _ _ \<Rightarrow> Some l | Static _ _ _ _ \<Rightarrow> None)"

definition push_arg_scope :: "push_call_frame \<Rightarrow> indexed_well_known_types" where
  "push_arg_scope p = (case p of ForComponent _ _ _ _ a _ \<Rightarrow> a | Static _ _ a _ \<Rightarrow> a)"

definition push_entity_id :: "push_call_frame \<Rightarrow> entity_id option" where
  "push_entity_id p = (case p of ForComponent _ _ _ _ _ e \<Rightarrow> Some e | Static _ _ _ _ \<Rightarrow> None)"

definition into_new_call_frame :: "push_call_frame \<Rightarrow> call_frame" where
  "into_new_call_frame p = (case p of
     ForComponent t m cs l args e \<Rightarrow>
       let f = frame_for_component t m l e in
       f\<lparr>frame_scope := include_refs_in_scope (include_owned_in_scope (frame_scope f) cs) args\<rparr>
   | Static t m args e \<Rightarrow>
       let f = frame_for_static t m e in
       f\<lparr>frame_scope := include_refs_in_scope (frame_scope f) args\<rparr>)"

section \<open>Laws of the ordered sets\<close>

lemma takeWhile_neq_length:
  "distinct (ys @ x # zs) \<Longrightarrow> length (takeWhile (\<lambda>y. y \<noteq> x) (ys @ x # zs)) = length ys"
  by (subst takeWhile_append2) auto

lemma swap_remove_split:
  assumes "distinct (ys @ x # zs)"
  shows "swap_remove x (ys @ x # zs) =
    (if zs = [] then ys else ys @ last zs # butlast zs, True)"
  using takeWhile_neq_length[OF assms]
  by (auto simp: swap_remove_def Let_def butlast_append list_update_append)

lemma swap_remove_notin [simp]: "x \<notin> set xs \<Longrightarrow> swap_remove x xs = (xs, False)"
  by (simp add: swap_remove_def)

lemma snd_swap_remove [simp]: "snd (swap_remove x xs) \<longleftrightarrow> x \<in> set xs"
  by (simp add: swap_remove_def Let_def)

lemma swap_remove_mem: "x \<in> set xs \<Longrightarrow> \<exists>ys. swap_remove x xs = (ys, True)"
  by (simp add: swap_remove_def Let_def)

lemma swap_remove_set_distinct:
  assumes "distinct xs"
  shows "set (fst (swap_remove x xs)) = set xs - {x} \<and> distinct (fst (swap_remove x xs))"
proof (cases "x \<in> set xs")
  case True
  then obtain ys zs where xs: "xs = ys @ x # zs" by (meson split_list)
  show ?thesis
  proof (cases zs rule: rev_cases)
    case Nil
    then show ?thesis using assms swap_remove_split[of ys x zs] by (auto simp: xs)
  next
    case (snoc us u)
    then show ?thesis using assms swap_remove_split[of ys x zs] by (auto simp: xs)
  qed
qed (use assms in auto)

lemmas set_swap_remove [simp] = swap_remove_set_distinct[THEN conjunct1]
lemmas distinct_swap_remove [simp] = swap_remove_set_distinct[THEN conjunct2]

lemma swap_remove_pair:
  "distinct xs \<Longrightarrow> swap_remove x xs = (ys, b) \<Longrightarrow> set ys = set xs - {x} \<and> distinct ys \<and> b = (x \<in> set xs)"
  using swap_remove_set_distinct[of xs x] snd_swap_remove[of x xs] by simp

lemma index_set_extend_laws [simp]:
  "set (index_set_extend xs ys) = set xs \<union> set ys"
  "distinct (index_set_extend xs ys) = distinct xs"
  by (induction ys arbitrary: xs) (auto simp: index_set_extend_def)

lemma foldl_swap_remove:
  assumes "distinct os"
  shows "set (foldl (\<lambda>os k. fst (swap_remove k os)) os ks) = set os - set ks \<and>
    distinct (foldl (\<lambda>os k. fst (swap_remove k os)) os ks)"
  using assms by (induction ks arbitrary: os) auto

section \<open>Well formed scopes\<close>

text \<open>The sets are sets, and nothing is both owned and orphaned.\<close>

definition scope_wf :: "call_scope \<Rightarrow> bool" where
  "scope_wf s \<longleftrightarrow> distinct (orphans s) \<and> distinct (owned s) \<and> distinct (referenced s) \<and>
     distinct (bucket_scope s) \<and> distinct (proof_scope s) \<and> distinct (lock_scope s) \<and>
     set (owned s) \<inter> set (orphans s) = {}"

datatype scope_op =
    ScopeAdd substate_id
  | ScopeOwn substate_id
  | ScopeMove substate_id
  | ScopeChild call_scope
  | ScopeIncludeOwned indexed_well_known_types
  | ScopeIncludeRefs indexed_well_known_types
  | ScopeAddBucket bucket_id
  | ScopeRemoveBucket bucket_id
  | ScopeAddProof proof_id
  | ScopeAddLock lock_id
  | ScopeRemoveLock lock_id

fun scope_apply :: "call_scope \<Rightarrow> scope_op \<Rightarrow> call_scope rt_result" where
  "scope_apply s (ScopeAdd k) = add_substate_to_scope s k"
| "scope_apply s (ScopeOwn k) = Ok (add_substate_to_owned s k)"
| "scope_apply s (ScopeMove k) = move_node_to_owned s k"
| "scope_apply s (ScopeChild c) = Ok (update_from_child_scope s c)"
| "scope_apply s (ScopeIncludeOwned vs) = Ok (include_owned_in_scope s vs)"
| "scope_apply s (ScopeIncludeRefs vs) = Ok (include_refs_in_scope s vs)"
| "scope_apply s (ScopeAddBucket b) = Ok (add_bucket_to_scope s b)"
| "scope_apply s (ScopeRemoveBucket b) = Ok (fst (remove_bucket_from_scope s b))"
| "scope_apply s (ScopeAddProof p) = Ok (add_proof_to_scope s p)"
| "scope_apply s (ScopeAddLock i) = Ok (add_lock_to_scope s i)"
| "scope_apply s (ScopeRemoveLock i) = remove_lock_from_scope s i"

inductive scope_reachable :: "call_scope \<Rightarrow> bool" where
  scope_root: "scope_reachable call_scope_new"
| scope_component: "scope_reachable (call_scope_for_component l)"
| scope_auth: "scope_reachable s \<Longrightarrow> scope_reachable (set_auth_scope s a)"
| scope_step: "\<lbrakk>scope_reachable s; scope_apply s op = Ok s'\<rbrakk> \<Longrightarrow> scope_reachable s'"

lemma foldl_invariant: "I s \<Longrightarrow> (\<And>s x. I s \<Longrightarrow> I (f s x)) \<Longrightarrow> I (foldl f s xs)"
  by (induction xs arbitrary: s) auto

lemma scope_wf_owned: "scope_wf s \<Longrightarrow> scope_wf (add_substate_to_owned s k)"
  by (auto simp: scope_wf_def add_substate_to_owned_def)

lemma scope_wf_referenced: "scope_wf s \<Longrightarrow> scope_wf (add_substate_to_referenced s k)"
  by (auto simp: scope_wf_def add_substate_to_referenced_def)

lemma scope_wf_bucket: "scope_wf s \<Longrightarrow> scope_wf (add_bucket_to_scope s b)"
  by (simp add: scope_wf_def add_bucket_to_scope_def)

lemma scope_wf_proof: "scope_wf s \<Longrightarrow> scope_wf (add_proof_to_scope s p)"
  by (simp add: scope_wf_def add_proof_to_scope_def)

lemma scope_wf_include_owned: "scope_wf s \<Longrightarrow> scope_wf (include_owned_in_scope s vs)"
  unfolding include_owned_in_scope_def by (rule foldl_invariant) (auto intro: scope_wf_owned)

lemma scope_wf_include_refs: "scope_wf s \<Longrightarrow> scope_wf (include_refs_in_scope s vs)"
  unfolding include_refs_in_scope_def Let_def
  by (intro foldl_invariant[where I = scope_wf])
     (auto intro: scope_wf_referenced scope_wf_bucket scope_wf_proof)

lemma not_in_scope:
  "\<not> is_substate_in_scope s k \<Longrightarrow> k \<notin> set (owned s) \<and> k \<notin> set (referenced s) \<and> k \<notin> set (orphans s)"
  by (auto simp: is_substate_in_scope_def split: if_splits)

lemma move_node_to_owned_spec:
  assumes "scope_wf s"
  shows "\<exists>s'. move_node_to_owned s k = Ok s' \<and> scope_wf s' \<and> set (orphans s') = set (orphans s) - {k} \<and>
    (\<forall>i. is_substate_in_scope s' i = is_substate_in_scope s i)"
proof (cases "k \<in> set (orphans s)")
  case False
  then show ?thesis using assms by (simp add: move_node_to_owned_def)
next
  case True
  obtain os b where os: "swap_remove k (orphans s) = (os, b)" by (cases "swap_remove k (orphans s)")
  have d: "distinct (orphans s)" using assms by (simp add: scope_wf_def)
  have o: "set os = set (orphans s) - {k}" "distinct os" "b"
    using swap_remove_pair[OF d os] True by auto
  have k: "k \<notin> set (owned s)" using assms True by (auto simp: scope_wf_def)
  then show ?thesis using True assms o
    by (auto simp: move_node_to_owned_def os scope_wf_def is_substate_in_scope_def)
qed

lemma scope_apply_wf:
  assumes "scope_apply s op = Ok s'" "scope_wf s"
  shows "scope_wf s'"
proof (cases op)
  case (ScopeAdd k)
  then have n: "\<not> is_substate_in_scope s k" and s': "s' = add_substate_to_scope_unchecked s k"
    using assms(1) by (auto simp: add_substate_to_scope_def split: if_splits)
  show ?thesis using assms(2) not_in_scope[OF n]
    by (auto simp: s' add_substate_to_scope_unchecked_def scope_wf_def)
next
  case (ScopeMove k)
  then show ?thesis using assms move_node_to_owned_spec[OF assms(2), of k] by auto
next
  case (ScopeChild c)
  then show ?thesis using assms foldl_swap_remove[of "orphans s" "owned c"]
    by (auto simp: update_from_child_scope_def scope_wf_def)
next
  case (ScopeRemoveBucket b)
  then show ?thesis using assms
    by (auto simp: remove_bucket_from_scope_def scope_wf_def split: prod.splits dest!: swap_remove_pair[rotated])
next
  case (ScopeRemoveLock i)
  then show ?thesis using assms
    by (auto simp: remove_lock_from_scope_def scope_wf_def split: prod.splits if_splits dest!: swap_remove_pair[rotated])
qed (use assms in \<open>auto intro: scope_wf_owned scope_wf_include_owned scope_wf_include_refs scope_wf_bucket
       scope_wf_proof simp: add_lock_to_scope_def\<close>, simp_all add: scope_wf_def)

lemma scope_reachable_wf: "scope_reachable s \<Longrightarrow> scope_wf s"
  by (induction rule: scope_reachable.induct)
     (auto simp: scope_wf_def call_scope_new_def call_scope_for_component_def set_auth_scope_def
       dest: scope_apply_wf[unfolded scope_wf_def])

section \<open>What a new frame can see\<close>

lemma in_scope_owned:
  "scope_wf s \<Longrightarrow> is_substate_in_scope (add_substate_to_owned s k) i \<longleftrightarrow> is_substate_in_scope s i \<or> i = k"
  by (auto simp: is_substate_in_scope_def add_substate_to_owned_def scope_wf_def)

lemma in_scope_referenced:
  "is_substate_in_scope (add_substate_to_referenced s k) i \<longleftrightarrow> is_substate_in_scope s i \<or> i = k"
  by (auto simp: is_substate_in_scope_def add_substate_to_referenced_def split: option.splits)

lemma in_scope_foldl_owned:
  "scope_wf s \<Longrightarrow> is_substate_in_scope (foldl (\<lambda>s k. if P k then s else add_substate_to_owned s k) s ks) i \<longleftrightarrow>
     is_substate_in_scope s i \<or> (i \<in> set ks \<and> \<not> P i)"
  by (induction ks arbitrary: s) (auto simp: in_scope_owned scope_wf_owned)

lemma in_scope_foldl_referenced:
  "is_substate_in_scope (foldl (\<lambda>s k. if P k then s else add_substate_to_referenced s k) s ks) i \<longleftrightarrow>
     is_substate_in_scope s i \<or> (i \<in> set ks \<and> \<not> P i)"
  by (induction ks arbitrary: s) (auto simp: in_scope_referenced)

lemma in_scope_bucket [simp]: "is_substate_in_scope (add_bucket_to_scope s b) i = is_substate_in_scope s i"
  by (simp add: is_substate_in_scope_def add_bucket_to_scope_def)

lemma in_scope_proof [simp]: "is_substate_in_scope (add_proof_to_scope s p) i = is_substate_in_scope s i"
  by (simp add: is_substate_in_scope_def add_proof_to_scope_def)

lemma in_scope_buckets [simp]:
  "is_substate_in_scope (foldl add_bucket_to_scope s bs) i = is_substate_in_scope s i"
  by (induction bs arbitrary: s) simp_all

lemma in_scope_proofs [simp]:
  "is_substate_in_scope (foldl add_proof_to_scope s ps) i = is_substate_in_scope s i"
  by (induction ps arbitrary: s) simp_all

lemma in_scope_include_owned:
  "scope_wf s \<Longrightarrow> is_substate_in_scope (include_owned_in_scope s vs) i \<longleftrightarrow> is_substate_in_scope s i \<or>
     (i \<in> set (referenced_substates vs) \<and> \<not> (is_public_key_identity i \<or> is_transaction_receipt i \<or> is_template i))"
  by (simp add: include_owned_in_scope_def in_scope_foldl_owned)

lemma in_scope_include_refs:
  "is_substate_in_scope (include_refs_in_scope s vs) i \<longleftrightarrow> is_substate_in_scope s i \<or>
     (i \<in> set (referenced_substates vs) \<and> \<not> (is_public_key_identity i \<or> is_vault i \<or> is_transaction_receipt i))"
  by (simp add: include_refs_in_scope_def Let_def in_scope_foldl_referenced)

lemma scope_wf_new [simp]: "scope_wf call_scope_new" "scope_wf (call_scope_for_component l)"
  by (simp_all add: scope_wf_def call_scope_new_def call_scope_for_component_def)

lemma in_scope_new [simp]:
  "is_substate_in_scope (call_scope_for_component l) i = is_substate_in_scope call_scope_new i"
  by (simp add: is_substate_in_scope_def call_scope_for_component_def)

section \<open>Properties\<close>

text \<open>What the code of a new call frame may touch. A frame starts with exactly the ids every frame
  has (the fee resource and public key identities), the substates the state of its component references,
  except identities, receipts and templates, and the substates its arguments reference, except identities,
  receipts and vaults: no argument can bring a vault into scope.\<close>
theorem new_frame_scope:
  "is_substate_in_scope (frame_scope (into_new_call_frame p)) i \<longleftrightarrow>
     is_substate_in_scope call_scope_new i \<or>
     (\<exists>t m cs l args e. p = ForComponent t m cs l args e \<and> i \<in> set (referenced_substates cs) \<and>
        \<not> is_public_key_identity i \<and> \<not> is_transaction_receipt i \<and> \<not> is_template i) \<or>
     (i \<in> set (referenced_substates (push_arg_scope p)) \<and>
        \<not> is_public_key_identity i \<and> \<not> is_vault i \<and> \<not> is_transaction_receipt i)"
  by (cases p) (auto simp: into_new_call_frame_def frame_for_component_def frame_for_static_def push_arg_scope_def
      in_scope_include_refs in_scope_include_owned)

text \<open>Marking a substate as owned never fails. In every scope the runtime can build, from a fresh
  scope by the operations of a scope and by merging the scopes of finished calls, moving a substate to
  the owned ones succeeds, takes exactly that substate off the orphans and leaves what is in scope
  unchanged; the duplicate error of the code cannot occur.\<close>
theorem move_node_to_owned_total:
  assumes "scope_reachable s"
  shows "\<exists>s'. move_node_to_owned s k = Ok s' \<and> set (orphans s') = set (orphans s) - {k} \<and>
    (k \<in> set (orphans s) \<longrightarrow> k \<in> set (owned s')) \<and>
    (\<forall>i. is_substate_in_scope s' i = is_substate_in_scope s i)"
proof -
  obtain s' where s': "move_node_to_owned s k = Ok s'" "set (orphans s') = set (orphans s) - {k}"
      "\<forall>i. is_substate_in_scope s' i = is_substate_in_scope s i"
    using move_node_to_owned_spec[OF scope_reachable_wf[OF assms]] by blast
  moreover have "k \<in> set (owned s')" if k: "k \<in> set (orphans s)"
  proof -
    obtain os where "swap_remove k (orphans s) = (os, True)"
      using swap_remove_mem[OF k] by blast
    then show ?thesis using s'(1) by (auto simp: move_node_to_owned_def split: if_splits)
  qed
  ultimately show ?thesis by (intro exI[of _ s'] conjI) simp_all
qed

definition sample_scope :: call_scope where
  "sample_scope = call_scope_new\<lparr>orphans := [VaultId 4, VaultId 5], owned := [ComponentId 9]\<rparr>"

lemma sample_scope_reachable: "scope_reachable sample_scope"
proof -
  let ?s1 = "call_scope_new\<lparr>orphans := [VaultId 4]\<rparr>"
  let ?s2 = "call_scope_new\<lparr>orphans := [VaultId 4, VaultId 5]\<rparr>"
  have "scope_reachable ?s1"
    by (rule scope_step[OF scope_root, where op = "ScopeAdd (VaultId 4)"])
       (simp add: add_substate_to_scope_def is_substate_in_scope_def as_non_fungible_address_def
         call_scope_new_def add_substate_to_scope_unchecked_def is_root_def index_set_insert_def)
  then have "scope_reachable ?s2"
    by (rule scope_step[where op = "ScopeAdd (VaultId 5)"])
       (simp add: add_substate_to_scope_def is_substate_in_scope_def as_non_fungible_address_def
         call_scope_new_def add_substate_to_scope_unchecked_def is_root_def index_set_insert_def)
  then show ?thesis
    by (rule scope_step[where op = "ScopeAdd (ComponentId 9)"])
       (simp add: add_substate_to_scope_def is_substate_in_scope_def as_non_fungible_address_def sample_scope_def
         call_scope_new_def add_substate_to_scope_unchecked_def is_root_def index_set_insert_def)
qed

theorem move_node_to_owned_total_witness:
  "\<exists>s'. move_node_to_owned sample_scope (VaultId 4) = Ok s' \<and> set (orphans s') = {VaultId 5} \<and>
    VaultId 4 \<in> set (owned s')"
  using move_node_to_owned_total[OF sample_scope_reachable, of "VaultId 4"]
  by (fastforce simp: sample_scope_def)

end
