(* ===== verification/Stealth.thy ===== *)
theory Stealth
  imports Substates
begin

text \<open>
  Stealth transfers: the statements of crates/template_lib/src/models/stealth.rs and
  unspent_output.rs, their validation in crates/engine_types/src/stealth (outputs.rs, transfer.rs,
  value_proof.rs), the permission to spend an output (crates/engine_types/src/crypto/utxo_spend.rs), and
  the limits on a transfer (crates/engine/src/runtime/validation.rs, crates/engine_types/src/limits.rs).
  The hash functions of messages.rs and the signature scheme are parameters, as in the confidential part.
\<close>

section \<open>Statements\<close>

record stealth_unspent_output =
  suo_output :: unspent_output
  suo_owner_public_key :: public_key
  suo_tag :: nat

record stealth_outputs_statement =
  sos_outputs :: "stealth_unspent_output list"
  sos_revealed_output_amount :: amount
  sos_agg_range_proof :: "8 word list"

record stealth_input =
  si_commitment :: commitment
  si_owner_proof :: signature_bytes

record stealth_inputs_statement =
  sis_inputs :: "stealth_input list"
  sis_revealed_amount :: amount

record stealth_transfer_statement =
  sts_inputs_statement :: stealth_inputs_statement
  sts_outputs_statement :: stealth_outputs_statement
  sts_balance_proof :: signature_bytes

definition stealth_inputs_new ::
  "stealth_input list \<Rightarrow> amount \<Rightarrow> (stealth_inputs_statement, 'e) result" where
  "stealth_inputs_new inputs revealed =
     and_then (assert_or_panic (\<not> is_negative revealed) ''Revealed amount must be positive'') (\<lambda>_.
     and_then (assert_or_panic (inputs \<noteq> [] \<or> \<not> is_zero revealed)
       ''At least one input or a revealed amount must be provided'') (\<lambda>_.
     Ok \<lparr>sis_inputs = inputs, sis_revealed_amount = revealed\<rparr>))"

datatype value_knowledge_proof =
    CommitmentMaskProof signature_bytes
  | ElgamalEncrypted public_key

record stealth_value_proof =
  svp_value :: amount
  svp_knowledge_proof :: value_knowledge_proof

record validated_stealth_output =
  vso_output :: validated_private_output
  vso_owner_public_key :: public_key
  vso_tag :: nat

record validated_stealth_transfer =
  vst_outputs :: "validated_stealth_output list"
  vst_revealed_output_amount :: amount

section \<open>External functions\<close>

record stealth_crypto =
  base :: crypto
  stealth_transfer_message :: "bytes32 \<Rightarrow> bytes32 \<Rightarrow> amount \<Rightarrow> amount \<Rightarrow> 8 word list"
  stealth_ownership_message :: "public_key \<Rightarrow> bytes32 \<Rightarrow> commitment \<Rightarrow> bytes32 \<Rightarrow> 8 word list"
  value_proof_message :: "commitment \<Rightarrow> amount \<Rightarrow> 8 word list"
  verify_schnorr :: "signature_bytes \<Rightarrow> public_key \<Rightarrow> 8 word list \<Rightarrow> bool"

definition try_decode_to_signature :: "crypto \<Rightarrow> signature_bytes \<Rightarrow> signature_bytes option" where
  "try_decode_to_signature cr s = (if signature_ok cr s then Some s else None)"

section \<open>Outputs\<close>

definition to_utxo_output :: "validated_stealth_output \<Rightarrow> utxo_output" where
  "to_utxo_output o' = \<lparr>uto_output = to_private_output (vso_output o'),
     uto_owner_public_key = vso_owner_public_key o', uto_tag = vso_tag o'\<rparr>"

definition validate_stealth_output ::
  "crypto \<Rightarrow> public_key option \<Rightarrow> stealth_unspent_output \<Rightarrow> (validated_stealth_output, resource_error) result" where
  "validate_stealth_output cr view_key stmt =
     (let out = suo_output stmt in
      if \<not> point_ok cr (uo_commitment out) then Err InvalidConfidentialProof
      else if \<not> point_ok cr (uo_sender_public_nonce out) then Err InvalidConfidentialProof
      else and_then (validate_elgamal_verifiable_balance_proof cr (uo_commitment out) view_key
               (uo_viewable_balance_proof out)) (\<lambda>vb.
           if \<not> point_ok cr (suo_owner_public_key stmt) then Err InvalidConfidentialProof
           else Ok \<lparr>vso_output = \<lparr>vo_commitment = uo_commitment out, vo_public_nonce = uo_sender_public_nonce out,
                     vo_encrypted_data = uo_encrypted_data out,
                     vo_minimum_value_promise = uo_minimum_value_promise out, vo_viewable_balance = vb\<rparr>,
                   vso_owner_public_key = suo_owner_public_key stmt, vso_tag = suo_tag stmt\<rparr>))"

definition validate_stealth_outputs_statement ::
  "crypto \<Rightarrow> stealth_outputs_statement \<Rightarrow> public_key option
     \<Rightarrow> (validated_stealth_output list, resource_error) result" where
  "validate_stealth_outputs_statement cr stmt view_key =
     and_then (validate_bullet_proof cr (sos_agg_range_proof stmt) (map suo_output (sos_outputs stmt))) (\<lambda>_.
     if sos_outputs stmt = [] then Ok []
     else try_fold (\<lambda>acc o'. and_then (validate_stealth_output cr view_key o') (\<lambda>v. Ok (acc @ [v])))
            [] (sos_outputs stmt))"

section \<open>Transfers\<close>

definition basic_validations :: "stealth_transfer_statement \<Rightarrow> (unit, resource_error) result" where
  "basic_validations t =
     (let inp = sts_inputs_statement t; out = sts_outputs_statement t in
      if is_negative (sis_revealed_amount inp) then Err InvalidBalanceProof
      else if is_negative (sos_revealed_output_amount out) then Err InvalidBalanceProof
      else if is_zero (sis_revealed_amount inp) \<and> sis_inputs inp = [] then Err InvalidBalanceProof
      else if sis_inputs inp = [] \<and> sos_outputs out = [] \<and>
              sis_revealed_amount inp \<noteq> sos_revealed_output_amount out then Err InvalidBalanceProof
      else Ok ())"

definition sum_input_commitments :: "crypto \<Rightarrow> stealth_input list \<Rightarrow> (bytes32, resource_error) result" where
  "sum_input_commitments cr inputs = try_fold (\<lambda>acc i.
     if point_ok cr (si_commitment i) then Ok (point_add cr acc (si_commitment i))
     else Err InvalidConfidentialProof) 0 inputs"

definition validate_transfer ::
  "stealth_crypto \<Rightarrow> stealth_transfer_statement \<Rightarrow> public_key option
     \<Rightarrow> (validated_stealth_transfer, resource_error) result" where
  "validate_transfer sc t view_key =
     (let cr = base sc; inp = sts_inputs_statement t; out = sts_outputs_statement t in
      and_then (basic_validations t) (\<lambda>_.
      and_then (validate_stealth_outputs_statement cr out view_key) (\<lambda>outputs.
      if sig_public_nonce (sts_balance_proof t) = 0 then Err InvalidBalanceProof
      else and_then (ok_or InvalidBalanceProof (try_decode_to_signature cr (sts_balance_proof t))) (\<lambda>proof.
      if sis_inputs inp = [] \<and> outputs = []
      then (if sos_agg_range_proof out \<noteq> [] then Err InvalidBalanceProof
            else if public_key_of cr (sig_signature proof) \<noteq> sig_public_nonce proof then Err InvalidBalanceProof
            else Ok \<lparr>vst_outputs = [], vst_revealed_output_amount = sos_revealed_output_amount out\<rparr>)
      else
        let agg_outputs = foldl (\<lambda>acc o'. point_add cr acc (vo_commitment (vso_output o'))) 0 outputs in
        and_then (sum_input_commitments cr (sis_inputs inp)) (\<lambda>agg_inputs.
        and_then (ok_or InvalidBalanceProof (commit_amount_checked cr 0 (sis_revealed_amount inp))) (\<lambda>ric.
        and_then (ok_or InvalidBalanceProof (commit_amount_checked cr 0 (sos_revealed_output_amount out))) (\<lambda>roc.
        let public_excess = point_sub cr (point_sub cr (point_add cr agg_inputs ric) agg_outputs) roc;
            message = stealth_transfer_message sc public_excess (sig_public_nonce proof)
              (sis_revealed_amount inp) (sos_revealed_output_amount out)
        in if \<not> verify_raw_uniform cr proof public_excess message then Err InvalidBalanceProof
           else Ok \<lparr>vst_outputs = outputs, vst_revealed_output_amount = sos_revealed_output_amount out\<rparr>)))))))"

section \<open>Spending an output and proving its value\<close>

definition verify_utxo_spend_permission ::
  "stealth_crypto \<Rightarrow> utxo_output \<Rightarrow> stealth_input \<Rightarrow> (unit, resource_error) result" where
  "verify_utxo_spend_permission sc u input =
     (let cr = base sc in
      if sig_public_nonce (si_owner_proof input) = 0 then Err InvalidSpend
      else and_then (ok_or InvalidSpend (try_decode_to_signature cr (si_owner_proof input))) (\<lambda>proof.
        let message = stealth_ownership_message sc (uto_owner_public_key u)
              (sig_public_nonce (si_owner_proof input)) (si_commitment input) (public_nonce (uto_output u)) in
        if \<not> point_ok cr (uto_owner_public_key u) then Err InvalidSpend
        else if \<not> verify_raw_uniform cr proof (uto_owner_public_key u) message then Err InvalidSpend
        else Ok ()))"

definition validate_value_proof ::
  "stealth_crypto \<Rightarrow> commitment \<Rightarrow> elgamal_verifiable_balance option \<Rightarrow> stealth_value_proof
     \<Rightarrow> (amount, resource_error) result" where
  "validate_value_proof sc cmt evb proof =
     (let cr = base sc in
      if is_negative (svp_value proof) then Err UtxoBurnFailed
      else if \<not> point_ok cr cmt then Err UtxoBurnFailed
      else and_then
        (case svp_knowledge_proof proof of
           CommitmentMaskProof sig \<Rightarrow>
             and_then (commit_amount cr 0 (svp_value proof)) (\<lambda>c.
             let public_mask = point_sub cr cmt c in
             if \<not> signature_ok cr sig then Err UtxoBurnFailed
             else if \<not> verify_schnorr sc sig public_mask (value_proof_message sc cmt (svp_value proof))
             then Err UtxoBurnFailed else Ok ())
         | ElgamalEncrypted reveal_key \<Rightarrow>
             and_then (ok_or UtxoBurnFailed evb) (\<lambda>elgamal.
             if \<not> point_ok cr (evb_encrypted elgamal) then Err UtxoBurnFailed
             else if \<not> point_ok cr reveal_key then Err UtxoBurnFailed
             else
               let check_value = point_sub cr (evb_encrypted elgamal) reveal_key in
               and_then (expect ''Value is non-negative, conversion must succeed''
                 (convert_amount_to_secret (svp_value proof))) (\<lambda>value.
               if public_key_of cr value \<noteq> check_value then Err UtxoBurnFailed else Ok ())))
        (\<lambda>_. Ok (svp_value proof)))"

section \<open>Limits\<close>

record stealth_limits =
  max_inputs :: nat
  max_outputs :: nat

definition STEALTH_LIMITS :: stealth_limits where
  "STEALTH_LIMITS = \<lparr>max_inputs = 1000, max_outputs = 8\<rparr>"

section \<open>Laws\<close>

lemma try_fold_map_Ok:
  "try_fold (\<lambda>acc x. and_then (f x) (\<lambda>y. Ok (acc @ [y]))) acc xs = (Ok r :: (_, 'e) result) \<longleftrightarrow>
     (\<exists>ys. r = acc @ ys \<and> list_all2 (\<lambda>x y. f x = Ok y) xs ys)"
proof (induction xs arbitrary: acc)
  case Nil
  then show ?case by auto
next
  case (Cons x xs)
  show ?case
  proof (cases "f x")
    case (Ok y)
    then show ?thesis by (auto simp: Cons.IH list_all2_Cons1)
  qed (auto simp: list_all2_Cons1)
qed

lemma validate_stealth_output_commitment:
  "validate_stealth_output cr vk o' = Ok v \<Longrightarrow>
     vo_commitment (vso_output v) = uo_commitment (suo_output o') \<and> vso_owner_public_key v = suo_owner_public_key o'"
  by (auto simp: validate_stealth_output_def Let_def result_simps split: if_splits)

lemma validate_stealth_outputs_commitments:
  assumes "validate_stealth_outputs_statement cr stmt vk = Ok vs"
  shows "map (\<lambda>v. vo_commitment (vso_output v)) vs = map (\<lambda>o'. uo_commitment (suo_output o')) (sos_outputs stmt)"
proof -
  have "list_all2 (\<lambda>o' v. validate_stealth_output cr vk o' = Ok v) (sos_outputs stmt) vs"
    using assms by (auto simp: validate_stealth_outputs_statement_def result_simps try_fold_map_Ok split: if_splits)
  then show ?thesis
    by (induction rule: list_all2_induct) (auto dest: validate_stealth_output_commitment)
qed

lemma sum_input_commitments_Ok:
  "try_fold (\<lambda>acc i. if point_ok cr (si_commitment i) then Ok (point_add cr acc (si_commitment i))
      else Err InvalidConfidentialProof) acc inputs = Ok s \<Longrightarrow>
   s = foldl (point_add cr) acc (map si_commitment inputs)"
  by (induction inputs arbitrary: acc) (auto simp: result_simps split: if_splits)

text \<open>Openings: a list of masks and values.\<close>

abbreviation masks :: "(int \<times> int) list \<Rightarrow> int" where "masks xs \<equiv> sum_list (map fst xs)"
abbreviation vals :: "(int \<times> int) list \<Rightarrow> int" where "vals xs \<equiv> sum_list (map snd xs)"

lemma foldl_point_add:
  assumes "\<And>a b c d. point_add cr (cm a b) (cm c d) = cm (a + c) (b + d)"
  shows "foldl (point_add cr) (cm m v) (map (\<lambda>(a, b). cm a b) xs) = cm (m + masks xs) (v + vals xs)"
  by (induction xs arbitrary: m v) (auto simp: assms algebra_simps)

section \<open>Properties\<close>

text \<open>C36: an accepted stealth transfer is balanced. Let \<open>cm\<close> be the homomorphic commitment of the group,
  let a verified signature imply that the signer's point commits to zero, and let the inputs and outputs
  open to masks and values. Whenever a transfer is accepted, the commitment to the surplus, the values and
  revealed amount that go in minus those that come out, equals a commitment to zero: a surplus other than
  zero would give two openings of one commitment.\<close>
theorem validate_transfer_balanced:
  assumes hom_add: "\<And>a b c d. point_add (base sc) (cm a b) (cm c d) = cm (a + c) (b + d)"
    and hom_sub: "\<And>a b c d. point_sub (base sc) (cm a b) (cm c d) = cm (a - c) (b - d)"
    and ident: "cm 0 0 = 0"
    and rev_in: "commit_amount_checked (base sc) 0 (sis_revealed_amount (sts_inputs_statement t))
      = Some (cm 0 (sis_revealed_amount (sts_inputs_statement t)))"
    and rev_out: "commit_amount_checked (base sc) 0 (sos_revealed_output_amount (sts_outputs_statement t))
      = Some (cm 0 (sos_revealed_output_amount (sts_outputs_statement t)))"
    and sound: "\<And>s p m. verify_raw_uniform (base sc) s p m \<Longrightarrow> \<exists>k. p = cm k 0"
    and ins: "map si_commitment (sis_inputs (sts_inputs_statement t)) = map (\<lambda>(m, v). cm m v) ins"
    and outs: "map (\<lambda>o'. uo_commitment (suo_output o')) (sos_outputs (sts_outputs_statement t))
      = map (\<lambda>(m, v). cm m v) outs"
    and ok: "validate_transfer sc t vk = Ok r"
  shows "\<exists>k. cm (masks ins - masks outs)
      (vals ins + sis_revealed_amount (sts_inputs_statement t) - vals outs - vst_revealed_output_amount r) = cm k 0"
proof -
  let ?cr = "base sc" and ?a = "sis_revealed_amount (sts_inputs_statement t)"
    and ?b = "sos_revealed_output_amount (sts_outputs_statement t)"
  obtain os where os: "validate_stealth_outputs_statement ?cr (sts_outputs_statement t) vk = Ok os"
    and basic: "basic_validations t = Ok ()" and r: "vst_revealed_output_amount r = ?b"
    using ok by (auto simp: validate_transfer_def Let_def result_simps split: if_splits)
  have oc: "map (\<lambda>v. vo_commitment (vso_output v)) os = map (\<lambda>(m, v). cm m v) outs"
    using validate_stealth_outputs_commitments[OF os] outs by simp
  show ?thesis
  proof (cases "sis_inputs (sts_inputs_statement t) = [] \<and> os = []")
    case True
    then have "ins = []" "outs = []" "sos_outputs (sts_outputs_statement t) = []" using ins oc outs by auto
    moreover from this have "?a = ?b" using basic True by (auto simp: basic_validations_def Let_def split: if_splits)
    ultimately show ?thesis using r by auto
  next
    case False
    let ?go = "foldl (\<lambda>acc o'. point_add ?cr acc (vo_commitment (vso_output o'))) 0 os"
    obtain gi msg s where gi: "sum_input_commitments ?cr (sis_inputs (sts_inputs_statement t)) = Ok gi"
      and ver: "verify_raw_uniform ?cr s
        (point_sub ?cr (point_sub ?cr (point_add ?cr gi (cm 0 ?a)) ?go) (cm 0 ?b)) msg"
      using ok os False basic rev_in rev_out
      by (auto simp: validate_transfer_def Let_def result_simps split: if_splits)
    have "gi = cm (masks ins) (vals ins)"
      using sum_input_commitments_Ok[OF gi[unfolded sum_input_commitments_def]] ins
        foldl_point_add[of ?cr cm 0 0 ins, OF hom_add] by (simp add: ident)
    moreover have "?go = cm (masks outs) (vals outs)"
      using foldl_point_add[of ?cr cm 0 0 outs, OF hom_add] unfolding oc[symmetric]
      by (simp add: ident foldl_map)
    ultimately show ?thesis using sound[OF ver] r by (simp add: hom_add hom_sub algebra_simps)
  qed
qed

text \<open>The El Gamal form of a value proof proves nothing. For every output with a viewable balance and
  every non-negative value, the reveal key obtained by subtracting the claimed value from the encrypted
  balance makes the proof of that value valid; nothing ties the reveal key to the view key or the nonce.\<close>
theorem elgamal_value_proof_accepts_any_value:
  assumes "0 \<le> v" "point_ok (base sc) cmt" "point_ok (base sc) (evb_encrypted evb)"
    and "convert_amount_to_secret v = Some s"
    and "point_ok (base sc) (point_sub (base sc) (evb_encrypted evb) (public_key_of (base sc) s))"
    and "point_sub (base sc) (evb_encrypted evb)
          (point_sub (base sc) (evb_encrypted evb) (public_key_of (base sc) s)) = public_key_of (base sc) s"
  shows "validate_value_proof sc cmt (Some evb) \<lparr>svp_value = v, svp_knowledge_proof =
     ElgamalEncrypted (point_sub (base sc) (evb_encrypted evb) (public_key_of (base sc) s))\<rparr> = Ok v"
  using assms by (simp add: validate_value_proof_def is_negative_def)

definition sample_stealth_crypto :: stealth_crypto where
  "sample_stealth_crypto = \<lparr>base = \<lparr>point_ok = (\<lambda>_. True), scalar_ok = (\<lambda>_. True), point_add = (+), point_sub = (-),
     point_scale = (*), public_key_of = (\<lambda>s. s), commit = (\<lambda>m v. v),
     viewable_balance_challenge = (\<lambda>_ _ _. 1), confidential_withdraw_message = (\<lambda>_ _ _ _. []),
     signature_ok = (\<lambda>_. True), verify_raw_uniform = (\<lambda>_ p _. p = 0),
     verify_range_proof = (\<lambda>_ _ _. True)\<rparr>,
     stealth_transfer_message = (\<lambda>_ _ _ _. []), stealth_ownership_message = (\<lambda>_ _ _ _. []),
     value_proof_message = (\<lambda>_ _. []), verify_schnorr = (\<lambda>_ _ _. True)\<rparr>"

definition sample_cm :: "int \<Rightarrow> int \<Rightarrow> bytes32" where
  "sample_cm m v = of_int v * 2 ^ 248"

lemma sample_secrets: "convert_amount_to_secret 2 = Some (2 * 2 ^ 248)" "convert_amount_to_secret 0 = Some 0"
  by code_simp+

definition sample_output :: unspent_output where
  "sample_output = \<lparr>uo_commitment = sample_cm 0 3, uo_sender_public_nonce = 1, uo_encrypted_data = [],
     uo_minimum_value_promise = 0, uo_viewable_balance_proof = None\<rparr>"

definition sample_transfer :: stealth_transfer_statement where
  "sample_transfer = \<lparr>sts_inputs_statement = \<lparr>sis_inputs = [\<lparr>si_commitment = sample_cm 0 5,
       si_owner_proof = \<lparr>sig_public_nonce = 1, sig_signature = 1\<rparr>\<rparr>], sis_revealed_amount = 0\<rparr>,
     sts_outputs_statement = \<lparr>sos_outputs = [\<lparr>suo_output = sample_output, suo_owner_public_key = 1, suo_tag = 0\<rparr>],
       sos_revealed_output_amount = 2, sos_agg_range_proof = []\<rparr>,
     sts_balance_proof = \<lparr>sig_public_nonce = 1, sig_signature = 1\<rparr>\<rparr>"

lemma sample_transfer_ok: "\<exists>r. validate_transfer sample_stealth_crypto sample_transfer None = Ok r \<and>
    vst_revealed_output_amount r = 2"
  by (simp add: validate_transfer_def sample_transfer_def sample_stealth_crypto_def sample_output_def sample_cm_def
      basic_validations_def validate_stealth_outputs_statement_def validate_bullet_proof_def
      validate_stealth_output_def validate_elgamal_verifiable_balance_proof_def get_static_range_proof_service_def
      next_power_of_two_def next_power_of_two_from.simps MAX_LAZY_BP_AGG_FACTORS_def try_decode_to_signature_def
      sum_input_commitments_def commit_amount_checked_def sample_secrets is_negative_def is_zero_def)

theorem validate_transfer_balanced_witness:
  "\<exists>r k. validate_transfer sample_stealth_crypto sample_transfer None = Ok r \<and>
     sample_cm 0 (5 + 0 - 3 - vst_revealed_output_amount r) = sample_cm k 0"
proof -
  obtain r where r: "validate_transfer sample_stealth_crypto sample_transfer None = Ok r"
    using sample_transfer_ok by blast
  have "\<exists>k. sample_cm (masks [(0, 5)] - masks [(0, 3)]) (vals [(0, 5)] +
      sis_revealed_amount (sts_inputs_statement sample_transfer) - vals [(0, 3)] -
      vst_revealed_output_amount r) = sample_cm k 0"
    by (rule validate_transfer_balanced[OF _ _ _ _ _ _ _ _ r])
       (simp_all add: sample_stealth_crypto_def sample_cm_def sample_transfer_def sample_output_def
         commit_amount_checked_def sample_secrets algebra_simps)
  then show ?thesis using r by (simp add: sample_transfer_def)
qed

theorem elgamal_value_proof_accepts_any_value_witness:
  "validate_value_proof sample_stealth_crypto 7 (Some \<lparr>evb_encrypted = 1, evb_public_nonce = 1\<rparr>)
     \<lparr>svp_value = 2, svp_knowledge_proof = ElgamalEncrypted (1 - 2 * 2 ^ 248)\<rparr> = Ok 2"
  using elgamal_value_proof_accepts_any_value[of 2 sample_stealth_crypto 7
      "\<lparr>evb_encrypted = 1, evb_public_nonce = 1\<rparr>" "2 * 2 ^ 248"] sample_secrets
  by (simp add: sample_stealth_crypto_def)

end
