(* ===== verification/Objects.thy ===== *)
theory Objects
  imports Scope Stealth
begin

text \<open>
  Identifiers and small data of an execution: \<open>ObjectKey\<close> (crates/template_lib_types/src/entity_id.rs),
  \<open>ObjectIds\<close> and \<open>IdProvider\<close> (crates/engine_types/src/id_provider.rs), \<open>EntityIdProvider\<close>
  (entity_id_provider.rs), event topics (events.rs), limits (limits.rs, and
  crates/engine/src/runtime/validation.rs), the workspace (crates/engine/src/runtime/workspace.rs) and
  allocated addresses (address_allocation.rs). The engine's hash functions are parameters.
\<close>

section \<open>Object keys\<close>

type_synonym component_key = "96 word"

text \<open>32 bytes: 20 of the entity, then 12 of the key.\<close>

definition object_key_new :: "entity_id \<Rightarrow> component_key \<Rightarrow> bytes32" where
  "object_key_new e k = word_cat e k"

definition as_entity_id :: "bytes32 \<Rightarrow> entity_id" where
  "as_entity_id b = ucast (drop_bit 96 b)"

definition as_component_key :: "bytes32 \<Rightarrow> component_key" where
  "as_component_key b = ucast b"

section \<open>Identifier allocation\<close>

record engine_hasher =
  hash_component_address :: "bytes32 \<Rightarrow> nat \<Rightarrow> bytes32"
  hash_output :: "bytes32 \<Rightarrow> nat \<Rightarrow> bytes32"
  hash_uuid :: "bytes32 \<Rightarrow> entity_id \<Rightarrow> nat \<Rightarrow> bytes32"
  hash_entity_id :: "bytes32 \<Rightarrow> nat \<Rightarrow> bytes32"

datatype id_provider_error = MaxIdsExceeded nat

record object_ids =
  max_ids :: nat
  current_id :: nat
  obj_bucket_id :: nat
  uuid :: nat

text \<open>\<open>AtomicU32::fetch_add\<close> wraps around.\<close>

definition fetch_add :: "nat \<Rightarrow> nat" where
  "fetch_add n = (n + 1) mod 2 ^ 32"

definition object_ids_new :: "nat \<Rightarrow> object_ids" where
  "object_ids_new m = \<lparr>max_ids = m, current_id = 0, obj_bucket_id = 0, uuid = 0\<rparr>"

definition ids_next_id :: "object_ids \<Rightarrow> object_ids \<times> (nat, id_provider_error) result" where
  "ids_next_id o' = (o'\<lparr>current_id := fetch_add (current_id o')\<rparr>,
     if current_id o' \<ge> max_ids o' then Err (MaxIdsExceeded (max_ids o')) else Ok (current_id o'))"

definition next_bucket_id :: "object_ids \<Rightarrow> object_ids \<times> bucket_id" where
  "next_bucket_id o' = (o'\<lparr>obj_bucket_id := fetch_add (obj_bucket_id o')\<rparr>, obj_bucket_id o')"

definition next_proof_id :: "object_ids \<Rightarrow> object_ids \<times> proof_id" where
  "next_proof_id o' = (o'\<lparr>obj_bucket_id := fetch_add (obj_bucket_id o')\<rparr>, obj_bucket_id o')"

definition next_uuid_id :: "object_ids \<Rightarrow> object_ids \<times> nat" where
  "next_uuid_id o' = (o'\<lparr>uuid := fetch_add (uuid o')\<rparr>, uuid o')"

definition generate_output_id :: "engine_hasher \<Rightarrow> bytes32 \<Rightarrow> nat \<Rightarrow> bytes32" where
  "generate_output_id h tx n = hash_output h tx n"

definition next_object_key ::
  "engine_hasher \<Rightarrow> entity_id \<Rightarrow> bytes32 \<Rightarrow> object_ids \<Rightarrow> object_ids \<times> (bytes32, id_provider_error) result" where
  "next_object_key h e tx o' = (let (o'', r) = ids_next_id o' in
     (o'', and_then r (\<lambda>n. Ok (object_key_new e (ucast (generate_output_id h tx n))))))"

definition new_resource_address ::
  "engine_hasher \<Rightarrow> entity_id \<Rightarrow> bytes32 \<Rightarrow> object_ids \<Rightarrow> object_ids \<times> (resource_address, id_provider_error) result" where
  "new_resource_address h e tx o' = next_object_key h e tx o'"

definition new_vault_id ::
  "engine_hasher \<Rightarrow> entity_id \<Rightarrow> bytes32 \<Rightarrow> object_ids \<Rightarrow> object_ids \<times> (vault_id, id_provider_error) result" where
  "new_vault_id h e tx o' = next_object_key h e tx o'"

definition new_component_address ::
  "engine_hasher \<Rightarrow> entity_id \<Rightarrow> bytes32 \<Rightarrow> object_ids \<Rightarrow> object_ids \<times> (component_address, id_provider_error) result" where
  "new_component_address h e tx o' = (let (o'', r) = ids_next_id o' in
     (o'', and_then r (\<lambda>n. Ok (object_key_new e (ucast (hash_component_address h tx n))))))"

definition hash_bytes :: "bytes32 \<Rightarrow> 8 word list" where
  "hash_bytes b = map (\<lambda>i. ucast (drop_bit (8 * i) b)) (rev [0..<32])"

definition new_uuid ::
  "engine_hasher \<Rightarrow> entity_id \<Rightarrow> bytes32 \<Rightarrow> object_ids \<Rightarrow> object_ids \<times> 8 word list" where
  "new_uuid h e tx o' = (let (o'', n) = next_uuid_id o' in (o'', hash_bytes (hash_uuid h tx e n)))"

lemma length_new_uuid [simp]: "length (snd (new_uuid h e tx o')) = 32"
  by (simp add: new_uuid_def next_uuid_id_def hash_bytes_def)

function random_bytes_loop ::
  "engine_hasher \<Rightarrow> entity_id \<Rightarrow> bytes32 \<Rightarrow> object_ids \<Rightarrow> nat \<Rightarrow> 8 word list \<Rightarrow> object_ids \<times> 8 word list" where
  "random_bytes_loop h e tx o' len result =
     (if length result < len then
        let (o'', bytes) = new_uuid h e tx o';
            remaining = len - length result;
            stop = min (length bytes) remaining
        in random_bytes_loop h e tx o'' len (result @ take stop bytes)
      else (o', result))"
  by pat_completeness auto
termination random_bytes_loop
proof (relation "measure (\<lambda>(h, e, tx, o', len, result). len - length result)", goal_cases)
  case (2 h e tx o' len result x o'' bytes)
  then have "length bytes = 32" by (metis length_new_uuid snd_conv)
  then show ?case using 2 by auto
qed simp

declare random_bytes_loop.simps [simp del]

definition get_random_bytes ::
  "engine_hasher \<Rightarrow> entity_id \<Rightarrow> bytes32 \<Rightarrow> object_ids \<Rightarrow> nat \<Rightarrow> object_ids \<times> 8 word list" where
  "get_random_bytes h e tx o' len = random_bytes_loop h e tx o' len []"

record entity_id_provider =
  eip_transaction_hash :: bytes32
  eip_max_ids :: nat
  eip_current_id :: nat

definition entity_id_provider_new :: "bytes32 \<Rightarrow> nat \<Rightarrow> entity_id_provider" where
  "entity_id_provider_new tx m = \<lparr>eip_transaction_hash = tx, eip_max_ids = m, eip_current_id = 0\<rparr>"

definition next_entity_id ::
  "engine_hasher \<Rightarrow> entity_id_provider \<Rightarrow> entity_id_provider \<times> (entity_id, id_provider_error) result" where
  "next_entity_id h p = (p\<lparr>eip_current_id := fetch_add (eip_current_id p)\<rparr>,
     if eip_current_id p \<ge> eip_max_ids p then Err (MaxIdsExceeded (eip_max_ids p))
     else Ok (ucast (hash_entity_id h (eip_transaction_hash p) (eip_current_id p))))"

section \<open>Event topics\<close>

definition STANDARD_TOPIC_PREFIX :: string where "STANDARD_TOPIC_PREFIX = ''std.''"

definition std_event :: "string \<Rightarrow> string \<Rightarrow> string" where
  "std_event object_name action_name = STANDARD_TOPIC_PREFIX @ object_name @ ''.'' @ action_name"

definition event_std ::
  "substate_id option \<Rightarrow> template_address \<Rightarrow> bytes32 \<Rightarrow> string \<Rightarrow> string \<Rightarrow> metadata \<Rightarrow> event" where
  "event_std k t tx obj action payload = \<lparr>ev_substate_id = k, ev_template_address = t, ev_tx_hash = tx,
     ev_topic = std_event obj action, ev_payload = payload\<rparr>"

definition is_ascii_alphanumeric :: "char \<Rightarrow> bool" where
  "is_ascii_alphanumeric c = (let n = (of_char c :: nat) in
     48 \<le> n \<and> n \<le> 57 \<or> 65 \<le> n \<and> n \<le> 90 \<or> 97 \<le> n \<and> n \<le> 122)"

datatype topic_error = ReservedTopic | TopicTooLong | InvalidTopicCharacter

definition validate_custom_topic :: "string \<Rightarrow> (unit, topic_error) result" where
  "validate_custom_topic t =
     (if take (length STANDARD_TOPIC_PREFIX) t = STANDARD_TOPIC_PREFIX then Err ReservedTopic
      else if length t > 255 then Err TopicTooLong
      else if \<not> (\<forall>c \<in> set t. is_ascii_alphanumeric c \<or> c = CHR ''.'' \<or> c = CHR ''_'') then Err InvalidTopicCharacter
      else Ok ())"

section \<open>Limits\<close>

record engine_limits =
  max_substate_outputs :: nat
  max_substate_size :: nat
  max_call_size :: nat
  max_internal_call_size :: nat
  max_logs :: nat
  max_log_size_bytes :: nat
  max_events :: nat

definition ENGINE_LIMITS :: engine_limits where
  "ENGINE_LIMITS = \<lparr>max_substate_outputs = 1000, max_substate_size = 2 * 1024 * 1024,
     max_call_size = 1024 * 1024, max_internal_call_size = 1024 * 1024, max_logs = 256,
     max_log_size_bytes = 32 * 1024, max_events = 256\<rparr>"

definition check_stealth_outputs_limits ::
  "stealth_limits \<Rightarrow> stealth_outputs_statement \<Rightarrow> (unit, argument_validation_error) result" where
  "check_stealth_outputs_limits lim st =
     (if length (sos_outputs st) > max_outputs lim
      then Err (MaxStealthOutputsExceeded (max_outputs lim) (length (sos_outputs st))) else Ok ())"

definition check_stealth_transfer_limits ::
  "stealth_limits \<Rightarrow> stealth_transfer_statement \<Rightarrow> (unit, argument_validation_error) result" where
  "check_stealth_transfer_limits lim st =
     (if length (sis_inputs (sts_inputs_statement st)) > max_inputs lim
      then Err (MaxStealthInputsExceeded (max_inputs lim) (length (sis_inputs (sts_inputs_statement st))))
      else check_stealth_outputs_limits lim (sts_outputs_statement st))"

section \<open>Workspace and allocations\<close>

record workspace_offset_id =
  wo_id :: nat
  wo_offset :: "nat option"

record workspace =
  items :: "(nat, indexed_value) fmap"
  workspace_proofs :: "proof_id fset"

definition workspace_new :: workspace where
  "workspace_new = \<lparr>items = fmempty, workspace_proofs = {||}\<rparr>"

definition nth_opt :: "'a list \<Rightarrow> nat \<Rightarrow> 'a option" where
  "nth_opt xs n = (if n < length xs then Some (xs ! n) else None)"

definition workspace_get :: "workspace \<Rightarrow> workspace_offset_id \<Rightarrow> bor_value option" where
  "workspace_get w oid = (case fmlookup (items w) (wo_id oid) of
     None \<Rightarrow> None
   | Some value \<Rightarrow> (case wo_offset oid of
       None \<Rightarrow> Some (iv_value value)
     | Some offset \<Rightarrow> (case iv_value value of
         BorArray vs \<Rightarrow> nth_opt vs offset
       | BorMap kvs \<Rightarrow> map_option snd (nth_opt kvs offset)
       | _ \<Rightarrow> None)))"

definition workspace_insert :: "workspace \<Rightarrow> nat \<Rightarrow> indexed_value \<Rightarrow> workspace" where
  "workspace_insert w i v = w\<lparr>workspace_proofs := workspace_proofs w |\<union>| fset_of_list (iw_proof_ids (iv_indexed v)),
     items := fmupd i v (items w)\<rparr>"

definition drain_all_proofs :: "workspace \<Rightarrow> workspace \<times> proof_id fset" where
  "drain_all_proofs w = (w\<lparr>workspace_proofs := {||}\<rparr>, workspace_proofs w)"

record allocated_address =
  alloc_substate_id :: substate_id
  alloc_template_address :: "template_address option"

section \<open>Laws\<close>

lemma object_key_roundtrip:
  "as_entity_id (object_key_new e k) = e" "as_component_key (object_key_new e k) = k"
  unfolding as_entity_id_def as_component_key_def object_key_new_def
  by (rule bit_word_eqI; simp add: bit_word_cat_iff bit_ucast_iff bit_drop_bit_eq)+

lemma random_bytes_loop_length:
  "length result \<le> len \<Longrightarrow> length (snd (random_bytes_loop h e tx o' len result)) = len"
proof (induction h e tx o' len result rule: random_bytes_loop.induct)
  case (1 h e tx o' len result)
  obtain o'' bytes where b: "new_uuid h e tx o' = (o'', bytes)" by (cases "new_uuid h e tx o'")
  have "length bytes = 32" using length_new_uuid[of h e tx o'] by (simp add: b)
  then show ?case using 1 b by (subst random_bytes_loop.simps) auto
qed

section \<open>Properties\<close>

text \<open>The pseudo-random byte generator returns. For every hash function, transaction and requested
  length, the loop over fresh identifiers ends and gives exactly as many bytes as were asked for.\<close>
theorem get_random_bytes_length:
  "length (snd (get_random_bytes h e tx o' len)) = len"
  by (simp add: get_random_bytes_def random_bytes_loop_length)

text \<open>Templates cannot forge engine events. A topic that passes the check for custom events differs
  from the topic of every standard event, whatever the object and the action.\<close>
theorem custom_topic_not_std:
  assumes "validate_custom_topic t = Ok ()"
  shows "t \<noteq> std_event obj action"
  using assms by (auto simp: validate_custom_topic_def std_event_def STANDARD_TOPIC_PREFIX_def split: if_splits)

theorem custom_topic_not_std_witness:
  "validate_custom_topic ''my_topic.v1'' = Ok () \<and> ''my_topic.v1'' \<noteq> std_event ''vault'' ''deposit''"
proof -
  have "validate_custom_topic ''my_topic.v1'' = Ok ()"
    by (simp add: validate_custom_topic_def STANDARD_TOPIC_PREFIX_def is_ascii_alphanumeric_def)
  then show ?thesis using custom_topic_not_std[of "''my_topic.v1''"] by blast
qed

text \<open>The identifiers handed out below the limit are the counter values, so they never repeat.\<close>

lemma ids_next_id_below:
  "\<lbrakk>current_id o' < max_ids o'; max_ids o' < 2 ^ 32\<rbrakk> \<Longrightarrow>
     ids_next_id o' = (o'\<lparr>current_id := current_id o' + 1\<rparr>, Ok (current_id o'))"
  by (simp add: ids_next_id_def fetch_add_def)
end
