(* ===== verification/WorkingState.thy ===== *)
theory WorkingState
  imports Objects
begin

text \<open>
  The state of one transaction execution and its accessors: \<open>WorkingState\<close> of
  crates/engine/src/runtime/working_state.rs. The operations that need an authorization check are in
  \<open>RuntimeOps\<close>. What the engine calls outside of its own code is collected in \<open>runtime_env\<close>: the CBOR
  decoders, the size of an encoded substate, the hash functions and the cryptography.
\<close>

record runtime_env =
  env_decoder :: bor_decoder
  env_encoded_len :: "substate_value \<Rightarrow> nat option"
  env_decode_resource_allocation :: "bor_value \<Rightarrow> nat option"
  env_hasher :: engine_hasher
  env_crypto :: stealth_crypto
  env_overflow :: overflow_mode

record working_state =
  transaction_hash :: bytes32
  events :: "event list"
  logs :: "log_entry list"
  buckets :: "(bucket_id, bucket) fmap"
  address_allocations :: "(nat, allocated_address) fmap"
  used_address_allocations :: "(nat, substate_id) fmap"
  address_allocation_id :: nat
  proofs :: "(proof_id, resource_proof) fmap"
  object_ids_of :: object_ids
  store :: working_state_store
  virtual_epoch :: "nat option"
  validator_fee_withdrawals :: "validator_fee_withdrawal list"
  last_instruction_output :: "indexed_value option"
  workspace_of :: workspace
  call_frames :: "call_frame list"
  initial_call_scope :: call_scope
  fee_state_of :: fee_state

definition working_state_new :: "memory_store \<Rightarrow> nat option \<Rightarrow> call_scope \<Rightarrow> bytes32 \<Rightarrow> working_state" where
  "working_state_new m epoch scope tx = \<lparr>transaction_hash = tx, events = [], logs = [], buckets = fmempty,
     address_allocations = fmempty, used_address_allocations = fmempty, address_allocation_id = 0,
     proofs = fmempty, object_ids_of = object_ids_new (max_substate_outputs ENGINE_LIMITS),
     store = store_new m, virtual_epoch = epoch, validator_fee_withdrawals = [],
     last_instruction_output = None, workspace_of = workspace_new, call_frames = [],
     initial_call_scope = scope, fee_state_of = fee_state_new\<rparr>"

section \<open>Call frames\<close>

definition current_call_scope :: "working_state \<Rightarrow> call_scope" where
  "current_call_scope ws =
     (if call_frames ws = [] then initial_call_scope ws else frame_scope (last (call_frames ws)))"

text \<open>\<open>current_call_scope_mut\<close>: the scope is replaced by what was written through the reference.\<close>

definition set_current_call_scope :: "working_state \<Rightarrow> call_scope \<Rightarrow> working_state" where
  "set_current_call_scope ws s =
     (if call_frames ws = [] then ws\<lparr>initial_call_scope := s\<rparr>
      else ws\<lparr>call_frames := butlast (call_frames ws) @ [(last (call_frames ws))\<lparr>frame_scope := s\<rparr>]\<rparr>)"

definition call_frame_depth :: "working_state \<Rightarrow> nat" where
  "call_frame_depth ws = length (call_frames ws)"

definition current_template :: "working_state \<Rightarrow> (template_address \<times> string) rt_result" where
  "current_template ws =
     (if call_frames ws = [] then Err NoActiveCallFrame
      else Ok (frame_template (last (call_frames ws)), frame_module (last (call_frames ws))))"

definition current_component :: "working_state \<Rightarrow> component_address option rt_result" where
  "current_component ws =
     (if call_frames ws = [] then Err NoActiveCallFrame
      else Ok (case component_lock (frame_scope (last (call_frames ws))) of
                 None \<Rightarrow> None | Some l \<Rightarrow> as_component_address (ls_address l)))"

definition get_auth_caller :: "working_state \<Rightarrow> (template_address \<times> component_address option) rt_result" where
  "get_auth_caller ws = and_then (current_template ws) (\<lambda>(t, _).
     and_then (current_component ws) (\<lambda>c. Ok (t, c)))"

definition push_frame :: "working_state \<Rightarrow> call_frame \<Rightarrow> nat \<Rightarrow> working_state rt_result" where
  "push_frame ws new_frame max_call_depth =
     (if call_frame_depth ws + 1 > max_call_depth then Err (MaxCallDepthExceeded max_call_depth)
      else
        let f1 = new_frame\<lparr>frame_scope := update_from_parent (frame_scope new_frame) (current_call_scope ws)\<rparr>;
            f2 = (if call_frame_depth ws = 0
                  then f1\<lparr>frame_scope := set_auth_scope (frame_scope f1) (auth_scope (initial_call_scope ws))\<rparr>
                  else f1)
        in Ok (ws\<lparr>call_frames := call_frames ws @ [f2]\<rparr>))"

definition lock_substate ::
  "working_state \<Rightarrow> substate_id \<Rightarrow> lock_flag \<Rightarrow> (working_state \<times> locked_substate) rt_result" where
  "lock_substate ws k flag = and_then (store_try_lock (store ws) k flag) (\<lambda>(st, i).
     Ok (ws\<lparr>store := st\<rparr>, \<lparr>ls_address = k, ls_lock_id = i, ls_lock_flag = flag\<rparr>))"

definition unlock_substate :: "working_state \<Rightarrow> locked_substate \<Rightarrow> working_state rt_result" where
  "unlock_substate ws l = and_then (store_try_unlock (store ws) (ls_lock_id l)) (\<lambda>st. Ok (ws\<lparr>store := st\<rparr>))"

definition pop_frame :: "working_state \<Rightarrow> working_state rt_result" where
  "pop_frame ws =
     (if call_frames ws = [] then Err NoActiveCallFrame
      else
        let scope = frame_scope (last (call_frames ws));
            ws1 = ws\<lparr>call_frames := butlast (call_frames ws)\<rparr> in
        and_then (case component_lock scope of
                    None \<Rightarrow> Ok ws1
                  | Some l \<Rightarrow> unlock_substate ws1 l) (\<lambda>ws2.
        if lock_scope scope \<noteq> [] then Err (DanglingSubstateLocks (length (lock_scope scope)))
        else if orphans scope \<noteq> [] then Err (OrphanedSubstates (orphans scope))
        else Ok (set_current_call_scope ws2 (update_from_child_scope (current_call_scope ws2) scope))))"

section \<open>Substates\<close>

definition substate_exists :: "working_state \<Rightarrow> substate_id \<Rightarrow> bool rt_result" where
  "substate_exists ws k =
     (if (case as_non_fungible_address k of
            Some a \<Rightarrow> nf_resource_address a = PUBLIC_IDENTITY_RESOURCE_ADDRESS | None \<Rightarrow> False)
      then Ok True else store_exists (store ws) k)"

definition enforce_substate_size_limit :: "runtime_env \<Rightarrow> substate_value \<Rightarrow> unit rt_result" where
  "enforce_substate_size_limit env v = and_then (ok_or EncodingError (env_encoded_len env v)) (\<lambda>n.
     ensure (n \<le> max_substate_size ENGINE_LIMITS) LimitError)"

definition new_substate ::
  "runtime_env \<Rightarrow> working_state \<Rightarrow> substate_id \<Rightarrow> substate_value \<Rightarrow> working_state rt_result" where
  "new_substate env ws k v =
     and_then (enforce_substate_size_limit env v) (\<lambda>_.
     and_then (add_substate_to_scope (current_call_scope ws) k) (\<lambda>s.
     let ws1 = set_current_call_scope ws s in
     and_then (store_insert (store ws1) k v) (\<lambda>st. Ok (ws1\<lparr>store := st\<rparr>))))"

text \<open>Typed reads through a lock.\<close>

definition get_component :: "working_state \<Rightarrow> locked_substate \<Rightarrow> component_header rt_result" where
  "get_component ws l = and_then (get_locked_substate (store ws) (ls_lock_id l)) (\<lambda>(k, v).
     ok_or (LockSubstateMismatch (ls_lock_id l) k) (as_component v))"

definition get_resource :: "working_state \<Rightarrow> locked_substate \<Rightarrow> resource rt_result" where
  "get_resource ws l = and_then (get_locked_substate (store ws) (ls_lock_id l)) (\<lambda>(k, v).
     ok_or (LockSubstateMismatch (ls_lock_id l) k) (as_resource v))"

definition get_non_fungible :: "working_state \<Rightarrow> locked_substate \<Rightarrow> non_fungible_container rt_result" where
  "get_non_fungible ws l = and_then (get_locked_substate (store ws) (ls_lock_id l)) (\<lambda>(k, v).
     ok_or (LockSubstateMismatch (ls_lock_id l) k) (as_non_fungible v))"

definition get_vault :: "working_state \<Rightarrow> locked_substate \<Rightarrow> vault rt_result" where
  "get_vault ws l = and_then (get_locked_substate (store ws) (ls_lock_id l)) (\<lambda>(k, v).
     ok_or (LockSubstateMismatch (ls_lock_id l) k) (as_vault v))"

text \<open>Typed mutable access: the new state has the substate among the mutated ones, and \<open>put_locked\<close>
  writes the changed value back.\<close>

definition get_non_fungible_mut ::
  "working_state \<Rightarrow> locked_substate \<Rightarrow> (working_state \<times> substate_id \<times> non_fungible_container) rt_result" where
  "get_non_fungible_mut ws l = and_then (get_locked_substate_mut (store ws) (ls_lock_id l)) (\<lambda>(st, k, v).
     and_then (ok_or (LockSubstateMismatch (ls_lock_id l) k) (as_non_fungible v)) (\<lambda>n. Ok (ws\<lparr>store := st\<rparr>, k, n)))"

definition get_vault_mut ::
  "working_state \<Rightarrow> locked_substate \<Rightarrow> (working_state \<times> substate_id \<times> vault) rt_result" where
  "get_vault_mut ws l = and_then (get_locked_substate_mut (store ws) (ls_lock_id l)) (\<lambda>(st, k, v).
     and_then (ok_or (LockSubstateMismatch (ls_lock_id l) k) (as_vault v)) (\<lambda>x. Ok (ws\<lparr>store := st\<rparr>, k, x)))"

definition get_resource_mut ::
  "working_state \<Rightarrow> locked_substate \<Rightarrow> (working_state \<times> substate_id \<times> resource) rt_result" where
  "get_resource_mut ws l = and_then (get_locked_substate_mut (store ws) (ls_lock_id l)) (\<lambda>(st, k, v).
     and_then (ok_or (LockSubstateMismatch (ls_lock_id l) k) (as_resource v)) (\<lambda>x. Ok (ws\<lparr>store := st\<rparr>, k, x)))"

definition put_locked :: "working_state \<Rightarrow> substate_id \<Rightarrow> substate_value \<Rightarrow> working_state" where
  "put_locked ws k v = ws\<lparr>store := put_new (store ws) k v\<rparr>"

definition get_current_epoch :: "working_state \<Rightarrow> nat rt_result" where
  "get_current_epoch ws = ok_or VirtualSubstateNotFound (virtual_epoch ws)"

definition load_and_cache_component ::
  "working_state \<Rightarrow> component_address \<Rightarrow> (working_state \<times> component_header) rt_result" where
  "load_and_cache_component ws a = and_then (store_load_and_cache_component (store ws) a) (\<lambda>(st, c).
     Ok (ws\<lparr>store := st\<rparr>, c))"

section \<open>Buckets and proofs\<close>

definition get_proof :: "working_state \<Rightarrow> proof_id \<Rightarrow> resource_proof rt_result" where
  "get_proof ws p = ok_or (ProofNotFound p) (fmlookup (proofs ws) p)"

definition proof_exists :: "working_state \<Rightarrow> proof_id \<Rightarrow> bool" where
  "proof_exists ws p \<longleftrightarrow> p |\<in>| fmdom (proofs ws)"

definition get_bucket :: "working_state \<Rightarrow> bucket_id \<Rightarrow> bucket rt_result" where
  "get_bucket ws b =
     (if \<not> is_bucket_in_scope (current_call_scope ws) b then Err (BucketNotFound b)
      else ok_or (BucketNotFound b) (fmlookup (buckets ws) b))"

text \<open>\<open>get_bucket_mut\<close> gives the same bucket; \<open>put_bucket\<close> writes it back.\<close>

definition put_bucket :: "working_state \<Rightarrow> bucket_id \<Rightarrow> bucket \<Rightarrow> working_state" where
  "put_bucket ws b x = ws\<lparr>buckets := fmupd b x (buckets ws)\<rparr>"

definition take_bucket :: "working_state \<Rightarrow> bucket_id \<Rightarrow> (working_state \<times> bucket) rt_result" where
  "take_bucket ws b =
     (if \<not> is_bucket_in_scope (current_call_scope ws) b then Err (BucketNotFound b)
      else and_then (ok_or (BucketNotFound b) (fmlookup (buckets ws) b)) (\<lambda>x.
        let ws1 = ws\<lparr>buckets := fmdrop b (buckets ws)\<rparr>;
            s1 = fst (remove_bucket_from_scope (current_call_scope ws1) b);
            s2 = add_substate_to_owned s1 (ResourceId (address (b_container x)))
        in Ok (set_current_call_scope ws1 s2, x)))"

definition new_bucket :: "working_state \<Rightarrow> bucket_id \<Rightarrow> resource_container \<Rightarrow> working_state rt_result" where
  "new_bucket ws b c =
     and_then (move_node_to_owned (current_call_scope ws) (ResourceId (address c))) (\<lambda>s1.
     and_then (try_fold (\<lambda>s i. move_node_to_owned s
         (NonFungibleId \<lparr>nf_resource_address = address c, nf_id = i\<rparr>)) s1
         (sorted_list_of_fset (non_fungible_token_ids c))) (\<lambda>s2.
     let ws1 = set_current_call_scope ws s2 in
     if fmlookup (buckets ws1) b \<noteq> None then Err (DuplicateBucket b)
     else
       let ws2 = ws1\<lparr>buckets := fmupd b (bucket_new b c) (buckets ws1)\<rparr> in
       Ok (set_current_call_scope ws2 (add_bucket_to_scope (current_call_scope ws2) b))))"

definition new_proof :: "working_state \<Rightarrow> proof_id \<Rightarrow> locked_resource \<Rightarrow> working_state rt_result" where
  "new_proof ws p l =
     (if fmlookup (proofs ws) p \<noteq> None then Err (DuplicateProof p)
      else
        let ws1 = ws\<lparr>proofs := fmupd p (proof_new l) (proofs ws)\<rparr> in
        Ok (set_current_call_scope ws1 (add_proof_to_scope (current_call_scope ws1) p)))"

definition drop_proof :: "runtime_env \<Rightarrow> working_state \<Rightarrow> proof_id \<Rightarrow> working_state rt_result" where
  "drop_proof env ws p =
     (let s = current_call_scope ws in
      if \<not> is_proof_in_scope s p then Err (ProofNotFound p)
      else
        let ws1 = set_current_call_scope ws (s\<lparr>auth_scope := remove_proof (auth_scope s) p\<rparr>) in
        and_then (ok_or (ProofNotFound p) (fmlookup (proofs ws1) p)) (\<lambda>prf.
        let ws2 = ws1\<lparr>proofs := fmdrop p (proofs ws1)\<rparr> in
        case proof_container prf of
          BucketRef b \<Rightarrow>
            and_then (ok_or (BucketNotFound b) (fmlookup (buckets ws2) b)) (\<lambda>x.
            and_then (map_err ResourceErr (bucket_unlock (env_overflow env) x prf)) (\<lambda>x'. Ok (put_bucket ws2 b x')))
        | VaultRef v \<Rightarrow>
            and_then (lock_substate ws2 (VaultId v) Write) (\<lambda>(ws3, l).
            and_then (get_vault_mut ws3 l) (\<lambda>(ws4, k, x).
            and_then (map_err ResourceErr (vault_unlock (env_overflow env) x prf)) (\<lambda>x'.
            unlock_substate (put_locked ws4 k (VaultValue x')) l)))))"

definition burn_bucket :: "working_state \<Rightarrow> bucket \<Rightarrow> working_state rt_result" where
  "burn_bucket ws b =
     (if is_zero (amount_of (b_container b)) then Ok ws
      else
        let ra = address (b_container b);
            ids = (case into_non_fungible_ids (b_container b) of
                     None \<Rightarrow> [] | Some i \<Rightarrow> sorted_list_of_fset i) in
        try_fold (\<lambda>ws i.
          let a = \<lparr>nf_resource_address = ra, nf_id = i\<rparr> in
          and_then (lock_substate ws (NonFungibleId a) Write) (\<lambda>(ws1, l).
          and_then (get_non_fungible_mut ws1 l) (\<lambda>(ws2, k, n).
          if nft_is_burnt n then Err (InvalidOpNonFungibleBurnt ra i)
          else unlock_substate (put_locked ws2 k (NonFungibleValue (nft_burn n))) l))) ws ids)"

section \<open>Address allocations\<close>

definition new_address_allocation :: "working_state \<Rightarrow> substate_id \<Rightarrow> (working_state \<times> nat) rt_result" where
  "new_address_allocation ws k =
     (let i = address_allocation_id ws in
      and_then (u32_add i 1) (\<lambda>i'.
      let t = (case current_template ws of Ok (t, _) \<Rightarrow> Some t | _ \<Rightarrow> None) in
      Ok (ws\<lparr>address_allocation_id := i',
             address_allocations := fmupd i \<lparr>alloc_substate_id = k, alloc_template_address = t\<rparr>
               (address_allocations ws)\<rparr>, i)))"

text \<open>The first match in the order of the ids; the hash map has no order, and an address is allocated once.\<close>

definition get_allocated_address_by_address :: "working_state \<Rightarrow> substate_id \<Rightarrow> allocated_address option" where
  "get_allocated_address_by_address ws k =
     find (\<lambda>a. alloc_substate_id a = k) (map snd (sorted_list_of_fmap (address_allocations ws)))"

definition get_template_for_component ::
  "working_state \<Rightarrow> component_address \<Rightarrow> (working_state \<times> template_address) rt_result" where
  "get_template_for_component ws a = (case get_allocated_address_by_address ws (ComponentId a) of
     Some alloc \<Rightarrow> and_then (ok_or AddressAllocationNoTemplate (alloc_template_address alloc)) (\<lambda>t. Ok (ws, t))
   | None \<Rightarrow> and_then (load_and_cache_component ws a) (\<lambda>(ws', c). Ok (ws', c_template_address c)))"

definition use_allocated_address :: "working_state \<Rightarrow> nat \<Rightarrow> (working_state \<times> allocated_address) rt_result" where
  "use_allocated_address ws i =
     and_then (ok_or (AddressAllocationNotFound i) (fmlookup (address_allocations ws) i)) (\<lambda>a.
     Ok (ws\<lparr>address_allocations := fmdrop i (address_allocations ws),
            used_address_allocations := fmupd i (alloc_substate_id a) (used_address_allocations ws)\<rparr>, a))"

definition get_allocated_address :: "working_state \<Rightarrow> nat \<Rightarrow> allocated_address rt_result" where
  "get_allocated_address ws i = ok_or (AddressAllocationNotFound i) (fmlookup (address_allocations ws) i)"

definition get_used_address :: "working_state \<Rightarrow> nat \<Rightarrow> substate_id rt_result" where
  "get_used_address ws i = ok_or (AddressAllocationNotUsed i) (fmlookup (used_address_allocations ws) i)"

end
