(* ===== verification/Authorization.thy ===== *)
theory Authorization
  imports WorkingState
begin

text \<open>
  How access and owner rules are decided against the state of a running transaction:
  crates/engine/src/runtime/tracker_auth.rs. The second half gives the rules their meaning as
  predicates (\<open>rule_holds\<close>) and shows that the checks decide it whenever every proof of the scope
  is still alive.
\<close>

section \<open>Deciding a rule\<close>

text \<open>The two loop shapes of the checks: return on the first match, or on the first failure.\<close>

primrec try_any :: "('a \<Rightarrow> (bool, 'e) result) \<Rightarrow> 'a list \<Rightarrow> (bool, 'e) result" where
  "try_any f [] = Ok False"
| "try_any f (x # xs) = and_then (f x) (\<lambda>b. if b then Ok True else try_any f xs)"

primrec try_all :: "('a \<Rightarrow> (bool, 'e) result) \<Rightarrow> 'a list \<Rightarrow> (bool, 'e) result" where
  "try_all f [] = Ok True"
| "try_all f (x # xs) = and_then (f x) (\<lambda>b. if \<not> b then Ok False else try_all f xs)"

lemma try_any_cong [fundef_cong]:
  "xs = ys \<Longrightarrow> (\<And>x. x \<in> set ys \<Longrightarrow> f x = g x) \<Longrightarrow> try_any f xs = try_any g ys"
  by (induction ys arbitrary: xs) (simp_all cong: if_cong)

lemma try_all_cong [fundef_cong]:
  "xs = ys \<Longrightarrow> (\<And>x. x \<in> set ys \<Longrightarrow> f x = g x) \<Longrightarrow> try_all f xs = try_all g ys"
  by (induction ys arbitrary: xs) (simp_all cong: if_cong)

definition from_public_key :: "public_key \<Rightarrow> non_fungible_address" where
  "from_public_key k = \<lparr>nf_resource_address = PUBLIC_IDENTITY_RESOURCE_ADDRESS, nf_id = U256 k\<rparr>"

definition check_requirement ::
  "working_state \<Rightarrow> authorization_scope \<Rightarrow> rule_requirement \<Rightarrow> bool rt_result" where
  "check_requirement ws scope req = (case req of
     RequireResource resx \<Rightarrow>
       if list_ex (\<lambda>a. nf_resource_address a = resx) (virtual_proofs scope) then Ok True
       else try_any (\<lambda>p. and_then (get_proof ws p) (\<lambda>prf. Ok (resx = proof_resource_address prf)))
              (auth_proofs scope)
   | RequireNonFungible a \<Rightarrow>
       if a \<in> set (virtual_proofs scope) then Ok True
       else try_any (\<lambda>p. and_then (get_proof ws p) (\<lambda>prf.
              Ok (nf_resource_address a = proof_resource_address prf
                  \<and> nf_id a |\<in>| proof_non_fungible_token_ids prf))) (auth_proofs scope)
   | ScopedToComponent a \<Rightarrow> and_then (current_component ws) (\<lambda>c. Ok (c = Some a))
   | ScopedToTemplate a \<Rightarrow> and_then (current_template ws) (\<lambda>(t, _). Ok (t = a)))"

definition check_require_rule ::
  "working_state \<Rightarrow> authorization_scope \<Rightarrow> require_rule \<Rightarrow> bool rt_result" where
  "check_require_rule ws scope rule = (case rule of
     RequireOne r \<Rightarrow> check_requirement ws scope r
   | RequireAnyOf rs \<Rightarrow> try_any (check_requirement ws scope) rs
   | RequireAllOf rs \<Rightarrow> try_all (check_requirement ws scope) rs)"

fun check_restricted_access_rule ::
  "working_state \<Rightarrow> authorization_scope \<Rightarrow> restricted_access_rule \<Rightarrow> bool rt_result" where
  "check_restricted_access_rule ws scope (Require r) = check_require_rule ws scope r"
| "check_restricted_access_rule ws scope (AnyOf rs) = try_any (check_restricted_access_rule ws scope) rs"
| "check_restricted_access_rule ws scope (AllOf rs) = try_all (check_restricted_access_rule ws scope) rs"

definition check_access_rule :: "working_state \<Rightarrow> authorization_scope \<Rightarrow> access_rule \<Rightarrow> bool rt_result" where
  "check_access_rule ws scope rule = (case rule of
     AllowAll \<Rightarrow> Ok True
   | DenyAll \<Rightarrow> Ok False
   | Restricted r \<Rightarrow> check_restricted_access_rule ws scope r)"

definition check_ownership :: "working_state \<Rightarrow> authorization_scope \<Rightarrow> ownership \<Rightarrow> bool rt_result" where
  "check_ownership ws scope own = (case own_rule own of
     OwnedBySigner \<Rightarrow> (case own_key own of
         None \<Rightarrow> Ok False
       | Some k \<Rightarrow> Ok (from_public_key k \<in> set (virtual_proofs scope)))
   | NoOwner \<Rightarrow> Ok False
   | ByAccessRule rule \<Rightarrow> check_access_rule ws scope rule
   | ByPublicKey key \<Rightarrow> (case own_key own of
         None \<Rightarrow> Ok False
       | Some k \<Rightarrow> if key \<noteq> k then Ok False else Ok (from_public_key key \<in> set (virtual_proofs scope))))"

section \<open>Authorization\<close>

definition check_component_access_rules ::
  "working_state \<Rightarrow> string \<Rightarrow> locked_substate \<Rightarrow> unit rt_result" where
  "check_component_access_rules ws m l =
     and_then (get_component ws l) (\<lambda>c.
     let scope = auth_scope (current_call_scope ws) in
     and_then (check_ownership ws scope (component_ownership c)) (\<lambda>owner.
     if owner then Ok ()
     else and_then (ok_or RuntimeInvariantError (as_component_address (ls_address l))) (\<lambda>a.
       case get_method_access_rule (c_access_rules c) m of
         AllowAll \<Rightarrow> Ok ()
       | DenyAll \<Rightarrow> Err (AccessDenied (ComponentCallMethod a m))
       | Restricted r \<Rightarrow> and_then (check_restricted_access_rule ws scope r) (\<lambda>ok.
           if \<not> ok then Err (AccessDenied (ComponentCallMethod a m)) else Ok ()))))"

definition check_resource_access_rules ::
  "working_state \<Rightarrow> resource_auth_action \<Rightarrow> ownership \<Rightarrow> resource_access_rules \<Rightarrow> unit rt_result" where
  "check_resource_access_rules ws action own rules =
     (let scope = auth_scope (current_call_scope ws) in
      and_then (if \<not> is_recall action then check_ownership ws scope own else Ok False) (\<lambda>owner.
      if owner then Ok ()
      else and_then (check_access_rule ws scope (get_access_rule rules action)) (\<lambda>ok.
        if \<not> ok then Err (AccessDenied (Native (NativeResource action))) else Ok ())))"

definition require_ownership :: "working_state \<Rightarrow> action_ident \<Rightarrow> ownership \<Rightarrow> unit rt_result" where
  "require_ownership ws action own =
     and_then (check_ownership ws (auth_scope (current_call_scope ws)) own) (\<lambda>ok.
     if \<not> ok then Err (AccessDeniedOwnerRequired action) else Ok ())"

section \<open>The meaning of a rule\<close>

text \<open>What a rule says, for the identities \<open>vs\<close> of the signers, the proofs \<open>ps\<close> in scope and the
  component and template being executed.\<close>

record auth_context =
  ac_signers :: "non_fungible_address set"
  ac_proofs :: "resource_proof set"
  ac_component :: "component_address option"
  ac_template :: template_address

primrec requirement_holds :: "auth_context \<Rightarrow> rule_requirement \<Rightarrow> bool" where
  "requirement_holds ac (RequireResource r) \<longleftrightarrow>
     r \<in> nf_resource_address ` ac_signers ac \<or> r \<in> proof_resource_address ` ac_proofs ac"
| "requirement_holds ac (RequireNonFungible a) \<longleftrightarrow>
     a \<in> ac_signers ac \<or> (\<exists>p\<in>ac_proofs ac. nf_resource_address a = proof_resource_address p
       \<and> nf_id a |\<in>| proof_non_fungible_token_ids p)"
| "requirement_holds ac (ScopedToComponent a) \<longleftrightarrow> ac_component ac = Some a"
| "requirement_holds ac (ScopedToTemplate a) \<longleftrightarrow> ac_template ac = a"

primrec require_rule_holds :: "auth_context \<Rightarrow> require_rule \<Rightarrow> bool" where
  "require_rule_holds ac (RequireOne r) \<longleftrightarrow> requirement_holds ac r"
| "require_rule_holds ac (RequireAnyOf rs) \<longleftrightarrow> (\<exists>r\<in>set rs. requirement_holds ac r)"
| "require_rule_holds ac (RequireAllOf rs) \<longleftrightarrow> (\<forall>r\<in>set rs. requirement_holds ac r)"

fun restricted_holds :: "auth_context \<Rightarrow> restricted_access_rule \<Rightarrow> bool" where
  "restricted_holds ac (Require r) \<longleftrightarrow> require_rule_holds ac r"
| "restricted_holds ac (AnyOf rs) \<longleftrightarrow> (\<exists>r\<in>set rs. restricted_holds ac r)"
| "restricted_holds ac (AllOf rs) \<longleftrightarrow> (\<forall>r\<in>set rs. restricted_holds ac r)"

primrec rule_holds :: "auth_context \<Rightarrow> access_rule \<Rightarrow> bool" where
  "rule_holds ac AllowAll \<longleftrightarrow> True"
| "rule_holds ac DenyAll \<longleftrightarrow> False"
| "rule_holds ac (Restricted r) \<longleftrightarrow> restricted_holds ac r"

text \<open>The context of a scope in a state with a call frame, and the scopes all of whose proofs are alive.\<close>

definition auth_context_of :: "working_state \<Rightarrow> authorization_scope \<Rightarrow> auth_context" where
  "auth_context_of ws scope =
     \<lparr>ac_signers = set (virtual_proofs scope),
      ac_proofs = (\<lambda>p. the (fmlookup (proofs ws) p)) ` set (auth_proofs scope),
      ac_component = (case component_lock (frame_scope (last (call_frames ws))) of
         None \<Rightarrow> None | Some l \<Rightarrow> as_component_address (ls_address l)),
      ac_template = frame_template (last (call_frames ws))\<rparr>"

definition proofs_alive :: "working_state \<Rightarrow> authorization_scope \<Rightarrow> bool" where
  "proofs_alive ws scope \<longleftrightarrow> list_all (proof_exists ws) (auth_proofs scope)"

lemma try_any_Ok: "(\<And>x. x \<in> set xs \<Longrightarrow> f x = Ok (P x)) \<Longrightarrow> try_any f xs = Ok (\<exists>x\<in>set xs. P x)"
  by (induction xs) auto

lemma try_all_Ok: "(\<And>x. x \<in> set xs \<Longrightarrow> f x = Ok (P x)) \<Longrightarrow> try_all f xs = Ok (\<forall>x\<in>set xs. P x)"
  by (induction xs) auto

lemma try_any_proofs:
  assumes "proofs_alive ws scope"
  shows "try_any (\<lambda>p. and_then (get_proof ws p) (\<lambda>prf. Ok (Q prf))) (auth_proofs scope) =
    Ok (\<exists>prf\<in>ac_proofs (auth_context_of ws scope). Q prf)"
proof -
  have "and_then (get_proof ws p) (\<lambda>prf. Ok (Q prf)) = Ok (Q (the (fmlookup (proofs ws) p)))"
    if "p \<in> set (auth_proofs scope)" for p
    using assms that by (auto simp: proofs_alive_def list_all_iff proof_exists_def get_proof_def
        fmlookup_dom_iff)
  from try_any_Ok [OF this] show ?thesis by (simp add: auth_context_of_def)
qed

lemma check_requirement_decides:
  assumes "proofs_alive ws scope" "call_frames ws \<noteq> []"
  shows "check_requirement ws scope r = Ok (requirement_holds (auth_context_of ws scope) r)"
proof (cases r)
  case (RequireResource a)
  then show ?thesis using try_any_proofs [OF assms(1), of "\<lambda>prf. a = proof_resource_address prf"]
    by (auto simp: check_requirement_def list_ex_iff auth_context_of_def image_iff)
next
  case (RequireNonFungible a)
  then show ?thesis using try_any_proofs [OF assms(1), of "\<lambda>prf. nf_resource_address a = proof_resource_address prf
      \<and> nf_id a |\<in>| proof_non_fungible_token_ids prf"]
    by (auto simp: check_requirement_def auth_context_of_def)
qed (use assms(2) in \<open>simp_all add: check_requirement_def current_component_def current_template_def
    auth_context_of_def\<close>)

lemma check_restricted_decides:
  assumes "proofs_alive ws scope" "call_frames ws \<noteq> []"
  shows "check_restricted_access_rule ws scope r = Ok (restricted_holds (auth_context_of ws scope) r)"
proof (induction r)
  case (Require r)
  then show ?case
    by (cases r) (simp_all add: check_require_rule_def check_requirement_decides [OF assms]
        try_any_Ok [OF check_requirement_decides [OF assms]] try_all_Ok [OF check_requirement_decides [OF assms]])
next
  case (AnyOf rs)
  then show ?case using try_any_Ok [of rs "check_restricted_access_rule ws scope"] by simp
next
  case (AllOf rs)
  then show ?case using try_all_Ok [of rs "check_restricted_access_rule ws scope"] by simp
qed

lemma check_access_rule_decides:
  assumes "proofs_alive ws scope" "call_frames ws \<noteq> []"
  shows "check_access_rule ws scope r = Ok (rule_holds (auth_context_of ws scope) r)"
  by (cases r) (simp_all add: check_access_rule_def check_restricted_decides [OF assms])

lemma rule_holds_and: "rule_holds ac (access_rule_and a b) \<longleftrightarrow> rule_holds ac a \<and> rule_holds ac b"
  by (cases "(a, b)" rule: access_rule_and.cases) (auto simp: restricted_and_def)

lemma rule_holds_or: "rule_holds ac (access_rule_or a b) \<longleftrightarrow> rule_holds ac a \<or> rule_holds ac b"
  by (cases "(a, b)" rule: access_rule_or.cases) (auto simp: restricted_or_def)

section \<open>Properties\<close>

text \<open>A state with one call frame of template 5, no component and no proofs, for the witnesses.\<close>

definition sample_state :: working_state where
  "sample_state = (working_state_new fmempty None call_scope_new 0)
     \<lparr>call_frames := [frame_for_static 5 ''m'' 0]\<rparr>"

definition signer_scope :: authorization_scope where
  "signer_scope = auth_scope_new [from_public_key 7]"

text \<open>C13: In a state with a call frame and for an authorization scope whose proofs are all alive, checking an
  access rule never fails, and its answer is the meaning of the rule: nested \<open>AnyOf\<close> and \<open>AllOf\<close> are
  disjunction and conjunction over the signers' identities, the resources and tokens of the proofs in
  scope, and the component and template being executed.\<close>

theorem check_access_rule_refines_meaning:
  assumes "proofs_alive ws scope" and "call_frames ws \<noteq> []"
  shows "check_access_rule ws scope rule = Ok (rule_holds (auth_context_of ws scope) rule)"
  by (rule check_access_rule_decides [OF assms])

theorem check_access_rule_refines_meaning_witness:
  "check_access_rule sample_state signer_scope (Restricted (AllOf [Require (RequireOne (ScopedToTemplate 5)),
     Require (RequireAnyOf [RequireResource 3, RequireNonFungible (from_public_key 7)])])) = Ok True
   \<and> proofs_alive sample_state signer_scope \<and> call_frames sample_state \<noteq> []"
proof -
  have a: "proofs_alive sample_state signer_scope" by (simp add: proofs_alive_def signer_scope_def auth_scope_new_def)
  have f: "call_frames sample_state \<noteq> []" by (simp add: sample_state_def)
  show ?thesis using check_access_rule_refines_meaning [OF a f] a f
    by (simp add: auth_context_of_def signer_scope_def auth_scope_new_def sample_state_def frame_for_static_def)
qed

text \<open>The combinators that build rules mean what they say to the checker: a rule built with \<open>and\<close> is granted
  exactly when both rules are, and one built with \<open>or\<close> exactly when one of them is, including when
  \<open>AllowAll\<close> and \<open>DenyAll\<close> are simplified away.\<close>

theorem access_rule_combinators:
  assumes "proofs_alive ws scope" and "call_frames ws \<noteq> []"
  shows "(check_access_rule ws scope (access_rule_and a b) = Ok True \<longleftrightarrow>
           check_access_rule ws scope a = Ok True \<and> check_access_rule ws scope b = Ok True) \<and>
         (check_access_rule ws scope (access_rule_or a b) = Ok True \<longleftrightarrow>
           check_access_rule ws scope a = Ok True \<or> check_access_rule ws scope b = Ok True)"
  by (simp_all add: check_access_rule_decides [OF assms] rule_holds_and rule_holds_or)

theorem access_rule_combinators_witness:
  "check_access_rule sample_state signer_scope
     (access_rule_or DenyAll (Restricted (Require (RequireOne (ScopedToTemplate 5))))) = Ok True
   \<and> check_access_rule sample_state signer_scope
     (access_rule_and AllowAll (Restricted (Require (RequireOne (ScopedToTemplate 6))))) \<noteq> Ok True"
proof -
  have a: "proofs_alive sample_state signer_scope" by (simp add: proofs_alive_def signer_scope_def auth_scope_new_def)
  have f: "call_frames sample_state \<noteq> []" by (simp add: sample_state_def)
  note c = access_rule_combinators [OF a f]
  show ?thesis
    unfolding c [THEN conjunct1] c [THEN conjunct2]
    by (simp add: check_access_rule_def check_require_rule_def check_requirement_def current_template_def
        sample_state_def frame_for_static_def)
qed

text \<open>A resource is recallable only through its access rules: where the recall rule is \<open>DenyAll\<close>, a recall is
  denied to everybody, the owner of the resource included, while the owner passes the check of every
  other action whatever the rule for it.\<close>

theorem recall_denied_even_to_owner:
  assumes "recallable rules = DenyAll"
    and "check_ownership ws (auth_scope (current_call_scope ws)) own = Ok True"
  shows "check_resource_access_rules ws action own rules =
    (if action = ActRecall then Err (AccessDenied (Native (NativeResource ActRecall))) else Ok ())"
  using assms by (simp add: check_resource_access_rules_def is_recall_def check_access_rule_def)

theorem recall_denied_even_to_owner_witness:
  "check_resource_access_rules (sample_state\<lparr>call_frames := [], initial_call_scope := call_scope_new
       \<lparr>auth_scope := signer_scope\<rparr>\<rparr>) ActRecall \<lparr>own_key = Some 7, own_rule = OwnedBySigner\<rparr>
       resource_access_rules_deny_all = Err (AccessDenied (Native (NativeResource ActRecall)))"
proof -
  have o: "check_ownership (sample_state\<lparr>call_frames := [], initial_call_scope := call_scope_new
       \<lparr>auth_scope := signer_scope\<rparr>\<rparr>) (auth_scope (current_call_scope (sample_state\<lparr>call_frames := [],
       initial_call_scope := call_scope_new\<lparr>auth_scope := signer_scope\<rparr>\<rparr>)))
       \<lparr>own_key = Some 7, own_rule = OwnedBySigner\<rparr> = Ok True"
    by (simp add: check_ownership_def current_call_scope_def signer_scope_def auth_scope_new_def)
  have r: "recallable resource_access_rules_deny_all = DenyAll" by (simp add: resource_access_rules_deny_all_def)
  show ?thesis using recall_denied_even_to_owner [OF r o, of ActRecall] by simp
qed

end
