(* ===== verification/RuntimeOps.thy ===== *)
theory RuntimeOps
  imports Authorization
begin

text \<open>
  The operations of \<open>WorkingState\<close> in crates/engine/src/runtime/working_state.rs that create, check
  and move substates: component updates, minting, freezing and recalling, the fee pool, scope checks,
  logs and events, stealth transfers, and the diff that a transaction commits.
\<close>

section \<open>Scope checks\<close>

definition check_all_substates_known :: "working_state \<Rightarrow> indexed_well_known_types \<Rightarrow> unit rt_result" where
  "check_all_substates_known ws vs =
     and_then (try_fold (\<lambda>_ k. and_then (substate_exists ws k) (\<lambda>ex.
         ensure ex (ReferencedSubstateNotFound k))) () (referenced_substates vs)) (\<lambda>_.
     and_then (try_fold (\<lambda>_ b. ensure (b |\<in>| fmdom (buckets ws)) (ValidationFailedBucketNotInScope b)) ()
         (iw_bucket_ids vs)) (\<lambda>_.
     and_then (try_fold (\<lambda>_ p. ensure (p |\<in>| fmdom (proofs ws)) (ValidationFailedProofNotInScope p)) ()
         (iw_proof_ids vs)) (\<lambda>_.
     and_then (try_fold (\<lambda>_ i. ensure (i |\<in>| fmdom (address_allocations ws))
         (ValidationFailedAddressAllocationNotInScope i)) () (iw_component_address_allocations vs)) (\<lambda>_.
     try_fold (\<lambda>_ i. ensure (i |\<in>| fmdom (address_allocations ws))
         (ValidationFailedAddressAllocationNotInScope i)) () (iw_resource_address_allocations vs)))))"

definition check_all_substates_in_scope :: "working_state \<Rightarrow> indexed_well_known_types \<Rightarrow> unit rt_result" where
  "check_all_substates_in_scope ws vs =
     (let scope = current_call_scope ws in
      and_then (try_fold (\<lambda>_ k.
        if is_root k then and_then (substate_exists ws k) (\<lambda>ex.
          if \<not> ex \<and> get_allocated_address_by_address ws k = None then Err (RootSubstateNotFound k) else Ok ())
        else if \<not> is_substate_in_scope scope k \<and> get_allocated_address_by_address ws k = None
        then and_then (substate_exists ws k) (\<lambda>ex.
          if \<not> ex then Err (ReferencedSubstateNotFound k) else Err (SubstateOutOfScope k))
        else Ok ()) () (referenced_substates vs)) (\<lambda>_.
      and_then (try_fold (\<lambda>_ b. ensure (is_bucket_in_scope scope b) (ValidationFailedBucketNotInScope b)) ()
        (iw_bucket_ids vs)) (\<lambda>_.
      try_fold (\<lambda>_ p. ensure (is_proof_in_scope scope p) (ValidationFailedProofNotInScope p)) ()
        (iw_proof_ids vs))))"

definition contains_substate :: "runtime_env \<Rightarrow> component_header \<Rightarrow> substate_id \<Rightarrow> bool rt_result" where
  "contains_substate env c k = map_err IndexedValueErr (value_contains_substate (env_decoder env) (c_state c) k)"

definition check_component_scope ::
  "runtime_env \<Rightarrow> working_state \<Rightarrow> substate_id \<Rightarrow> action_ident \<Rightarrow> unit rt_result" where
  "check_component_scope env ws k action =
     (if is_substate_in_scope (current_call_scope ws) k then Ok ()
      else and_then (ok_or (NotInComponentContext action) (component_lock (current_call_scope ws))) (\<lambda>l.
           and_then (get_component ws l) (\<lambda>c.
           and_then (contains_substate env c k) (\<lambda>found.
           if \<not> found then Err (SubstateNotOwned k (ls_address l)) else Ok ()))))"

definition validate_component_state ::
  "working_state \<Rightarrow> indexed_well_known_types option \<Rightarrow> indexed_well_known_types \<Rightarrow> working_state rt_result" where
  "validate_component_state ws prev nxt =
     and_then (case prev of
         None \<Rightarrow> Ok ()
       | Some p \<Rightarrow> try_fold (\<lambda>_ v. ensure (v \<in> set (iw_vault_ids nxt)) (OrphanedSubstate (VaultId v))) ()
           (iw_vault_ids p)) (\<lambda>_.
     and_then (try_fold (\<lambda>seen v. if v |\<in>| seen then Err (DuplicateReference (VaultId v))
         else Ok (finsert v seen)) {||} (iw_vault_ids nxt)) (\<lambda>_.
     let new_values = (case prev of None \<Rightarrow> nxt | Some p \<Rightarrow> indexed_diff nxt p) in
     and_then (check_all_substates_in_scope ws new_values) (\<lambda>_.
     and_then (try_fold move_node_to_owned (current_call_scope ws) (referenced_substates nxt)) (\<lambda>s.
     Ok (set_current_call_scope ws s)))))"

section \<open>Logs and events\<close>

definition push_log :: "working_state \<Rightarrow> log_entry \<Rightarrow> working_state rt_result" where
  "push_log ws l =
     (if length (log_message l) > max_log_size_bytes ENGINE_LIMITS then Err LimitError
      else if length (logs ws) \<ge> max_logs ENGINE_LIMITS then Err LimitError
      else Ok (ws\<lparr>logs := logs ws @ [l]\<rparr>))"

definition push_event :: "working_state \<Rightarrow> event \<Rightarrow> working_state rt_result" where
  "push_event ws e =
     (if length (events ws) \<ge> max_events ENGINE_LIMITS then Err LimitError
      else Ok (ws\<lparr>events := events ws @ [e]\<rparr>))"

section \<open>Components\<close>

text \<open>The closure gets the component and returns it, possibly changed, and whether to keep the change.\<close>

definition modify_component_with ::
  "runtime_env \<Rightarrow> working_state \<Rightarrow> locked_substate \<Rightarrow> (component_header \<Rightarrow> component_header \<times> bool)
     \<Rightarrow> working_state rt_result" where
  "modify_component_with env ws l f =
     and_then (mutate_locked_substate_with (store ws) (ls_lock_id l) (\<lambda>_ v.
       and_then (ok_or (LockSubstateMismatch (ls_lock_id l) (ls_address l)) (as_component v)) (\<lambda>c.
       and_then (map_err IndexedValueErr (from_value (env_decoder env) (c_state c))) (\<lambda>before.
       let (c', keep) = f c in
       if \<not> keep then Ok (ComponentValue c', None)
       else and_then (map_err IndexedValueErr (from_value (env_decoder env) (c_state c'))) (\<lambda>after.
         Ok (ComponentValue c', Some (before, after)))))) ) (\<lambda>(st, ret).
     let ws1 = ws\<lparr>store := st\<rparr> in
     case ret of
       None \<Rightarrow> Ok ws1
     | Some (before, after) \<Rightarrow>
         and_then (validate_component_state ws1 (Some before) after) (\<lambda>ws2.
         and_then (current_template ws2) (\<lambda>(t, m).
         push_event ws2 (event_std (Some (ls_address l)) t (transaction_hash ws2) ''component'' ''updated''
           (fmupd ''module_name'' m fmempty)))))"

section \<open>Minting, freezing and recalling\<close>

datatype mint_arg =
    MintFungible amount
  | MintNonFungible "(non_fungible_id, bor_value \<times> bor_value) fmap"
  | MintConfidential confidential_output_statement
  | MintStealth amount

definition mint_resource_type :: "mint_arg \<Rightarrow> resource_type" where
  "mint_resource_type a = (case a of MintFungible _ \<Rightarrow> TFungible | MintNonFungible _ \<Rightarrow> TNonFungible
     | MintConfidential _ \<Rightarrow> TConfidential | MintStealth _ \<Rightarrow> TStealth)"

definition mint_tokens ::
  "runtime_env \<Rightarrow> working_state \<Rightarrow> resource_address \<Rightarrow> (non_fungible_id, bor_value \<times> bor_value) fmap
     \<Rightarrow> (working_state \<times> non_fungible_id fset) rt_result" where
  "mint_tokens env ws ra toks = try_fold (\<lambda>(ws, ids) (i, data, mut_data).
     let k = NonFungibleId \<lparr>nf_resource_address = ra, nf_id = i\<rparr> in
     and_then (substate_exists ws k) (\<lambda>ex.
     if ex then Err (DuplicateNonFungibleId i)
     else and_then (new_substate env ws k (NonFungibleValue (Some \<lparr>nf_data = data, nf_mutable_data = mut_data\<rparr>)))
            (\<lambda>ws'. Ok (ws', finsert i ids)))) (ws, {||}) (sorted_list_of_fmap toks)"

definition mint_resource ::
  "runtime_env \<Rightarrow> working_state \<Rightarrow> locked_substate \<Rightarrow> mint_arg
     \<Rightarrow> (working_state \<times> resource_container) rt_result" where
  "mint_resource env ws l arg =
     and_then (ok_or RuntimeInvariantError (as_resource_address (ls_address l))) (\<lambda>ra.
     and_then (get_resource ws l) (\<lambda>r.
     if r_resource_type r \<noteq> mint_resource_type arg
     then Err (ResourceErr (ResourceTypeMismatch (r_resource_type r) (mint_resource_type arg)))
     else
     and_then (case arg of
         MintFungible a \<Rightarrow>
           if is_negative a then Err (InvalidAmount a)
           else and_then (map_err ResourceErr (fungible ra a)) (\<lambda>c. Ok (ws, c))
       | MintNonFungible toks \<Rightarrow>
           and_then (mint_tokens env ws ra toks) (\<lambda>(ws', ids). Ok (ws', non_fungible ra ids))
       | MintConfidential st \<Rightarrow>
           and_then (ok_or RuntimeInvariantError (to_view_key_public_key (base (env_crypto env)) r)) (\<lambda>vk.
           and_then (map_err ResourceErr (mint_confidential (base (env_crypto env)) ra st vk)) (\<lambda>c. Ok (ws, c)))
       | MintStealth a \<Rightarrow>
           if is_negative a then Err (InvalidAmount a)
           else and_then (map_err ResourceErr (stealth ra a)) (\<lambda>c. Ok (ws, c))) (\<lambda>(ws1, c).
     if r_total_supply r = None then Ok (ws1, c)
     else and_then (get_resource_mut ws1 l) (\<lambda>(ws2, k, r').
          and_then (increase_total_supply r' (amount_of c)) (\<lambda>(r'', ok).
          if \<not> ok then and_then (expect ''Resource supply tracking is enabled'' (r_total_supply r''))
              (\<lambda>s. Err (ResourceSupplyWouldOverflow ra s (amount_of c)))
          else Ok (put_locked ws2 k (ResourceValue r''), c))))))"

primrec freeze_flag_name :: "vault_freeze_flag \<Rightarrow> string" where
  "freeze_flag_name FreezeDeposits = ''Deposits''"
| "freeze_flag_name FreezeWithdrawals = ''Withdrawals''"

definition set_vault_freeze ::
  "working_state \<Rightarrow> locked_substate \<Rightarrow> vault_freeze_flags \<Rightarrow> working_state rt_result" where
  "set_vault_freeze ws l flags =
     and_then (get_vault_mut ws l) (\<lambda>(ws1, k, v).
     let ws2 = put_locked ws1 k (VaultValue (vault_set_freeze v flags)) in
     and_then (current_template ws2) (\<lambda>(t, _).
     push_event ws2
       (if flags = 0
        then event_std (Some (ls_address l)) t (transaction_hash ws2) ''vault'' ''unfrozen'' fmempty
        else event_std (Some (ls_address l)) t (transaction_hash ws2) ''vault'' ''set_freeze''
          (fmap_of_list (map (\<lambda>f. (freeze_flag_name f, ''true'')) (flags_iter flags))))))"

datatype resource_discriminator =
    DiscEverything
  | DiscFungible amount
  | DiscNonFungible "non_fungible_id fset"
  | DiscConfidential "commitment fset" amount

definition recall_resource_from_vault ::
  "runtime_env \<Rightarrow> working_state \<Rightarrow> locked_substate \<Rightarrow> resource_discriminator
     \<Rightarrow> (working_state \<times> resource_container) rt_result" where
  "recall_resource_from_vault env ws l disc =
     and_then (ok_or RuntimeInvariantError (as_vault_id (ls_address l))) (\<lambda>_.
     and_then (get_vault_mut ws l) (\<lambda>(ws1, k, v).
     let om = env_overflow env; ty = resource_type_of (v_container v) in
     and_then (case disc of
         DiscEverything \<Rightarrow> map_err ResourceErr (vault_recall_all om v)
       | DiscFungible a \<Rightarrow>
           if is_negative a then Err (InvalidAmount a)
           else if ty \<noteq> TFungible \<and> ty \<noteq> TStealth then Err InvalidArgument
           else map_err ResourceErr (vault_withdraw om v a)
       | DiscNonFungible ids \<Rightarrow>
           if ty \<noteq> TNonFungible then Err InvalidArgument
           else map_err ResourceErr (vault_withdraw_non_fungibles v ids)
       | DiscConfidential cs a \<Rightarrow>
           if ty \<noteq> TConfidential then Err InvalidArgument
           else map_err ResourceErr (vault_recall_confidential om v cs a)) (\<lambda>(v', c).
     Ok (put_locked ws1 k (VaultValue v'), c))))"

section \<open>Fees\<close>

definition pay_fee :: "working_state \<Rightarrow> resource_container \<Rightarrow> vault_id option \<Rightarrow> working_state rt_result" where
  "pay_fee ws c v = and_then (add_fee_payment_checked (fee_state_of ws) c v) (\<lambda>fs. Ok (ws\<lparr>fee_state_of := fs\<rparr>))"

definition withdraw_all_fees_from_pool ::
  "working_state \<Rightarrow> bytes32 \<Rightarrow> (working_state \<times> resource_container) rt_result" where
  "withdraw_all_fees_from_pool ws a =
     and_then (lock_substate ws (ValidatorFeePoolId a) Write) (\<lambda>(ws1, l).
     and_then (get_locked_substate (store ws1) (ls_lock_id l)) (\<lambda>(_, v).
     and_then (ok_or RuntimeInvariantError (as_validator_fee_pool v)) (\<lambda>pool.
     and_then (require_ownership ws1 (Native WithdrawValidatorFunds) (fee_pool_ownership pool)) (\<lambda>_.
     and_then (get_locked_substate_mut (store ws1) (ls_lock_id l)) (\<lambda>(st, k, v').
     let ws2 = ws1\<lparr>store := st\<rparr> in
     and_then (ok_or RuntimeInvariantError (as_validator_fee_pool v')) (\<lambda>pool'.
     and_then (map_err ResourceErr (fee_pool_withdraw_all pool')) (\<lambda>(pool'', c).
     let ws3 = put_locked ws2 k (ValidatorFeePoolValue pool'') in
     Ok (ws3\<lparr>validator_fee_withdrawals := validator_fee_withdrawals ws3
           @ [\<lparr>vfw_address = a, vfw_amount = vfp_amount pool'\<rparr>]\<rparr>, c))))))))"

definition finalize_fees ::
  "runtime_env \<Rightarrow> working_state \<Rightarrow> changeset \<Rightarrow> (working_state \<times> changeset \<times> transaction_receipt) rt_result" where
  "finalize_fees env ws persist =
     and_then (settle_fees (env_overflow env) (fee_state_of ws) persist) (\<lambda>(fs, persist', receipt).
     Ok (ws\<lparr>fee_state_of := fs\<rparr>, persist', \<lparr>tr_transaction_hash = transaction_hash ws, tr_events = events ws,
       tr_logs = logs ws, tr_fee_receipt = receipt\<rparr>))"

section \<open>Stealth transfers\<close>

datatype resource_address_ref = RefAddress resource_address | RefWorkspace workspace_offset_id

definition resolve_resource_address_ref ::
  "runtime_env \<Rightarrow> working_state \<Rightarrow> resource_address_ref \<Rightarrow> resource_address rt_result" where
  "resolve_resource_address_ref env ws r = (case r of
     RefAddress a \<Rightarrow> Ok a
   | RefWorkspace oid \<Rightarrow>
       and_then (ok_or (ItemNotOnWorkspace (wo_id oid)) (workspace_get (workspace_of ws) oid)) (\<lambda>v.
       and_then (ok_or InvalidArgument (env_decode_resource_allocation env v)) (\<lambda>i.
       and_then (get_used_address ws i) (\<lambda>k. case k of ResourceId a \<Rightarrow> Ok a | _ \<Rightarrow> Err InvalidArgument))))"

definition spend_stealth_utxo ::
  "runtime_env \<Rightarrow> resource_address \<Rightarrow> working_state \<Rightarrow> stealth_input \<Rightarrow> working_state rt_result" where
  "spend_stealth_utxo env ra ws input =
     and_then (store_try_lock (store ws)
       (UtxoId \<lparr>utxo_resource_address = ra, utxo_id = si_commitment input\<rparr>) Write) (\<lambda>(st1, i).
     and_then (down_utxo st1 i) (\<lambda>(st2, u).
     if ux_is_frozen u then Err (ResourceErr InvalidSpend)
     else and_then (ok_or (ResourceErr InvalidSpend) (ux_output u)) (\<lambda>out.
          and_then (map_err ResourceErr (verify_utxo_spend_permission (env_crypto env) out input)) (\<lambda>_.
          Ok (ws\<lparr>store := st2\<rparr>)))))"

definition spend_stealth_utxos ::
  "runtime_env \<Rightarrow> working_state \<Rightarrow> resource_address \<Rightarrow> stealth_inputs_statement \<Rightarrow> working_state rt_result" where
  "spend_stealth_utxos env ws ra st = try_fold (spend_stealth_utxo env ra) ws (sis_inputs st)"

definition execute_stealth_transfer ::
  "runtime_env \<Rightarrow> working_state \<Rightarrow> resource_address_ref \<Rightarrow> stealth_transfer_statement \<Rightarrow> bucket_id option
     \<Rightarrow> (working_state \<times> resource_container option) rt_result" where
  "execute_stealth_transfer env ws rref st bid =
     and_then (map_err ArgumentValidationErr (check_stealth_transfer_limits STEALTH_LIMITS st)) (\<lambda>_.
     and_then (resolve_resource_address_ref env ws rref) (\<lambda>ra.
     and_then (lock_substate ws (ResourceId ra) Read) (\<lambda>(ws1, l).
     and_then (get_resource ws1 l) (\<lambda>r.
     if r_resource_type r \<noteq> TStealth then Err (ResourceErr OperationNotAllowed)
     else
     and_then (check_resource_access_rules ws1 ActWithdraw (resource_ownership r) (r_access_rules r)) (\<lambda>_.
     and_then (case bid of None \<Rightarrow> Ok (ws1, None)
        | Some b \<Rightarrow> and_then (take_bucket ws1 b) (\<lambda>(ws', x). Ok (ws', Some x))) (\<lambda>(ws2, bucket).
     let revealed = sis_revealed_amount (sts_inputs_statement st) in
     and_then (case bucket of
         Some x \<Rightarrow> if address (b_container x) \<noteq> ra \<or> amount_of (b_container x) \<noteq> revealed
           then Err InvalidArgument else Ok ()
       | None \<Rightarrow> if is_positive revealed then Err InvalidArgument else Ok ()) (\<lambda>_.
     and_then (spend_stealth_utxos env ws2 ra (sts_inputs_statement st)) (\<lambda>ws3.
     and_then (get_resource ws3 l) (\<lambda>r'.
     and_then (ok_or InvalidArgument (to_view_key_public_key (base (env_crypto env)) r')) (\<lambda>vk.
     and_then (map_err ResourceErr (validate_transfer (env_crypto env) st vk)) (\<lambda>valid.
     and_then (try_fold (\<lambda>ws o'. new_substate env ws
         (UtxoId \<lparr>utxo_resource_address = ra, utxo_id = vo_commitment (vso_output o')\<rparr>)
         (UtxoValue (utxo_new (to_utxo_output o')))) ws3 (vst_outputs valid)) (\<lambda>ws4.
     and_then (unlock_substate ws4 l) (\<lambda>ws5.
     if is_zero (vst_revealed_output_amount valid) then Ok (ws5, None)
     else and_then (map_err ResourceErr (stealth ra (vst_revealed_output_amount valid))) (\<lambda>c.
          Ok (ws5, Some c)))))))))))))))"

section \<open>The end of a transaction\<close>

definition validate_finalized :: "working_state \<Rightarrow> unit rt_result" where
  "validate_finalized ws =
     (if buckets ws \<noteq> fmempty then Err (TransactionCommitErr (DanglingBuckets (fcard (fmdom (buckets ws)))))
      else if proofs ws \<noteq> fmempty then Err (TransactionCommitErr (DanglingProofs (fcard (fmdom (proofs ws)))))
      else if address_allocations ws \<noteq> fmempty
      then Err (TransactionCommitErr (DanglingAddressAllocations (fcard (fmdom (address_allocations ws)))))
      else
        and_then (new_vaults (store ws)) (\<lambda>vs.
        and_then (try_fold (\<lambda>_ (i, v). ensure (is_zero (locked_amount_of (v_container v)))
          (TransactionCommitErr (DanglingLockedValueInVault i (locked_amount_of (v_container v))))) () vs) (\<lambda>_.
        if call_frame_depth ws \<noteq> 0 then Err (CallFrameRemainingOnStack (call_frame_depth ws))
        else if orphans (initial_call_scope ws) \<noteq> [] then Err (OrphanedSubstates (orphans (initial_call_scope ws)))
        else Ok ())))"

definition persist_substate ::
  "working_state_store \<Rightarrow> substate_diff \<Rightarrow> substate_id \<times> substate_value \<Rightarrow> substate_diff rt_result" where
  "persist_substate s d kv = (case kv of (k, v) \<Rightarrow>
     and_then (optional is_not_found_error (get_unmodified_substate s k)) (\<lambda>existing.
     case existing of
       Some old \<Rightarrow>
         let d' = diff_down d k (sub_version old) in
         if (case as_validator_fee_pool v of Some p \<Rightarrow> vfp_amount p = 0 | None \<Rightarrow> False) then Ok d'
         else and_then (u32_add (sub_version old) 1) (\<lambda>n. Ok (diff_up d' k \<lparr>sub_value = v, sub_version = n\<rparr>))
     | None \<Rightarrow> Ok (diff_up d k \<lparr>sub_value = v, sub_version = 0\<rparr>)))"

definition down_spent_utxo ::
  "working_state_store \<Rightarrow> substate_diff \<Rightarrow> utxo_address \<Rightarrow> substate_diff rt_result" where
  "down_spent_utxo s d a =
     and_then (get_unmodified_substate s (UtxoId a)) (\<lambda>old. Ok (diff_down d (UtxoId a) (sub_version old)))"

definition generate_substate_diff ::
  "working_state \<Rightarrow> transaction_receipt \<Rightarrow> changeset \<Rightarrow> utxo_address list \<Rightarrow> validator_fee_withdrawal list
     \<Rightarrow> substate_diff rt_result" where
  "generate_substate_diff ws receipt persist downed fees =
     and_then (set_once_fee_withdrawals diff_new fees) (\<lambda>d0.
     and_then (try_fold (persist_substate (store ws)) d0 persist) (\<lambda>d1.
     and_then (try_fold (down_spent_utxo (store ws)) d1 downed) (\<lambda>d2.
     Ok (diff_up d2 (TransactionReceiptId (tr_transaction_hash receipt))
       \<lparr>sub_value = TransactionReceiptValue receipt, sub_version = 0\<rparr>))))"

definition take_state :: "working_state \<Rightarrow> working_state \<times> working_state" where
  "take_state ws =
     (working_state_new (state_store (store ws)) None call_scope_new (transaction_hash ws), ws)"

section \<open>Laws\<close>

lemma current_scope_set [simp]: "current_call_scope (set_current_call_scope ws s) = s"
  by (simp add: current_call_scope_def set_current_call_scope_def)

lemma set_scope_fields [simp]:
  "store (set_current_call_scope ws s) = store ws" "buckets (set_current_call_scope ws s) = buckets ws"
  "proofs (set_current_call_scope ws s) = proofs ws"
  by (simp_all add: set_current_call_scope_def)

lemma push_frame_Ok:
  assumes "push_frame ws f d = Ok ws'"
  obtains f' where "ws' = ws\<lparr>call_frames := call_frames ws @ [f']\<rparr>"
    "owned (frame_scope f') = owned (frame_scope f)"
    "auth_scope (frame_scope f') =
       (if call_frames ws = [] then auth_scope (initial_call_scope ws) else auth_scope (frame_scope f))"
  using assms by (auto simp: push_frame_def Let_def update_from_parent_def call_frame_depth_def
      set_auth_scope_def split: if_splits)

lemma pop_frame_Ok:
  assumes "pop_frame ws = Ok ws'"
  obtains ws2 where "ws' = set_current_call_scope ws2
      (update_from_child_scope (current_call_scope ws2) (frame_scope (last (call_frames ws))))"
    "call_frames ws2 = butlast (call_frames ws)" "initial_call_scope ws2 = initial_call_scope ws"
    "proofs ws2 = proofs ws"
proof (cases "component_lock (frame_scope (last (call_frames ws)))")
  case None
  then show thesis using assms that [of "ws\<lparr>call_frames := butlast (call_frames ws)\<rparr>"]
    by (auto simp: pop_frame_def Let_def split: if_splits)
next
  case (Some l)
  then obtain st where "store_try_unlock (store ws) (ls_lock_id l) = Ok st"
    using assms by (auto simp: pop_frame_def Let_def result_simps unlock_substate_def split: if_splits)
  then show thesis using assms Some that [of "ws\<lparr>call_frames := butlast (call_frames ws), store := st\<rparr>"]
    by (auto simp: pop_frame_def Let_def unlock_substate_def split: if_splits)
qed

lemma owned_include_refs [simp]: "set (owned (include_refs_in_scope s vs)) = set (owned s)"
proof -
  have 1: "set (owned (foldl (\<lambda>s k. if P k then s else add_substate_to_referenced s k) s ks)) = set (owned s)"
    for P ks and s :: call_scope
    by (induction ks arbitrary: s) (auto simp: add_substate_to_referenced_def)
  have 2: "owned (foldl add_bucket_to_scope s bs) = owned s" for bs and s :: call_scope
    by (induction bs arbitrary: s) (auto simp: add_bucket_to_scope_def)
  have 3: "owned (foldl add_proof_to_scope s ps) = owned s" for ps and s :: call_scope
    by (induction ps arbitrary: s) (auto simp: add_proof_to_scope_def)
  show ?thesis by (simp add: include_refs_in_scope_def Let_def 1 2 3)
qed

lemma owned_include_owned:
  "set (owned (include_owned_in_scope s vs)) = set (owned s) \<union>
     {k \<in> set (referenced_substates vs). \<not> (is_public_key_identity k \<or> is_transaction_receipt k \<or> is_template k)}"
proof -
  have "set (owned (foldl (\<lambda>s k. if P k then s else add_substate_to_owned s k) s ks)) =
    set (owned s) \<union> {k \<in> set ks. \<not> P k}" for P ks and s :: call_scope
    by (induction ks arbitrary: s) (auto simp: add_substate_to_owned_def)
  then show ?thesis by (simp add: include_owned_in_scope_def)
qed

lemma owned_in_scope: "k \<in> set (owned s) \<Longrightarrow> is_substate_in_scope s k"
  using not_in_scope by blast

section \<open>Properties\<close>

text \<open>A cross-component call hands the vaults of the callee to the caller. Once a frame for a component whose
  state holds vault \<open>v\<close> has been pushed and popped, the check that guards every vault action accepts
  \<open>v\<close> in the caller's scope, whichever component the caller is.\<close>

theorem callee_vault_accessible_after_call:
  assumes "push_frame ws (into_new_call_frame (ForComponent t m cs l args e)) d = Ok ws1"
    and "pop_frame ws1 = Ok ws2" and "v \<in> set (iw_vault_ids cs)"
  shows "check_component_scope env ws2 (VaultId v) action = Ok ()"
proof -
  have v: "VaultId v \<in> set (owned (frame_scope (into_new_call_frame (ForComponent t m cs l args e))))"
    using assms(3) by (auto simp: into_new_call_frame_def Let_def owned_include_owned referenced_substates_def
        is_public_key_identity_def is_transaction_receipt_def is_template_def)
  obtain f' where f: "ws1 = ws\<lparr>call_frames := call_frames ws @ [f']\<rparr>"
    "owned (frame_scope f') = owned (frame_scope (into_new_call_frame (ForComponent t m cs l args e)))"
    by (rule push_frame_Ok [OF assms(1)])
  obtain ws' where "ws2 = set_current_call_scope ws'
      (update_from_child_scope (current_call_scope ws') (frame_scope (last (call_frames ws1))))"
    by (rule pop_frame_Ok [OF assms(2)])
  then have "VaultId v \<in> set (owned (current_call_scope ws2))" using v f by (simp add: update_from_child_scope_def)
  then show ?thesis by (simp add: check_component_scope_def owned_in_scope)
qed

text \<open>A proof that was in the base scope when a call was made stays in the authorization scope after it is
  dropped, so the next rule that needs a resource fails with an error instead of being decided.\<close>

theorem dropped_proof_breaks_later_checks:
  assumes "call_frames ws = []" and "auth_proofs (auth_scope (initial_call_scope ws)) = [p]"
    and "virtual_proofs (auth_scope (initial_call_scope ws)) = []"
    and "push_frame ws f d = Ok ws1" and "pop_frame ws1 = Ok ws2" and "drop_proof env ws2 p = Ok ws3"
  shows "check_requirement ws3 (auth_scope (current_call_scope ws3)) (RequireResource r) = Err (ProofNotFound p)"
proof -
  obtain f' where f: "ws1 = ws\<lparr>call_frames := call_frames ws @ [f']\<rparr>"
    "auth_scope (frame_scope f') = auth_scope (initial_call_scope ws)"
    using push_frame_Ok [OF assms(4)] assms(1) by metis
  obtain ws' where ws': "ws2 = set_current_call_scope ws'
      (update_from_child_scope (current_call_scope ws') (frame_scope (last (call_frames ws1))))"
    "call_frames ws' = butlast (call_frames ws1)" "initial_call_scope ws' = initial_call_scope ws1"
    by (rule pop_frame_Ok [OF assms(5)])
  have a: "auth_proofs (auth_scope (current_call_scope ws2)) = [p, p]"
    "virtual_proofs (auth_scope (current_call_scope ws2)) = []"
    using ws' f assms(1-3) by (simp_all add: current_call_scope_def update_from_child_scope_def update_from_child_def set_current_call_scope_def)
  have s: "auth_scope (current_call_scope ws3) = remove_proof (auth_scope (current_call_scope ws2)) p
     \<and> fmlookup (proofs ws3) p = None"
    using assms(6)
    by (auto simp: drop_proof_def Let_def result_simps put_bucket_def put_locked_def lock_substate_def
        get_vault_mut_def unlock_substate_def current_call_scope_def set_current_call_scope_def
        split: if_splits container_ref.splits)
  then show ?thesis using a by (simp add: remove_proof_def check_requirement_def get_proof_def)
qed

definition sample_env :: runtime_env where
  "sample_env = \<lparr>env_decoder = sample_decoder, env_encoded_len = (\<lambda>_. Some 100),
     env_decode_resource_allocation = (\<lambda>_. None), env_hasher = \<lparr>hash_component_address = (\<lambda>_ _. 0),
     hash_output = (\<lambda>_ _. 0), hash_uuid = (\<lambda>_ _ _. 0), hash_entity_id = (\<lambda>_ _. 0)\<rparr>,
     env_crypto = sample_stealth_crypto, env_overflow = PanicOnOverflow\<rparr>"

subsection \<open>Spending\<close>

definition utxo_key :: "resource_address \<Rightarrow> stealth_input \<Rightarrow> substate_id" where
  "utxo_key ra input = UtxoId \<lparr>utxo_resource_address = ra, utxo_id = si_commitment input\<rparr>"

lemma locked_try_lock_adds:
  "locked_try_lock t k flag = Ok (t', i) \<Longrightarrow>
     (flag = Write \<longrightarrow> fmlookup (locks t) k = None \<and> fmlookup (locks t') k = Some WriteLock) \<and>
     (\<forall>k'. k' \<noteq> k \<longrightarrow> fmlookup (locks t') k' = fmlookup (locks t) k')"
  by (auto simp: locked_try_lock_def next_id_def result_simps lock_state_of_def split: option.splits
      lock_state.splits if_splits)

lemma spend_locks:
  assumes "spend_stealth_utxo env ra ws input = Ok ws'"
  shows "fmlookup (locks (lock_table (store ws))) (utxo_key ra input) = None"
    and "fmlookup (locks (lock_table (store ws'))) (utxo_key ra input) = Some WriteLock"
    and "k \<noteq> utxo_key ra input \<Longrightarrow> fmlookup (locks (lock_table (store ws'))) k = fmlookup (locks (lock_table (store ws))) k"
proof -
  obtain st1 st2 i u where l: "store_try_lock (store ws) (utxo_key ra input) Write = Ok (st1, i)"
    and d: "down_utxo st1 i = Ok (st2, u)" and w: "ws' = ws\<lparr>store := st2\<rparr>"
    using assms by (auto simp: spend_stealth_utxo_def utxo_key_def result_simps split: if_splits prod.splits)
  obtain t where t: "locked_try_lock (lock_table (store ws)) (utxo_key ra input) Write = Ok (t, i)"
    "load_and_cache ((store ws)\<lparr>lock_table := t\<rparr>) (utxo_key ra input) = Ok st1"
    by (rule store_try_lock_Ok [OF l])
  have 1: "lock_table st1 = t" using t(2) by (auto simp: load_and_cache_Ok_iff split: if_splits)
  have 2: "lock_table st2 = lock_table st1" using d by (cases rule: down_utxo_Ok) auto
  show "fmlookup (locks (lock_table (store ws))) (utxo_key ra input) = None"
    "fmlookup (locks (lock_table (store ws'))) (utxo_key ra input) = Some WriteLock"
    "k \<noteq> utxo_key ra input \<Longrightarrow> fmlookup (locks (lock_table (store ws'))) k = fmlookup (locks (lock_table (store ws))) k"
    using locked_try_lock_adds [OF t(1)] 1 2 w by simp_all
qed

lemma spend_all_distinct:
  assumes "try_fold (spend_stealth_utxo env ra) ws inputs = Ok ws'"
  shows "distinct (map si_commitment inputs) \<and>
    (\<forall>i\<in>set inputs. fmlookup (locks (lock_table (store ws))) (utxo_key ra i) = None)"
  using assms
proof (induction inputs arbitrary: ws)
  case (Cons x xs)
  then obtain ws1 where w: "spend_stealth_utxo env ra ws x = Ok ws1"
    and r: "try_fold (spend_stealth_utxo env ra) ws1 xs = Ok ws'" by (auto simp: result_simps)
  note ih = Cons.IH [OF r] and s = spend_locks [OF w]
  have ne: "utxo_key ra i \<noteq> utxo_key ra x" if "i \<in> set xs" for i using ih that s(2) by fastforce
  then have "si_commitment x \<notin> si_commitment ` set xs" unfolding utxo_key_def by fastforce
  moreover have "fmlookup (locks (lock_table (store ws))) (utxo_key ra i) = None" if "i \<in> set xs" for i
    using ih that s(3) [OF ne [OF that]] by simp
  ultimately show ?case using ih s(1) by auto
qed simp

text \<open>C21: A transfer never spends one output twice. When the inputs of a stealth statement are spent, their
  commitments are pairwise distinct, and none of the outputs was locked, so none had been spent
  earlier in the transaction.\<close>

theorem stealth_inputs_spent_once:
  assumes "spend_stealth_utxos env ws ra st = Ok ws'"
  shows "distinct (map si_commitment (sis_inputs st)) \<and>
    (\<forall>i\<in>set (sis_inputs st). fmlookup (locks (lock_table (store ws)))
       (UtxoId \<lparr>utxo_resource_address = ra, utxo_id = si_commitment i\<rparr>) = None)"
  using spend_all_distinct [of env ra ws "sis_inputs st" ws'] assms
  by (simp add: spend_stealth_utxos_def utxo_key_def)

subsection \<open>Component state\<close>

lemma ensure_all: "try_fold (\<lambda>_ x. ensure (P x) (e x)) u xs = Ok r \<Longrightarrow> \<forall>x\<in>set xs. P x"
  by (induction xs arbitrary: u) (auto simp: result_simps ensure_def split: if_splits)

lemma dup_check_distinct:
  "try_fold (\<lambda>seen v. if v |\<in>| seen then Err (e v) else Ok (finsert v seen)) seen vs = Ok r \<Longrightarrow>
     distinct vs \<and> set vs \<inter> fset seen = {}"
  by (induction vs arbitrary: seen) (auto simp: result_simps split: if_splits)

text \<open>C35: Components cannot lose or duplicate vaults. When a changed component state is accepted, every vault of
  the previous state is still in the new one, and the new state names no vault twice.\<close>

theorem component_keeps_vaults:
  assumes "validate_component_state ws (Some prev) nxt = Ok ws'"
  shows "set (iw_vault_ids prev) \<subseteq> set (iw_vault_ids nxt) \<and> distinct (iw_vault_ids nxt)"
  using assms by (auto simp: validate_component_state_def result_simps dest!: ensure_all dup_check_distinct)

theorem component_keeps_vaults_witness:
  "set [3] \<subseteq> set (iw_vault_ids (indexed_new\<lparr>iw_vault_ids := [3]\<rparr>)) \<and>
   validate_component_state (working_state_new fmempty None call_scope_new 0)
     (Some (indexed_new\<lparr>iw_vault_ids := [3]\<rparr>)) (indexed_new\<lparr>iw_vault_ids := [3]\<rparr>) =
     Ok (working_state_new fmempty None call_scope_new 0)"
proof -
  have v: "validate_component_state (working_state_new fmempty None call_scope_new 0)
     (Some (indexed_new\<lparr>iw_vault_ids := [3]\<rparr>)) (indexed_new\<lparr>iw_vault_ids := [3]\<rparr>) =
     Ok (working_state_new fmempty None call_scope_new 0)"
    by (simp add: validate_component_state_def indexed_new_def indexed_diff_def diff_vec_def ensure_def
        check_all_substates_in_scope_def referenced_substates_def move_node_to_owned_def
        current_call_scope_def working_state_new_def call_scope_new_def set_current_call_scope_def)
  show ?thesis using component_keeps_vaults [OF v] v by simp
qed

subsection \<open>Buckets\<close>

text \<open>What is put in a bucket comes out of it: after a bucket is created, taking it succeeds, gives the
  container it was made of, and leaves no bucket under that id.\<close>

theorem bucket_roundtrip:
  assumes "new_bucket ws b c = Ok ws'"
  shows "\<exists>ws''. take_bucket ws' b = Ok (ws'', bucket_new b c) \<and> fmlookup (buckets ws'') b = None
    \<and> fmlookup (buckets ws) b = None"
proof -
  have "is_bucket_in_scope (current_call_scope ws') b \<and> fmlookup (buckets ws') b = Some (bucket_new b c)
     \<and> fmlookup (buckets ws) b = None"
    using assms by (auto simp: new_bucket_def result_simps Let_def is_bucket_in_scope_def add_bucket_to_scope_def
        split: if_splits)
  then show ?thesis by (simp add: take_bucket_def Let_def)
qed

theorem bucket_roundtrip_witness:
  "\<exists>ws' ws''. new_bucket (working_state_new fmempty None call_scope_new 0) 4 (Fungible 9 10 0) = Ok ws' \<and>
     take_bucket ws' 4 = Ok (ws'', bucket_new 4 (Fungible 9 10 0))"
proof -
  obtain ws' where w: "new_bucket (working_state_new fmempty None call_scope_new 0) 4 (Fungible 9 10 0) = Ok ws'"
    by (simp add: new_bucket_def move_node_to_owned_def current_call_scope_def working_state_new_def
        call_scope_new_def non_fungible_token_ids_def set_current_call_scope_def sorted_list_of_fset.rep_eq)
  show ?thesis using bucket_roundtrip [OF w] w by blast
qed

subsection \<open>The substate diff\<close>

text \<open>What a diff may hold for a transaction on the input substates \<open>m\<close> that persists \<open>persist\<close>.\<close>

definition up_ok :: "memory_store \<Rightarrow> changeset \<Rightarrow> (substate_id \<times> nat) list \<Rightarrow> substate_id \<times> substate \<Rightarrow> bool" where
  "up_ok m persist downs = (\<lambda>(k, s). (k, sub_value s) \<in> set persist \<and> (case fmlookup m k of
     None \<Rightarrow> sub_version s = 0
   | Some old \<Rightarrow> sub_version s = sub_version old + 1 \<and> (k, sub_version old) \<in> set downs))"

definition down_ok :: "memory_store \<Rightarrow> substate_id \<times> nat \<Rightarrow> bool" where
  "down_ok m = (\<lambda>(k, n). map_option sub_version (fmlookup m k) = Some n)"

definition diff_ok :: "memory_store \<Rightarrow> changeset \<Rightarrow> substate_diff \<Rightarrow> bool" where
  "diff_ok m persist d \<longleftrightarrow> list_all (up_ok m persist (down_substates d)) (up_substates d)
     \<and> list_all (down_ok m) (down_substates d)"

lemma up_ok_mono: "up_ok m persist ds ks \<Longrightarrow> up_ok m persist (ds @ es) ks"
  by (auto simp: up_ok_def split: option.splits)

lemma unmodified_eq:
  "store_inv s \<Longrightarrow> get_unmodified_substate s k = ok_or (SubstateNotFound k) (fmlookup (state_store s) k)"
  by (cases "fmlookup (loaded_substates s) k"; cases "fmlookup (state_store s) k")
     (auto simp: get_unmodified_substate_def get_state_def store_is_not_found_def store_inv_def)

lemma diff_ok_down:
  "diff_ok m persist d \<Longrightarrow> fmlookup m k = Some old \<Longrightarrow> diff_ok m persist (diff_down d k (sub_version old))"
  by (auto simp: diff_ok_def diff_down_def down_ok_def list_all_iff intro: up_ok_mono)

lemma diff_ok_up:
  "diff_ok m persist d \<Longrightarrow> up_ok m persist (down_substates d) (k, sub) \<Longrightarrow> diff_ok m persist (diff_up d k sub)"
  by (simp add: diff_ok_def diff_up_def)

lemma persist_substate_ok:
  assumes "persist_substate s d (k, v) = Ok d'" "store_inv s" "(k, v) \<in> set persist"
    "diff_ok (state_store s) persist d"
  shows "diff_ok (state_store s) persist d'"
proof (cases "fmlookup (state_store s) k")
  case None
  then have "d' = diff_up d k \<lparr>sub_value = v, sub_version = 0\<rparr>"
    using assms(1,2) by (simp add: persist_substate_def unmodified_eq is_not_found_error_def)
  then show ?thesis using diff_ok_up [OF assms(4)] None assms(3) by (simp add: up_ok_def)
next
  case (Some old)
  note d = diff_ok_down [OF assms(4) Some]
  have "d' = diff_down d k (sub_version old) \<or>
    d' = diff_up (diff_down d k (sub_version old)) k \<lparr>sub_value = v, sub_version = sub_version old + 1\<rparr>"
    using assms(1,2) Some by (auto simp: persist_substate_def unmodified_eq Let_def result_simps u32_add_def
        split: if_splits)
  moreover have "up_ok (state_store s) persist (down_substates (diff_down d k (sub_version old)))
      (k, \<lparr>sub_value = v, sub_version = sub_version old + 1\<rparr>)"
    using assms(3) Some by (simp add: up_ok_def diff_down_def)
  ultimately show ?thesis using d diff_ok_up [OF d] by blast
qed

lemma down_spent_utxo_ok:
  assumes "down_spent_utxo s d a = Ok d'" "store_inv s" "diff_ok (state_store s) persist d"
  shows "diff_ok (state_store s) persist d'"
  using assms diff_ok_down [OF assms(3), of "UtxoId a"]
  by (cases "fmlookup (state_store s) (UtxoId a)") (auto simp: down_spent_utxo_def unmodified_eq)

lemma generate_substate_diff_Ok:
  assumes "generate_substate_diff ws r persist downed fees = Ok d" "store_inv (store ws)"
  obtains d2 where "diff_ok (state_store (store ws)) persist d2"
    "d = diff_up d2 (TransactionReceiptId (tr_transaction_hash r))
      \<lparr>sub_value = TransactionReceiptValue r, sub_version = 0\<rparr>"
proof -
  obtain d0 d1 d2 where d0: "set_once_fee_withdrawals diff_new fees = (Ok d0 :: substate_diff rt_result)"
    and d1: "try_fold (persist_substate (store ws)) d0 persist = Ok d1"
    and d2: "try_fold (down_spent_utxo (store ws)) d1 downed = Ok d2"
    and d: "d = diff_up d2 (TransactionReceiptId (tr_transaction_hash r))
      \<lparr>sub_value = TransactionReceiptValue r, sub_version = 0\<rparr>"
    using assms(1) by (auto simp: generate_substate_diff_def result_simps)
  let ?I = "diff_ok (state_store (store ws)) persist"
  have "?I d0" using d0 by (auto simp: set_once_fee_withdrawals_def diff_new_def diff_ok_def)
  with d1 have "?I d1"
    by (rule try_fold_invariant) (auto intro: persist_substate_ok [OF _ assms(2)])
  with d2 have "?I d2" by (rule try_fold_invariant) (auto intro: down_spent_utxo_ok [OF _ assms(2)])
  then show thesis using d that by blast
qed

text \<open>C14: A committed diff chains versions. For a store that a transaction can reach, each substate the diff
  brings up is the receipt or one of the persisted substates, at version 0 if the id was not an
  input, and otherwise at the version after the input's, whose own version the diff brings down; and
  whatever is brought down was an input at exactly that version.\<close>

theorem substate_diff_versions:
  assumes "store_reachable m (store ws)" and "generate_substate_diff ws r persist downed fees = Ok d"
  shows "(\<forall>(k, s) \<in> set (up_substates d). k = TransactionReceiptId (tr_transaction_hash r) \<or>
      (k, sub_value s) \<in> set persist \<and> (case fmlookup m k of
         None \<Rightarrow> sub_version s = 0
       | Some old \<Rightarrow> sub_version s = sub_version old + 1 \<and> (k, sub_version old) \<in> set (down_substates d)))
    \<and> (\<forall>(k, n) \<in> set (down_substates d). map_option sub_version (fmlookup m k) = Some n)"
proof -
  have s: "store_inv (store ws)" "state_store (store ws) = m" using store_reachable_inv [OF assms(1)] by auto
  obtain d2 where d2: "diff_ok m persist d2" and d: "d = diff_up d2 (TransactionReceiptId (tr_transaction_hash r))
      \<lparr>sub_value = TransactionReceiptValue r, sub_version = 0\<rparr>"
    by (rule generate_substate_diff_Ok [OF assms(2) s(1), unfolded s(2)])
  have e: "down_substates d = down_substates d2" "up_substates d = up_substates d2 @
      [(TransactionReceiptId (tr_transaction_hash r), \<lparr>sub_value = TransactionReceiptValue r, sub_version = 0\<rparr>)]"
    by (simp_all add: d diff_up_def)
  show ?thesis unfolding e using d2 by (fastforce simp: diff_ok_def up_ok_def down_ok_def list_all_iff)
qed

definition sample_receipt :: transaction_receipt where
  "sample_receipt = \<lparr>tr_transaction_hash = 8, tr_events = [], tr_logs = [], tr_fee_receipt =
     \<lparr>total_fee_payment = 0, total_fees_paid = 0, total_fee_overcharge = 0, cost_breakdown = []\<rparr>\<rparr>"

theorem substate_diff_versions_witness:
  "\<exists>d. generate_substate_diff ((working_state_new sample_utxo_store None call_scope_new 8)\<lparr>store := sample_locked_store\<rparr>)
       sample_receipt [(UtxoId sample_utxo_address, UtxoValue sample_utxo)] [] [] = Ok d \<and>
     (\<forall>(k, n) \<in> set (down_substates d). map_option sub_version (fmlookup sample_utxo_store k) = Some n)"
proof -
  have r: "store_reachable sample_utxo_store
      (store ((working_state_new sample_utxo_store None call_scope_new 8)\<lparr>store := sample_locked_store\<rparr>))"
    using sample_locked_reachable by simp
  obtain d where d: "generate_substate_diff ((working_state_new sample_utxo_store None call_scope_new 8)\<lparr>store := sample_locked_store\<rparr>)
       sample_receipt [(UtxoId sample_utxo_address, UtxoValue sample_utxo)] [] [] = Ok d"
    by (simp add: generate_substate_diff_def set_once_fee_withdrawals_def diff_new_def persist_substate_def
        get_unmodified_substate_def sample_locked_store_def sample_utxo_store_def as_validator_fee_pool_def
        u32_add_def u32_max_def)
  show ?thesis using substate_diff_versions [OF r d] d by blast
qed

text \<open>An unfrozen output of resource 9, and a statement that spends it.\<close>

definition spendable_store :: memory_store where
  "spendable_store = fmupd (UtxoId \<lparr>utxo_resource_address = 9, utxo_id = 5\<rparr>)
     \<lparr>sub_value = UtxoValue (utxo_new \<lparr>uto_output = \<lparr>public_nonce = 1, encrypted_data = [],
        minimum_value_promise = 0, viewable_balance = None\<rparr>, uto_owner_public_key = 0,
        uto_tag = 0\<rparr>), sub_version = 0\<rparr> fmempty"

definition spend_statement :: stealth_inputs_statement where
  "spend_statement = \<lparr>sis_inputs = [\<lparr>si_commitment = 5, si_owner_proof = \<lparr>sig_public_nonce = 1, sig_signature = 1\<rparr>\<rparr>],
     sis_revealed_amount = 0\<rparr>"

text \<open>A state whose component 1 is locked, and a call of it; its state holds vault 9.\<close>

definition locked_component_state :: working_state where
  "locked_component_state = (working_state_new fmempty None call_scope_new 0)\<lparr>store := (store_new fmempty)\<lparr>lock_table :=
     \<lparr>lock_ids = fmupd 0 (ComponentId 1) fmempty, locks = fmupd (ComponentId 1) WriteLock fmempty, id_counter = 1\<rparr>\<rparr>\<rparr>"

definition sample_call :: push_call_frame where
  "sample_call = ForComponent 5 ''m'' (indexed_new\<lparr>iw_vault_ids := [9]\<rparr>)
     \<lparr>ls_address = ComponentId 1, ls_lock_id = 0, ls_lock_flag = Write\<rparr> indexed_new 0"

lemma push_first_frame:
  "call_frames ws = [] \<Longrightarrow> 0 < d \<Longrightarrow> push_frame ws f d = Ok (ws\<lparr>call_frames :=
     [f\<lparr>frame_scope := (frame_scope f)\<lparr>auth_scope := auth_scope (initial_call_scope ws)\<rparr>\<rparr>]\<rparr>)"
  by (simp add: push_frame_def call_frame_depth_def update_from_parent_def set_auth_scope_def)

lemma component_pop:
  assumes "component_lock (frame_scope f) = Some \<lparr>ls_address = ComponentId 1, ls_lock_id = 0, ls_lock_flag = Write\<rparr>"
    "lock_scope (frame_scope f) = []" "orphans (frame_scope f) = []"
  shows "\<exists>ws2. pop_frame (locked_component_state\<lparr>call_frames := [f]\<rparr>) = Ok ws2"
  using assms by (simp add: pop_frame_def Let_def unlock_substate_def locked_component_state_def store_try_unlock_def
    locked_try_unlock_def)

lemma sample_call_scope:
  "component_lock (frame_scope (into_new_call_frame sample_call)) =
     Some \<lparr>ls_address = ComponentId 1, ls_lock_id = 0, ls_lock_flag = Write\<rparr>"
  "lock_scope (frame_scope (into_new_call_frame sample_call)) = []"
  "orphans (frame_scope (into_new_call_frame sample_call)) = []"
  by (simp_all add: sample_call_def into_new_call_frame_def Let_def frame_for_component_def
      call_scope_for_component_def call_scope_new_def indexed_new_def include_owned_in_scope_def
      include_refs_in_scope_def referenced_substates_def is_public_key_identity_def
      is_transaction_receipt_def is_template_def add_substate_to_owned_def)

theorem callee_vault_accessible_after_call_witness:
  "\<exists>ws1 ws2. push_frame locked_component_state (into_new_call_frame sample_call) 10 = Ok ws1 \<and> pop_frame ws1 = Ok ws2 \<and>
     check_component_scope sample_env ws2 (VaultId 9) (Native (NativeVault VaultWithdraw)) = Ok ()"
proof -
  have c: "call_frames locked_component_state = []" by (simp add: locked_component_state_def working_state_new_def)
  obtain ws1 ws2 where p: "push_frame locked_component_state (into_new_call_frame sample_call) 10 = Ok ws1"
    and q: "pop_frame ws1 = Ok ws2"
    using push_first_frame [OF c, of 10 "into_new_call_frame sample_call"] component_pop sample_call_scope by fastforce
  have "check_component_scope sample_env ws2 (VaultId 9) (Native (NativeVault VaultWithdraw)) = Ok ()"
    by (rule callee_vault_accessible_after_call [OF p [unfolded sample_call_def] q]) simp
  then show ?thesis using p q by blast
qed

text \<open>A state in which proof 0 locks half of bucket 4.\<close>

definition proof_state :: working_state where
  "proof_state = (working_state_new fmempty None (call_scope_new\<lparr>proof_scope := [0], auth_scope :=
       \<lparr>virtual_proofs = [], auth_proofs = [0]\<rparr>\<rparr>) 0)\<lparr>
     buckets := fmupd 4 \<lparr>b_id = 4, b_container = Fungible 9 5 5\<rparr> fmempty,
     proofs := fmupd 0 (proof_new \<lparr>lr_container = BucketRef 4, lr_locked = Fungible 9 5 0\<rparr>) fmempty\<rparr>"

lemma proof_state_fields:
  "call_frames proof_state = []" "buckets proof_state = fmupd 4 \<lparr>b_id = 4, b_container = Fungible 9 5 5\<rparr> fmempty"
  "proofs proof_state = fmupd 0 (proof_new \<lparr>lr_container = BucketRef 4, lr_locked = Fungible 9 5 0\<rparr>) fmempty"
  "initial_call_scope proof_state = call_scope_new\<lparr>proof_scope := [0], auth_scope := \<lparr>virtual_proofs = [], auth_proofs = [0]\<rparr>\<rparr>"
  by (simp_all add: proof_state_def working_state_new_def)

lemma proof_pop: "\<exists>ws2. pop_frame (proof_state\<lparr>call_frames := [(frame_for_static 5 ''m'' 0)\<lparr>frame_scope := (frame_scope (frame_for_static 5 ''m'' 0))
     \<lparr>auth_scope := auth_scope (initial_call_scope proof_state)\<rparr>\<rparr>]\<rparr>) = Ok ws2 \<and>
   is_proof_in_scope (current_call_scope ws2) 0 \<and> buckets ws2 = buckets proof_state \<and> proofs ws2 = proofs proof_state"
  by (simp add: pop_frame_def Let_def frame_for_static_def call_scope_new_def update_from_child_scope_def index_set_extend_def
      current_call_scope_def set_current_call_scope_def is_proof_in_scope_def proof_state_fields)

lemma drop_sample_proof:
  assumes "is_proof_in_scope (current_call_scope ws) 0" "buckets ws = buckets proof_state" "proofs ws = proofs proof_state"
  shows "\<exists>ws'. drop_proof sample_env ws 0 = Ok ws'"
  using assms by (simp add: drop_proof_def Let_def proof_state_fields proof_container_def proof_new_def
      bucket_unlock_def proof_resource_container_def sample_env_def unlock_def resource_type_of_def amount_of_def
      amount_simps amount_add_def i192_op_def in_i192_def Amount_MAX_def Amount_MIN_def)

theorem dropped_proof_breaks_later_checks_witness:
  "\<exists>ws1 ws2 ws3. push_frame proof_state (frame_for_static 5 ''m'' 0) 10 = Ok ws1 \<and> pop_frame ws1 = Ok ws2 \<and>
     drop_proof sample_env ws2 0 = Ok ws3 \<and>
     check_requirement ws3 (auth_scope (current_call_scope ws3)) (RequireResource 9) = Err (ProofNotFound 0)"
proof -
  have s: "call_frames proof_state = []" "auth_proofs (auth_scope (initial_call_scope proof_state)) = [0]"
    "virtual_proofs (auth_scope (initial_call_scope proof_state)) = []"
    by (simp_all add: proof_state_fields)
  note p = push_first_frame [OF s(1), of 10 "frame_for_static 5 ''m'' 0", simplified]
  obtain ws2 ws3 where q: "pop_frame (proof_state\<lparr>call_frames := [(frame_for_static 5 ''m'' 0)\<lparr>frame_scope :=
      (frame_scope (frame_for_static 5 ''m'' 0))\<lparr>auth_scope := auth_scope (initial_call_scope proof_state)\<rparr>\<rparr>]\<rparr>) = Ok ws2"
    and r: "drop_proof sample_env ws2 0 = Ok ws3"
    using proof_pop drop_sample_proof by blast
  show ?thesis using dropped_proof_breaks_later_checks [OF s p q r] p q r by blast
qed

lemma spend_sample:
  "\<exists>ws'. spend_stealth_utxos sample_env (working_state_new spendable_store None call_scope_new 0) 9 spend_statement = Ok ws'"
  by (simp add: spend_stealth_utxos_def spend_statement_def spend_stealth_utxo_def working_state_new_def
        store_try_lock_def store_exists_def contains_key_def store_new_def spendable_store_def state_exists_def
        locked_try_lock_def locked_substates_default_def next_id_def u32_max_def lock_state_of_def
        load_and_cache_def get_state_def down_utxo_def locked_get_def has_access_def state_is_write_def
        as_utxo_address_def as_utxo_def utxo_new_def verify_utxo_spend_permission_def sample_env_def
        sample_stealth_crypto_def try_decode_to_signature_def Let_def)

theorem stealth_inputs_spent_once_witness:
  "\<exists>ws'. spend_stealth_utxos sample_env (working_state_new spendable_store None call_scope_new 0) 9 spend_statement
     = Ok ws' \<and> distinct (map si_commitment (sis_inputs spend_statement))"
  using spend_sample stealth_inputs_spent_once by blast

end
