(* ===== verification/Tracker.thy ===== *)
theory Tracker
  imports RuntimeOps
begin

text \<open>
  The state tracker of a transaction (crates/engine/src/runtime/tracker.rs), the runtime modules that are
  called around every engine call (runtime/module.rs), the fee module (crates/engine/src/fees) and the
  result of a transaction (crates/engine_types/src/commit_result.rs). A tracker operation is a function
  from the tracker to the tracker and a result: the tracker is kept when the operation fails, since the
  fees charged up to a failure stay charged.
\<close>

section \<open>The tracker\<close>

record tracker =
  tk_working :: working_state
  tk_checkpoint :: "working_state option"
  tk_weight :: nat

type_synonym ('x, 'a) action = "'x tracker_scheme \<Rightarrow> 'x tracker_scheme \<times> 'a rt_result"

text \<open>Sequencing of fallible operations: the operator \<open>?\<close> of the source.\<close>

definition act_then ::
  "('s \<Rightarrow> 's \<times> ('a, 'e) result) \<Rightarrow> ('a \<Rightarrow> 's \<Rightarrow> 's \<times> ('b, 'e) result) \<Rightarrow> 's \<Rightarrow> 's \<times> ('b, 'e) result" where
  "act_then m f t = (case m t of (t', r) \<Rightarrow> (case r of
     Ok a \<Rightarrow> f a t' | Err e \<Rightarrow> (t', Err e) | Panic p \<Rightarrow> (t', Panic p)))"

definition act_return :: "'a \<Rightarrow> 's \<Rightarrow> 's \<times> ('a, 'e) result" where
  "act_return a t = (t, Ok a)"

definition act_lift :: "('a, 'e) result \<Rightarrow> 's \<Rightarrow> 's \<times> ('a, 'e) result" where
  "act_lift r t = (t, r)"

definition act_map_err ::
  "('e \<Rightarrow> 'f) \<Rightarrow> ('s \<Rightarrow> 's \<times> ('a, 'e) result) \<Rightarrow> 's \<Rightarrow> 's \<times> ('a, 'f) result" where
  "act_map_err f m t = (case m t of (t', r) \<Rightarrow> (t', map_err f r))"

definition read_with :: "(working_state \<Rightarrow> 'a rt_result) \<Rightarrow> ('x, 'a) action" where
  "read_with f t = (t, f (tk_working t))"

text \<open>A closure of the source that fails may leave part of its changes on the working state, since it works on
  a mutable reference. Here a failed operation keeps the state from before it. The error ends the instruction and
  the intent it belongs to; after it, \<open>reset_to_fee_checkpoint\<close> replaces the working state by the checkpoint
  and takes over the fee state only, so what is abstracted from is the part of the fee state that a failed
  closure has changed.\<close>

definition write_with :: "(working_state \<Rightarrow> (working_state \<times> 'a) rt_result) \<Rightarrow> ('x, 'a) action" where
  "write_with f t = (case f (tk_working t) of
     Ok (ws, a) \<Rightarrow> (t\<lparr>tk_working := ws\<rparr>, Ok a)
   | Err e \<Rightarrow> (t, Err e)
   | Panic p \<Rightarrow> (t, Panic p))"

text \<open>A writer without a result of its own.\<close>

definition update_with :: "(working_state \<Rightarrow> working_state rt_result) \<Rightarrow> ('x, unit) action" where
  "update_with f = write_with (\<lambda>ws. and_then (f ws) (\<lambda>ws'. Ok (ws', ())))"

lemma act_then_simps [simp]:
  "act_then (act_return a) f = f a"
  "act_then (act_lift (Ok a)) f = f a"
  "act_then (act_lift (Err e)) g = act_lift (Err e)"
  "act_then (act_lift (Panic p)) g = act_lift (Panic p)"
  by (auto simp: act_then_def act_return_def act_lift_def)

lemma act_then_OkE:
  assumes "act_then m f t = (t', Ok b)"
  obtains a t1 where "m t = (t1, Ok a)" "f a t1 = (t', Ok b)"
  using assms by (auto simp: act_then_def split: prod.splits result.splits)

lemma write_with_OkE:
  assumes "write_with f t = (t', Ok a)"
  obtains ws where "f (tk_working t) = Ok (ws, a)" "t' = t\<lparr>tk_working := ws\<rparr>"
  using assms by (auto simp: write_with_def split: prod.splits result.splits)

definition tracker_new :: "memory_store \<Rightarrow> nat option \<Rightarrow> call_scope \<Rightarrow> bytes32 \<Rightarrow> nat \<Rightarrow> tracker" where
  "tracker_new m epoch scope tx weight =
     \<lparr>tk_working = working_state_new m epoch scope tx, tk_checkpoint = None, tk_weight = weight\<rparr>"

section \<open>Fresh identifiers\<close>

text \<open>\<open>WorkingState::id_provider\<close>: identifiers belong to the entity of the running frame.\<close>

definition with_id_provider ::
  "working_state \<Rightarrow> (entity_id \<Rightarrow> bytes32 \<Rightarrow> object_ids \<Rightarrow> object_ids \<times> 'a) \<Rightarrow> (working_state \<times> 'a) rt_result" where
  "with_id_provider ws f =
     (if call_frames ws = [] then Err NoActiveCallFrame
      else let (o', a) = f (frame_entity_id (last (call_frames ws))) (transaction_hash ws) (object_ids_of ws)
           in Ok (ws\<lparr>object_ids_of := o'\<rparr>, a))"

primrec too_many_outputs :: "id_provider_error \<Rightarrow> runtime_error" where
  "too_many_outputs (MaxIdsExceeded n) = TooManyOutputs n"

definition fallible_id ::
  "working_state \<Rightarrow> (entity_id \<Rightarrow> bytes32 \<Rightarrow> object_ids \<Rightarrow> object_ids \<times> ('a, id_provider_error) result)
     \<Rightarrow> (working_state \<times> 'a) rt_result" where
  "fallible_id ws f = and_then (with_id_provider ws f) (\<lambda>(ws', r).
     and_then (map_err too_many_outputs r) (\<lambda>a. Ok (ws', a)))"

definition fresh_bucket_id :: "working_state \<Rightarrow> (working_state \<times> bucket_id) rt_result" where
  "fresh_bucket_id ws = with_id_provider ws (\<lambda>_ _. next_bucket_id)"

definition fresh_proof_id :: "working_state \<Rightarrow> (working_state \<times> proof_id) rt_result" where
  "fresh_proof_id ws = with_id_provider ws (\<lambda>_ _. next_proof_id)"

text \<open>\<open>WorkingState::new_bucket_id\<close>, which needs no frame.\<close>

definition ws_new_bucket_id :: "working_state \<Rightarrow> working_state \<times> bucket_id" where
  "ws_new_bucket_id ws = (let (o', b) = next_bucket_id (object_ids_of ws) in (ws\<lparr>object_ids_of := o'\<rparr>, b))"

definition get_pseudorandom_bytes :: "runtime_env \<Rightarrow> nat \<Rightarrow> ('x, 8 word list) action" where
  "get_pseudorandom_bytes env len = write_with (\<lambda>ws.
     with_id_provider ws (\<lambda>e tx o'. get_random_bytes (env_hasher env) e tx o' len))"

section \<open>Components and frames\<close>

definition new_component ::
  "runtime_env \<Rightarrow> bor_value \<Rightarrow> public_key option \<Rightarrow> owner_rule \<Rightarrow> component_access_rules \<Rightarrow> nat option
     \<Rightarrow> ('x, component_address) action" where
  "new_component env st okey orule rules alloc = write_with (\<lambda>ws.
     and_then (current_template ws) (\<lambda>(t, m).
     and_then (case alloc of
         Some i \<Rightarrow> and_then (use_allocated_address ws i) (\<lambda>(ws', a).
           and_then (ok_or (AddressAllocationTypeMismatch (alloc_substate_id a))
             (as_component_address (alloc_substate_id a))) (\<lambda>c. Ok (ws', c)))
       | None \<Rightarrow> fallible_id ws (new_component_address (env_hasher env))) (\<lambda>(ws1, a).
     let k = ComponentId a;
         c = \<lparr>c_template_address = t, c_module_name = m, c_owner_key = okey, c_owner_rule = orule,
              c_access_rules = rules, c_entity_id = as_entity_id a, c_state = st\<rparr> in
     and_then (substate_exists ws1 k) (\<lambda>ex.
     if ex then Err (ComponentAlreadyExists a)
     else
       and_then (map_err IndexedValueErr (from_value (env_decoder env) (c_state c))) (\<lambda>indexed.
       and_then (validate_component_state ws1 None indexed) (\<lambda>ws2.
       and_then (new_substate env ws2 k (ComponentValue c)) (\<lambda>ws3.
       and_then (push_event ws3 (event_std (Some k) t (transaction_hash ws3) ''component'' ''created''
         (fmupd ''module_name'' m fmempty))) (\<lambda>ws4.
       Ok (ws4, a)))))))))"

definition push_call_frame :: "push_call_frame \<Rightarrow> nat \<Rightarrow> ('x, unit) action" where
  "push_call_frame p max_call_depth = update_with (\<lambda>ws.
     and_then (check_all_substates_in_scope ws (push_arg_scope p)) (\<lambda>_.
     push_frame ws (into_new_call_frame p) max_call_depth))"

definition pop_call_frame :: "('x, unit) action" where
  "pop_call_frame = update_with pop_frame"

definition add_fee_charge :: "fee_source \<Rightarrow> nat \<Rightarrow> ('x, unit) action" where
  "add_fee_charge source amount =
     (if amount = 0 then act_return ()
      else update_with (\<lambda>ws. and_then (add_charge (fee_state_of ws) source amount) (\<lambda>fs.
        Ok (ws\<lparr>fee_state_of := fs\<rparr>))))"

section \<open>Fee checkpoint\<close>

definition fee_checkpoint :: "('x, unit) action" where
  "fee_checkpoint t = (case validate_finalized (tk_working t) of
     Ok _ \<Rightarrow> (t\<lparr>tk_checkpoint := Some (tk_working t)\<rparr>, Ok ())
   | Err e \<Rightarrow> (t, Err e)
   | Panic p \<Rightarrow> (t, Panic p))"

definition reset_to_fee_checkpoint :: "('x, unit) action" where
  "reset_to_fee_checkpoint t = (case tk_checkpoint t of
     Some c \<Rightarrow> (t\<lparr>tk_checkpoint := None, tk_working := c\<lparr>fee_state_of := fee_state_of (tk_working t)\<rparr>\<rparr>, Ok ())
   | None \<Rightarrow> (t, Err NoFeeCheckpoint))"

text \<open>Of the state that an intent leaves behind, a reset reads the fees only.\<close>

lemma reset_reads_fee_state_only:
  assumes "fee_state_of ws = fee_state_of (tk_working t)" "tk_checkpoint t = Some c"
  shows "reset_to_fee_checkpoint (t\<lparr>tk_working := ws\<rparr>) = reset_to_fee_checkpoint t"
  using assms by (simp add: reset_to_fee_checkpoint_def)

definition are_fees_paid_in_full :: "working_state \<Rightarrow> bool rt_result" where
  "are_fees_paid_in_full ws = and_then (total_charges (fee_state_of ws)) (\<lambda>charges.
     Ok (total_payments (fee_state_of ws) \<ge> charges))"

section \<open>The result of a transaction\<close>

datatype abort_reason =
    AbortForeignPledgeInputConflict | LockInputsFailed | LockOutputsFailed | LockInputsOutputsFailed
  | AbortExecutionFailure | AbortInputsNotFound | AbortInsufficientFeesPaid

datatype reject_reason =
    ExecutionFailure | OneOrMoreInputsNotFound | FailedToLockInputs | FailedToLockOutputs
  | ForeignPledgeInputConflict | ForeignShardGroupDecidedToAbort nat nat abort_reason
  | RejectInsufficientFeesPaid | Abort abort_reason

primrec abort_reason_from :: "reject_reason \<Rightarrow> abort_reason" where
  "abort_reason_from (Abort r) = r"
| "abort_reason_from ExecutionFailure = AbortExecutionFailure"
| "abort_reason_from OneOrMoreInputsNotFound = AbortInputsNotFound"
| "abort_reason_from ForeignPledgeInputConflict = AbortForeignPledgeInputConflict"
| "abort_reason_from FailedToLockInputs = LockInputsFailed"
| "abort_reason_from FailedToLockOutputs = LockOutputsFailed"
| "abort_reason_from (ForeignShardGroupDecidedToAbort _ _ r) = r"
| "abort_reason_from RejectInsufficientFeesPaid = AbortInsufficientFeesPaid"

definition to_reject_reason :: "runtime_error \<Rightarrow> reject_reason" where
  "to_reject_reason e = (case e of
     SubstateNotFound _ \<Rightarrow> OneOrMoreInputsNotFound
   | RootSubstateNotFound _ \<Rightarrow> OneOrMoreInputsNotFound
   | ReferencedSubstateNotFound _ \<Rightarrow> OneOrMoreInputsNotFound
   | InsufficientFeesPaid _ _ \<Rightarrow> RejectInsufficientFeesPaid
   | _ \<Rightarrow> ExecutionFailure)"

datatype transaction_result =
    Accept substate_diff
  | AcceptFeeRejectRest substate_diff reject_reason
  | Reject reject_reason

primrec any_accept :: "transaction_result \<Rightarrow> substate_diff option" where
  "any_accept (Accept d) = Some d"
| "any_accept (AcceptFeeRejectRest d _) = Some d"
| "any_accept (Reject _) = None"

record finalize_result =
  fin_transaction_hash :: bytes32
  fin_events :: "event list"
  fin_logs :: "log_entry list"
  fin_execution_results :: "indexed_value list"
  fin_result :: transaction_result
  fin_fee_receipt :: fee_receipt

definition finalize_result_new ::
  "bytes32 \<Rightarrow> log_entry list \<Rightarrow> event list \<Rightarrow> transaction_result \<Rightarrow> fee_receipt \<Rightarrow> finalize_result" where
  "finalize_result_new tx ls es r receipt = \<lparr>fin_transaction_hash = tx, fin_events = es, fin_logs = ls,
     fin_execution_results = [], fin_result = r, fin_fee_receipt = receipt\<rparr>"

definition finalize_result_rejected :: "bytes32 \<Rightarrow> reject_reason \<Rightarrow> finalize_result" where
  "finalize_result_rejected tx reason = finalize_result_new tx [] [] (Reject reason)
     \<lparr>total_fee_payment = 0, total_fees_paid = 0, total_fee_overcharge = 0, cost_breakdown = []\<rparr>"

text \<open>\<open>StateTracker::finalize\<close>: the working state is taken whatever the outcome. An error while the diff
  is built becomes a rejection.\<close>

definition diff_result :: "substate_diff rt_result \<Rightarrow> transaction_result rt_result" where
  "diff_result r = (case r of Ok d \<Rightarrow> Ok (Accept d) | Err e \<Rightarrow> Ok (Reject (to_reject_reason e)) | Panic p \<Rightarrow> Panic p)"

definition finalize_working_state ::
  "runtime_env \<Rightarrow> working_state \<Rightarrow> changeset \<Rightarrow> utxo_address list \<Rightarrow> finalize_result rt_result" where
  "finalize_working_state env ws persist downed =
     (if call_frame_depth ws > 0 then Err (CallFrameRemainingOnStack (call_frame_depth ws))
      else
        and_then (finalize_fees env ws persist) (\<lambda>(ws1, persist', receipt).
        and_then (diff_result (generate_substate_diff (ws1\<lparr>validator_fee_withdrawals := []\<rparr>) receipt persist' downed
          (validator_fee_withdrawals ws1))) (\<lambda>r.
        Ok (finalize_result_new (transaction_hash ws1) (logs ws1) (events ws1) r (tr_fee_receipt receipt)))))"

definition tracker_finalize ::
  "runtime_env \<Rightarrow> changeset \<Rightarrow> utxo_address list \<Rightarrow> ('x, finalize_result) action" where
  "tracker_finalize env persist downed t = (let (rest, ws) = take_state (tk_working t) in
     (t\<lparr>tk_working := rest\<rparr>, finalize_working_state env ws persist downed))"

section \<open>Modules\<close>

datatype runtime_event = SignatureVerified

record 'x runtime_module =
  on_initialize :: "('x, unit) action"
  on_runtime_call :: "string \<Rightarrow> ('x, unit) action"
  on_before_finalize :: "('x, unit) action"
  on_runtime_event :: "runtime_event \<Rightarrow> ('x, unit) action"

text \<open>Each module in turn; the first failure ends the loop.\<close>

primrec invoke_modules :: "('m \<Rightarrow> ('x, unit) action) \<Rightarrow> 'm list \<Rightarrow> ('x, unit) action" where
  "invoke_modules f [] = act_return ()"
| "invoke_modules f (m # ms) = act_then (f m) (\<lambda>_. invoke_modules f ms)"

record fee_table =
  per_transaction_weight_cost :: nat
  per_module_call_cost :: nat
  per_byte_storage_cost :: nat
  per_event_cost :: nat
  per_log_cost :: nat
  per_signature_verification_cost :: nat

definition zero_rated :: fee_table where
  "zero_rated = \<lparr>per_transaction_weight_cost = 0, per_module_call_cost = 0, per_byte_storage_cost = 0,
     per_event_cost = 0, per_log_cost = 0, per_signature_verification_cost = 0\<rparr>"

record fee_module =
  initial_cost :: nat
  fee_table_of :: fee_table

definition fee_on_initialize :: "fee_module \<Rightarrow> ('x, unit) action" where
  "fee_on_initialize m =
     act_then (add_fee_charge FeeInitial (initial_cost m)) (\<lambda>_ t.
     act_then (act_lift (u64_mul (tk_weight t) (per_transaction_weight_cost (fee_table_of m))))
       (add_fee_charge FeeTransactionWeight) t)"

definition fee_on_runtime_call :: "fee_module \<Rightarrow> string \<Rightarrow> ('x, unit) action" where
  "fee_on_runtime_call m call = add_fee_charge FeeRuntimeCall (per_module_call_cost (fee_table_of m))"

definition STORAGE_COST_REDUCTION_DIVISOR :: nat where "STORAGE_COST_REDUCTION_DIVISOR = 4"

definition total_storage :: "runtime_env \<Rightarrow> working_state \<Rightarrow> nat rt_result" where
  "total_storage env ws = try_fold (\<lambda>n v. and_then (ok_or ModuleError (env_encoded_len env v)) (\<lambda>k. Ok (n + k)))
     0 (map snd (new_substates (store ws)))"

definition fee_on_before_finalize :: "runtime_env \<Rightarrow> fee_module \<Rightarrow> ('x, unit) action" where
  "fee_on_before_finalize env m =
     act_then (read_with (total_storage env)) (\<lambda>n.
     act_then (act_lift (ensure (per_byte_storage_cost (fee_table_of m) * n \<le> u64_max) ModuleError)) (\<lambda>_.
     act_then (add_fee_charge FeeStorage
       (per_byte_storage_cost (fee_table_of m) * n div STORAGE_COST_REDUCTION_DIVISOR)) (\<lambda>_.
     act_then (read_with (\<lambda>ws. u64_mul (length (logs ws)) (per_log_cost (fee_table_of m)))) (\<lambda>l.
     act_then (add_fee_charge FeeLogs l) (\<lambda>_.
     act_then (read_with (\<lambda>ws. u64_mul (length (events ws)) (per_event_cost (fee_table_of m)))) (\<lambda>e.
     add_fee_charge FeeEvents e))))))"

definition fee_on_runtime_event :: "fee_module \<Rightarrow> runtime_event \<Rightarrow> ('x, unit) action" where
  "fee_on_runtime_event m ev = (case ev of SignatureVerified \<Rightarrow>
     add_fee_charge FeeSignatureVerification (per_signature_verification_cost (fee_table_of m)))"

definition fee_runtime_module :: "runtime_env \<Rightarrow> fee_module \<Rightarrow> 'x runtime_module" where
  "fee_runtime_module env m = \<lparr>on_initialize = fee_on_initialize m, on_runtime_call = fee_on_runtime_call m,
     on_before_finalize = fee_on_before_finalize env m, on_runtime_event = fee_on_runtime_event m\<rparr>"

end
