(* ===== verification/Interface.thy ===== *)
theory Interface
  imports Tracker
begin

text \<open>
  The parts of the runtime interface that its handlers share: \<open>RuntimeInterfaceImpl\<close> in
  crates/engine/src/runtime/impl.rs up to \<open>lock_component\<close>, the engine arguments
  (runtime/engine_args.rs) and the argument types of crates/template_lib/src/args/types.rs. Code the
  engine calls and that is not part of it is a field of \<open>runtime_interface\<close>: the template provider, the
  execution of template code, the CBOR codec of the arguments, signature and burn proof verification.
\<close>

section \<open>Templates\<close>

datatype abi_type =
    TyUnit | TyBool | TyI8 | TyI16 | TyI32 | TyI64 | TyI128 | TyU8 | TyU16 | TyU32 | TyU64 | TyU128
  | TyString | TyVec abi_type | TyTuple "abi_type list" | TyOther string

definition ty_other :: "abi_type \<Rightarrow> string option" where
  "ty_other t = (case t of TyOther n \<Rightarrow> Some n | _ \<Rightarrow> None)"

record function_def =
  fn_name :: string
  fn_arguments :: "(string \<times> abi_type) list"
  fn_output :: abi_type
  fn_is_mut :: bool

record template_def =
  template_name :: string
  template_functions :: "function_def list"

definition get_function :: "template_def \<Rightarrow> string \<Rightarrow> function_def option" where
  "get_function d name = find (\<lambda>f. fn_name f = name) (template_functions d)"

section \<open>Arguments and results\<close>

type_synonym bytes = "8 word list"

record create_component_arg =
  cca_state :: bor_value
  cca_owner_rule :: owner_rule
  cca_access_rules :: component_access_rules
  cca_address_allocation :: "nat option"

record create_resource_arg =
  cra_resource_type :: resource_type
  cra_owner_rule :: owner_rule
  cra_access_rules :: resource_access_rules
  cra_metadata :: metadata
  cra_mint_arg :: "mint_arg option"
  cra_view_key :: "public_key option"
  cra_authorize_hook :: "auth_hook option"
  cra_address_allocation :: "nat option"
  cra_divisibility :: nat
  cra_supply_tracking :: bool

datatype vault_withdraw_arg =
    WithdrawFungible amount
  | WithdrawNonFungible "non_fungible_id fset"
  | WithdrawConfidential confidential_withdraw_proof
  | WithdrawStealth amount

text \<open>The ownership proof, the Merkle proof and the kernel of a claim are read by the verifier only.\<close>

record burn_claim =
  bc_burn_public_key :: public_key
  bc_commitment :: commitment
  bc_evidence :: bytes
  bc_value :: nat

text \<open>The caller that a hook sees: \<open>AuthHookCaller\<close>.\<close>

record auth_hook_caller =
  ahc_template :: template_address
  ahc_component :: "component_address option"
  ahc_component_state :: "bor_value option"

text \<open>What the handlers decode with \<open>decode_exact\<close> and encode with \<open>invoke_args!\<close>.\<close>

record arg_codec =
  de_create_component :: "bytes \<Rightarrow> create_component_arg option"
  de_value :: "bytes \<Rightarrow> bor_value option"
  de_component_access_rules :: "bytes \<Rightarrow> component_access_rules option"
  de_create_resource :: "bytes \<Rightarrow> create_resource_arg option"
  de_mint :: "bytes \<Rightarrow> mint_arg option"
  de_recall :: "bytes \<Rightarrow> (vault_id \<times> resource_discriminator) option"
  de_non_fungible_id :: "bytes \<Rightarrow> non_fungible_id option"
  de_update_non_fungible :: "bytes \<Rightarrow> (non_fungible_id \<times> bor_value) option"
  de_resource_access_rules :: "bytes \<Rightarrow> resource_access_rules option"
  de_freeze :: "bytes \<Rightarrow> (vault_id \<times> vault_freeze_flags) option"
  de_stealth_transfer :: "bytes \<Rightarrow> (stealth_transfer_statement \<times> bucket_id option) option"
  de_freeze_utxos :: "bytes \<Rightarrow> (commitment list \<times> bool) option"
  de_burn_utxo :: "bytes \<Rightarrow> (commitment \<times> stealth_value_proof option) option"
  de_bucket_id :: "bytes \<Rightarrow> bucket_id option"
  de_vault_withdraw :: "bytes \<Rightarrow> vault_withdraw_arg option"
  de_pay_fee :: "bytes \<Rightarrow> (amount \<times> stealth_transfer_statement option) option"
  de_amount :: "bytes \<Rightarrow> amount option"
  de_non_fungible_ids :: "bytes \<Rightarrow> non_fungible_id fset option"
  de_confidential_withdraw :: "bytes \<Rightarrow> confidential_withdraw_proof option"
  de_workspace_id :: "bytes \<Rightarrow> nat option"
  de_workspace_offset_id :: "bytes \<Rightarrow> workspace_offset_id option"
  de_resource_address :: "bytes \<Rightarrow> resource_address option"
  de_call_function :: "bytes \<Rightarrow> (template_address \<times> string \<times> bytes list) option"
  de_call_method :: "bytes \<Rightarrow> (component_address \<times> string \<times> bytes list) option"
  de_component_allocation :: "bor_value \<Rightarrow> nat option"
  de_bucket_value :: "bor_value \<Rightarrow> bucket_id option"
  en_bucket_value :: "bucket_id \<Rightarrow> bor_value"
  en_opt_bucket_value :: "bucket_id option \<Rightarrow> bor_value"
  en_component_allocation :: "nat \<Rightarrow> bor_value"
  en_resource_allocation :: "nat \<Rightarrow> bor_value"
  en_component_address :: "component_address \<Rightarrow> bor_value"
  en_auth_action :: "resource_auth_action \<Rightarrow> bytes"
  en_auth_caller :: "auth_hook_caller \<Rightarrow> bytes"

text \<open>The value given to \<open>InvokeResult::encode\<close>.\<close>

datatype (plugins only: size) invoke_result =
    IrUnit
  | IrValue bor_value
  | IrComponentAddress component_address
  | IrOptComponentAddress "component_address option"
  | IrTemplateAddress template_address
  | IrResource resource_address "bucket_id option"
  | IrResourceAddress resource_address
  | IrResourceType resource_type
  | IrOptAmount "amount option"
  | IrAmount amount
  | IrBucket bucket_id
  | IrOptBucket "bucket_id option"
  | IrProof proof_id
  | IrVault vault_id
  | IrNonFungible non_fungible_address
  | IrNonFungibles "non_fungible_address list"
  | IrNonFungibleIds "non_fungible_id fset"
  | IrCount nat
  | IrAuthorized bool
  | IrEpoch nat
  | IrBytes bytes
  | IrPublicKey public_key
  | IrComponentAllocation nat
  | IrResourceAllocation nat
  | IrBool bool

text \<open>\<open>EngineArgs\<close>.\<close>

definition args_get :: "('b \<Rightarrow> 'a option) \<Rightarrow> 'b list \<Rightarrow> nat \<Rightarrow> 'a rt_result" where
  "args_get de args i = (if i < length args then ok_or InvalidArgument (de (args ! i)) else Err InvalidArgument)"

definition assert_one_arg :: "('b \<Rightarrow> 'a option) \<Rightarrow> 'b list \<Rightarrow> 'a rt_result" where
  "assert_one_arg de args = (if length args = 1 then args_get de args 0 else Err InvalidArgument)"

definition assert_n_args :: "'b list \<Rightarrow> nat \<Rightarrow> unit rt_result" where
  "assert_n_args args n = ensure (length args = n) (InvalidNumberOfArguments n (length args))"

definition assert_no_args :: "'b list \<Rightarrow> unit rt_result" where
  "assert_no_args args = ensure (args = []) InvalidArgument"

section \<open>The interface\<close>

record runtime = tracker +
  rt_entity_ids :: entity_id_provider

type_synonym 'a rt_action = "(unit runtime_ext, 'a) action"

datatype displayed =
    ShowAmount amount
  | ShowResourceType resource_type
  | ShowResourceAddress resource_address
  | ShowVaultId vault_id
  | ShowFlags vault_freeze_flags
  | ShowDiscriminator resource_discriminator
  | ShowCount nat

text \<open>\<open>ri_call_method\<close> and \<open>ri_call_function\<close> are the calls into the transaction processor, which runs
  template code; \<open>ri_display\<close> is the \<open>Display\<close> text of the values that go into event payloads.\<close>

record runtime_interface =
  ri_env :: runtime_env
  ri_templates :: "template_address \<Rightarrow> (template_def option, unit) result"
  ri_seal_signer :: public_key
  ri_modules :: "unit runtime_ext runtime_module list"
  ri_max_call_depth :: nat
  ri_verify_claim_proof :: "nat \<Rightarrow> public_key \<Rightarrow> burn_claim \<Rightarrow> bool"
  ri_codec :: arg_codec
  ri_call_method :: "component_address \<Rightarrow> string \<Rightarrow> bytes list \<Rightarrow> runtime \<Rightarrow> runtime \<times> (indexed_value, unit) result"
  ri_call_function :: "template_address \<Rightarrow> string \<Rightarrow> bytes list \<Rightarrow> runtime \<Rightarrow> runtime \<times> (indexed_value, unit) result"
  ri_verify_signature :: "bytes \<Rightarrow> bool option"
  ri_template_hash :: "bytes \<Rightarrow> bytes32"
  ri_template_address :: "public_key \<Rightarrow> bytes32 \<Rightarrow> bytes32"
  ri_derive_component_address :: "template_address \<Rightarrow> public_key \<Rightarrow> component_address"
  ri_display :: "displayed \<Rightarrow> string"

definition runtime_call :: "runtime_interface \<Rightarrow> string \<Rightarrow> unit rt_action" where
  "runtime_call ri name = invoke_modules (\<lambda>m. on_runtime_call m name) (ri_modules ri)"

definition runtime_initialize :: "runtime_interface \<Rightarrow> unit rt_action" where
  "runtime_initialize ri = invoke_modules on_initialize (ri_modules ri)"

definition before_finalize :: "runtime_interface \<Rightarrow> unit rt_action" where
  "before_finalize ri = invoke_modules on_before_finalize (ri_modules ri)"

definition runtime_event_call :: "runtime_interface \<Rightarrow> runtime_event \<Rightarrow> unit rt_action" where
  "runtime_event_call ri ev = invoke_modules (\<lambda>m. on_runtime_event m ev) (ri_modules ri)"

definition get_template_def :: "runtime_interface \<Rightarrow> template_address \<Rightarrow> template_def rt_result" where
  "get_template_def ri a =
     and_then (map_err (\<lambda>_. FailedToLoadTemplate a) (ri_templates ri a)) (ok_or (TemplateNotFound a))"

definition tx_hash :: "bytes32 rt_action" where
  "tx_hash t = (t, Ok (eip_transaction_hash (rt_entity_ids t)))"

definition rt_next_entity_id :: "runtime_interface \<Rightarrow> entity_id rt_action" where
  "rt_next_entity_id ri t = (case next_entity_id (env_hasher (ri_env ri)) (rt_entity_ids t) of
     (p, r) \<Rightarrow> (t\<lparr>rt_entity_ids := p\<rparr>, map_err (\<lambda>e. case e of MaxIdsExceeded n \<Rightarrow> TooManyEntities n) r))"

definition put_on_workspace_check :: "working_state \<Rightarrow> indexed_value \<Rightarrow> unit rt_result" where
  "put_on_workspace_check ws v =
     and_then (try_fold (\<lambda>_ b. and_then (get_bucket ws b) (\<lambda>_. Ok ())) () (iw_bucket_ids (iv_indexed v))) (\<lambda>_.
     and_then (try_fold (\<lambda>_ p. and_then (get_proof ws p) (\<lambda>_. Ok ())) () (iw_proof_ids (iv_indexed v))) (\<lambda>_.
     try_fold (\<lambda>_ k. and_then (substate_exists ws k) (\<lambda>ex. ensure ex (NonExistentSubstateReturned k))) ()
       (value_referenced_substates v)))"

definition emit_std_event ::
  "bytes32 \<Rightarrow> string \<Rightarrow> string \<Rightarrow> substate_id \<Rightarrow> metadata \<Rightarrow> working_state \<Rightarrow> working_state rt_result" where
  "emit_std_event tx object_name action k payload ws =
     and_then (current_template ws) (\<lambda>(t, _). push_event ws (event_std (Some k) t tx object_name action payload))"

datatype component_call = CallAddress component_address | CallWorkspace nat

definition load_component ::
  "runtime_interface \<Rightarrow> component_call \<Rightarrow> (component_address \<times> component_header) rt_action" where
  "load_component ri call = act_then (runtime_call ri ''load_component'') (\<lambda>_. write_with (\<lambda>ws. case call of
     CallAddress a \<Rightarrow> and_then (load_and_cache_component ws a) (\<lambda>(ws', c). Ok (ws', a, c))
   | CallWorkspace i \<Rightarrow>
       and_then (ok_or (ItemNotOnWorkspace i) (workspace_get (workspace_of ws) \<lparr>wo_id = i, wo_offset = None\<rparr>)) (\<lambda>v.
       and_then (ok_or InvalidArgument (de_component_allocation (ri_codec ri) v)) (\<lambda>alloc.
       and_then (get_used_address ws alloc) (\<lambda>k. case k of
         ComponentId a \<Rightarrow> and_then (load_and_cache_component ws a) (\<lambda>(ws', c). Ok (ws', a, c))
       | _ \<Rightarrow> Err InvalidArgument)))))"

definition lock_component ::
  "component_address \<Rightarrow> lock_flag \<Rightarrow> locked_substate rt_action" where
  "lock_component a flag = write_with (\<lambda>ws. lock_substate ws (ComponentId a) flag)"

definition invoke_component_method ::
  "runtime_interface \<Rightarrow> component_address \<Rightarrow> string \<Rightarrow> bytes list \<Rightarrow> indexed_value rt_action" where
  "invoke_component_method ri a m args t = (case ri_call_method ri a m args t of
     (t', r) \<Rightarrow> (t', map_err (\<lambda>_. CrossTemplateCallMethodError a m) r))"

definition invoke_template_function ::
  "runtime_interface \<Rightarrow> template_address \<Rightarrow> string \<Rightarrow> bytes list \<Rightarrow> indexed_value rt_action" where
  "invoke_template_function ri a f args t = (case ri_call_function ri a f args t of
     (t', r) \<Rightarrow> (t', map_err (\<lambda>_. CrossTemplateCallFunctionError a f) r))"

definition hook_error :: "resource_auth_action \<Rightarrow> runtime_error \<Rightarrow> runtime_error" where
  "hook_error action e = (case e of
     CrossTemplateCallMethodError _ _ \<Rightarrow> AccessDeniedAuthHook (Native (NativeResource action)) | _ \<Rightarrow> e)"

definition hook_skipped :: "auth_hook \<Rightarrow> working_state \<Rightarrow> bool rt_result" where
  "hook_skipped hook ws = and_then (current_component ws) (\<lambda>cur.
     if cur = Some (hook_component_address hook) then Ok True
     else and_then (store_exists (store ws) (ComponentId (hook_component_address hook))) (\<lambda>ex. Ok (\<not> ex)))"

definition invoke_resource_access_hook ::
  "runtime_interface \<Rightarrow> auth_hook \<Rightarrow> template_address \<times> component_address option \<Rightarrow> resource_auth_action
     \<Rightarrow> unit rt_action" where
  "invoke_resource_access_hook ri hook caller action =
     act_then (runtime_call ri ''invoke_resource_access_hook'') (\<lambda>_.
     act_then (read_with (hook_skipped hook)) (\<lambda>skip.
     if skip then act_return ()
     else
       act_then (case snd caller of
           None \<Rightarrow> act_return None
         | Some a \<Rightarrow> act_then (load_component ri (CallAddress a)) (\<lambda>(_, c). act_return (Some (c_state c)))) (\<lambda>st.
       act_then (act_map_err (hook_error action)
         (invoke_component_method ri (hook_component_address hook) (hook_method hook)
           [en_auth_action (ri_codec ri) action,
            en_auth_caller (ri_codec ri) \<lparr>ahc_template = fst caller, ahc_component = snd caller,
              ahc_component_state = st\<rparr>])) (\<lambda>ret.
       act_lift (ensure (iv_value ret = BorNull) UnexpectedNonNullInAuthHookReturn)))))"

text \<open>The optional hook that follows each access rule check.\<close>

definition run_hook ::
  "runtime_interface \<Rightarrow> auth_hook option \<Rightarrow> template_address \<times> component_address option \<Rightarrow> resource_auth_action
     \<Rightarrow> unit rt_action" where
  "run_hook ri hook caller action = (case hook of
     None \<Rightarrow> act_return () | Some h \<Rightarrow> invoke_resource_access_hook ri h caller action)"

definition check_resource_auth_hook :: "runtime_interface \<Rightarrow> auth_hook \<Rightarrow> unit rt_action" where
  "check_resource_auth_hook ri hook =
     act_then (write_with (\<lambda>ws. get_template_for_component ws (hook_component_address hook))) (\<lambda>a.
     act_lift (
       and_then (get_template_def ri a) (\<lambda>d.
       and_then (ok_or InvalidArgument (get_function d (hook_method hook))) (\<lambda>f.
       and_then (ensure (\<not> fn_is_mut f) InvalidArgument) (\<lambda>_.
       and_then (ensure (fn_output f = TyUnit) InvalidArgument) (\<lambda>_.
       and_then (ensure (length (fn_arguments f) = 3) InvalidArgument) (\<lambda>_.
       and_then (ensure (ty_other (snd (fn_arguments f ! 1)) = Some ''ResourceAuthAction'') InvalidArgument) (\<lambda>_.
       ensure (ty_other (snd (fn_arguments f ! 2)) = Some ''AuthHookCaller'') InvalidArgument))))))))"

definition emit_event :: "runtime_interface \<Rightarrow> string \<Rightarrow> metadata \<Rightarrow> unit rt_action" where
  "emit_event ri topic payload =
     act_then (act_lift (map_err (\<lambda>_. InvalidEventTopic topic) (validate_custom_topic topic))) (\<lambda>_.
     act_then (runtime_call ri ''emit_event'') (\<lambda>_.
     act_then tx_hash (\<lambda>tx. update_with (\<lambda>ws.
       let k = (case component_lock (current_call_scope ws) of
                  None \<Rightarrow> None | Some l \<Rightarrow> map_option ComponentId (as_component_address (ls_address l))) in
       and_then (current_template ws) (\<lambda>(t, m).
       push_event ws \<lparr>ev_substate_id = k, ev_template_address = t, ev_tx_hash = tx,
         ev_topic = m @ ''.'' @ topic, ev_payload = payload\<rparr>)))))"

definition emit_log :: "runtime_interface \<Rightarrow> log_level \<Rightarrow> string \<Rightarrow> unit rt_action" where
  "emit_log ri level msg = act_then (runtime_call ri ''emit_log'') (\<lambda>_.
     update_with (\<lambda>ws. push_log ws \<lparr>log_message = msg, log_lvl = level\<rparr>))"

end
