(* ===== verification/ComponentHandlers.thy ===== *)
theory ComponentHandlers
  imports Interface
begin

text \<open>
  \<open>component_invoke\<close> of crates/engine/src/runtime/impl.rs: creating a component, reading and replacing its
  state, replacing its access rules. A component is changed only through the lock of the running frame.
\<close>

datatype component_ref = ComponentUnspecified | ComponentRef component_address

definition component_ref_address :: "component_ref \<Rightarrow> component_address option" where
  "component_ref_address r = (case r of ComponentUnspecified \<Rightarrow> None | ComponentRef a \<Rightarrow> Some a)"

definition validate_component_access_rule_methods ::
  "component_access_rules \<Rightarrow> template_def \<Rightarrow> unit rt_result" where
  "validate_component_access_rule_methods rules d =
     try_fold (\<lambda>_ name. ensure (\<not> list_all (\<lambda>f. fn_name f \<noteq> name) (template_functions d))
       (InvalidMethodAccessRule (template_name d))) () (map fst (sorted_list_of_fmap (method_access rules)))"

definition owner_key_of :: "public_key \<Rightarrow> owner_rule \<Rightarrow> public_key option" where
  "owner_key_of signer r = (case r of
     OwnedBySigner \<Rightarrow> Some signer | NoOwner \<Rightarrow> None | ByAccessRule _ \<Rightarrow> None | ByPublicKey k \<Rightarrow> Some k)"

definition component_create :: "runtime_interface \<Rightarrow> bytes list \<Rightarrow> invoke_result rt_action" where
  "component_create ri args =
     act_then (act_lift (assert_one_arg (de_create_component (ri_codec ri)) args)) (\<lambda>arg.
     act_then (read_with (\<lambda>ws. and_then (current_template ws) (\<lambda>(t, _). get_template_def ri t))) (\<lambda>d.
     act_then (act_lift (validate_component_access_rule_methods (cca_access_rules arg) d)) (\<lambda>_.
     act_then (new_component (ri_env ri) (cca_state arg) (owner_key_of (ri_seal_signer ri) (cca_owner_rule arg))
       (cca_owner_rule arg) (cca_access_rules arg) (cca_address_allocation arg)) (\<lambda>a.
     act_return (IrComponentAddress a)))))"

definition component_get_state :: "component_ref \<Rightarrow> bytes list \<Rightarrow> invoke_result rt_action" where
  "component_get_state cref args =
     act_then (act_lift (ok_or InvalidArgument (component_ref_address cref))) (\<lambda>a.
     act_then (act_lift (assert_no_args args)) (\<lambda>_. write_with (\<lambda>ws.
       let cur = component_lock (current_call_scope ws);
           already = (case cur of Some l \<Rightarrow> ls_address l = ComponentId a | None \<Rightarrow> False) in
       and_then (if already
         then and_then (ok_or (NotInComponentContext (Native (NativeComponent CompGetState))) cur) (\<lambda>l. Ok (ws, l))
         else lock_substate ws (ComponentId a) Read) (\<lambda>(ws1, l).
       if ls_address l \<noteq> ComponentId a then Err (LockErr (SubstateNotLocked (ComponentId a)))
       else
         and_then (get_component ws1 l) (\<lambda>c.
         and_then (if \<not> already then unlock_substate ws1 l else Ok ws1) (\<lambda>ws2.
         Ok (ws2, IrValue (c_state c))))))))"

definition component_set_state ::
  "runtime_interface \<Rightarrow> component_ref \<Rightarrow> bytes list \<Rightarrow> invoke_result rt_action" where
  "component_set_state ri cref args =
     act_then (act_lift (ok_or InvalidArgument (component_ref_address cref))) (\<lambda>a.
     act_then (act_lift (assert_one_arg (de_value (ri_codec ri)) args)) (\<lambda>st. write_with (\<lambda>ws.
       and_then (ok_or (NotInComponentContext (Native (NativeComponent CompSetState)))
         (component_lock (current_call_scope ws))) (\<lambda>l.
       if ls_address l \<noteq> ComponentId a then Err (AccessDeniedSetComponentState (ComponentId a) (ls_address l))
       else
         and_then (modify_component_with (ri_env ri) ws l (\<lambda>c.
           if st = c_state c then (c, False) else (c\<lparr>c_state := st\<rparr>, True))) (\<lambda>ws'.
         Ok (ws', IrUnit))))))"

definition component_set_access_rules ::
  "runtime_interface \<Rightarrow> component_ref \<Rightarrow> bytes list \<Rightarrow> invoke_result rt_action" where
  "component_set_access_rules ri cref args =
     act_then (act_lift (ok_or InvalidArgument (component_ref_address cref))) (\<lambda>a.
     act_then (act_lift (assert_one_arg (de_component_access_rules (ri_codec ri)) args)) (\<lambda>rules. write_with (\<lambda>ws.
       and_then (ok_or (NotInComponentContext (Native (NativeComponent CompSetAccessRules)))
         (component_lock (current_call_scope ws))) (\<lambda>l.
       if ls_address l \<noteq> ComponentId a then Err (LockErr (SubstateNotLocked (ComponentId a)))
       else
         and_then (get_component ws l) (\<lambda>c.
         and_then (require_ownership ws (Native (NativeComponent CompSetAccessRules)) (component_ownership c)) (\<lambda>_.
         and_then (modify_component_with (ri_env ri) ws l (\<lambda>c.
           if rules = c_access_rules c then (c, False) else (c\<lparr>c_access_rules := rules\<rparr>, True))) (\<lambda>ws'.
         Ok (ws', IrUnit))))))))"

definition component_get_template_address :: "component_ref \<Rightarrow> bytes list \<Rightarrow> invoke_result rt_action" where
  "component_get_template_address cref args =
     act_then (act_lift (ok_or InvalidArgument (component_ref_address cref))) (\<lambda>a.
     act_then (act_lift (assert_no_args args)) (\<lambda>_. read_with (\<lambda>ws.
       and_then (get_unmodified_substate (store ws) (ComponentId a)) (\<lambda>sub.
       and_then (ok_or (ComponentNotFound a) (as_component (sub_value sub))) (\<lambda>c.
       Ok (IrTemplateAddress (c_template_address c)))))))"

definition component_invoke ::
  "runtime_interface \<Rightarrow> component_ref \<Rightarrow> component_action \<Rightarrow> bytes list \<Rightarrow> invoke_result rt_action" where
  "component_invoke ri cref action args = act_then (runtime_call ri ''component_invoke'') (\<lambda>_. case action of
     CompCreate \<Rightarrow> component_create ri args
   | CompGetState \<Rightarrow> component_get_state cref args
   | CompSetState \<Rightarrow> component_set_state ri cref args
   | CompSetAccessRules \<Rightarrow> component_set_access_rules ri cref args
   | CompGetTemplateAddress \<Rightarrow> component_get_template_address cref args)"

end
