(* ===== verification/ResourceHandlers.thy ===== *)
theory ResourceHandlers
  imports ComponentHandlers
begin

text \<open>
  \<open>resource_invoke\<close> of crates/engine/src/runtime/impl.rs: creating, minting, recalling and freezing
  resources, their tokens and their stealth outputs.
\<close>

datatype resource_action =
    ResCreate | ResMint | ResRecall | ResUpdateNonFungibleData | ResGetTotalSupply | ResGetResourceType
  | ResGetNonFungible | ResUpdateAccessRules | ResSetVaultFreeze | ResStealthTransfer
  | ResSetStealthUtxosFreeze | ResStealthUtxoBurn

datatype resource_ref = ResourceUnspecified | ResourceRef resource_address

definition resource_ref_address :: "resource_ref \<Rightarrow> resource_address option" where
  "resource_ref_address r = (case r of ResourceUnspecified \<Rightarrow> None | ResourceRef a \<Rightarrow> Some a)"

definition MAX_DIVISIBILITY :: nat where "MAX_DIVISIBILITY = 18"

section \<open>Authorization of a resource action\<close>

text \<open>The closure that starts every authorized action: lock the resource, check the rule of the action and
  take what the hook needs. The second form releases the lock again.\<close>

definition authorize_resource ::
  "resource_address \<Rightarrow> lock_flag \<Rightarrow> resource_auth_action \<Rightarrow> working_state \<Rightarrow>
   (working_state \<times> locked_substate \<times> auth_hook option \<times> template_address \<times> component_address option) rt_result" where
  "authorize_resource ra flag action ws =
     and_then (lock_substate ws (ResourceId ra) flag) (\<lambda>(ws1, l).
     and_then (get_resource ws1 l) (\<lambda>r.
     and_then (check_resource_access_rules ws1 action (resource_ownership r) (r_access_rules r)) (\<lambda>_.
     and_then (get_auth_caller ws1) (\<lambda>caller.
     Ok (ws1, l, r_auth_hook r, caller)))))"

definition authorize_and_unlock ::
  "resource_address \<Rightarrow> resource_auth_action \<Rightarrow> working_state \<Rightarrow>
   (working_state \<times> auth_hook option \<times> template_address \<times> component_address option) rt_result" where
  "authorize_and_unlock ra action ws =
     and_then (authorize_resource ra Read action ws) (\<lambda>(ws1, l, hook, caller).
     and_then (unlock_substate ws1 l) (\<lambda>ws2. Ok (ws2, hook, caller)))"

section \<open>Actions\<close>

definition check_create_resource_arg :: "create_resource_arg \<Rightarrow> unit rt_result" where
  "check_create_resource_arg arg =
     and_then (ensure (case cra_mint_arg arg of None \<Rightarrow> True
       | Some m \<Rightarrow> mint_resource_type m = cra_resource_type arg) InvalidArgument) (\<lambda>_.
     and_then (ensure (\<not> (cra_view_key arg \<noteq> None \<and> cra_resource_type arg \<noteq> TConfidential
       \<and> cra_resource_type arg \<noteq> TStealth)) InvalidArgument) (\<lambda>_.
     and_then (ensure (cra_divisibility arg \<le> MAX_DIVISIBILITY) InvalidArgument) (\<lambda>_.
     ensure (\<not> (cra_resource_type arg = TNonFungible \<and> cra_divisibility arg > 0)) InvalidArgument)))"

definition resource_create_payload :: "runtime_interface \<Rightarrow> resource \<Rightarrow> metadata" where
  "resource_create_payload ri r =
     (let p0 = fmap_of_list [(''resource_type'', ri_display ri (ShowResourceType (r_resource_type r)))];
          p1 = (case fmlookup (r_metadata r) ''SYMBOL'' of None \<Rightarrow> p0 | Some s \<Rightarrow> fmupd ''SYMBOL'' s p0)
      in case fmlookup (r_metadata r) ''IMAGE_URL'' of None \<Rightarrow> p1 | Some u \<Rightarrow> fmupd ''IMAGE_URL'' u p1)"

definition resource_create_state ::
  "runtime_interface \<Rightarrow> bytes32 \<Rightarrow> create_resource_arg \<Rightarrow> working_state \<Rightarrow> (working_state \<times> invoke_result) rt_result" where
  "resource_create_state ri tx arg ws =
     (let r = resource_new (cra_resource_type arg) (owner_key_of (ri_seal_signer ri) (cra_owner_rule arg))
            (cra_owner_rule arg) (cra_access_rules arg) (cra_metadata arg) (cra_view_key arg)
            (cra_authorize_hook arg) (cra_divisibility arg) (cra_supply_tracking arg) in
      and_then (case cra_address_allocation arg of
          Some i \<Rightarrow> and_then (use_allocated_address ws i) (\<lambda>(ws', a).
            and_then (ok_or (AddressAllocationTypeMismatch (alloc_substate_id a))
              (as_resource_address (alloc_substate_id a))) (\<lambda>ra. Ok (ws', ra)))
        | None \<Rightarrow> fallible_id ws (new_resource_address (env_hasher (ri_env ri)))) (\<lambda>(ws1, ra).
      and_then (emit_std_event tx ''resource'' ''create'' (ResourceId ra) (resource_create_payload ri r) ws1) (\<lambda>ws2.
      and_then (new_substate (ri_env ri) ws2 (ResourceId ra) (ResourceValue r)) (\<lambda>ws3.
      and_then (lock_substate ws3 (ResourceId ra) Write) (\<lambda>(ws4, l).
      and_then (case cra_mint_arg arg of
          None \<Rightarrow> Ok (ws4, None)
        | Some m \<Rightarrow>
            and_then (mint_resource (ri_env ri) ws4 l m) (\<lambda>(ws', c).
            and_then (fresh_bucket_id ws') (\<lambda>(ws'', b).
            and_then (new_bucket ws'' b c) (\<lambda>wm. Ok (wm, Some b))))) (\<lambda>(ws5, b).
      and_then (unlock_substate ws5 l) (\<lambda>ws6. Ok (ws6, IrResource ra b))))))))"

definition resource_create :: "runtime_interface \<Rightarrow> bytes list \<Rightarrow> invoke_result rt_action" where
  "resource_create ri args =
     act_then (act_lift (assert_one_arg (de_create_resource (ri_codec ri)) args)) (\<lambda>arg.
     act_then (act_lift (check_create_resource_arg arg)) (\<lambda>_.
     act_then (case cra_authorize_hook arg of
         None \<Rightarrow> act_return () | Some h \<Rightarrow> check_resource_auth_hook ri h) (\<lambda>_.
     act_then tx_hash (\<lambda>tx. write_with (resource_create_state ri tx arg)))))"

definition resource_read ::
  "resource_ref \<Rightarrow> bytes list \<Rightarrow> (resource \<Rightarrow> invoke_result) \<Rightarrow> invoke_result rt_action" where
  "resource_read rref args f =
     act_then (act_lift (ok_or InvalidArgument (resource_ref_address rref))) (\<lambda>ra.
     act_then (act_lift (assert_no_args args)) (\<lambda>_. write_with (\<lambda>ws.
       and_then (lock_substate ws (ResourceId ra) Read) (\<lambda>(ws1, l).
       and_then (get_resource ws1 l) (\<lambda>r.
       and_then (unlock_substate ws1 l) (\<lambda>ws2. Ok (ws2, f r)))))))"

definition resource_mint :: "runtime_interface \<Rightarrow> resource_ref \<Rightarrow> bytes list \<Rightarrow> invoke_result rt_action" where
  "resource_mint ri rref args =
     act_then (act_lift (ok_or InvalidArgument (resource_ref_address rref))) (\<lambda>ra.
     act_then (act_lift (assert_one_arg (de_mint (ri_codec ri)) args)) (\<lambda>m.
     act_then (write_with (authorize_resource ra Write ActMint)) (\<lambda>(l, hook, caller).
     act_then (run_hook ri hook caller ActMint) (\<lambda>_.
     act_then tx_hash (\<lambda>tx. write_with (\<lambda>ws.
       and_then (mint_resource (ri_env ri) ws l m) (\<lambda>(ws1, c).
       and_then (fresh_bucket_id ws1) (\<lambda>(ws2, b).
       and_then (emit_std_event tx ''resource'' ''mint'' (ResourceId ra)
         (fmap_of_list [(''resource_type'', ri_display ri (ShowResourceType (resource_type_of c))),
           (''amount'', ri_display ri (ShowAmount (amount_of c)))]) ws2) (\<lambda>ws3.
       and_then (new_bucket ws3 b c) (\<lambda>ws4.
       and_then (unlock_substate ws4 l) (\<lambda>ws5. Ok (ws5, IrBucket b))))))))))))"

definition recall_from_vault ::
  "runtime_interface \<Rightarrow> bytes32 \<Rightarrow> resource_address \<Rightarrow> vault_id \<Rightarrow> resource_discriminator
     \<Rightarrow> working_state \<Rightarrow> (working_state \<times> invoke_result) rt_result" where
  "recall_from_vault ri tx ra vid disc ws =
     and_then (lock_substate ws (VaultId vid) Write) (\<lambda>(ws1, l).
     and_then (recall_resource_from_vault (ri_env ri) ws1 l disc) (\<lambda>(ws2, c).
     and_then (emit_std_event tx ''resource'' ''recall'' (ResourceId ra)
       (fmap_of_list [(''resource_type'', ri_display ri (ShowResourceType (resource_type_of c))),
         (''vault_id'', ri_display ri (ShowVaultId vid)),
         (''recall_desc'', ri_display ri (ShowDiscriminator disc))]) ws2) (\<lambda>ws3.
     and_then (fresh_bucket_id ws3) (\<lambda>(ws4, b).
     and_then (new_bucket ws4 b c) (\<lambda>ws5.
     and_then (unlock_substate ws5 l) (\<lambda>ws6. Ok (ws6, IrBucket b)))))))"

definition resource_recall :: "runtime_interface \<Rightarrow> resource_ref \<Rightarrow> bytes list \<Rightarrow> invoke_result rt_action" where
  "resource_recall ri rref args =
     act_then (act_lift (ok_or InvalidArgument (resource_ref_address rref))) (\<lambda>ra.
     act_then (act_lift (assert_one_arg (de_recall (ri_codec ri)) args)) (\<lambda>(vid, disc).
     act_then (write_with (authorize_and_unlock ra ActRecall)) (\<lambda>(hook, caller).
     act_then (run_hook ri hook caller ActRecall) (\<lambda>_.
     act_then tx_hash (\<lambda>tx. write_with (recall_from_vault ri tx ra vid disc))))))"

definition resource_get_non_fungible ::
  "runtime_interface \<Rightarrow> resource_ref \<Rightarrow> bytes list \<Rightarrow> invoke_result rt_action" where
  "resource_get_non_fungible ri rref args =
     act_then (act_lift (ok_or InvalidArgument (resource_ref_address rref))) (\<lambda>ra.
     act_then (act_lift (assert_one_arg (de_non_fungible_id (ri_codec ri)) args)) (\<lambda>i. write_with (\<lambda>ws.
       let a = \<lparr>nf_resource_address = ra, nf_id = i\<rparr> in
       and_then (lock_substate ws (NonFungibleId a) Read) (\<lambda>(ws1, l).
       and_then (get_non_fungible ws1 l) (\<lambda>n.
       if nft_is_burnt n then Err (InvalidOpNonFungibleBurnt ra i)
       else and_then (unlock_substate ws1 l) (\<lambda>ws2. Ok (ws2, IrNonFungible a)))))))"

definition resource_update_non_fungible_data ::
  "runtime_interface \<Rightarrow> resource_ref \<Rightarrow> bytes list \<Rightarrow> invoke_result rt_action" where
  "resource_update_non_fungible_data ri rref args =
     act_then (act_lift (ok_or InvalidArgument (resource_ref_address rref))) (\<lambda>ra.
     act_then (act_lift (assert_one_arg (de_update_non_fungible (ri_codec ri)) args)) (\<lambda>(i, data).
     act_then (write_with (authorize_and_unlock ra ActUpdateNonFungibleData)) (\<lambda>(hook, caller).
     act_then (run_hook ri hook caller ActUpdateNonFungibleData) (\<lambda>_.
     act_then tx_hash (\<lambda>tx. write_with (\<lambda>ws.
       and_then (lock_substate ws (NonFungibleId \<lparr>nf_resource_address = ra, nf_id = i\<rparr>) Write) (\<lambda>(ws1, l).
       and_then (get_non_fungible_mut ws1 l) (\<lambda>(ws2, k, n).
       and_then (ok_or (InvalidOpNonFungibleBurnt ra i) n) (\<lambda>contents.
       and_then (emit_std_event tx ''resource'' ''update_nonfungible_data'' (ResourceId ra)
         (fmap_of_list [(''resource_type'', ri_display ri (ShowResourceType TNonFungible))])
         (put_locked ws2 k (NonFungibleValue (Some (contents\<lparr>nf_mutable_data := data\<rparr>))))) (\<lambda>ws3.
       and_then (unlock_substate ws3 l) (\<lambda>ws4. Ok (ws4, IrUnit))))))))))))"

definition resource_update_access_rules ::
  "runtime_interface \<Rightarrow> resource_ref \<Rightarrow> bytes list \<Rightarrow> invoke_result rt_action" where
  "resource_update_access_rules ri rref args =
     act_then (act_lift (ok_or InvalidArgument (resource_ref_address rref))) (\<lambda>ra.
     act_then (act_lift (assert_one_arg (de_resource_access_rules (ri_codec ri)) args)) (\<lambda>rules.
     act_then (write_with (authorize_resource ra Write ActUpdateAccessRules)) (\<lambda>(l, hook, caller).
     act_then (run_hook ri hook caller ActUpdateAccessRules) (\<lambda>_.
     act_then tx_hash (\<lambda>tx. write_with (\<lambda>ws.
       and_then (get_resource_mut ws l) (\<lambda>(ws1, k, r).
       and_then (emit_std_event tx ''resource'' ''update_access_rules'' (ResourceId ra)
         (fmap_of_list [(''resource_type'', ri_display ri (ShowResourceType (r_resource_type r)))])
         (put_locked ws1 k (ResourceValue (r\<lparr>r_access_rules := rules\<rparr>)))) (\<lambda>ws2.
       and_then (unlock_substate ws2 l) (\<lambda>ws3. Ok (ws3, IrUnit))))))))))"

definition resource_set_vault_freeze ::
  "runtime_interface \<Rightarrow> resource_ref \<Rightarrow> bytes list \<Rightarrow> invoke_result rt_action" where
  "resource_set_vault_freeze ri rref args =
     act_then (act_lift (ok_or InvalidArgument (resource_ref_address rref))) (\<lambda>ra.
     act_then (act_lift (assert_one_arg (de_freeze (ri_codec ri)) args)) (\<lambda>(vid, flags).
     act_then (act_lift (ensure (flags_validate flags) InvalidArgument)) (\<lambda>_.
     act_then (write_with (authorize_and_unlock ra ActFreeze)) (\<lambda>(hook, caller).
     act_then (run_hook ri hook caller ActFreeze) (\<lambda>_.
     act_then tx_hash (\<lambda>tx. write_with (\<lambda>ws.
       and_then (lock_substate ws (VaultId vid) Write) (\<lambda>(ws1, l).
       and_then (set_vault_freeze ws1 l flags) (\<lambda>ws2.
       and_then (emit_std_event tx ''resource'' (if flags = 0 then ''freeze'' else ''unfreeze'') (ResourceId ra)
         (fmap_of_list [(''vault_id'', ri_display ri (ShowVaultId vid)),
           (''flags'', ri_display ri (ShowFlags flags))]) ws2) (\<lambda>ws3.
       and_then (unlock_substate ws3 l) (\<lambda>ws4. Ok (ws4, IrUnit))))))))))))"

definition rt_stealth_transfer ::
  "runtime_interface \<Rightarrow> resource_address_ref \<Rightarrow> stealth_transfer_statement \<Rightarrow> bucket_id option
     \<Rightarrow> bucket_id option rt_action" where
  "rt_stealth_transfer ri rref st bucket = write_with (\<lambda>ws.
     and_then (execute_stealth_transfer (ri_env ri) ws rref st bucket) (\<lambda>(ws1, out). case out of
       None \<Rightarrow> Ok (ws1, None)
     | Some c \<Rightarrow> let (ws2, b) = ws_new_bucket_id ws1 in
         and_then (new_bucket ws2 b c) (\<lambda>ws3. Ok (ws3, Some b))))"

definition resource_stealth_transfer ::
  "runtime_interface \<Rightarrow> resource_ref \<Rightarrow> bytes list \<Rightarrow> invoke_result rt_action" where
  "resource_stealth_transfer ri rref args =
     act_then (act_lift (ok_or InvalidArgument (resource_ref_address rref))) (\<lambda>ra.
     act_then (act_lift (assert_one_arg (de_stealth_transfer (ri_codec ri)) args)) (\<lambda>(st, bucket).
     act_then (rt_stealth_transfer ri (RefAddress ra) st bucket) (\<lambda>b. act_return (IrOptBucket b))))"

definition freeze_utxo :: "resource_address \<Rightarrow> bool \<Rightarrow> working_state \<Rightarrow> commitment \<Rightarrow> working_state rt_result" where
  "freeze_utxo ra freeze ws u =
     (let k = UtxoId \<lparr>utxo_resource_address = ra, utxo_id = u\<rparr> in
      and_then (lock_substate ws k Write) (\<lambda>(ws1, l).
      and_then (get_locked_substate_mut (store ws1) (ls_lock_id l)) (\<lambda>(st, k', v).
      and_then (ok_or (LockSubstateMismatch (ls_lock_id l) k) (as_utxo v)) (\<lambda>x.
      unlock_substate (put_locked (ws1\<lparr>store := st\<rparr>) k'
        (UtxoValue (if freeze then utxo_freeze x else utxo_unfreeze x))) l))))"

definition resource_set_stealth_utxos_freeze ::
  "runtime_interface \<Rightarrow> resource_ref \<Rightarrow> bytes list \<Rightarrow> invoke_result rt_action" where
  "resource_set_stealth_utxos_freeze ri rref args =
     act_then (act_lift (ok_or InvalidArgument (resource_ref_address rref))) (\<lambda>ra.
     act_then (act_lift (assert_one_arg (de_freeze_utxos (ri_codec ri)) args)) (\<lambda>(us, freeze).
     act_then (act_lift (ensure (us \<noteq> []) InvalidArgument)) (\<lambda>_. write_with (\<lambda>ws.
       and_then (lock_substate ws (ResourceId ra) Read) (\<lambda>(ws1, l).
       and_then (get_resource ws1 l) (\<lambda>r.
       if r_resource_type r \<noteq> TStealth then Err InvalidArgument
       else
         and_then (check_resource_access_rules ws1 ActFreeze (resource_ownership r) (r_access_rules r)) (\<lambda>_.
         and_then (try_fold (freeze_utxo ra freeze) ws1 us) (\<lambda>ws2.
         and_then (unlock_substate ws2 l) (\<lambda>ws3. Ok (ws3, IrUnit))))))))))"

text \<open>The second part of \<open>StealthUtxoBurn\<close>, after the resource has been checked: the output is burnt,
  and then its viewable balance is read for the value proof.\<close>

definition burn_utxo ::
  "runtime_env \<Rightarrow> resource_address \<Rightarrow> bool \<Rightarrow> commitment \<Rightarrow> stealth_value_proof option \<Rightarrow> working_state
     \<Rightarrow> working_state rt_result" where
  "burn_utxo env ra tracked u vp ws =
     (let k = UtxoId \<lparr>utxo_resource_address = ra, utxo_id = u\<rparr> in
      and_then (lock_substate ws k Write) (\<lambda>(ws1, l).
      and_then (get_locked_substate_mut (store ws1) (ls_lock_id l)) (\<lambda>(st, k', v).
      and_then (ok_or (LockSubstateMismatch (ls_lock_id l) k) (as_utxo v)) (\<lambda>x.
      if ux_output x = None then Err (ResourceErr UtxoBurnFailed)
      else
        let x' = utxo_burn x; ws2 = put_locked (ws1\<lparr>store := st\<rparr>) k' (UtxoValue x') in
        and_then (if tracked then
            and_then (expect ''BUG: is_total_supply_tracking_enabled is true and value proof is some has been checked'' vp) (\<lambda>p.
            and_then (map_err ResourceErr (validate_value_proof (env_crypto env) u
              (case ux_output x' of None \<Rightarrow> None | Some out \<Rightarrow> viewable_balance (uto_output out)) p)) (\<lambda>value.
            if is_positive value then
              and_then (lock_substate ws2 (ResourceId ra) Write) (\<lambda>(ws3, rl).
              and_then (get_resource_mut ws3 rl) (\<lambda>(ws4, rk, r).
              and_then (decrease_total_supply (env_overflow env) r value) (\<lambda>r'.
              unlock_substate (put_locked ws4 rk (ResourceValue r')) rl)))
            else Ok ws2))
          else Ok ws2) (\<lambda>ws5.
        unlock_substate ws5 l)))))"

definition resource_stealth_utxo_burn ::
  "runtime_interface \<Rightarrow> resource_ref \<Rightarrow> bytes list \<Rightarrow> invoke_result rt_action" where
  "resource_stealth_utxo_burn ri rref args =
     act_then (act_lift (ok_or InvalidArgument (resource_ref_address rref))) (\<lambda>ra.
     act_then (act_lift (assert_one_arg (de_burn_utxo (ri_codec ri)) args)) (\<lambda>(u, vp). write_with (\<lambda>ws.
       and_then (lock_substate ws (ResourceId ra) Read) (\<lambda>(ws1, l).
       and_then (get_resource ws1 l) (\<lambda>r.
       if r_resource_type r \<noteq> TStealth then Err InvalidArgument
       else
         let tracked = r_total_supply r \<noteq> None in
         if tracked \<and> vp = None then Err InvalidArgument
         else
           and_then (check_resource_access_rules ws1 ActBurn (resource_ownership r) (r_access_rules r)) (\<lambda>_.
           and_then (unlock_substate ws1 l) (\<lambda>ws2.
           and_then (burn_utxo (ri_env ri) ra tracked u vp ws2) (\<lambda>ws3. Ok (ws3, IrUnit)))))))))"

definition resource_invoke ::
  "runtime_interface \<Rightarrow> resource_ref \<Rightarrow> resource_action \<Rightarrow> bytes list \<Rightarrow> invoke_result rt_action" where
  "resource_invoke ri rref action args = act_then (runtime_call ri ''resource_invoke'') (\<lambda>_. case action of
     ResCreate \<Rightarrow> resource_create ri args
   | ResGetTotalSupply \<Rightarrow> resource_read rref args (\<lambda>r. IrOptAmount (r_total_supply r))
   | ResGetResourceType \<Rightarrow> resource_read rref args (\<lambda>r. IrResourceType (r_resource_type r))
   | ResMint \<Rightarrow> resource_mint ri rref args
   | ResRecall \<Rightarrow> resource_recall ri rref args
   | ResGetNonFungible \<Rightarrow> resource_get_non_fungible ri rref args
   | ResUpdateNonFungibleData \<Rightarrow> resource_update_non_fungible_data ri rref args
   | ResUpdateAccessRules \<Rightarrow> resource_update_access_rules ri rref args
   | ResSetVaultFreeze \<Rightarrow> resource_set_vault_freeze ri rref args
   | ResStealthTransfer \<Rightarrow> resource_stealth_transfer ri rref args
   | ResSetStealthUtxosFreeze \<Rightarrow> resource_set_stealth_utxos_freeze ri rref args
   | ResStealthUtxoBurn \<Rightarrow> resource_stealth_utxo_burn ri rref args)"

end
