(* ===== verification/VaultHandlers.thy ===== *)
theory VaultHandlers
  imports ResourceHandlers
begin

text \<open>
  \<open>vault_invoke\<close>, \<open>bucket_invoke\<close> and \<open>proof_invoke\<close> of crates/engine/src/runtime/impl.rs: how value
  moves between vaults, buckets and proofs, and how a proof authorizes.
\<close>

section \<open>Vaults\<close>

datatype vault_ref = VaultOf resource_address | VaultWithId vault_id

definition vault_ref_resource :: "vault_ref \<Rightarrow> resource_address option" where
  "vault_ref_resource r = (case r of VaultOf a \<Rightarrow> Some a | VaultWithId _ \<Rightarrow> None)"

definition vault_ref_id :: "vault_ref \<Rightarrow> vault_id option" where
  "vault_ref_id r = (case r of VaultOf _ \<Rightarrow> None | VaultWithId v \<Rightarrow> Some v)"

definition requires_write_access :: "vault_action \<Rightarrow> bool" where
  "requires_write_access a \<longleftrightarrow> a \<notin> {VaultGetBalance, VaultGetLockedBalance, VaultGetResourceAddress,
     VaultGetNonFungibleIds, VaultGetCommitmentCount, VaultGetNonFungibles}"

definition empty_container :: "resource_type \<Rightarrow> resource_address \<Rightarrow> resource_container rc_result" where
  "empty_container ty ra = (case ty of
     TFungible \<Rightarrow> fungible ra 0
   | TNonFungible \<Rightarrow> Ok (non_fungible ra {||})
   | TConfidential \<Rightarrow> confidential ra fmempty 0
   | TStealth \<Rightarrow> stealth ra 0)"

definition vault_create :: "runtime_interface \<Rightarrow> vault_ref \<Rightarrow> bytes list \<Rightarrow> invoke_result rt_action" where
  "vault_create ri vref args =
     act_then (act_lift (ok_or InvalidArgument (vault_ref_resource vref))) (\<lambda>ra.
     act_then (act_lift (assert_no_args args)) (\<lambda>_. write_with (\<lambda>ws.
       and_then (lock_substate ws (ResourceId ra) Read) (\<lambda>(ws1, l).
       and_then (get_resource ws1 l) (\<lambda>r.
       and_then (check_resource_access_rules ws1 ActDeposit (resource_ownership r) (r_access_rules r)) (\<lambda>_.
       and_then (fallible_id ws1 (new_vault_id (env_hasher (ri_env ri)))) (\<lambda>(ws2, vid).
       and_then (map_err ResourceErr (empty_container (r_resource_type r) ra)) (\<lambda>c.
       and_then (new_substate (ri_env ri) ws2 (VaultId vid) (VaultValue (vault_new c))) (\<lambda>ws3.
       and_then (unlock_substate ws3 l) (\<lambda>ws4.
       and_then (move_node_to_owned (current_call_scope ws4) (ResourceId ra)) (\<lambda>s.
       Ok (set_current_call_scope ws4 s, IrVault vid))))))))))))"

text \<open>The first closure of the actions that move value: the vault is locked for writing, must not be frozen
  for the direction, and its resource must allow the action.\<close>

definition begin_vault_action ::
  "vault_id \<Rightarrow> vault_freeze_flag \<Rightarrow> resource_auth_action \<Rightarrow> working_state \<Rightarrow>
   (working_state \<times> locked_substate \<times> locked_substate \<times> auth_hook option \<times> template_address
     \<times> component_address option) rt_result" where
  "begin_vault_action vid flag action ws =
     and_then (lock_substate ws (VaultId vid) Write) (\<lambda>(ws1, vl).
     and_then (get_vault ws1 vl) (\<lambda>v.
     if flags_contains (v_freeze_flags v) flag then Err (VaultFrozen vid flag)
     else and_then (authorize_resource (address (v_container v)) Read action ws1) (\<lambda>(ws2, rl, hook, caller).
       Ok (ws2, vl, rl, hook, caller))))"

definition finish_deposit ::
  "runtime_interface \<Rightarrow> bytes32 \<Rightarrow> vault_id \<Rightarrow> bucket_id \<Rightarrow> locked_substate \<Rightarrow> locked_substate
     \<Rightarrow> working_state \<Rightarrow> (working_state \<times> invoke_result) rt_result" where
  "finish_deposit ri tx vid bid vl rl ws =
     and_then (take_bucket ws bid) (\<lambda>(ws1, b).
     if \<not> is_zero (locked_amount_of (b_container b))
     then Err (InvalidOpDepositLockedBucket bid (locked_amount_of (b_container b)))
     else
       and_then (emit_std_event tx ''vault'' ''deposit'' (VaultId vid)
         (fmap_of_list [(''resource_address'', ri_display ri (ShowResourceAddress (address (b_container b)))),
           (''resource_type'', ri_display ri (ShowResourceType (resource_type_of (b_container b)))),
           (''amount'', ri_display ri (ShowAmount (amount_of (b_container b))))]) ws1) (\<lambda>ws2.
       and_then (get_vault_mut ws2 vl) (\<lambda>(ws3, k, v).
       and_then (map_err ResourceErr (vault_deposit (env_overflow (ri_env ri)) v b)) (\<lambda>v'.
       and_then (unlock_substate (put_locked ws3 k (VaultValue v')) rl) (\<lambda>ws4.
       and_then (unlock_substate ws4 vl) (\<lambda>ws5. Ok (ws5, IrUnit)))))))"

definition vault_deposit_action ::
  "runtime_interface \<Rightarrow> vault_ref \<Rightarrow> bytes list \<Rightarrow> invoke_result rt_action" where
  "vault_deposit_action ri vref args =
     act_then (act_lift (ok_or InvalidArgument (vault_ref_id vref))) (\<lambda>vid.
     act_then (act_lift (assert_one_arg (de_bucket_id (ri_codec ri)) args)) (\<lambda>bid.
     act_then (write_with (begin_vault_action vid FreezeDeposits ActDeposit)) (\<lambda>(vl, rl, hook, caller).
     act_then (run_hook ri hook caller ActDeposit) (\<lambda>_.
     act_then tx_hash (\<lambda>tx. write_with (finish_deposit ri tx vid bid vl rl))))))"

definition take_from_vault ::
  "runtime_env \<Rightarrow> public_key option \<Rightarrow> vault \<Rightarrow> vault_withdraw_arg
     \<Rightarrow> (vault \<times> resource_container \<times> amount) rc_result" where
  "take_from_vault env view_key v arg = (case arg of
     WithdrawFungible a \<Rightarrow> and_then (vault_withdraw (env_overflow env) v a) (\<lambda>(v', c). Ok (v', c, a))
   | WithdrawStealth a \<Rightarrow> and_then (vault_withdraw (env_overflow env) v a) (\<lambda>(v', c). Ok (v', c, a))
   | WithdrawNonFungible ids \<Rightarrow>
       and_then (vault_withdraw_non_fungibles v ids) (\<lambda>(v', c). Ok (v', c, int (fcard ids)))
   | WithdrawConfidential p \<Rightarrow>
       and_then (vault_withdraw_confidential (base (env_crypto env)) (env_overflow env) v p view_key) (\<lambda>(v', c).
       Ok (v', c, cwp_input_revealed_amount p)))"

definition finish_withdraw ::
  "runtime_interface \<Rightarrow> bytes32 \<Rightarrow> vault_id \<Rightarrow> vault_withdraw_arg \<Rightarrow> locked_substate \<Rightarrow> locked_substate
     \<Rightarrow> working_state \<Rightarrow> (working_state \<times> invoke_result) rt_result" where
  "finish_withdraw ri tx vid arg vl rl ws =
     and_then (get_resource ws rl) (\<lambda>r.
     and_then (ok_or RuntimeInvariantError (to_view_key_public_key (base (env_crypto (ri_env ri))) r)) (\<lambda>vk.
     and_then (get_vault_mut ws vl) (\<lambda>(ws1, k, v).
     and_then (map_err ResourceErr (take_from_vault (ri_env ri) vk v arg)) (\<lambda>(v', c, amt).
     and_then (emit_std_event tx ''vault'' ''withdraw'' (VaultId vid)
       (fmap_of_list [(''resource_address'', ri_display ri (ShowResourceAddress (address c))),
         (''resource_type'', ri_display ri (ShowResourceType (resource_type_of c))),
         (''amount'', ri_display ri (ShowAmount amt))]) (put_locked ws1 k (VaultValue v'))) (\<lambda>ws2.
     and_then (fresh_bucket_id ws2) (\<lambda>(ws3, b).
     and_then (new_bucket ws3 b c) (\<lambda>ws4.
     and_then (unlock_substate ws4 vl) (\<lambda>ws5.
     and_then (unlock_substate ws5 rl) (\<lambda>ws6. Ok (ws6, IrBucket b))))))))))"

definition vault_withdraw_action ::
  "runtime_interface \<Rightarrow> vault_ref \<Rightarrow> bytes list \<Rightarrow> invoke_result rt_action" where
  "vault_withdraw_action ri vref args =
     act_then (act_lift (ok_or InvalidArgument (vault_ref_id vref))) (\<lambda>vid.
     act_then (act_lift (assert_one_arg (de_vault_withdraw (ri_codec ri)) args)) (\<lambda>arg.
     act_then (write_with (begin_vault_action vid FreezeWithdrawals ActWithdraw)) (\<lambda>(vl, rl, hook, caller).
     act_then (run_hook ri hook caller ActWithdraw) (\<lambda>_.
     act_then tx_hash (\<lambda>tx. write_with (finish_withdraw ri tx vid arg vl rl))))))"

definition vault_read ::
  "vault_ref \<Rightarrow> bytes list \<Rightarrow> (vault \<Rightarrow> invoke_result) \<Rightarrow> invoke_result rt_action" where
  "vault_read vref args f =
     act_then (act_lift (ok_or InvalidArgument (vault_ref_id vref))) (\<lambda>vid.
     act_then (act_lift (assert_no_args args)) (\<lambda>_. write_with (\<lambda>ws.
       and_then (lock_substate ws (VaultId vid) Read) (\<lambda>(ws1, l).
       and_then (get_vault ws1 l) (\<lambda>v.
       and_then (unlock_substate ws1 l) (\<lambda>ws2. Ok (ws2, f v)))))))"

definition pay_fee_from_vault ::
  "runtime_interface \<Rightarrow> vault_id \<Rightarrow> amount \<Rightarrow> stealth_transfer_statement option \<Rightarrow> working_state
     \<Rightarrow> (working_state \<times> invoke_result) rt_result" where
  "pay_fee_from_vault ri vid amt st ws =
     (let env = ri_env ri; om = env_overflow env in
      and_then (lock_substate ws (VaultId vid) Write) (\<lambda>(ws1, vl).
      and_then (get_vault ws1 vl) (\<lambda>v.
      if flags_contains (v_freeze_flags v) FreezeWithdrawals then Err (VaultFrozen vid FreezeWithdrawals)
      else if address (v_container v) \<noteq> XTR then Err InvalidArgument
      else
        and_then (lock_substate ws1 (ResourceId XTR) Read) (\<lambda>(ws2, rl).
        and_then (get_resource ws2 rl) (\<lambda>r.
        and_then (check_resource_access_rules ws2 ActWithdraw (resource_ownership r) (r_access_rules r)) (\<lambda>_.
        and_then (get_vault_mut ws2 vl) (\<lambda>(ws3, k, v1).
        and_then (map_err ResourceErr (stealth XTR 0)) (\<lambda>c0.
        and_then (if is_positive amt
          then and_then (map_err ResourceErr (vault_withdraw om v1 amt)) (\<lambda>(v2, taken).
               and_then (map_err ResourceErr (deposit om c0 taken)) (\<lambda>c1.
               Ok (put_locked ws3 k (VaultValue v2), c1)))
          else Ok (ws3, c0)) (\<lambda>(ws4, c1).
        and_then (case st of
            None \<Rightarrow> Ok (ws4, c1)
          | Some s \<Rightarrow> and_then (execute_stealth_transfer env ws4 (RefAddress XTR) s None) (\<lambda>(ws', out). case out of
              None \<Rightarrow> Ok (ws', c1)
            | Some revealed \<Rightarrow> and_then (map_err ResourceErr (deposit om c1 revealed)) (\<lambda>c'. Ok (ws', c')))) (\<lambda>(ws5, c2).
        if is_zero (amount_of c2) then Err InvalidArgument
        else
          and_then (pay_fee ws5 c2 (Some vid)) (\<lambda>ws6.
          and_then (unlock_substate ws6 rl) (\<lambda>ws7.
          and_then (unlock_substate ws7 vl) (\<lambda>ws8. Ok (ws8, IrUnit))))))))))))))"

definition vault_pay_fee :: "runtime_interface \<Rightarrow> vault_ref \<Rightarrow> bytes list \<Rightarrow> invoke_result rt_action" where
  "vault_pay_fee ri vref args =
     act_then (act_lift (ok_or InvalidArgument (vault_ref_id vref))) (\<lambda>vid.
     act_then (act_lift (assert_one_arg (de_pay_fee (ri_codec ri)) args)) (\<lambda>(amt, st).
     act_then (act_lift (ensure (\<not> is_negative amt) InvalidArgument)) (\<lambda>_.
     write_with (pay_fee_from_vault ri vid amt st))))"

text \<open>The three ways of locking value for a proof differ in what they lock.\<close>

definition finish_vault_proof ::
  "(vault \<Rightarrow> (vault \<times> locked_resource) rc_result) \<Rightarrow> locked_substate \<Rightarrow> locked_substate
     \<Rightarrow> working_state \<Rightarrow> (working_state \<times> invoke_result) rt_result" where
  "finish_vault_proof lock_funds vl rl ws =
     and_then (fresh_proof_id ws) (\<lambda>(ws1, p).
     and_then (get_vault_mut ws1 vl) (\<lambda>(ws2, k, v).
     and_then (map_err ResourceErr (lock_funds v)) (\<lambda>(v', locked).
     and_then (new_proof (put_locked ws2 k (VaultValue v')) p locked) (\<lambda>ws3.
     and_then (unlock_substate ws3 vl) (\<lambda>ws4.
     and_then (unlock_substate ws4 rl) (\<lambda>ws5. Ok (ws5, IrProof p)))))))"

definition vault_proof ::
  "runtime_interface \<Rightarrow> vault_id \<Rightarrow> (vault \<Rightarrow> (vault \<times> locked_resource) rc_result) \<Rightarrow> invoke_result rt_action" where
  "vault_proof ri vid lock_funds =
     act_then (write_with (begin_vault_action vid FreezeWithdrawals ActWithdraw)) (\<lambda>(vl, rl, hook, caller).
     act_then (run_hook ri hook caller ActWithdraw) (\<lambda>_.
     write_with (finish_vault_proof lock_funds vl rl)))"

definition vault_create_proof_by_resource ::
  "runtime_interface \<Rightarrow> vault_ref \<Rightarrow> bytes list \<Rightarrow> invoke_result rt_action" where
  "vault_create_proof_by_resource ri vref args =
     act_then (act_lift (ok_or InvalidArgument (vault_ref_id vref))) (\<lambda>vid.
     act_then (act_lift (assert_no_args args)) (\<lambda>_.
     vault_proof ri vid (\<lambda>v. vault_lock_all (env_overflow (ri_env ri)) v vid)))"

definition vault_create_proof_by_amount ::
  "runtime_interface \<Rightarrow> vault_ref \<Rightarrow> bytes list \<Rightarrow> invoke_result rt_action" where
  "vault_create_proof_by_amount ri vref args =
     act_then (act_lift (ok_or InvalidArgument (vault_ref_id vref))) (\<lambda>vid.
     act_then (act_lift (assert_one_arg (de_amount (ri_codec ri)) args)) (\<lambda>amt.
     vault_proof ri vid (\<lambda>v. vault_lock_by_amount (env_overflow (ri_env ri)) v vid amt)))"

definition vault_create_proof_by_non_fungibles ::
  "runtime_interface \<Rightarrow> vault_ref \<Rightarrow> bytes list \<Rightarrow> invoke_result rt_action" where
  "vault_create_proof_by_non_fungibles ri vref args =
     act_then (act_lift (ok_or InvalidArgument (vault_ref_id vref))) (\<lambda>vid.
     act_then (act_lift (assert_one_arg (de_non_fungible_ids (ri_codec ri)) args)) (\<lambda>ids.
     vault_proof ri vid (\<lambda>v. vault_lock_by_non_fungible_ids v vid ids)))"

definition token_addresses :: "resource_container \<Rightarrow> non_fungible_address list" where
  "token_addresses c = map (\<lambda>i. \<lparr>nf_resource_address = address c, nf_id = i\<rparr>)
     (sorted_list_of_fset (non_fungible_token_ids c))"

definition vault_invoke ::
  "runtime_interface \<Rightarrow> vault_ref \<Rightarrow> vault_action \<Rightarrow> bytes list \<Rightarrow> invoke_result rt_action" where
  "vault_invoke ri vref action args =
     act_then (runtime_call ri ''vault_invoke'') (\<lambda>_.
     act_then (case vault_ref_id vref of
         Some vid \<Rightarrow> if requires_write_access action
           then read_with (\<lambda>ws. check_component_scope (ri_env ri) ws (VaultId vid) (Native (NativeVault action)))
           else act_return ()
       | None \<Rightarrow> act_return ()) (\<lambda>_. case action of
     VaultCreate \<Rightarrow> vault_create ri vref args
   | VaultDeposit \<Rightarrow> vault_deposit_action ri vref args
   | VaultWithdraw \<Rightarrow> vault_withdraw_action ri vref args
   | VaultGetBalance \<Rightarrow> vault_read vref args (\<lambda>v. IrAmount (amount_of (v_container v)))
   | VaultGetLockedBalance \<Rightarrow> vault_read vref args (\<lambda>v. IrAmount (locked_amount_of (v_container v)))
   | VaultGetResourceAddress \<Rightarrow> vault_read vref args (\<lambda>v. IrResourceAddress (address (v_container v)))
   | VaultGetNonFungibleIds \<Rightarrow> vault_read vref args (\<lambda>v. IrNonFungibleIds (non_fungible_token_ids (v_container v)))
   | VaultGetCommitmentCount \<Rightarrow> vault_read vref args (\<lambda>v. IrCount (get_commitment_count (v_container v)))
   | VaultPayFee \<Rightarrow> vault_pay_fee ri vref args
   | VaultCreateProofByResource \<Rightarrow> vault_create_proof_by_resource ri vref args
   | VaultCreateProofByFungibleAmount \<Rightarrow> vault_create_proof_by_amount ri vref args
   | VaultCreateProofByNonFungibles \<Rightarrow> vault_create_proof_by_non_fungibles ri vref args
   | VaultCreateProofByConfidentialResource \<Rightarrow> act_lift (Err NotSupported)
   | VaultGetNonFungibles \<Rightarrow> vault_read vref args (\<lambda>v. IrNonFungibles (token_addresses (v_container v)))))"

section \<open>Buckets\<close>

datatype bucket_action =
    BucketGetResourceAddress | BucketGetResourceType | BucketGetAmount | BucketTake | BucketTakeConfidential
  | BucketJoin | BucketBurn | BucketCreateProof | BucketGetNonFungibleIds | BucketGetNonFungibles
  | BucketCountConfidentialCommitments

datatype bucket_ref = BucketOf resource_address | BucketWithId bucket_id

definition bucket_ref_id :: "bucket_ref \<Rightarrow> bucket_id option" where
  "bucket_ref_id r = (case r of BucketOf _ \<Rightarrow> None | BucketWithId b \<Rightarrow> Some b)"

definition bucket_read ::
  "bucket_ref \<Rightarrow> bytes list \<Rightarrow> (resource_container \<Rightarrow> invoke_result) \<Rightarrow> invoke_result rt_action" where
  "bucket_read bref args f =
     act_then (act_lift (ok_or InvalidArgument (bucket_ref_id bref))) (\<lambda>bid.
     act_then (act_lift (assert_no_args args)) (\<lambda>_. read_with (\<lambda>ws.
       and_then (get_bucket ws bid) (\<lambda>b. Ok (f (b_container b))))))"

definition put_in_new_bucket :: "resource_container \<Rightarrow> working_state \<Rightarrow> (working_state \<times> bucket_id) rt_result" where
  "put_in_new_bucket c ws =
     and_then (fresh_bucket_id ws) (\<lambda>(ws1, b). and_then (new_bucket ws1 b c) (\<lambda>ws2. Ok (ws2, b)))"

definition bucket_take_action ::
  "runtime_interface \<Rightarrow> bucket_ref \<Rightarrow> bytes list \<Rightarrow> invoke_result rt_action" where
  "bucket_take_action ri bref args =
     act_then (act_lift (ok_or InvalidArgument (bucket_ref_id bref))) (\<lambda>bid.
     act_then (act_lift (assert_one_arg (de_amount (ri_codec ri)) args)) (\<lambda>amt. write_with (\<lambda>ws.
       and_then (get_bucket ws bid) (\<lambda>b.
       and_then (map_err ResourceErr (bucket_take (env_overflow (ri_env ri)) b amt)) (\<lambda>(b', c).
       and_then (put_in_new_bucket c (put_bucket ws bid b')) (\<lambda>(ws1, nb). Ok (ws1, IrBucket nb)))))))"

definition bucket_take_confidential_action ::
  "runtime_interface \<Rightarrow> bucket_ref \<Rightarrow> bytes list \<Rightarrow> invoke_result rt_action" where
  "bucket_take_confidential_action ri bref args =
     act_then (act_lift (ok_or InvalidArgument (bucket_ref_id bref))) (\<lambda>bid.
     act_then (act_lift (assert_one_arg (de_confidential_withdraw (ri_codec ri)) args)) (\<lambda>wp. write_with (\<lambda>ws.
       and_then (get_bucket ws bid) (\<lambda>b.
       and_then (lock_substate ws (ResourceId (address (b_container b))) Read) (\<lambda>(ws1, l).
       and_then (get_resource ws1 l) (\<lambda>r.
       and_then (ok_or RuntimeInvariantError (to_view_key_public_key (base (env_crypto (ri_env ri))) r)) (\<lambda>vk.
       and_then (get_bucket ws1 bid) (\<lambda>b1.
       and_then (map_err ResourceErr (bucket_take_confidential (base (env_crypto (ri_env ri)))
         (env_overflow (ri_env ri)) b1 wp vk)) (\<lambda>(b', c).
       and_then (put_in_new_bucket c (put_bucket ws1 bid b')) (\<lambda>(ws2, nb).
       and_then (unlock_substate ws2 l) (\<lambda>ws3. Ok (ws3, IrBucket nb))))))))))))"

definition bucket_join_action ::
  "runtime_interface \<Rightarrow> bucket_ref \<Rightarrow> bytes list \<Rightarrow> invoke_result rt_action" where
  "bucket_join_action ri bref args =
     act_then (act_lift (ok_or InvalidArgument (bucket_ref_id bref))) (\<lambda>bid.
     act_then (act_lift (assert_one_arg (de_bucket_id (ri_codec ri)) args)) (\<lambda>other. write_with (\<lambda>ws.
       and_then (take_bucket ws other) (\<lambda>(ws1, ob).
       and_then (get_bucket ws1 bid) (\<lambda>b.
       and_then (map_err ResourceErr (bucket_join (env_overflow (ri_env ri)) b ob)) (\<lambda>b'.
       Ok (put_bucket ws1 bid b', IrBucket bid)))))))"

definition finish_burn ::
  "runtime_interface \<Rightarrow> bucket_id \<Rightarrow> locked_substate \<Rightarrow> working_state \<Rightarrow> (working_state \<times> invoke_result) rt_result" where
  "finish_burn ri bid l ws =
     and_then (take_bucket ws bid) (\<lambda>(ws1, b).
     and_then (burn_bucket ws1 b) (\<lambda>ws2.
     and_then (get_resource_mut ws2 l) (\<lambda>(ws3, k, r).
     and_then (decrease_total_supply (env_overflow (ri_env ri)) r (amount_of (b_container b))) (\<lambda>r'.
     and_then (unlock_substate (put_locked ws3 k (ResourceValue r')) l) (\<lambda>ws4. Ok (ws4, IrUnit))))))"

definition bucket_burn_action :: "runtime_interface \<Rightarrow> bucket_ref \<Rightarrow> invoke_result rt_action" where
  "bucket_burn_action ri bref =
     act_then (act_lift (ok_or InvalidArgument (bucket_ref_id bref))) (\<lambda>bid.
     act_then (write_with (\<lambda>ws. and_then (get_bucket ws bid) (\<lambda>b.
       authorize_resource (address (b_container b)) Write ActBurn ws))) (\<lambda>(l, hook, caller).
     act_then (run_hook ri hook caller ActBurn) (\<lambda>_.
     write_with (finish_burn ri bid l))))"

definition bucket_create_proof ::
  "runtime_interface \<Rightarrow> bucket_ref \<Rightarrow> bytes list \<Rightarrow> invoke_result rt_action" where
  "bucket_create_proof ri bref args =
     act_then (act_lift (ok_or InvalidArgument (bucket_ref_id bref))) (\<lambda>bid.
     act_then (act_lift (assert_no_args args)) (\<lambda>_.
     act_then (write_with (\<lambda>ws. and_then (get_bucket ws bid) (\<lambda>b.
       authorize_and_unlock (address (b_container b)) ActWithdraw ws))) (\<lambda>(hook, caller).
     act_then (run_hook ri hook caller ActWithdraw) (\<lambda>_. write_with (\<lambda>ws.
       and_then (get_bucket ws bid) (\<lambda>b.
       and_then (map_err ResourceErr (bucket_lock_all (env_overflow (ri_env ri)) b)) (\<lambda>(b', locked).
       and_then (fresh_proof_id (put_bucket ws bid b')) (\<lambda>(ws1, p).
       and_then (new_proof ws1 p locked) (\<lambda>ws2. Ok (ws2, IrProof p))))))))))"

definition bucket_invoke ::
  "runtime_interface \<Rightarrow> bucket_ref \<Rightarrow> bucket_action \<Rightarrow> bytes list \<Rightarrow> invoke_result rt_action" where
  "bucket_invoke ri bref action args = act_then (runtime_call ri ''bucket_invoke'') (\<lambda>_. case action of
     BucketGetResourceAddress \<Rightarrow> bucket_read bref args (\<lambda>c. IrResourceAddress (address c))
   | BucketGetResourceType \<Rightarrow> bucket_read bref args (\<lambda>c. IrResourceType (resource_type_of c))
   | BucketGetAmount \<Rightarrow> bucket_read bref args (\<lambda>c. IrAmount (amount_of c))
   | BucketTake \<Rightarrow> bucket_take_action ri bref args
   | BucketTakeConfidential \<Rightarrow> bucket_take_confidential_action ri bref args
   | BucketJoin \<Rightarrow> bucket_join_action ri bref args
   | BucketBurn \<Rightarrow> bucket_burn_action ri bref
   | BucketCreateProof \<Rightarrow> bucket_create_proof ri bref args
   | BucketGetNonFungibleIds \<Rightarrow> bucket_read bref args (\<lambda>c. IrNonFungibleIds (non_fungible_token_ids c))
   | BucketGetNonFungibles \<Rightarrow> bucket_read bref args (\<lambda>c. IrNonFungibles (token_addresses c))
   | BucketCountConfidentialCommitments \<Rightarrow>
       bucket_read bref args (\<lambda>c. IrCount (number_of_confidential_commitments c)))"

section \<open>Proofs\<close>

datatype proof_action =
    ProofGetAmount | ProofGetResourceAddress | ProofGetResourceType | ProofGetNonFungibles
  | ProofAuthorize | ProofDropAuthorize | ProofDrop

datatype proof_ref = ProofOf resource_address | ProofWithId proof_id

definition proof_ref_id :: "proof_ref \<Rightarrow> proof_id option" where
  "proof_ref_id r = (case r of ProofOf _ \<Rightarrow> None | ProofWithId p \<Rightarrow> Some p)"

definition change_auth_scope ::
  "(authorization_scope \<Rightarrow> proof_id \<Rightarrow> authorization_scope) \<Rightarrow> proof_id \<Rightarrow> working_state \<Rightarrow> working_state" where
  "change_auth_scope f p ws = (let s = current_call_scope ws in
     set_current_call_scope ws (s\<lparr>auth_scope := f (auth_scope s) p\<rparr>))"

definition proof_authorize :: "proof_id \<Rightarrow> working_state \<Rightarrow> (working_state \<times> invoke_result) rt_result" where
  "proof_authorize p ws =
     (if \<not> proof_exists ws p then Ok (ws, IrAuthorized False)
      else Ok (change_auth_scope add_proof p ws, IrAuthorized True))"

definition proof_drop_authorize :: "proof_id \<Rightarrow> working_state \<Rightarrow> (working_state \<times> invoke_result) rt_result" where
  "proof_drop_authorize p ws =
     (if \<not> proof_exists ws p then Err (ProofNotFound p)
      else Ok (change_auth_scope remove_proof p ws, IrUnit))"

definition proof_invoke ::
  "runtime_interface \<Rightarrow> proof_ref \<Rightarrow> proof_action \<Rightarrow> bytes list \<Rightarrow> invoke_result rt_action" where
  "proof_invoke ri pref action args =
     act_then (runtime_call ri ''proof_invoke'') (\<lambda>_.
     act_then (act_lift (ok_or InvalidArgument (proof_ref_id pref))) (\<lambda>p.
     act_then (act_lift (assert_no_args args)) (\<lambda>_. write_with (\<lambda>ws. case action of
       ProofGetAmount \<Rightarrow> and_then (get_proof ws p) (\<lambda>x. Ok (ws, IrAmount (proof_amount x)))
     | ProofGetResourceAddress \<Rightarrow> and_then (get_proof ws p) (\<lambda>x. Ok (ws, IrResourceAddress (proof_resource_address x)))
     | ProofGetResourceType \<Rightarrow>
         and_then (get_proof ws p) (\<lambda>x. Ok (ws, IrResourceType (resource_type_of (proof_resource_container x))))
     | ProofGetNonFungibles \<Rightarrow>
         and_then (get_proof ws p) (\<lambda>x. Ok (ws, IrNonFungibleIds (proof_non_fungible_token_ids x)))
     | ProofAuthorize \<Rightarrow> proof_authorize p ws
     | ProofDropAuthorize \<Rightarrow> proof_drop_authorize p ws
     | ProofDrop \<Rightarrow> and_then (drop_proof (ri_env ri) ws p) (\<lambda>ws'. Ok (ws', IrUnit))))))"

end
