(* ===== verification/RuntimeHandlers.thy ===== *)
theory RuntimeHandlers
  imports VaultHandlers
begin

text \<open>
  The remaining handlers of crates/engine/src/runtime/impl.rs: the workspace, tokens, claims, the fee
  checkpoint, \<open>finalize\<close>, address allocations, calls, template publishing and fee payment by stealth
  transfer.
\<close>

section \<open>Workspace and tokens\<close>

text \<open>\<open>IndexedValue::from_type\<close>: the encoded value with its index.\<close>

definition indexed_from :: "runtime_interface \<Rightarrow> bor_value \<Rightarrow> indexed_value rt_result" where
  "indexed_from ri v = map_err IndexedValueErr (indexed_value_from_value (env_decoder (ri_env ri)) v)"

text \<open>The output is taken before it is checked, so that it is gone when the check fails.\<close>

definition take_last_instruction_output :: "indexed_value option rt_action" where
  "take_last_instruction_output = write_with (\<lambda>ws. Ok (ws\<lparr>last_instruction_output := None\<rparr>, last_instruction_output ws))"

definition workspace_put_last_output :: "nat \<Rightarrow> invoke_result rt_action" where
  "workspace_put_last_output key =
     act_then take_last_instruction_output (\<lambda>output.
     act_then (act_lift (ok_or NoLastInstructionOutput output)) (\<lambda>v.
     act_then (read_with (\<lambda>ws. put_on_workspace_check ws v)) (\<lambda>_.
     write_with (\<lambda>ws. Ok (ws\<lparr>workspace_of := workspace_insert (workspace_of ws) key v\<rparr>, IrUnit)))))"

definition workspace_item :: "working_state \<Rightarrow> workspace_offset_id \<Rightarrow> bor_value rt_result" where
  "workspace_item ws oid = ok_or (ItemNotOnWorkspace (wo_id oid)) (workspace_get (workspace_of ws) oid)"

text \<open>The set of proofs has no order in the source; here they are dropped in the order of their ids.\<close>

definition workspace_drop_all_proofs :: "runtime_interface \<Rightarrow> invoke_result rt_action" where
  "workspace_drop_all_proofs ri = write_with (\<lambda>ws.
     let (w, ps) = drain_all_proofs (workspace_of ws) in
     and_then (try_fold (drop_proof (ri_env ri)) (ws\<lparr>workspace_of := w\<rparr>) (sorted_list_of_fset ps)) (\<lambda>ws'.
     Ok (ws', IrUnit)))"

definition workspace_assert_bucket ::
  "runtime_interface \<Rightarrow> workspace_offset_id \<Rightarrow> resource_address \<Rightarrow> amount \<Rightarrow> invoke_result rt_action" where
  "workspace_assert_bucket ri key ra min_amount = read_with (\<lambda>ws.
     and_then (workspace_item ws key) (\<lambda>v.
     and_then (map_err IndexedValueErr (from_value (env_decoder (ri_env ri)) v)) (\<lambda>indexed.
     and_then (case iw_bucket_ids indexed of [] \<Rightarrow> Err (AssertErr InvalidBucket) | b # _ \<Rightarrow> Ok b) (\<lambda>bid.
     and_then (get_bucket ws bid) (\<lambda>b.
     if address (b_container b) \<noteq> ra then Err (AssertErr (InvalidResource ra (address (b_container b))))
     else if amount_of (b_container b) < min_amount
     then Err (AssertErr (AssertInvalidAmount min_amount (amount_of (b_container b))))
     else Ok IrUnit)))))"

datatype workspace_action = WsPutLastInstructionOutput | WsGet | WsDropAllProofs | WsAssertBucketContains

definition workspace_invoke ::
  "runtime_interface \<Rightarrow> workspace_action \<Rightarrow> bytes list \<Rightarrow> invoke_result rt_action" where
  "workspace_invoke ri action args = act_then (runtime_call ri ''workspace_invoke'') (\<lambda>_. case action of
     WsPutLastInstructionOutput \<Rightarrow>
       act_then (act_lift (assert_one_arg (de_workspace_id (ri_codec ri)) args)) workspace_put_last_output
   | WsGet \<Rightarrow>
       act_then (act_lift (assert_one_arg (de_workspace_offset_id (ri_codec ri)) args)) (\<lambda>oid.
       read_with (\<lambda>ws. and_then (workspace_item ws oid) (\<lambda>v. Ok (IrValue v))))
   | WsDropAllProofs \<Rightarrow>
       act_then (act_lift (assert_no_args args)) (\<lambda>_. workspace_drop_all_proofs ri)
   | WsAssertBucketContains \<Rightarrow>
       act_then (act_lift (assert_n_args args 3)) (\<lambda>_.
       act_then (act_lift (args_get (de_workspace_offset_id (ri_codec ri)) args 0)) (\<lambda>key.
       act_then (act_lift (args_get (de_resource_address (ri_codec ri)) args 1)) (\<lambda>ra.
       act_then (act_lift (args_get (de_amount (ri_codec ri)) args 2)) (\<lambda>amt.
       workspace_assert_bucket ri key ra amt)))))"

datatype non_fungible_action = NftGetData | NftGetMutableData

definition non_fungible_invoke ::
  "runtime_interface \<Rightarrow> non_fungible_address \<Rightarrow> non_fungible_action \<Rightarrow> bytes list \<Rightarrow> invoke_result rt_action" where
  "non_fungible_invoke ri a action args =
     act_then (runtime_call ri ''non_fungible_invoke'') (\<lambda>_.
     act_then (act_lift (assert_no_args args)) (\<lambda>_. write_with (\<lambda>ws.
       and_then (lock_substate ws (NonFungibleId a) Read) (\<lambda>(ws1, l).
       and_then (get_non_fungible ws1 l) (\<lambda>n.
       and_then (ok_or (InvalidOpNonFungibleBurnt (nf_resource_address a) (nf_id a)) n) (\<lambda>contents.
       and_then (unlock_substate ws1 l) (\<lambda>ws2.
       Ok (ws2, IrValue (case action of NftGetData \<Rightarrow> nf_data contents
         | NftGetMutableData \<Rightarrow> nf_mutable_data contents)))))))))"

section \<open>Consensus data, randomness and outputs\<close>

definition consensus_invoke :: "runtime_interface \<Rightarrow> invoke_result rt_action" where
  "consensus_invoke ri = act_then (runtime_call ri ''consensus_invoke'') (\<lambda>_.
     read_with (\<lambda>ws. and_then (get_current_epoch ws) (\<lambda>e. Ok (IrEpoch e))))"

definition generate_random_invoke :: "runtime_interface \<Rightarrow> nat \<Rightarrow> invoke_result rt_action" where
  "generate_random_invoke ri len = act_then (runtime_call ri ''generate_random_invoke'') (\<lambda>_.
     act_then (get_pseudorandom_bytes (ri_env ri) len) (\<lambda>bs. act_return (IrBytes bs)))"

definition generate_uuid :: "runtime_interface \<Rightarrow> bytes rt_action" where
  "generate_uuid ri = act_then (runtime_call ri ''generate_uuid'') (\<lambda>_. write_with (\<lambda>ws.
     with_id_provider ws (new_uuid (env_hasher (ri_env ri)))))"

definition set_last_instruction_output :: "runtime_interface \<Rightarrow> indexed_value \<Rightarrow> unit rt_action" where
  "set_last_instruction_output ri v = act_then (runtime_call ri ''set_last_instruction_output'') (\<lambda>_.
     update_with (\<lambda>ws. Ok (ws\<lparr>last_instruction_output := Some v\<rparr>)))"

section \<open>Claims\<close>

definition claimed_utxo :: "public_key \<Rightarrow> burn_claim \<Rightarrow> bytes \<Rightarrow> utxo" where
  "claimed_utxo owner claim data = utxo_new \<lparr>uto_output = \<lparr>public_nonce = bc_burn_public_key claim,
     encrypted_data = data, minimum_value_promise = 0, viewable_balance = None\<rparr>,
     uto_owner_public_key = owner, uto_tag = 0\<rparr>"

definition claim_burn_state ::
  "runtime_env \<Rightarrow> public_key \<Rightarrow> burn_claim \<Rightarrow> bytes \<Rightarrow> working_state \<Rightarrow> working_state rt_result" where
  "claim_burn_state env owner claim data ws =
     and_then (new_substate env ws (ClaimedOutputTombstoneId (bc_commitment claim))
       (ClaimedOutputTombstoneValue (bc_value claim))) (\<lambda>ws1.
     new_substate env ws1 (UtxoId \<lparr>utxo_resource_address = XTR, utxo_id = bc_commitment claim\<rparr>)
       (UtxoValue (claimed_utxo owner claim data)))"

definition claim_burn :: "runtime_interface \<Rightarrow> burn_claim \<Rightarrow> bytes \<Rightarrow> unit rt_action" where
  "claim_burn ri claim data =
     act_then (read_with get_current_epoch) (\<lambda>epoch.
     act_then (act_lift (ensure (ri_verify_claim_proof ri epoch (ri_seal_signer ri) claim) InvalidClaimProof)) (\<lambda>_.
     update_with (claim_burn_state (ri_env ri) (ri_seal_signer ri) claim data)))"

definition claim_validator_fees :: "runtime_interface \<Rightarrow> bytes32 \<Rightarrow> unit rt_action" where
  "claim_validator_fees ri a = update_with (\<lambda>ws.
     and_then (withdraw_all_fees_from_pool ws a) (\<lambda>(ws1, c).
     let (ws2, b) = ws_new_bucket_id ws1 in
     and_then (new_bucket ws2 b c) (\<lambda>ws3.
     and_then (indexed_from ri (en_bucket_value (ri_codec ri) b)) (\<lambda>v.
     Ok (ws3\<lparr>last_instruction_output := Some v\<rparr>)))))"

section \<open>Fee checkpoint and finalization\<close>

definition set_fee_checkpoint :: "unit rt_action" where
  "set_fee_checkpoint =
     act_then (read_with (\<lambda>ws. and_then (total_charges (fee_state_of ws)) (\<lambda>charges.
       ensure (\<not> total_payments (fee_state_of ws) < charges)
         (InsufficientFeesPaid charges (total_payments (fee_state_of ws)))))) (\<lambda>_.
     fee_checkpoint)"

text \<open>What the working state hands over to be persisted.\<close>

definition take_changes :: "working_state \<Rightarrow> (working_state \<times> changeset \<times> utxo_address list) rt_result" where
  "take_changes ws = (let (st1, m) = take_mutated_substates (store ws); (st2, d) = take_downed_utxos st1
     in Ok (ws\<lparr>store := st2\<rparr>, m, d))"

definition downgrade_unpaid :: "finalize_result \<Rightarrow> finalize_result" where
  "downgrade_unpaid fin = fin\<lparr>fin_result := (case any_accept (fin_result fin) of
     Some d \<Rightarrow> AcceptFeeRejectRest d RejectInsufficientFeesPaid
   | None \<Rightarrow> Reject RejectInsufficientFeesPaid)\<rparr>"

definition rt_finalize :: "runtime_interface \<Rightarrow> finalize_result rt_action" where
  "rt_finalize ri =
     act_then (runtime_call ri ''finalize'') (\<lambda>_.
     act_then (before_finalize ri) (\<lambda>_.
     act_then (read_with are_fees_paid_in_full) (\<lambda>paid.
     act_then (if \<not> paid then reset_to_fee_checkpoint else act_return ()) (\<lambda>_.
     act_then (write_with take_changes) (\<lambda>(persist, downed).
     act_then (tracker_finalize (ri_env ri) persist downed) (\<lambda>fin.
     act_then (act_lift (is_paid_in_full (fin_fee_receipt fin))) (\<lambda>in_full.
     act_return (if \<not> in_full then downgrade_unpaid fin else fin))))))))"

section \<open>Context, allocations, calls and publishing\<close>

datatype caller_context_action = GetCallerPublicKey | GetComponentAddress

definition caller_context_invoke ::
  "runtime_interface \<Rightarrow> caller_context_action \<Rightarrow> bytes list \<Rightarrow> invoke_result rt_action" where
  "caller_context_invoke ri action args = act_then (runtime_call ri ''caller_context_invoke'') (\<lambda>_.
     act_then (act_lift (assert_no_args args)) (\<lambda>_. case action of
       GetCallerPublicKey \<Rightarrow> act_return (IrPublicKey (ri_seal_signer ri))
     | GetComponentAddress \<Rightarrow> read_with (\<lambda>ws. case component_lock (current_call_scope ws) of
         None \<Rightarrow> Ok (IrOptComponentAddress None)
       | Some l \<Rightarrow> and_then (expect ''called `Option::unwrap()` on a `None` value''
           (as_component_address (ls_address l))) (\<lambda>a. Ok (IrOptComponentAddress (Some a))))))"

datatype address_allocation_arg =
    GetAllocatedAddress nat | CreateComponentAllocation "public_key option" | CreateResourceAllocation

definition allocate_address_invoke ::
  "runtime_interface \<Rightarrow> address_allocation_arg \<Rightarrow> invoke_result rt_action" where
  "allocate_address_invoke ri arg = act_then (runtime_call ri ''allocate_address_invoke'') (\<lambda>_.
     write_with (\<lambda>ws. case arg of
       GetAllocatedAddress i \<Rightarrow> and_then (get_allocated_address ws i) (\<lambda>a. case alloc_substate_id a of
           ComponentId c \<Rightarrow> Ok (ws, IrComponentAddress c)
         | ResourceId r \<Rightarrow> Ok (ws, IrResourceAddress r)
         | _ \<Rightarrow> Panic ''internal error: entered unreachable code'')
     | CreateComponentAllocation pk \<Rightarrow>
         and_then (case pk of None \<Rightarrow> Ok ()
           | Some k \<Rightarrow> ensure (point_ok (base (env_crypto (ri_env ri))) k) InvalidArgument) (\<lambda>_.
         and_then (current_template ws) (\<lambda>(t, _).
         and_then (case pk of
             Some k \<Rightarrow> and_then (with_id_provider ws (\<lambda>_ _ o'. (o', ri_derive_component_address ri t k))) Ok
           | None \<Rightarrow> fallible_id ws (new_component_address (env_hasher (ri_env ri)))) (\<lambda>(ws1, a).
         and_then (new_address_allocation ws1 (ComponentId a)) (\<lambda>(ws2, i). Ok (ws2, IrComponentAllocation i)))))
     | CreateResourceAllocation \<Rightarrow>
         and_then (fallible_id ws (new_resource_address (env_hasher (ri_env ri)))) (\<lambda>(ws1, a).
         and_then (new_address_allocation ws1 (ResourceId a)) (\<lambda>(ws2, i). Ok (ws2, IrResourceAllocation i)))))"

datatype call_action = CallFunctionAction | CallMethodAction

definition call_invoke :: "runtime_interface \<Rightarrow> call_action \<Rightarrow> bytes list \<Rightarrow> invoke_result rt_action" where
  "call_invoke ri action args = act_then (runtime_call ri ''call_invoke'') (\<lambda>_.
     act_then (case action of
         CallFunctionAction \<Rightarrow>
           act_then (act_lift (assert_one_arg (de_call_function (ri_codec ri)) args)) (\<lambda>(t, f, fargs).
           invoke_template_function ri t f fargs)
       | CallMethodAction \<Rightarrow>
           act_then (act_lift (assert_one_arg (de_call_method (ri_codec ri)) args)) (\<lambda>(c, m, margs).
           invoke_component_method ri c m margs)) (\<lambda>v.
     act_return (IrValue (iv_value v))))"

datatype builtin_template = BuiltinAccount | BuiltinAccountNft

definition ACCOUNT_TEMPLATE_ADDRESS :: template_address where "ACCOUNT_TEMPLATE_ADDRESS = 0"
definition NFT_FAUCET_TEMPLATE_ADDRESS :: template_address where "NFT_FAUCET_TEMPLATE_ADDRESS = 1"

definition builtin_template_invoke :: "runtime_interface \<Rightarrow> builtin_template \<Rightarrow> invoke_result rt_action" where
  "builtin_template_invoke ri b = act_then (runtime_call ri ''builtin_template_invoke'') (\<lambda>_.
     act_return (IrTemplateAddress (case b of
       BuiltinAccount \<Rightarrow> ACCOUNT_TEMPLATE_ADDRESS | BuiltinAccountNft \<Rightarrow> NFT_FAUCET_TEMPLATE_ADDRESS)))"

definition rt_validate_return_value :: "indexed_value \<Rightarrow> unit rt_action" where
  "rt_validate_return_value v = read_with (\<lambda>ws. check_all_substates_known ws (iv_indexed v))"

definition publish_template_state ::
  "runtime_interface \<Rightarrow> bytes \<Rightarrow> working_state \<Rightarrow> working_state rt_result" where
  "publish_template_state ri binary ws =
     (let h = ri_template_hash ri binary; a = ri_template_address ri (ri_seal_signer ri) h in
      and_then (new_substate (ri_env ri) ws (TemplateId a)
        (TemplateValue \<lparr>pt_author = ri_seal_signer ri, pt_binary_hash = h\<rparr>)) (\<lambda>ws1.
      and_then (move_node_to_owned (current_call_scope ws1) (TemplateId a)) (\<lambda>s.
      let ws2 = set_current_call_scope ws1 s in
      push_event ws2 (event_std (Some (TemplateId a)) a (transaction_hash ws2) ''template'' ''publish''
        (fmupd ''template_byte_size'' (ri_display ri (ShowCount (length binary))) fmempty)))))"

definition rt_publish_template :: "runtime_interface \<Rightarrow> bytes \<Rightarrow> unit rt_action" where
  "rt_publish_template ri binary = act_then (runtime_call ri ''publish_template'') (\<lambda>_.
     update_with (publish_template_state ri binary))"

definition signature_invoke :: "runtime_interface \<Rightarrow> bytes list \<Rightarrow> invoke_result rt_action" where
  "signature_invoke ri args = act_then (runtime_call ri ''signature_invoke'') (\<lambda>_.
     act_then (runtime_event_call ri SignatureVerified) (\<lambda>_.
     act_then (act_lift (assert_one_arg (ri_verify_signature ri) args)) (\<lambda>ok. act_return (IrBool ok))))"

datatype allocatable_address_type = AllocatableComponent | AllocatableResource

text \<open>\<open>allocate_address\<close> uses an identifier provider for a given entity rather than that of a frame.\<close>

definition allocate_address ::
  "runtime_interface \<Rightarrow> allocatable_address_type \<Rightarrow> entity_id \<Rightarrow> nat \<Rightarrow> invoke_result rt_action" where
  "allocate_address ri ty e wid = write_with (\<lambda>ws.
     let h = env_hasher (ri_env ri); tx = transaction_hash ws;
         (o', r) = (case ty of
           AllocatableComponent \<Rightarrow> (let (o1, r1) = new_component_address h e tx (object_ids_of ws)
             in (o1, map_err too_many_outputs (and_then r1 (\<lambda>a. Ok (ComponentId a)))))
         | AllocatableResource \<Rightarrow> (let (o1, r1) = new_resource_address h e tx (object_ids_of ws)
             in (o1, map_err too_many_outputs (and_then r1 (\<lambda>a. Ok (ResourceId a)))))) in
     and_then r (\<lambda>k.
     and_then (new_address_allocation (ws\<lparr>object_ids_of := o'\<rparr>) k) (\<lambda>(ws1, i).
     and_then (indexed_from ri (case ty of AllocatableComponent \<Rightarrow> en_component_allocation (ri_codec ri) i
       | AllocatableResource \<Rightarrow> en_resource_allocation (ri_codec ri) i)) (\<lambda>v.
     Ok (ws1\<lparr>workspace_of := workspace_insert (workspace_of ws1) wid v\<rparr>,
       case ty of AllocatableComponent \<Rightarrow> IrComponentAllocation i | AllocatableResource \<Rightarrow> IrResourceAllocation i)))))"

definition rt_pay_fee ::
  "runtime_interface \<Rightarrow> stealth_transfer_statement \<Rightarrow> bucket_id option \<Rightarrow> unit rt_action" where
  "rt_pay_fee ri st bucket = update_with (\<lambda>ws.
     and_then (execute_stealth_transfer (ri_env ri) ws (RefAddress XTR) st bucket) (\<lambda>(ws1, out). case out of
       None \<Rightarrow> Err NoFeesPaid
     | Some c \<Rightarrow> pay_fee ws1 c None))"

end
