(* ===== verification/Processor.thy ===== *)
theory Processor
  imports RuntimeHandlers
begin

text \<open>
  The transaction processor (crates/engine/src/transaction/processor.rs) and the resolution of arguments
  (crates/engine/src/runtime/mod.rs): instructions, calls of functions and methods, and the execution of
  a transaction as a fee intent and a main intent with a checkpoint in between. Running template code is
  a parameter, \<open>pr_invoke\<close>.
\<close>

section \<open>Errors and instructions\<close>

datatype (plugins only: size) transaction_error =
    WasmExecutionError
  | TxTemplateNotFound template_address
  | TxRuntimeError runtime_error
  | TxFailedToLoadTemplate template_address
  | TxBorError
  | ValueVisitorError indexed_value_error
  | FunctionNotFound string
  | TxInvariantError
  | LoadTemplateError
  | WasmBinaryTooBig nat nat

type_synonym 'a tx_action = "runtime \<Rightarrow> runtime \<times> ('a, transaction_error) result"

abbreviation rt :: "'a rt_action \<Rightarrow> 'a tx_action" where
  "rt m \<equiv> act_map_err TxRuntimeError m"

datatype instruction_arg = ArgWorkspace workspace_offset_id | ArgLiteral bytes

datatype (plugins only: size) instruction =
    CreateAccount public_key "owner_rule option" "component_access_rules option" "workspace_offset_id option"
  | CallFunction template_address string "instruction_arg list"
  | CallMethod component_call string "instruction_arg list"
  | PutLastInstructionOutputOnWorkspace nat
  | DropAllProofsInWorkspace
  | EmitLog log_level string
  | ClaimBurn burn_claim bytes
  | ClaimValidatorFees bytes32
  | AssertBucketContains workspace_offset_id resource_address amount
  | PublishTemplate bytes
  | AllocateAddress allocatable_address_type nat
  | StealthTransfer resource_address_ref stealth_transfer_statement "workspace_offset_id option"
  | PayFee stealth_transfer_statement "workspace_offset_id option"

text \<open>\<open>pr_invoke\<close> runs the code of a template function; \<open>pr_load_template\<close> is the validation of a template
  binary; \<open>pr_account_args\<close> encodes the arguments of the account constructor.\<close>

record processor =
  pr_interface :: runtime_interface
  pr_invoke :: "runtime_interface \<Rightarrow> template_address \<Rightarrow> function_def \<Rightarrow> bor_value list \<Rightarrow> indexed_value tx_action"
  pr_load_template :: "bytes \<Rightarrow> bool"
  pr_template_binary_max_size :: nat
  pr_account_args :: "public_key \<Rightarrow> owner_rule option \<Rightarrow> component_access_rules option \<Rightarrow> bytes list"
  pr_no_bucket :: bytes

definition MAX_CALL_DEPTH :: nat where "MAX_CALL_DEPTH = 10"
definition MAX_FUNCTION_ARGUMENTS :: nat where "MAX_FUNCTION_ARGUMENTS = 32"

section \<open>Arguments\<close>

definition resolve_workspace_id :: "runtime_interface \<Rightarrow> workspace_offset_id \<Rightarrow> bor_value rt_action" where
  "resolve_workspace_id ri oid = act_then (runtime_call ri ''workspace_invoke'') (\<lambda>_.
     read_with (\<lambda>ws. workspace_item ws oid))"

primrec resolve_each :: "runtime_interface \<Rightarrow> instruction_arg list \<Rightarrow> bor_value list rt_action" where
  "resolve_each ri [] = act_return []"
| "resolve_each ri (a # as) =
     act_then (case a of
         ArgWorkspace oid \<Rightarrow> resolve_workspace_id ri oid
       | ArgLiteral b \<Rightarrow> act_lift (ok_or EncodingError (de_value (ri_codec ri) b))) (\<lambda>v.
     act_then (resolve_each ri as) (\<lambda>vs. act_return (v # vs)))"

definition resolve_args :: "runtime_interface \<Rightarrow> instruction_arg list \<Rightarrow> bor_value list rt_action" where
  "resolve_args ri args =
     (if length args > MAX_FUNCTION_ARGUMENTS
      then act_lift (Err (ArgumentValidationErr (TooManyArguments (length args) MAX_FUNCTION_ARGUMENTS)))
      else resolve_each ri args)"

text \<open>The well known values of all arguments together.\<close>

definition arg_scope_of ::
  "runtime_interface \<Rightarrow> bor_value list \<Rightarrow> (indexed_well_known_types, transaction_error) result" where
  "arg_scope_of ri vs =
     and_then (try_fold (\<lambda>acc v. and_then (map_err ValueVisitorError (from_value (env_decoder (ri_env ri)) v)) (\<lambda>i.
       Ok (acc @ [i]))) [] vs) (\<lambda>is. Ok (indexed_from_iter is))"

definition resolve_bucket :: "runtime_interface \<Rightarrow> workspace_offset_id option \<Rightarrow> bucket_id option rt_action" where
  "resolve_bucket ri oid = (case oid of
     None \<Rightarrow> act_return None
   | Some i \<Rightarrow> act_then (resolve_workspace_id ri i) (\<lambda>v.
       act_lift (and_then (ok_or InvalidArgument (de_bucket_value (ri_codec ri) v)) (\<lambda>b. Ok (Some b)))))"

section \<open>Calls\<close>

definition find_function ::
  "runtime_interface \<Rightarrow> template_address \<Rightarrow> string \<Rightarrow> (template_def \<times> function_def, transaction_error) result" where
  "find_function ri a f =
     and_then (map_err (\<lambda>_. TxFailedToLoadTemplate a) (ri_templates ri a)) (\<lambda>found.
     and_then (ok_or (TxTemplateNotFound a) found) (\<lambda>d.
     and_then (ok_or (FunctionNotFound f) (get_function d f)) (\<lambda>fd. Ok (d, fd))))"

text \<open>What follows the push of a frame: run the template, check the returned value, pop the frame.\<close>

definition run_and_pop ::
  "processor \<Rightarrow> runtime_interface \<Rightarrow> template_address \<Rightarrow> function_def \<Rightarrow> bor_value list \<Rightarrow> indexed_value tx_action" where
  "run_and_pop p ri a fd args =
     act_then (pr_invoke p ri a fd args) (\<lambda>result.
     act_then (rt (rt_validate_return_value result)) (\<lambda>_.
     act_then (rt pop_call_frame) (\<lambda>_. act_return result)))"

definition call_function ::
  "processor \<Rightarrow> runtime_interface \<Rightarrow> template_address \<Rightarrow> string \<Rightarrow> instruction_arg list \<Rightarrow> indexed_value tx_action" where
  "call_function p ri a f args =
     act_then (act_lift (find_function ri a f)) (\<lambda>(d, fd).
     act_then (rt (resolve_args ri args)) (\<lambda>vs.
     act_then (act_lift (arg_scope_of ri vs)) (\<lambda>scope.
     act_then (rt (rt_next_entity_id ri)) (\<lambda>e.
     act_then (rt (push_call_frame (Static a (template_name d) scope e) (ri_max_call_depth ri))) (\<lambda>_.
     run_and_pop p ri a fd vs)))))"

definition call_method ::
  "processor \<Rightarrow> runtime_interface \<Rightarrow> component_call \<Rightarrow> string \<Rightarrow> instruction_arg list \<Rightarrow> indexed_value tx_action" where
  "call_method p ri call m args =
     act_then (rt (load_component ri call)) (\<lambda>(a, c).
     act_then (act_lift (find_function ri (c_template_address c) m)) (\<lambda>(d, fd).
     act_then (rt (lock_component a (if fn_is_mut fd then Write else Read))) (\<lambda>l.
     act_then (rt (resolve_args ri args)) (\<lambda>vs.
     act_then (act_lift (arg_scope_of ri vs)) (\<lambda>scope.
     act_then (act_lift (map_err ValueVisitorError (from_value (env_decoder (ri_env ri)) (c_state c)))) (\<lambda>cs.
     act_then (rt (push_call_frame
       (ForComponent (c_template_address c) (template_name d) cs l scope (c_entity_id c)) (ri_max_call_depth ri))) (\<lambda>_.
     act_then (rt (read_with (\<lambda>ws. check_component_access_rules ws m l))) (\<lambda>_.
     run_and_pop p ri (c_template_address c) fd (en_component_address (ri_codec ri) a # vs)))))))))"

definition create_account ::
  "processor \<Rightarrow> runtime_interface \<Rightarrow> public_key \<Rightarrow> owner_rule option \<Rightarrow> component_access_rules option
     \<Rightarrow> workspace_offset_id option \<Rightarrow> indexed_value tx_action" where
  "create_account p ri pk orule rules wid =
     act_then (act_lift (find_function ri ACCOUNT_TEMPLATE_ADDRESS ''create'')) (\<lambda>(d, fd).
     act_then (rt (resolve_args ri (map ArgLiteral (pr_account_args p pk orule rules) @
       [case wid of Some i \<Rightarrow> ArgWorkspace i | None \<Rightarrow> ArgLiteral (pr_no_bucket p)]))) (\<lambda>vs.
     act_then (act_lift (arg_scope_of ri vs)) (\<lambda>scope.
     act_then (rt (push_call_frame (Static ACCOUNT_TEMPLATE_ADDRESS (template_name d) scope
       (as_entity_id (ri_derive_component_address ri ACCOUNT_TEMPLATE_ADDRESS pk))) (ri_max_call_depth ri))) (\<lambda>_.
     run_and_pop p ri ACCOUNT_TEMPLATE_ADDRESS fd vs))))"

text \<open>A runtime in which calls from template code are the processor's own calls, to a nesting depth of \<open>n\<close>.
  Each nested call pushes a frame and at most \<open>MAX_CALL_DEPTH\<close> frames fit, so with \<open>n = MAX_CALL_DEPTH + 1\<close>
  the innermost level is not reached.\<close>

primrec runtime_at :: "nat \<Rightarrow> processor \<Rightarrow> runtime_interface" where
  "runtime_at 0 p = (pr_interface p)\<lparr>ri_call_method := (\<lambda>_ _ _ t. (t, Err ())),
     ri_call_function := (\<lambda>_ _ _ t. (t, Err ()))\<rparr>"
| "runtime_at (Suc n) p = (pr_interface p)\<lparr>
     ri_call_method := (\<lambda>a m args. act_map_err (\<lambda>_. ())
       (call_method p (runtime_at n p) (CallAddress a) m (map ArgLiteral args))),
     ri_call_function := (\<lambda>a f args. act_map_err (\<lambda>_. ())
       (call_function p (runtime_at n p) a f (map ArgLiteral args)))\<rparr>"

section \<open>Instructions\<close>

definition empty_indexed :: indexed_value where
  "empty_indexed = \<lparr>iv_indexed = indexed_new, iv_value = BorNull\<rparr>"

definition tx_indexed_from :: "runtime_interface \<Rightarrow> bor_value \<Rightarrow> (indexed_value, transaction_error) result" where
  "tx_indexed_from ri v = map_err ValueVisitorError (indexed_value_from_value (env_decoder (ri_env ri)) v)"

definition publish_template :: "processor \<Rightarrow> runtime_interface \<Rightarrow> bytes \<Rightarrow> indexed_value tx_action" where
  "publish_template p ri binary =
     act_then (act_lift (ensure (length binary \<le> pr_template_binary_max_size p)
       (WasmBinaryTooBig (length binary) (pr_template_binary_max_size p)))) (\<lambda>_.
     act_then (act_lift (ensure (pr_load_template p binary) LoadTemplateError)) (\<lambda>_.
     act_then (rt (rt_publish_template ri binary)) (\<lambda>_. act_return empty_indexed)))"

definition allocate_address_instruction ::
  "runtime_interface \<Rightarrow> allocatable_address_type \<Rightarrow> nat \<Rightarrow> indexed_value tx_action" where
  "allocate_address_instruction ri ty wid =
     act_then (rt (rt_next_entity_id ri)) (\<lambda>e.
     act_then (rt (allocate_address ri ty e wid)) (\<lambda>r.
     act_lift (case r of
       IrComponentAllocation i \<Rightarrow> tx_indexed_from ri (en_component_allocation (ri_codec ri) i)
     | IrResourceAllocation i \<Rightarrow> tx_indexed_from ri (en_resource_allocation (ri_codec ri) i)
     | _ \<Rightarrow> Err TxInvariantError)))"

definition stealth_transfer_instruction ::
  "runtime_interface \<Rightarrow> resource_address_ref \<Rightarrow> stealth_transfer_statement \<Rightarrow> workspace_offset_id option
     \<Rightarrow> indexed_value tx_action" where
  "stealth_transfer_instruction ri rref st wid =
     act_then (rt (resolve_bucket ri wid)) (\<lambda>b.
     act_then (rt (rt_stealth_transfer ri rref st b)) (\<lambda>out.
     act_then (act_lift (tx_indexed_from ri (en_opt_bucket_value (ri_codec ri) out))) (\<lambda>v.
     act_then (rt (set_last_instruction_output ri v)) (\<lambda>_. act_return empty_indexed))))"

definition pay_fee_instruction ::
  "runtime_interface \<Rightarrow> stealth_transfer_statement \<Rightarrow> workspace_offset_id option \<Rightarrow> indexed_value tx_action" where
  "pay_fee_instruction ri st wid =
     act_then (rt (resolve_bucket ri wid)) (\<lambda>b.
     act_then (rt (rt_pay_fee ri st b)) (\<lambda>_. act_return empty_indexed))"

definition then_empty :: "'a rt_action \<Rightarrow> indexed_value tx_action" where
  "then_empty m = act_then (rt m) (\<lambda>_. act_return empty_indexed)"

definition process_instruction ::
  "processor \<Rightarrow> runtime_interface \<Rightarrow> instruction \<Rightarrow> indexed_value tx_action" where
  "process_instruction p ri i = (case i of
     CreateAccount pk orule rules wid \<Rightarrow> create_account p ri pk orule rules wid
   | CallFunction a f args \<Rightarrow> call_function p ri a f args
   | CallMethod call m args \<Rightarrow> call_method p ri call m args
   | PutLastInstructionOutputOnWorkspace key \<Rightarrow>
       then_empty (act_then (runtime_call ri ''workspace_invoke'') (\<lambda>_. workspace_put_last_output key))
   | DropAllProofsInWorkspace \<Rightarrow>
       then_empty (act_then (runtime_call ri ''workspace_invoke'') (\<lambda>_. workspace_drop_all_proofs ri))
   | EmitLog level msg \<Rightarrow> then_empty (emit_log ri level msg)
   | ClaimBurn claim data \<Rightarrow> then_empty (claim_burn ri claim data)
   | ClaimValidatorFees a \<Rightarrow> then_empty (claim_validator_fees ri a)
   | AssertBucketContains key ra amt \<Rightarrow>
       then_empty (act_then (runtime_call ri ''workspace_invoke'') (\<lambda>_. workspace_assert_bucket ri key ra amt))
   | PublishTemplate binary \<Rightarrow> publish_template p ri binary
   | AllocateAddress ty wid \<Rightarrow> allocate_address_instruction ri ty wid
   | StealthTransfer rref st wid \<Rightarrow> stealth_transfer_instruction ri rref st wid
   | PayFee st wid \<Rightarrow> pay_fee_instruction ri st wid)"

primrec process_each :: "processor \<Rightarrow> runtime_interface \<Rightarrow> instruction list \<Rightarrow> indexed_value list tx_action" where
  "process_each p ri [] = act_return []"
| "process_each p ri (i # is) = act_then (process_instruction p ri i) (\<lambda>r.
     act_then (process_each p ri is) (\<lambda>rs. act_return (r # rs)))"

definition process_instructions ::
  "processor \<Rightarrow> runtime_interface \<Rightarrow> instruction list \<Rightarrow> indexed_value list tx_action" where
  "process_instructions p ri is = act_then (process_each p ri is) (\<lambda>rs.
     act_then (rt (read_with validate_finalized)) (\<lambda>_. act_return rs))"

section \<open>Execution\<close>

record transaction =
  tx_id :: bytes32
  tx_inputs :: "substate_id list"
  tx_weight :: nat
  tx_main_signer :: "public_key option"
  tx_ownership_proofs :: "non_fungible_address list"
  tx_fee_instructions :: "instruction list"
  tx_main_instructions :: "instruction list"

definition initial_scope :: "transaction \<Rightarrow> call_scope" where
  "initial_scope tx = foldl add_substate_to_owned
     (add_substate_to_owned (set_auth_scope call_scope_new (auth_scope_new (tx_ownership_proofs tx))) (ResourceId XTR))
     (tx_inputs tx)"

text \<open>The main intent and what is done with its outcome, for the results \<open>fee_results\<close> of the fee intent.\<close>

definition run_main_intent ::
  "processor \<Rightarrow> runtime_interface \<Rightarrow> instruction list \<Rightarrow> indexed_value list \<Rightarrow> finalize_result tx_action" where
  "run_main_intent p ri is fee_results t = (case process_instructions p ri is t of
     (t1, Ok rs) \<Rightarrow>
       act_then (rt (rt_finalize ri)) (\<lambda>fin.
       act_then (act_lift (is_paid_in_full (fin_fee_receipt fin))) (\<lambda>paid.
       act_return (fin\<lparr>fin_execution_results := (if paid then rs else fee_results)\<rparr>))) t1
   | (t1, Err e) \<Rightarrow>
       act_then (rt reset_to_fee_checkpoint) (\<lambda>_.
       act_then (rt (rt_finalize ri)) (\<lambda>fin.
       act_then (act_lift (expect ''The fee transaction should be there'' (any_accept (fin_result fin)))) (\<lambda>d.
       act_return (fin\<lparr>fin_execution_results := fee_results,
         fin_result := AcceptFeeRejectRest d ExecutionFailure\<rparr>)))) t1
   | (t1, Panic m) \<Rightarrow> (t1, Panic m))"

definition run_intents :: "processor \<Rightarrow> runtime_interface \<Rightarrow> transaction \<Rightarrow> finalize_result tx_action" where
  "run_intents p ri tx t = (case process_instructions p ri (tx_fee_instructions tx) t of
     (t1, Ok fee_results) \<Rightarrow> (case set_fee_checkpoint t1 of
         (t2, Ok _) \<Rightarrow> run_main_intent p ri (tx_main_instructions tx) fee_results t2
       | (t2, Err e) \<Rightarrow> (t2, Ok ((finalize_result_rejected (tx_id tx) (to_reject_reason e))
           \<lparr>fin_execution_results := fee_results\<rparr>))
       | (t2, Panic m) \<Rightarrow> (t2, Panic m))
   | (t1, Err e) \<Rightarrow> (t1, Ok (finalize_result_rejected (tx_id tx) ExecutionFailure))
   | (t1, Panic m) \<Rightarrow> (t1, Panic m))"

definition execute :: "processor \<Rightarrow> memory_store \<Rightarrow> nat option \<Rightarrow> transaction \<Rightarrow> (finalize_result, transaction_error) result" where
  "execute p m epoch tx = (case tx_main_signer tx of
     None \<Rightarrow> Err TxInvariantError
   | Some signer \<Rightarrow>
       let p' = p\<lparr>pr_interface := (pr_interface p)\<lparr>ri_seal_signer := signer, ri_max_call_depth := MAX_CALL_DEPTH\<rparr>\<rparr>;
           ri = runtime_at (Suc MAX_CALL_DEPTH) p';
           t = \<lparr>tk_working = working_state_new m epoch (initial_scope tx) (tx_id tx), tk_checkpoint = None,
             tk_weight = tx_weight tx, rt_entity_ids = entity_id_provider_new (tx_id tx) 1000\<rparr> in
       snd (act_then (rt (runtime_initialize ri)) (\<lambda>_. run_intents p' ri tx) t))"

end
