(* ===== verification/EngineLaws.thy ===== *)
theory EngineLaws
  imports Processor
begin

text \<open>
  Laws that the proofs about engine calls share: what the modules may do to the tracker while an engine
  call is charged, and the working state's lock, read and write operations as steps of the store.
\<close>

section \<open>Metering\<close>

text \<open>An operation that at most adds to the fee charges.\<close>

definition charges_only :: "('x, 'a) action \<Rightarrow> bool" where
  "charges_only m \<longleftrightarrow> (\<forall>t. \<exists>b. fst (m t) = t\<lparr>tk_working := (tk_working t)
     \<lparr>fee_state_of := (fee_state_of (tk_working t))\<lparr>fee_charges := b\<rparr>\<rparr>\<rparr>)"

lemma charges_only_pure: "(\<And>t. fst (m t) = t) \<Longrightarrow> charges_only m"
  unfolding charges_only_def
proof
  fix t assume "\<And>t. fst (m t) = t"
  then show "\<exists>b. fst (m t) = t\<lparr>tk_working := (tk_working t)
     \<lparr>fee_state_of := (fee_state_of (tk_working t))\<lparr>fee_charges := b\<rparr>\<rparr>\<rparr>"
    by (intro exI [of _ "fee_charges (fee_state_of (tk_working t))"]) simp
qed

lemma charges_only_simps [simp]:
  "charges_only (act_return a)" "charges_only (act_lift r)" "charges_only (read_with f)"
  by (simp_all add: charges_only_pure act_return_def act_lift_def read_with_def)

lemma charges_only_then:
  assumes "charges_only m" "\<And>a. charges_only (f a)"
  shows "charges_only (act_then m f)"
  unfolding charges_only_def
proof
  fix t
  obtain t1 r where m: "m t = (t1, r)" by (cases "m t")
  obtain b where b: "t1 = t\<lparr>tk_working := (tk_working t)\<lparr>fee_state_of := (fee_state_of (tk_working t))\<lparr>fee_charges := b\<rparr>\<rparr>\<rparr>"
    using assms(1) m unfolding charges_only_def by (metis fst_conv)
  show "\<exists>b. fst (act_then m f t) = t\<lparr>tk_working := (tk_working t)
     \<lparr>fee_state_of := (fee_state_of (tk_working t))\<lparr>fee_charges := b\<rparr>\<rparr>\<rparr>"
  proof (cases r)
    case (Ok a)
    obtain b' where "fst (f a t1) = t1\<lparr>tk_working := (tk_working t1)
        \<lparr>fee_state_of := (fee_state_of (tk_working t1))\<lparr>fee_charges := b'\<rparr>\<rparr>\<rparr>"
      using assms(2) [of a] unfolding charges_only_def by blast
    then show ?thesis by (intro exI [of _ b']) (simp add: act_then_def m Ok b)
  qed (use b in \<open>auto simp: act_then_def m\<close>)
qed

lemma charges_only_keeps:
  assumes "charges_only m" "m t = (t', r)"
  shows "\<exists>b. t' = t\<lparr>tk_working := (tk_working t)\<lparr>fee_state_of := (fee_state_of (tk_working t))\<lparr>fee_charges := b\<rparr>\<rparr>\<rparr>"
    "tk_checkpoint t' = tk_checkpoint t" "store (tk_working t') = store (tk_working t)"
    "call_frames (tk_working t') = call_frames (tk_working t)"
    "initial_call_scope (tk_working t') = initial_call_scope (tk_working t)" "buckets (tk_working t') = buckets (tk_working t)"
proof -
  show *: "\<exists>b. t' = t\<lparr>tk_working := (tk_working t)\<lparr>fee_state_of := (fee_state_of (tk_working t))\<lparr>fee_charges := b\<rparr>\<rparr>\<rparr>"
    using assms unfolding charges_only_def by (metis fst_conv)
  show "tk_checkpoint t' = tk_checkpoint t" "store (tk_working t') = store (tk_working t)"
    "call_frames (tk_working t') = call_frames (tk_working t)"
    "initial_call_scope (tk_working t') = initial_call_scope (tk_working t)" "buckets (tk_working t') = buckets (tk_working t)"
    using * by auto
qed

lemma charges_only_diag: "(\<And>t. charges_only (m t)) \<Longrightarrow> charges_only (\<lambda>t. m t t)"
  unfolding charges_only_def by blast

lemma charges_only_add_fee_charge [simp]: "charges_only (add_fee_charge source amount)"
  unfolding charges_only_def
proof
  fix t
  show "\<exists>b. fst (add_fee_charge source amount t) = t\<lparr>tk_working := (tk_working t)
     \<lparr>fee_state_of := (fee_state_of (tk_working t))\<lparr>fee_charges := b\<rparr>\<rparr>\<rparr>"
    by (cases "breakdown_add (fee_charges (fee_state_of (tk_working t))) source amount :: (fee_breakdown, runtime_error) result")
      (auto simp: add_fee_charge_def act_return_def update_with_def write_with_def add_charge_def
        intro: exI [of _ "fee_charges (fee_state_of (tk_working t))"])
qed

lemma charges_only_fee_initialize [simp]: "charges_only (fee_on_initialize m)"
  unfolding fee_on_initialize_def
  by (rule charges_only_then, simp, rule charges_only_diag, rule charges_only_then) simp_all

text \<open>What the engine relies on of its modules: the callbacks see the tracker and add charges.\<close>

locale metered_modules =
  fixes ms :: "'x runtime_module list"
  assumes meter_initialize: "m \<in> set ms \<Longrightarrow> charges_only (on_initialize m)"
    and meter_call: "m \<in> set ms \<Longrightarrow> charges_only (on_runtime_call m name)"
    and meter_finalize: "m \<in> set ms \<Longrightarrow> charges_only (on_before_finalize m)"
    and meter_event: "m \<in> set ms \<Longrightarrow> charges_only (on_runtime_event m ev)"
begin

lemma invoke_metered:
  assumes "\<And>m. m \<in> set ms \<Longrightarrow> charges_only (f m)"
  shows "charges_only (invoke_modules f ms)"
proof -
  have "set xs \<subseteq> set ms \<Longrightarrow> charges_only (invoke_modules f xs)" for xs
    by (induction xs) (auto intro!: charges_only_then assms)
  then show ?thesis by blast
qed

lemma calls_metered: "charges_only (invoke_modules (\<lambda>m. on_runtime_call m name) ms)"
  by (rule invoke_metered) (rule meter_call)

lemma finalize_metered: "charges_only (invoke_modules on_before_finalize ms)"
  by (rule invoke_metered) (rule meter_finalize)

end

interpretation fee_modules: metered_modules "[fee_runtime_module env fm]" for env fm
  by unfold_locales (auto simp: fee_runtime_module_def fee_on_runtime_call_def
      fee_on_before_finalize_def fee_on_runtime_event_def intro!: charges_only_then split: runtime_event.split)


lemma runtime_call_keeps:
  assumes "metered_modules (ri_modules ri)" "runtime_call ri name t = (t', r)"
  shows "store (tk_working t') = store (tk_working t)" "call_frames (tk_working t') = call_frames (tk_working t)"
    "initial_call_scope (tk_working t') = initial_call_scope (tk_working t)" "buckets (tk_working t') = buckets (tk_working t)"
  using charges_only_keeps(3-6) [OF metered_modules.calls_metered [OF assms(1), of name]] assms(2)
  unfolding runtime_call_def by blast+

section \<open>Steps of the working state\<close>

lemma lock_substate_Ok_iff:
  "lock_substate ws k flag = Ok (ws', l) \<longleftrightarrow> (\<exists>st i. store_try_lock (store ws) k flag = Ok (st, i) \<and>
     ws' = ws\<lparr>store := st\<rparr> \<and> l = \<lparr>ls_address = k, ls_lock_id = i, ls_lock_flag = flag\<rparr>)"
  by (auto simp: lock_substate_def result_simps)

lemma unlock_substate_Ok_iff:
  "unlock_substate ws l = Ok ws' \<longleftrightarrow> (\<exists>st. store_try_unlock (store ws) (ls_lock_id l) = Ok st \<and> ws' = ws\<lparr>store := st\<rparr>)"
  by (auto simp: unlock_substate_def result_simps)

lemma get_vault_mut_Ok_iff:
  "get_vault_mut ws l = Ok (ws', k, x) \<longleftrightarrow> (\<exists>st. get_locked_substate_mut (store ws) (ls_lock_id l) = Ok (st, k, VaultValue x) \<and>
     ws' = ws\<lparr>store := st\<rparr>)"
proof -
  have *: "as_vault v = Some x \<longleftrightarrow> v = VaultValue x" for v by (cases v) (auto simp: as_vault_def)
  show ?thesis by (auto simp: get_vault_mut_def result_simps * )
qed

lemmas working_steps = lock_substate_Ok_iff unlock_substate_Ok_iff get_vault_mut_Ok_iff

end
