(* ===== verification/FeeIntents.thy ===== *)
theory FeeIntents
  imports EngineLaws
begin

text \<open>
  The fee intent, the fee checkpoint and the main intent together: what happens to fees when the main
  intent succeeds, fails or leaves fees unpaid.
\<close>

section \<open>Fee payments and the checkpoint\<close>

lemma withdraw_into_fees:
  assumes "withdraw om c a = Ok (c', taken)" "deposit om (Stealth XTR 0 0) taken = Ok fee" "in_i192 a"
  shows "0 < a \<and> fee = payment (nat a)"
  using assms by (cases taken)
    (auto simp: withdraw_def deposit_def payment_def rc_ctor_defs result_simps
      split: resource_container.splits if_splits prod.splits)

lemma pay_fee_from_vault_fees:
  assumes "pay_fee_from_vault ri v a None ws = Ok (ws', r)" "in_i192 a"
  shows "0 < a" "add_fee_payment_checked (fee_state_of ws) (payment (nat a)) (Some v) = Ok (fee_state_of ws')"
proof -
  have z: "(stealth XTR 0 :: _ rc_result) = Ok (Stealth XTR 0 0)" by (simp add: rc_ctor_defs)
  have "is_positive a" using assms(1)
    by (auto simp: pay_fee_from_vault_def Let_def result_simps z is_zero_def amount_of_def split: if_splits)
  then have "\<exists>x x' taken c2. withdraw (env_overflow (ri_env ri)) x a = Ok (x', taken) \<and>
      deposit (env_overflow (ri_env ri)) (Stealth XTR 0 0) taken = Ok c2 \<and>
      add_fee_payment_checked (fee_state_of ws) c2 (Some v) = Ok (fee_state_of ws')"
    using assms(1)
    by (clarsimp simp: pay_fee_from_vault_def Let_def result_simps z working_steps put_locked_def
        vault_withdraw_def pay_fee_def split: if_splits) blast
  then show "0 < a" "add_fee_payment_checked (fee_state_of ws) (payment (nat a)) (Some v) = Ok (fee_state_of ws')"
    using withdraw_into_fees assms(2) by auto
qed


lemma leftover_append: "leftover r (xs @ ys) = leftover r xs @ leftover (r - sum_list (map fst xs)) ys"
  by (induction r xs rule: leftover.induct) (auto simp: min_def)

lemma add_fee_payment_totals:
  assumes "add_fee_payment_checked fs c vault = Ok fs'"
  shows "running_total fs' = running_total fs + nat (amount_of c)" "fee_charges fs' = fee_charges fs"
  using assms by (auto simp: add_fee_payment_checked_def Let_def to_u64_checked_def split: if_splits option.splits)

lemma set_fee_checkpoint_Ok:
  assumes "set_fee_checkpoint t = (t1, Ok ())"
  obtains ch where "(total_charges (fee_state_of (tk_working t)) :: nat rt_result) = Ok ch"
    "ch \<le> running_total (fee_state_of (tk_working t))" "t1 = t\<lparr>tk_checkpoint := Some (tk_working t)\<rparr>"
  using assms by (auto simp: set_fee_checkpoint_def read_with_def fee_checkpoint_def result_simps total_payments_def
      elim!: act_then_OkE split: result.splits)

text \<open>C26: A fee payment that is made from a vault after the fee checkpoint is duplicated when the transaction fails,
  for a vault that is in the change set of the checkpoint. Whatever was charged since (\<open>ch\<close> in total), the reset
  brings the vault back to its balance at the checkpoint but keeps the late payment in the fee state, and settling
  the fees then refunds it. The vault ends up with its balance at the checkpoint, plus what is left of its payments
  from before the checkpoint, plus the late payment less the charges that the earlier payments do not cover.\<close>

theorem late_fee_payment_duplicated:
  assumes cp: "set_fee_checkpoint t = (t1, Ok ())"
    and pay: "pay_fee_from_vault ri v a None (tk_working t1) = Ok (ws, IrUnit)" "in_i192 a"
    and later: "tk_checkpoint t3 = tk_checkpoint t1" "fee_state_of (tk_working t3) = (fee_state_of ws)\<lparr>fee_charges := b\<rparr>"
      "(get_total b :: nat rt_result) = Ok ch"
    and ok: "fee_state_ok (fee_state_of (tk_working t)) ns ps"
    and room: "\<And>w. w \<in> insert v (snd ` set ps) \<Longrightarrow> can_refund (new_substates (store (tk_working t)))
      (running_total (fee_state_of (tk_working t)) + nat a) w"
  shows "\<exists>t2 ws' p' rc. reset_to_fee_checkpoint t3 = (t2, Ok ()) \<and>
    finalize_fees (ri_env ri) (tk_working t2) (new_substates (store (tk_working t2))) = Ok (ws', p', rc) \<and>
    vault_balance p' v = vault_balance (new_substates (store (tk_working t))) v +
      int (refund_to (leftover (ch - sum_list ns) ps) v) + int (nat a - (ch - sum_list ns - sum_list (map fst ps)))"
proof -
  let ?ws = "tk_working t" and ?fs = "(fee_state_of ws)\<lparr>fee_charges := b\<rparr>"
  have t1: "t1 = t\<lparr>tk_checkpoint := Some ?ws\<rparr>" by (rule set_fee_checkpoint_Ok [OF cp])
  have a: "0 < a" "add_fee_payment_checked (fee_state_of ?ws) (payment (nat a)) (Some v) = Ok (fee_state_of ws)"
    using pay_fee_from_vault_fees [OF pay] by (simp_all add: t1)
  have "fee_state_ok (fee_state_of ws) ns (ps @ [(nat a, v)])"
    using fee_state_ok_add [OF ok, of "nat a" "Some v" "fee_state_of ws"] a by simp
  then have ok': "fee_state_ok ?fs ns (ps @ [(nat a, v)])" by (simp add: fee_state_ok_def)
  have "running_total ?fs = running_total (fee_state_of ?ws) + nat a"
    using add_fee_payment_totals [OF a(2)] by simp
  then have "\<forall>q\<in>set (ps @ [(nat a, v)]). can_refund (new_substates (store ?ws)) (running_total ?fs) (snd q)"
    using room by auto
  then obtain p' fs' rc where s: "settle_fees (env_overflow (ri_env ri)) ?fs (new_substates (store ?ws)) = Ok (fs', p', rc)"
    "vault_balance p' v = vault_balance (new_substates (store ?ws)) v +
       int (refund_to (leftover (ch - sum_list ns) (ps @ [(nat a, v)])) v)"
    using settle_fees_spec [OF ok', of ch "new_substates (store ?ws)" "env_overflow (ri_env ri)"] later(3)
    by (auto simp: total_charges_def)
  have "refund_to (leftover (ch - sum_list ns) (ps @ [(nat a, v)])) v = refund_to (leftover (ch - sum_list ns) ps) v +
      (nat a - (ch - sum_list ns - sum_list (map fst ps)))"
    by (simp add: leftover_append refund_to_def min_def)
  then show ?thesis using s later(1,2)
    by (auto simp: reset_to_fee_checkpoint_def t1 finalize_fees_def)
qed

definition sample_codec :: arg_codec where
  "sample_codec = \<lparr>de_create_component = (\<lambda>_. None), de_value = (\<lambda>_. None), de_component_access_rules = (\<lambda>_. None),
     de_create_resource = (\<lambda>_. None), de_mint = (\<lambda>_. None), de_recall = (\<lambda>b. Some (of_nat (length b), DiscEverything)),
     de_non_fungible_id = (\<lambda>_. None), de_update_non_fungible = (\<lambda>_. None), de_resource_access_rules = (\<lambda>_. None),
     de_freeze = (\<lambda>_. None), de_stealth_transfer = (\<lambda>_. None), de_freeze_utxos = (\<lambda>_. None),
     de_burn_utxo = (\<lambda>_. None), de_bucket_id = (\<lambda>b. Some (length b)),
     de_vault_withdraw = (\<lambda>b. Some (WithdrawFungible (int (length b)))), de_pay_fee = (\<lambda>b. Some (int (length b), None)),
     de_amount = (\<lambda>b. Some (int (length b))), de_non_fungible_ids = (\<lambda>_. None), de_confidential_withdraw = (\<lambda>_. None),
     de_workspace_id = (\<lambda>b. Some (length b)), de_workspace_offset_id = (\<lambda>_. None), de_resource_address = (\<lambda>_. None),
     de_call_function = (\<lambda>_. None), de_call_method = (\<lambda>_. None), de_component_allocation = (\<lambda>_. None),
     de_bucket_value = (\<lambda>_. None), en_bucket_value = (\<lambda>b. BorTag 133 (BorInteger (int b))),
     en_opt_bucket_value = (\<lambda>_. BorNull), en_component_allocation = (\<lambda>_. BorNull), en_resource_allocation = (\<lambda>_. BorNull),
     en_component_address = (\<lambda>_. BorNull), en_auth_action = (\<lambda>_. []), en_auth_caller = (\<lambda>_. [])\<rparr>"

definition sample_interface :: runtime_interface where
  "sample_interface = \<lparr>ri_env = sample_env, ri_templates = (\<lambda>_. Ok None), ri_seal_signer = 7, ri_modules = [],
     ri_max_call_depth = 10, ri_verify_claim_proof = (\<lambda>_ _ _. True), ri_codec = sample_codec,
     ri_call_method = (\<lambda>_ _ _ t. (t, Err ())), ri_call_function = (\<lambda>_ _ _ t. (t, Err ())),
     ri_verify_signature = (\<lambda>_. None), ri_template_hash = (\<lambda>_. 0), ri_template_address = (\<lambda>_ _. 0),
     ri_derive_component_address = (\<lambda>_ k. k), ri_display = (\<lambda>_. [])\<rparr>"

definition xtr_resource :: resource where
  "xtr_resource = resource_new TStealth None NoOwner resource_access_rules_new fmempty None None 6 False"

definition fee_vault_state :: working_state where
  "fee_vault_state = (working_state_new (fmupd (ResourceId XTR) \<lparr>sub_value = ResourceValue xtr_resource, sub_version = 0\<rparr> fmempty)
       None call_scope_new 0)\<lparr>
     store := (store_new (fmupd (ResourceId XTR) \<lparr>sub_value = ResourceValue xtr_resource, sub_version = 0\<rparr> fmempty))
       \<lparr>new_substates := [(VaultId 3, VaultValue \<lparr>v_container = Stealth XTR 100 0, v_freeze_flags = 0\<rparr>)]\<rparr>,
     fee_state_of := \<lparr>fee_payments_without_refund = [], fee_payments = [(payment 10, 3)], running_total = 10,
       fee_charges = [(FeeInitial, 4)]\<rparr>\<rparr>"

definition fee_vault_runtime :: runtime where
  "fee_vault_runtime = \<lparr>tk_working = fee_vault_state, tk_checkpoint = None, tk_weight = 0,
     rt_entity_ids = entity_id_provider_new 0 1000\<rparr>"

lemma fee_vault_checkpoint:
  "set_fee_checkpoint fee_vault_runtime = (fee_vault_runtime\<lparr>tk_checkpoint := Some fee_vault_state\<rparr>, Ok ())"
  by (simp add: set_fee_checkpoint_def act_then_def read_with_def fee_vault_runtime_def fee_vault_state_def
      total_charges_def get_total_def u64_add_def u64_max_def total_payments_def fee_checkpoint_def
      validate_finalized_def working_state_new_def new_vaults_def as_vault_def locked_amount_of_def is_zero_def
      call_frame_depth_def call_scope_new_def)

lemmas lock_eval = lock_substate_def store_try_lock_def store_exists_def contains_key_def store_new_def
  locked_try_lock_def locked_substates_default_def next_id_def u32_max_def lock_state_of_def load_and_cache_def
  get_locked_substate_def locked_get_def has_access_def state_is_write_def state_is_read_def get_ref_def
  state_exists_def get_state_def get_locked_substate_mut_def get_for_mut_def put_new_def put_locked_def
  unlock_substate_def store_try_unlock_def locked_try_unlock_def u64_sub_def

lemmas value_eval = get_vault_def get_vault_mut_def as_vault_def get_resource_def as_resource_def flags_contains_def
  check_resource_access_rules_def check_ownership_def check_access_rule_def is_recall_def resource_access_rules_new_def
  resource_new_def resource_ownership_def amount_simps rc_ctor_defs amount_of_def

lemma fee_vault_pay: "\<exists>ws. pay_fee_from_vault sample_interface 3 50 None fee_vault_state = Ok (ws, IrUnit)"
  by (simp add: pay_fee_from_vault_def sample_interface_def sample_env_def Let_def lock_eval value_eval fee_vault_state_def
      working_state_new_def xtr_resource_def vault_withdraw_def withdraw_def deposit_def amount_add_def amount_sub_def
      i192_op_def in_i192_def Amount_MAX_def Amount_MIN_def pay_fee_def add_fee_payment_checked_def to_u64_checked_def u64_max_def)

text \<open>Vault 3 holds 100 at the checkpoint, after it paid 10. It pays 50 more, and the charges grow to 12: the vault
  ends up with 148 where 98 is what the charges leave it.\<close>

theorem late_fee_payment_duplicated_witness:
  "\<exists>ws t2 ws' p' rc. pay_fee_from_vault sample_interface 3 50 None fee_vault_state = Ok (ws, IrUnit) \<and>
    reset_to_fee_checkpoint (fee_vault_runtime\<lparr>tk_checkpoint := Some fee_vault_state,
      tk_working := ws\<lparr>fee_state_of := (fee_state_of ws)\<lparr>fee_charges := [(FeeInitial, 4), (FeeStorage, 8)]\<rparr>\<rparr>\<rparr>) = (t2, Ok ()) \<and>
    finalize_fees sample_env (tk_working t2) (new_substates (store (tk_working t2))) = Ok (ws', p', rc) \<and>
    vault_balance p' 3 = 148"
proof -
  obtain ws where ws: "pay_fee_from_vault sample_interface 3 50 None fee_vault_state = Ok (ws, IrUnit)"
    using fee_vault_pay by blast
  let ?b = "[(FeeInitial, 4), (FeeStorage, 8)]"
  let ?t3 = "fee_vault_runtime\<lparr>tk_checkpoint := Some fee_vault_state,
    tk_working := ws\<lparr>fee_state_of := (fee_state_of ws)\<lparr>fee_charges := ?b\<rparr>\<rparr>\<rparr>"
  have f: "tk_working fee_vault_runtime = fee_vault_state" by (simp add: fee_vault_runtime_def)
  have ok: "fee_state_ok (fee_state_of (tk_working fee_vault_runtime)) [] [(10, 3)]"
    by (simp add: f fee_vault_state_def fee_state_ok_def u64_max_def)
  have room: "w \<in> insert 3 (snd ` set [(10, 3)]) \<Longrightarrow>
      can_refund (new_substates (store (tk_working fee_vault_runtime)))
        (running_total (fee_state_of (tk_working fee_vault_runtime)) + nat 50) w" for w
    by (simp add: f fee_vault_state_def can_refund_def in_i192_def Amount_MAX_def Amount_MIN_def)
  have b: "vault_balance (new_substates (store fee_vault_state)) 3 = 100"
    by (simp add: vault_balance_def fee_vault_state_def amount_of_def)
  have g: "(get_total ?b :: nat rt_result) = Ok 12" by (simp add: get_total_def u64_add_def u64_max_def)
  have p: "pay_fee_from_vault sample_interface 3 50 None (tk_working (fee_vault_runtime\<lparr>tk_checkpoint := Some fee_vault_state\<rparr>)) = Ok (ws, IrUnit)"
    using ws f by simp
  have i: "in_i192 50" by (simp add: in_i192_def Amount_MAX_def Amount_MIN_def)
  have e: "ri_env sample_interface = sample_env" by (simp add: sample_interface_def)
  have l: "refund_to (leftover 12 [(10, 3)]) 3 = 0" by (simp add: refund_to_def)
  show ?thesis
    using late_fee_payment_duplicated [OF fee_vault_checkpoint p i, of ?t3 ?b 12, OF _ _ g ok room] ws f b e l by auto
qed

lemma act_map_err_OkE:
  assumes "act_map_err h m t = (t', Ok a)" shows "m t = (t', Ok a)"
  using assms by (auto simp: act_map_err_def result_simps split: prod.splits)

text \<open>C25: When the main intent fails and the charges, with those of finalization, exceed the payments, the
  transaction has no result. The failure already used up the checkpoint, so \<open>finalize\<close>, which resets to
  the checkpoint whenever fees are not covered, fails, and with it the whole execution: no fee is collected.\<close>

theorem failed_underpaid_intent_has_no_result:
  assumes "process_instructions p ri is t = (t1, Err e)" and "tk_checkpoint t1 = Some c"
    and "metered_modules (ri_modules ri)"
    and fin: "act_then (runtime_call ri ''finalize'') (\<lambda>_. before_finalize ri)
      (t1\<lparr>tk_checkpoint := None, tk_working := c\<lparr>fee_state_of := fee_state_of (tk_working t1)\<rparr>\<rparr>) = (t3, Ok ())"
    and "are_fees_paid_in_full (tk_working t3) = Ok False"
  shows "run_main_intent p ri is fee_results t = (t3, Err (TxRuntimeError NoFeeCheckpoint))"
proof -
  let ?t2 = "t1\<lparr>tk_checkpoint := None, tk_working := c\<lparr>fee_state_of := fee_state_of (tk_working t1)\<rparr>\<rparr>"
  have co: "charges_only (act_then (runtime_call ri ''finalize'') (\<lambda>_. before_finalize ri))"
    unfolding runtime_call_def before_finalize_def
    using assms(3) by (intro charges_only_then metered_modules.calls_metered metered_modules.finalize_metered)
  have none: "tk_checkpoint t3 = None" using charges_only_keeps(2) [OF co fin] by simp
  obtain t2' where c: "runtime_call ri ''finalize'' ?t2 = (t2', Ok ())" "before_finalize ri t2' = (t3, Ok ())"
    using fin by (elim act_then_OkE) simp
  have "rt_finalize ri ?t2 = (t3, Err NoFeeCheckpoint)"
    using c none assms(5) by (simp add: rt_finalize_def act_then_def read_with_def reset_to_fee_checkpoint_def)
  then show ?thesis
    using assms(1,2) by (simp add: run_main_intent_def act_then_def act_map_err_def reset_to_fee_checkpoint_def)
qed

lemma rt_finalize_accept:
  assumes "rt_finalize ri t = (t', Ok fin)" "fin_result fin = Accept d"
  shows "(is_paid_in_full (fin_fee_receipt fin) :: bool rt_result) = Ok True"
proof -
  obtain fin0 paid t1 where "(is_paid_in_full (fin_fee_receipt fin0) :: bool rt_result) = Ok paid"
    "fin = (if \<not> paid then downgrade_unpaid fin0 else fin0)"
    using assms(1) unfolding rt_finalize_def
    by (auto elim!: act_then_OkE simp: act_lift_def act_return_def split: prod.splits)
  then show ?thesis using assms(2)
    by (cases paid) (auto simp: downgrade_unpaid_def split: option.splits)
qed

lemma run_main_intent_accept:
  assumes "run_main_intent p ri is fee_results t = (t', Ok fin)" "fin_result fin = Accept d"
  shows "(is_paid_in_full (fin_fee_receipt fin) :: bool rt_result) = Ok True"
proof (cases "process_instructions p ri is t")
  case (Pair t1 r)
  show ?thesis
  proof (cases r)
    case (Ok rs)
    then obtain fin0 t2 rs' where "rt_finalize ri t1 = (t2, Ok fin0)" "fin = fin0\<lparr>fin_execution_results := rs'\<rparr>"
      using assms(1) Pair
      by (auto simp: run_main_intent_def act_return_def act_lift_def elim!: act_then_OkE dest!: act_map_err_OkE)
    then show ?thesis using rt_finalize_accept [of ri t1 t2 fin0 d] assms(2) by simp
  qed (use assms Pair in \<open>auto simp: run_main_intent_def act_return_def elim!: act_then_OkE\<close>)
qed

lemma run_intents_accept:
  assumes "run_intents p ri tx t = (t', Ok fin)" "fin_result fin = Accept d"
  shows "(is_paid_in_full (fin_fee_receipt fin) :: bool rt_result) = Ok True"
  using assms run_main_intent_accept
  by (fastforce simp: run_intents_def finalize_result_rejected_def finalize_result_new_def
      split: prod.splits result.splits)

text \<open>C6: A transaction is fully accepted only when its fees are paid in full. If execution ends with \<open>Accept\<close>,
  the fee receipt of the result has no unpaid debt.\<close>

theorem accepted_transaction_paid:
  assumes "execute p m epoch tx = Ok fin" and "fin_result fin = Accept d"
  shows "(is_paid_in_full (fin_fee_receipt fin) :: bool rt_result) = Ok True"
proof -
  obtain signer where "tx_main_signer tx = Some signer" using assms(1) by (auto simp: execute_def split: option.splits)
  then obtain q ri t0 t' where "act_then (rt (runtime_initialize ri)) (\<lambda>_. run_intents q ri tx) t0 = (t', Ok fin)"
    using assms(1) by (auto simp only: execute_def Let_def option.case prod.collapse intro: prod_eqI dest: sym) (metis prod.collapse)
  then show ?thesis using run_intents_accept assms(2) by (auto elim!: act_then_OkE)
qed

definition metered_interface :: runtime_interface where
  "metered_interface = sample_interface\<lparr>ri_modules := [fee_runtime_module sample_env
     \<lparr>initial_cost = 0, fee_table_of = zero_rated\<lparr>per_module_call_cost := 10\<rparr>\<rparr>]\<rparr>"

definition sample_processor :: processor where
  "sample_processor = \<lparr>pr_interface = metered_interface, pr_invoke = (\<lambda>_ _ _ _ t. (t, Ok empty_indexed)),
     pr_load_template = (\<lambda>_. False), pr_template_binary_max_size = 100, pr_account_args = (\<lambda>_ _ _. []), pr_no_bucket = []\<rparr>"

definition checkpointed_runtime :: runtime where
  "checkpointed_runtime = fee_vault_runtime\<lparr>tk_checkpoint := Some fee_vault_state\<rparr>"

lemma bad_template_fails:
  "process_instructions sample_processor ri [PublishTemplate [0]] t = (t, Err LoadTemplateError)"
  by (simp add: process_instructions_def process_instruction_def publish_template_def sample_processor_def
      act_then_def act_lift_def)

lemma metered_interface_modules: "metered_modules (ri_modules metered_interface)"
  by (simp add: metered_interface_def fee_modules.metered_modules_axioms)

lemma metered_finalize:
  "\<exists>t3. act_then (runtime_call metered_interface ''finalize'') (\<lambda>_. before_finalize metered_interface)
     (checkpointed_runtime\<lparr>tk_checkpoint := None, tk_working := fee_vault_state\<lparr>fee_state_of := fee_state_of (tk_working checkpointed_runtime)\<rparr>\<rparr>)
     = (t3, Ok ()) \<and> are_fees_paid_in_full (tk_working t3) = Ok False"
  by (simp add: runtime_call_def before_finalize_def metered_interface_def fee_runtime_module_def fee_on_runtime_call_def
      fee_on_before_finalize_def add_fee_charge_def act_then_def act_return_def act_lift_def read_with_def update_with_def
      write_with_def total_storage_def zero_rated_def sample_env_def checkpointed_runtime_def fee_vault_runtime_def
      fee_vault_state_def add_charge_def u64_mul_def u64_max_def working_state_new_def breakdown_add_def u64_add_def
      are_fees_paid_in_full_def total_charges_def get_total_def total_payments_def)

theorem failed_underpaid_intent_has_no_result_witness:
  "\<exists>t3. run_main_intent sample_processor metered_interface [PublishTemplate [0]] [] checkpointed_runtime
     = (t3, Err (TxRuntimeError NoFeeCheckpoint))"
proof -
  obtain t3 where t3: "act_then (runtime_call metered_interface ''finalize'') (\<lambda>_. before_finalize metered_interface)
     (checkpointed_runtime\<lparr>tk_checkpoint := None, tk_working := fee_vault_state\<lparr>fee_state_of := fee_state_of (tk_working checkpointed_runtime)\<rparr>\<rparr>)
     = (t3, Ok ())" "are_fees_paid_in_full (tk_working t3) = Ok False"
    using metered_finalize by blast
  have "tk_checkpoint checkpointed_runtime = Some fee_vault_state" by (simp add: checkpointed_runtime_def)
  then show ?thesis
    using failed_underpaid_intent_has_no_result [OF bad_template_fails _ metered_interface_modules t3] by blast
qed

definition empty_transaction :: transaction where
  "empty_transaction = \<lparr>tx_id = 5, tx_inputs = [], tx_weight = 1, tx_main_signer = Some 7, tx_ownership_proofs = [],
     tx_fee_instructions = [], tx_main_instructions = []\<rparr>"

definition unmetered_processor :: processor where
  "unmetered_processor = sample_processor\<lparr>pr_interface := sample_interface\<rparr>"

lemma runtime_at_fields [simp]:
  "ri_modules (runtime_at n p) = ri_modules (pr_interface p)" "ri_env (runtime_at n p) = ri_env (pr_interface p)"
  by (cases n; simp)+

text \<open>A runtime in which nothing has happened.\<close>

definition blank_runtime :: "call_scope \<Rightarrow> runtime" where
  "blank_runtime scope = \<lparr>tk_working = working_state_new fmempty None scope 5, tk_checkpoint = None,
     tk_weight = 1, rt_entity_ids = entity_id_provider_new 5 1000\<rparr>"

lemma blank_finalized:
  assumes "orphans scope = []"
  shows "process_instructions p ri [] (blank_runtime scope) = (blank_runtime scope, Ok [])"
    "set_fee_checkpoint (blank_runtime scope) =
       (blank_runtime scope\<lparr>tk_checkpoint := Some (tk_working (blank_runtime scope))\<rparr>, Ok ())"
    "process_instructions p ri [] (blank_runtime scope\<lparr>tk_checkpoint := c\<rparr>) = (blank_runtime scope\<lparr>tk_checkpoint := c\<rparr>, Ok [])"
  using assms by (simp_all add: process_instructions_def act_map_err_def act_then_def read_with_def validate_finalized_def
      new_vaults_def call_frame_depth_def act_return_def blank_runtime_def working_state_new_def store_new_def
      set_fee_checkpoint_def total_charges_def total_payments_def fee_state_new_def get_total_def fee_checkpoint_def)

lemma blank_finalize:
  assumes "ri_modules ri = []"
  shows "\<exists>t' fin d. rt_finalize ri (blank_runtime scope\<lparr>tk_checkpoint := c\<rparr>) = (t', Ok fin) \<and> fin_result fin = Accept d \<and>
    (is_paid_in_full (fin_fee_receipt fin) :: (bool, transaction_error) result) = Ok True"
  by (simp add: rt_finalize_def runtime_call_def before_finalize_def assms act_then_def act_return_def read_with_def
      are_fees_paid_in_full_def blank_runtime_def working_state_new_def store_new_def total_charges_def total_payments_def
      fee_state_new_def get_total_def write_with_def take_changes_def take_mutated_substates_def take_downed_utxos_def
      tracker_finalize_def take_state_def finalize_working_state_def finalize_fees_def settle_fees_def rc_ctor_defs
      to_u64_checked_def amount_of_def take_fee_charges_def diff_result_def generate_substate_diff_def
      set_once_fee_withdrawals_def call_frame_depth_def Let_def finalize_result_new_def act_lift_def is_paid_in_full_def
      diff_new_def diff_up_def unpaid_debt_def total_fees_charged_def u64_sub_def)

theorem accepted_transaction_paid_witness:
  "\<exists>fin d. execute unmetered_processor fmempty None empty_transaction = Ok fin \<and> fin_result fin = Accept d \<and>
     (is_paid_in_full (fin_fee_receipt fin) :: bool rt_result) = Ok True"
proof -
  define p where "p = unmetered_processor\<lparr>pr_interface := (pr_interface unmetered_processor)
    \<lparr>ri_seal_signer := 7, ri_max_call_depth := MAX_CALL_DEPTH\<rparr>\<rparr>"
  define ri where "ri = runtime_at (Suc MAX_CALL_DEPTH) p"
  define t where "t = blank_runtime (initial_scope empty_transaction)"
  have m: "ri_modules ri = []"
    unfolding ri_def runtime_at_fields by (simp add: p_def unmetered_processor_def sample_interface_def)
  have o: "orphans (initial_scope empty_transaction) = []"
    by (simp add: initial_scope_def empty_transaction_def call_scope_new_def set_auth_scope_def add_substate_to_owned_def)
  obtain t' fin d where f: "rt_finalize ri (t\<lparr>tk_checkpoint := Some (tk_working t)\<rparr>) = (t', Ok fin)" "fin_result fin = Accept d"
    "(is_paid_in_full (fin_fee_receipt fin) :: (bool, transaction_error) result) = Ok True"
    using blank_finalize [OF m] unfolding t_def by blast
  have r: "execute unmetered_processor fmempty None empty_transaction =
      snd (act_then (rt (runtime_initialize ri)) (\<lambda>_. run_intents p ri empty_transaction) t)"
    by (simp add: execute_def empty_transaction_def Let_def p_def ri_def t_def blank_runtime_def)
  have e: "execute unmetered_processor fmempty None empty_transaction = Ok (fin\<lparr>fin_execution_results := []\<rparr>)"
    unfolding r using f blank_finalized [OF o, folded t_def]
    by (simp add: runtime_initialize_def m run_intents_def run_main_intent_def act_then_def act_map_err_def act_lift_def
        act_return_def empty_transaction_def)
  have "fin_result (fin\<lparr>fin_execution_results := []\<rparr>) = Accept d" using f(2) by simp
  from accepted_transaction_paid [OF e this] this e show ?thesis by blast
qed

end
