(* ===== verification/ValueFlow.thy ===== *)
theory ValueFlow
  imports FeeIntents
begin

text \<open>
  How value moves through the engine calls: withdrawing from, depositing to, freezing and recalling from
  a vault, followed through the locks, the store, the buckets and the events of the working state. Each
  step of a handler has a lemma that says what it does to the store and the buckets.
\<close>

lemma as_vault_Some_iff: "as_vault v = Some x \<longleftrightarrow> v = VaultValue x"
  by (cases v) (auto simp: as_vault_def)

lemma read_locked_vault:
  assumes "store_inv (store ws)" "lock_substate ws (VaultId v) flag = Ok (ws1, l)" "get_vault ws1 l = Ok x"
  shows "current (store ws) (VaultId v) = Some (VaultValue x)"
  using store_lock_reads [of "store ws" "VaultId v" flag] assms
  by (auto simp: lock_substate_Ok_iff get_vault_def as_vault_Some_iff result_simps)

lemma begin_vault_action_frozen:
  assumes "store_inv (store ws)" "current (store ws) (VaultId v) = Some (VaultValue x)"
    "flags_contains (v_freeze_flags x) flag"
  shows "begin_vault_action v flag action ws \<noteq> Ok r"
proof
  assume "begin_vault_action v flag action ws = Ok r"
  then obtain ws1 l y where "lock_substate ws (VaultId v) Write = Ok (ws1, l)" "get_vault ws1 l = Ok y"
    "\<not> flags_contains (v_freeze_flags y) flag"
    by (auto simp: begin_vault_action_def result_simps split: if_splits)
  then show False using read_locked_vault [of ws v Write ws1 l y] assms by simp
qed

lemma pay_fee_from_vault_frozen:
  assumes "store_inv (store ws)" "current (store ws) (VaultId v) = Some (VaultValue x)"
    "flags_contains (v_freeze_flags x) FreezeWithdrawals"
  shows "pay_fee_from_vault ri v a st ws \<noteq> Ok r"
proof
  assume "pay_fee_from_vault ri v a st ws = Ok r"
  then obtain ws1 l y where "lock_substate ws (VaultId v) Write = Ok (ws1, l)" "get_vault ws1 l = Ok y"
    "\<not> flags_contains (v_freeze_flags y) FreezeWithdrawals"
    by (auto simp: pay_fee_from_vault_def Let_def result_simps split: if_splits)
  then show False using read_locked_vault [of ws v Write ws1 l y] assms by simp
qed

section \<open>Steps of a handler\<close>

text \<open>What a step does to the store and the buckets: a state with a sound store, the values in it and the
  buckets of the state.\<close>

definition state_view :: "working_state \<Rightarrow> (substate_id \<Rightarrow> substate_value option) \<times> (bucket_id, bucket) fmap" where
  "state_view ws = (current (store ws), buckets ws)"

lemma lock_substate_step:
  assumes "lock_substate ws k flag = Ok (ws', l)" "store_inv (store ws)"
  shows "store_inv (store ws')" "state_view ws' = state_view ws" "ls_address l = k"
    "\<exists>v. current (store ws) k = Some v \<and> get_locked_substate (store ws') (ls_lock_id l) = Ok (k, v)"
  using assms store_try_lock_inv [of "store ws" k flag] store_lock_reads [of "store ws" k flag]
  by (auto simp: lock_substate_Ok_iff state_view_def)

lemma unlock_step:
  assumes "unlock_substate ws l = Ok ws'" "store_inv (store ws)"
  shows "store_inv (store ws')" "state_view ws' = state_view ws"
proof -
  obtain st where st: "store_try_unlock (store ws) (ls_lock_id l) = Ok st" "ws' = ws\<lparr>store := st\<rparr>"
    using assms(1) by (auto simp: unlock_substate_Ok_iff)
  show "store_inv (store ws')" using store_step_inv [OF step_store_unlock [OF st(1)]] assms(2) st(2) by simp
  show "state_view ws' = state_view ws"
    using st by (auto simp: store_try_unlock_def result_simps state_view_def)
qed

lemma as_resource_Some_iff: "as_resource v = Some r \<longleftrightarrow> v = ResourceValue r"
  by (cases v) (auto simp: as_resource_def)

lemma read_step:
  assumes "lock_substate ws k flag = Ok (ws1, l)" "store_inv (store ws)"
  shows "get_vault ws1 l = Ok x \<longleftrightarrow> current (store ws) k = Some (VaultValue x)"
    "get_resource ws1 l = Ok r \<longleftrightarrow> current (store ws) k = Some (ResourceValue r)"
proof -
  obtain v where "current (store ws) k = Some v" "get_locked_substate (store ws1) (ls_lock_id l) = Ok (k, v)"
    using lock_substate_step(4) [OF assms] by blast
  then show "get_vault ws1 l = Ok x \<longleftrightarrow> current (store ws) k = Some (VaultValue x)"
    "get_resource ws1 l = Ok r \<longleftrightarrow> current (store ws) k = Some (ResourceValue r)"
    by (simp_all add: get_vault_def get_resource_def as_vault_Some_iff as_resource_Some_iff result_simps)
qed

lemma vault_write_step:
  assumes "get_vault_mut ws l = Ok (ws', k, x)" "store_inv (store ws)"
  shows "store_inv (store (put_locked ws' k (VaultValue y)))" "current (store ws) k = Some (VaultValue x)"
    "state_view (put_locked ws' k (VaultValue y)) = ((current (store ws))(k \<mapsto> VaultValue y), buckets ws)"
    "fmlookup (lock_ids (lock_table (store ws))) (ls_lock_id l) = Some k"
proof -
  obtain st where st: "get_locked_substate_mut (store ws) (ls_lock_id l) = Ok (st, k, VaultValue x)" "ws' = ws\<lparr>store := st\<rparr>"
    using assms(1) by (auto simp: get_vault_mut_Ok_iff)
  obtain g: "get_for_mut (store ws) k = Ok (st, VaultValue x)"
    and i: "fmlookup (lock_ids (lock_table (store ws))) (ls_lock_id l) = Some k"
    by (rule get_locked_substate_mut_Ok [OF st(1)])
  note m = get_for_mut_Ok [OF g assms(2)]
  show "store_inv (store (put_locked ws' k (VaultValue y)))" "current (store ws) k = Some (VaultValue x)"
    "state_view (put_locked ws' k (VaultValue y)) = ((current (store ws))(k \<mapsto> VaultValue y), buckets ws)"
    "fmlookup (lock_ids (lock_table (store ws))) (ls_lock_id l) = Some k"
    using m i st(2) by (simp_all add: put_locked_def store_inv_put_new state_view_def)
qed

lemma event_step:
  assumes "emit_std_event tx obj act k payload ws = Ok ws'"
  shows "store ws' = store ws" "state_view ws' = state_view ws"
  using assms by (auto simp: emit_std_event_def push_event_def result_simps state_view_def split: if_splits)

lemma fresh_bucket_step:
  assumes "fresh_bucket_id ws = Ok (ws', b)"
  shows "store ws' = store ws" "state_view ws' = state_view ws"
  using assms by (auto simp: fresh_bucket_id_def with_id_provider_def Let_def state_view_def split: if_splits prod.splits)

lemma set_scope_view [simp]: "state_view (set_current_call_scope ws s) = state_view ws"
  by (simp add: state_view_def)

lemma new_bucket_step:
  assumes "new_bucket ws b c = Ok ws'"
  shows "store ws' = store ws" "state_view ws' = (current (store ws), fmupd b (bucket_new b c) (buckets ws))"
    "fmlookup (buckets ws) b = None"
  using assms by (auto simp: new_bucket_def Let_def result_simps state_view_def split: if_splits)

lemma take_bucket_step:
  assumes "take_bucket ws b = Ok (ws', x)"
  shows "store ws' = store ws" "state_view ws' = (current (store ws), fmdrop b (buckets ws))"
    "fmlookup (buckets ws) b = Some x"
  using assms by (auto simp: take_bucket_def Let_def result_simps state_view_def split: if_splits)

section \<open>Starting an action on a vault\<close>

lemma lock_ids_kept:
  assumes "lock_substate ws k flag = Ok (ws', l)" "store_inv (store ws)"
    "fmlookup (lock_ids (lock_table (store ws))) i = Some k'"
  shows "fmlookup (lock_ids (lock_table (store ws'))) i = Some k'"
proof -
  obtain st j where st: "store_try_lock (store ws) k flag = Ok (st, j)" "ws' = ws\<lparr>store := st\<rparr>"
    using assms(1) by (auto simp: lock_substate_Ok_iff)
  have li: "lock_inv (lock_table (store ws))" using assms(2) by (simp add: store_inv_def)
  obtain t where t: "locked_try_lock (lock_table (store ws)) k flag = Ok (t, j)"
    "load_and_cache ((store ws)\<lparr>lock_table := t\<rparr>) k = Ok st" by (rule store_try_lock_Ok [OF st(1)])
  have "store_inv ((store ws)\<lparr>lock_table := t\<rparr>)" using lock_inv_lock [OF li t(1)] assms(2) by (rule store_inv_lock_table)
  then have "lock_table st = t" using load_and_cache_inv(4) [OF t(2)] by simp
  moreover have "i < id_counter (lock_table (store ws))" using li fmdomI [OF assms(3)] by (auto simp: lock_inv_def)
  then have "fmlookup (lock_ids t) i = Some k'" using t(1) assms(3) by (auto simp: locked_try_lock_Ok_iff [OF li])
  ultimately show ?thesis using st(2) by simp
qed

lemma locked_id:
  "lock_substate ws k flag = Ok (ws', l) \<Longrightarrow> store_inv (store ws) \<Longrightarrow>
     fmlookup (lock_ids (lock_table (store ws'))) (ls_lock_id l) = Some k"
  using lock_substate_step(4) [of ws k flag ws' l]
  by (auto simp: get_locked_substate_def locked_get_def result_simps split: option.splits if_splits)

lemma begin_vault_action_step:
  assumes "begin_vault_action v flag action ws = Ok (ws', vl, rl, hook, caller)" "store_inv (store ws)"
  obtains x r where "store_inv (store ws')" "state_view ws' = state_view ws"
    "current (store ws) (VaultId v) = Some (VaultValue x)" "\<not> flags_contains (v_freeze_flags x) flag"
    "current (store ws) (ResourceId (address (v_container x))) = Some (ResourceValue r)" "hook = r_auth_hook r"
    "fmlookup (lock_ids (lock_table (store ws'))) (ls_lock_id vl) = Some (VaultId v)"
proof -
  obtain ws1 x where l: "lock_substate ws (VaultId v) Write = Ok (ws1, vl)" "get_vault ws1 vl = Ok x"
    "\<not> flags_contains (v_freeze_flags x) flag"
    and a: "authorize_resource (address (v_container x)) Read action ws1 = Ok (ws', rl, hook, caller)"
    using assms(1) by (auto simp: begin_vault_action_def result_simps split: if_splits)
  from a obtain r where rl: "lock_substate ws1 (ResourceId (address (v_container x))) Read = Ok (ws', rl)"
    "get_resource ws' rl = Ok r" "hook = r_auth_hook r"
    by (auto simp: authorize_resource_def result_simps)
  note s1 = lock_substate_step [OF l(1) assms(2)]
  note s2 = lock_substate_step [OF rl(1) s1(1)]
  show thesis
  proof (rule that [of x r])
    show "current (store ws) (ResourceId (address (v_container x))) = Some (ResourceValue r)"
      using read_step(2) [OF rl(1) s1(1), of r] rl(2) s1(2) by (simp add: state_view_def)
    show "fmlookup (lock_ids (lock_table (store ws'))) (ls_lock_id vl) = Some (VaultId v)"
      using lock_ids_kept [OF rl(1) s1(1)] locked_id [OF l(1) assms(2)] by simp
  qed (use s1 s2 read_step(1) [OF l(1) assms(2)] l(2,3) rl(3) in auto)
qed

section \<open>Withdrawing and depositing\<close>

lemma finish_withdraw_step:
  assumes "finish_withdraw ri tx v arg vl rl ws = Ok (ws', r)" "store_inv (store ws)"
    "fmlookup (lock_ids (lock_table (store ws))) (ls_lock_id vl) = Some (VaultId v)"
  obtains x vk x' c amt b where "current (store ws) (VaultId v) = Some (VaultValue x)"
    "take_from_vault (ri_env ri) vk x arg = Ok (x', c, amt)" "r = IrBucket b" "fmlookup (buckets ws) b = None"
    "state_view ws' = ((current (store ws))(VaultId v \<mapsto> VaultValue x'), fmupd b (bucket_new b c) (buckets ws))"
    "store_inv (store ws')"
proof -
  obtain vk ws1 k x x' c amt ws2 ws3 b ws4 ws5 payload where
    s: "get_vault_mut ws vl = Ok (ws1, k, x)" "take_from_vault (ri_env ri) vk x arg = Ok (x', c, amt)"
      "emit_std_event tx ''vault'' ''withdraw'' (VaultId v) payload (put_locked ws1 k (VaultValue x')) = Ok ws2"
      "fresh_bucket_id ws2 = Ok (ws3, b)" "new_bucket ws3 b c = Ok ws4" "unlock_substate ws4 vl = Ok ws5"
      "unlock_substate ws5 rl = Ok ws'" "r = IrBucket b"
    using assms(1) unfolding finish_withdraw_def by (auto simp: result_simps)
  note w = vault_write_step(1,3) [OF s(1) assms(2), of x'] vault_write_step(2,4) [OF s(1) assms(2)]
  note e = event_step [OF s(3)] and f = fresh_bucket_step [OF s(4)] and n = new_bucket_step [OF s(5)]
  have i4: "store_inv (store ws4)" using w(1) e(1) f(1) n(1) by simp
  note u = unlock_step [OF s(6) i4]
  note u' = unlock_step [OF s(7) u(1)]
  have k: "k = VaultId v" using w(4) assms(3) by simp
  show thesis
    by (rule that [OF _ s(2) s(8)])
      (use w e f n u u' k in \<open>auto simp: state_view_def\<close>)
qed

lemma withdraw_action_steps:
  assumes "vault_withdraw_action ri (VaultWithId v) args t = (t', Ok r)" "store_inv (store (tk_working t))"
    "current (store (tk_working t)) (VaultId v) = Some (VaultValue x)"
    "current (store (tk_working t)) (ResourceId (address (v_container x))) = Some (ResourceValue res)" "r_auth_hook res = None"
  obtains arg vk x' c amt b where "assert_one_arg (de_vault_withdraw (ri_codec ri)) args = Ok arg"
    "take_from_vault (ri_env ri) vk x arg = Ok (x', c, amt)" "r = IrBucket b" "fmlookup (buckets (tk_working t)) b = None"
    "state_view (tk_working t') = ((current (store (tk_working t)))(VaultId v \<mapsto> VaultValue x'),
       fmupd b (bucket_new b c) (buckets (tk_working t)))" "store_inv (store (tk_working t'))"
proof -
  obtain arg ws1 vl rl hook caller where arg: "assert_one_arg (de_vault_withdraw (ri_codec ri)) args = Ok arg"
    and b: "begin_vault_action v FreezeWithdrawals ActWithdraw (tk_working t) = Ok (ws1, vl, rl, hook, caller)"
    and h: "act_then (run_hook ri hook caller ActWithdraw) (\<lambda>_. act_then tx_hash (\<lambda>tx.
      write_with (finish_withdraw ri tx v arg vl rl))) (t\<lparr>tk_working := ws1\<rparr>) = (t', Ok r)"
    using assms(1) unfolding vault_withdraw_action_def
    by (auto simp: vault_ref_id_def act_lift_def elim!: act_then_OkE [of "act_lift _"] act_then_OkE [of "write_with _"] write_with_OkE)
  obtain y res' where y: "store_inv (store ws1)" "state_view ws1 = state_view (tk_working t)"
    "current (store (tk_working t)) (VaultId v) = Some (VaultValue y)"
    "current (store (tk_working t)) (ResourceId (address (v_container y))) = Some (ResourceValue res')" "hook = r_auth_hook res'"
    "fmlookup (lock_ids (lock_table (store ws1))) (ls_lock_id vl) = Some (VaultId v)"
    by (rule begin_vault_action_step [OF b assms(2)])
  have "hook = None" using y assms(3-5) by simp
  then obtain tx ws' where f: "finish_withdraw ri tx v arg vl rl ws1 = Ok (ws', r)" "t' = t\<lparr>tk_working := ws'\<rparr>"
    using h by (auto simp: run_hook_def tx_hash_def elim!: act_then_OkE write_with_OkE)
  show thesis
    by (rule finish_withdraw_step [OF f(1) y(1,6)], rule that [OF arg])
      (use y(2) assms(3) f(2) in \<open>auto simp: state_view_def\<close>)
qed

lemma withdraw_address: "withdraw om c n = Ok (c', r) \<Longrightarrow> address r = address c"
  by (cases c) (auto simp: withdraw_def rc_ctor_defs result_simps split: if_splits prod.splits)

definition is_confidential_withdraw :: "vault_withdraw_arg \<Rightarrow> bool" where
  "is_confidential_withdraw arg \<longleftrightarrow> (case arg of WithdrawConfidential _ \<Rightarrow> True | _ \<Rightarrow> False)"

lemma take_from_vault_conserves:
  assumes "take_from_vault env vk x arg = Ok (x', c, amt)" "wf_container (v_container x)" "\<not> is_confidential_withdraw arg"
  shows "wf_container (v_container x') \<and> wf_container c \<and> address c = address (v_container x) \<and> v_freeze_flags x' = v_freeze_flags x \<and>
    (\<forall>a. holds_free (v_container x') a + holds_free c a = holds_free (v_container x) a) \<and>
    (\<forall>a. holds_locked (v_container x') a = holds_locked (v_container x) a)"
proof (cases arg)
  case (WithdrawNonFungible ids)
  then obtain c' where w: "withdraw_by_ids (v_container x) ids = Ok (c', c)" "x' = x\<lparr>v_container := c'\<rparr>"
    using assms(1) by (auto simp: take_from_vault_def vault_withdraw_non_fungibles_def result_simps)
  then obtain addr free l where c: "v_container x = NonFungible addr free l" "ids |\<subseteq>| free"
    "c' = NonFungible addr (free |-| ids) l" "c = NonFungible addr ids {||}"
    by (auto simp: withdraw_by_ids_ok_iff)
  have "fcard (free |-| ids) \<le> fcard free" "fcard ids \<le> fcard free" using c(2) by (auto intro: fcard_mono)
  then show ?thesis using assms(2) w(2) c(2)
    by (auto simp: c wf_container_def holds_free_def holds_locked_def tokens_minus fcard_fempty)
next
  case (WithdrawFungible n)
  then obtain c' where w: "withdraw (env_overflow env) (v_container x) n = Ok (c', c)" "x' = x\<lparr>v_container := c'\<rparr>"
    using assms(1) by (auto simp: take_from_vault_def vault_withdraw_def result_simps)
  then show ?thesis using withdraw_OkD [OF assms(2) w(1)] withdraw_address [OF w(1)] by simp
next
  case (WithdrawStealth n)
  then obtain c' where w: "withdraw (env_overflow env) (v_container x) n = Ok (c', c)" "x' = x\<lparr>v_container := c'\<rparr>"
    using assms(1) by (auto simp: take_from_vault_def vault_withdraw_def result_simps)
  then show ?thesis using withdraw_OkD [OF assms(2) w(1)] withdraw_address [OF w(1)] by simp
qed (use assms(3) in \<open>simp add: is_confidential_withdraw_def\<close>)

text \<open>C1: Withdrawing through the engine moves value from a vault to a new bucket and changes nothing else. For a
  resource without a hook and any argument but a confidential proof, a successful withdrawal leaves every other
  substate and bucket as it was; the vault and the new bucket together hold, asset by asset, what the vault held,
  the part that is locked for proofs stays locked, and the bucket is of the vault's resource.\<close>

theorem withdraw_action_conserves:
  assumes "vault_withdraw_action ri (VaultWithId v) args t = (t', Ok r)" and "store_inv (store (tk_working t))"
    and "current (store (tk_working t)) (VaultId v) = Some (VaultValue x)" and "wf_container (v_container x)"
    and "current (store (tk_working t)) (ResourceId (address (v_container x))) = Some (ResourceValue res)"
    and "r_auth_hook res = None"
    and "assert_one_arg (de_vault_withdraw (ri_codec ri)) args = Ok arg" and "\<not> is_confidential_withdraw arg"
  shows "\<exists>x' c b. r = IrBucket b \<and> fmlookup (buckets (tk_working t)) b = None \<and>
    buckets (tk_working t') = fmupd b (bucket_new b c) (buckets (tk_working t)) \<and>
    current (store (tk_working t')) = (current (store (tk_working t)))(VaultId v \<mapsto> VaultValue x') \<and>
    address c = address (v_container x) \<and> wf_container (v_container x') \<and> wf_container c \<and>
    (\<forall>a. holds_free (v_container x') a + holds_free c a = holds_free (v_container x) a) \<and>
    (\<forall>a. holds_locked (v_container x') a = holds_locked (v_container x) a)"
proof -
  obtain arg' vk x' c amt b where s: "assert_one_arg (de_vault_withdraw (ri_codec ri)) args = Ok arg'"
    "take_from_vault (ri_env ri) vk x arg' = Ok (x', c, amt)" "r = IrBucket b" "fmlookup (buckets (tk_working t)) b = None"
    "state_view (tk_working t') = ((current (store (tk_working t)))(VaultId v \<mapsto> VaultValue x'),
       fmupd b (bucket_new b c) (buckets (tk_working t)))"
    by (rule withdraw_action_steps [OF assms(1-3,5,6)])
  have "arg' = arg" using s(1) assms(7) by simp
  then show ?thesis
    using take_from_vault_conserves [OF s(2) assms(4)] assms(8) s(3-5)
    by (intro exI [of _ x'] exI [of _ c] exI [of _ b]) (simp add: state_view_def)
qed

lemma finish_deposit_step:
  assumes "finish_deposit ri tx v bid vl rl ws = Ok (ws', r)" "store_inv (store ws)"
    "fmlookup (lock_ids (lock_table (store ws))) (ls_lock_id vl) = Some (VaultId v)"
  obtains x x' b where "current (store ws) (VaultId v) = Some (VaultValue x)" "fmlookup (buckets ws) bid = Some b"
    "vault_deposit (env_overflow (ri_env ri)) x b = Ok x'" "is_zero (locked_amount_of (b_container b))" "r = IrUnit"
    "state_view ws' = ((current (store ws))(VaultId v \<mapsto> VaultValue x'), fmdrop bid (buckets ws))"
proof -
  obtain ws1 b ws2 ws3 k x x' ws4 payload where
    s: "take_bucket ws bid = Ok (ws1, b)" "is_zero (locked_amount_of (b_container b))"
      "emit_std_event tx ''vault'' ''deposit'' (VaultId v) payload ws1 = Ok ws2" "get_vault_mut ws2 vl = Ok (ws3, k, x)"
      "vault_deposit (env_overflow (ri_env ri)) x b = Ok x'" "unlock_substate (put_locked ws3 k (VaultValue x')) rl = Ok ws4"
      "unlock_substate ws4 vl = Ok ws'" "r = IrUnit"
    using assms(1) unfolding finish_deposit_def by (auto simp: result_simps split: if_splits)
  note t = take_bucket_step [OF s(1)] and e = event_step [OF s(3)]
  have i2: "store_inv (store ws2)" using assms(2) t(1) e(1) by simp
  note w = vault_write_step(1,3) [OF s(4) i2, of x'] vault_write_step(2,4) [OF s(4) i2]
  note u = unlock_step [OF s(6) w(1)]
  note u' = unlock_step [OF s(7) u(1)]
  have k: "k = VaultId v" using w(4) assms(3) e(1) t(1) by simp
  show thesis
    by (rule that [OF _ _ s(5,2,8)]) (use w e t u u' k in \<open>auto simp: state_view_def\<close>)
qed

text \<open>C12: Depositing through the engine moves a bucket into a vault and changes nothing else. For a resource without
  a hook, a successful deposit of a bucket that can be merged takes the bucket away, leaves every other substate and
  bucket as it was, and the vault then holds, asset by asset, what both held.\<close>

theorem deposit_action_conserves:
  assumes "vault_deposit_action ri (VaultWithId v) args t = (t', Ok r)" and "store_inv (store (tk_working t))"
    and "current (store (tk_working t)) (VaultId v) = Some (VaultValue x)" and "wf_container (v_container x)"
    and "current (store (tk_working t)) (ResourceId (address (v_container x))) = Some (ResourceValue res)"
    and "r_auth_hook res = None" and "assert_one_arg (de_bucket_id (ri_codec ri)) args = Ok bid"
    and "fmlookup (buckets (tk_working t)) bid = Some b" and "wf_container (b_container b)"
    and "mergeable (v_container x) (b_container b)"
  shows "\<exists>x'. r = IrUnit \<and> buckets (tk_working t') = fmdrop bid (buckets (tk_working t)) \<and>
    current (store (tk_working t')) = (current (store (tk_working t)))(VaultId v \<mapsto> VaultValue x') \<and>
    wf_container (v_container x') \<and> is_zero (locked_amount_of (b_container b)) \<and>
    (\<forall>a. holds_free (v_container x') a = holds_free (v_container x) a + holds_free (b_container b) a) \<and>
    (\<forall>a. holds_locked (v_container x') a = holds_locked (v_container x) a)"
proof -
  obtain ws1 vl rl hook caller where
    bg: "begin_vault_action v FreezeDeposits ActDeposit (tk_working t) = Ok (ws1, vl, rl, hook, caller)"
    and h: "act_then (run_hook ri hook caller ActDeposit) (\<lambda>_. act_then tx_hash (\<lambda>tx.
      write_with (finish_deposit ri tx v bid vl rl))) (t\<lparr>tk_working := ws1\<rparr>) = (t', Ok r)"
    using assms(1,7) unfolding vault_deposit_action_def
    by (auto simp: vault_ref_id_def act_lift_def elim!: act_then_OkE [of "act_lift _"] act_then_OkE [of "write_with _"] write_with_OkE)
  obtain y res' where y: "store_inv (store ws1)" "state_view ws1 = state_view (tk_working t)"
    "current (store (tk_working t)) (VaultId v) = Some (VaultValue y)"
    "current (store (tk_working t)) (ResourceId (address (v_container y))) = Some (ResourceValue res')" "hook = r_auth_hook res'"
    "fmlookup (lock_ids (lock_table (store ws1))) (ls_lock_id vl) = Some (VaultId v)"
    by (rule begin_vault_action_step [OF bg assms(2)])
  have "hook = None" using y assms(3,5,6) by simp
  then obtain tx ws' where f: "finish_deposit ri tx v bid vl rl ws1 = Ok (ws', r)" "t' = t\<lparr>tk_working := ws'\<rparr>"
    using h by (auto simp: run_hook_def tx_hash_def elim!: act_then_OkE write_with_OkE)
  obtain x' where s: "vault_deposit (env_overflow (ri_env ri)) x b = Ok x'" "is_zero (locked_amount_of (b_container b))"
    "r = IrUnit" "state_view ws' = ((current (store ws1))(VaultId v \<mapsto> VaultValue x'), fmdrop bid (buckets ws1))"
    by (rule finish_deposit_step [OF f(1) y(1,6)]) (use y(2) assms(3,8) in \<open>auto simp: state_view_def\<close>)
  obtain c where "deposit (env_overflow (ri_env ri)) (v_container x) (b_container b) = Ok c" "wf_container c"
    "\<And>a. holds_free c a = holds_free (v_container x) a + holds_free (b_container b) a"
    "\<And>a. holds_locked c a = holds_locked (v_container x) a"
    by (rule deposit_ok [OF assms(4,9,10), of "env_overflow (ri_env ri)"]) (rule that)
  then show ?thesis using s y(2) f(2) by (intro exI [of _ x']) (auto simp: vault_deposit_def state_view_def)
qed

section \<open>Frozen vaults\<close>

lemma vault_read_step:
  assumes "vault_read vref args f t = (t', Ok r)" "store_inv (store (tk_working t))"
  shows "state_view (tk_working t') = state_view (tk_working t)"
proof -
  obtain vid ws1 l ws2 where s: "lock_substate (tk_working t) (VaultId vid) Read = Ok (ws1, l)"
    "unlock_substate ws1 l = Ok ws2" "tk_working t' = ws2"
    using assms(1) by (auto simp: vault_read_def act_lift_def result_simps elim!: act_then_OkE write_with_OkE)
  note l = lock_substate_step [OF s(1) assms(2)]
  show ?thesis using unlock_step(2) [OF s(2) l(1)] l(2) s(3) by simp
qed

text \<open>C11: Freezing a vault for withdrawals stops every action of the vault that takes value out of it. Whatever the
  arguments, the access rules and the hook of the resource, the only actions on the vault that can succeed
  are a deposit and the six queries, and a query changes no substate and no bucket: a withdrawal, a fee payment
  and a proof that locks funds all fail. Recalling goes through the resource and not through the vault, and is not
  stopped by the flag.\<close>

theorem frozen_vault_keeps_value:
  assumes "metered_modules (ri_modules ri)" and "store_inv (store (tk_working t))"
    and "current (store (tk_working t)) (VaultId v) = Some (VaultValue x)"
    and "flags_contains (v_freeze_flags x) FreezeWithdrawals"
    and "vault_invoke ri (VaultWithId v) action args t = (t', Ok r)"
  shows "action = VaultDeposit \<or>
    action \<in> {VaultGetBalance, VaultGetLockedBalance, VaultGetResourceAddress, VaultGetNonFungibleIds,
      VaultGetCommitmentCount, VaultGetNonFungibles} \<and>
    current (store (tk_working t')) = current (store (tk_working t)) \<and> buckets (tk_working t') = buckets (tk_working t)"
proof -
  obtain t1 where c: "runtime_call ri ''vault_invoke'' t = (t1, Ok ())"
    using assms(5) by (auto simp: vault_invoke_def elim!: act_then_OkE)
  have s: "store (tk_working t1) = store (tk_working t)" "buckets (tk_working t1) = buckets (tk_working t)"
    using runtime_call_keeps(1,4) [OF assms(1) c] .
  have i: "store_inv (store (tk_working t1))" using s assms(2) by simp
  have no: "begin_vault_action v FreezeWithdrawals ActWithdraw (tk_working t1) = Ok y \<Longrightarrow> False"
    "pay_fee_from_vault ri v amt st (tk_working t1) = Ok z \<Longrightarrow> False" for y z amt st
    using begin_vault_action_frozen pay_fee_from_vault_frozen assms(2-4) unfolding s(1) [symmetric] by blast+
  have q: "vault_read (VaultWithId v) args f t1 = (t', Ok r) \<Longrightarrow>
    current (store (tk_working t')) = current (store (tk_working t)) \<and> buckets (tk_working t') = buckets (tk_working t)" for f
    using vault_read_step [OF _ i] s by (auto simp: state_view_def)
  show ?thesis
    using assms(5) c
    by (cases action)
      (auto dest!: no q simp: vault_invoke_def vault_create_def vault_ref_resource_def requires_write_access_def
        read_with_def act_return_def vault_withdraw_action_def vault_pay_fee_def vault_create_proof_by_resource_def
        vault_create_proof_by_amount_def vault_create_proof_by_non_fungibles_def vault_proof_def vault_ref_id_def
        act_lift_def elim!: act_then_OkE write_with_OkE)
qed

section \<open>Recalling\<close>

lemma authorize_and_unlock_step:
  assumes "authorize_and_unlock ra action ws = Ok (ws', hook, caller)" "store_inv (store ws)"
  obtains r where "current (store ws) (ResourceId ra) = Some (ResourceValue r)" "hook = r_auth_hook r"
    "store_inv (store ws')" "state_view ws' = state_view ws"
proof -
  obtain ws1 l r where s: "lock_substate ws (ResourceId ra) Read = Ok (ws1, l)" "get_resource ws1 l = Ok r"
    "hook = r_auth_hook r" "unlock_substate ws1 l = Ok ws'"
    using assms(1) by (auto simp: authorize_and_unlock_def authorize_resource_def result_simps)
  note l = lock_substate_step [OF s(1) assms(2)]
  note u = unlock_step [OF s(4) l(1)]
  show thesis by (rule that [of r]) (use s u l read_step(2) [OF s(1) assms(2), of r] in auto)
qed

lemma recall_from_vault_step:
  assumes "recall_from_vault ri tx ra v DiscEverything ws = Ok (ws', r)" "store_inv (store ws)"
  obtains x x' c b where "current (store ws) (VaultId v) = Some (VaultValue x)"
    "vault_recall_all (env_overflow (ri_env ri)) x = Ok (x', c)" "r = IrBucket b"
    "state_view ws' = ((current (store ws))(VaultId v \<mapsto> VaultValue x'), fmupd b (bucket_new b c) (buckets ws))"
proof -
  obtain ws1 l ws2 k x x' c ws3 ws4 b ws5 payload where
    s: "lock_substate ws (VaultId v) Write = Ok (ws1, l)" "get_vault_mut ws1 l = Ok (ws2, k, x)"
      "vault_recall_all (env_overflow (ri_env ri)) x = Ok (x', c)"
      "emit_std_event tx ''resource'' ''recall'' (ResourceId ra) payload (put_locked ws2 k (VaultValue x')) = Ok ws3"
      "fresh_bucket_id ws3 = Ok (ws4, b)" "new_bucket ws4 b c = Ok ws5" "unlock_substate ws5 l = Ok ws'" "r = IrBucket b"
    using assms(1) unfolding recall_from_vault_def recall_resource_from_vault_def Let_def by (auto simp: result_simps)
  note l = lock_substate_step [OF s(1) assms(2)]
  note w = vault_write_step(1,3) [OF s(2) l(1), of x'] vault_write_step(2,4) [OF s(2) l(1)]
  note e = event_step [OF s(4)] and f = fresh_bucket_step [OF s(5)] and n = new_bucket_step [OF s(6)]
  have i5: "store_inv (store ws5)" using w(1) e(1) f(1) n(1) by simp
  note u = unlock_step [OF s(7) i5]
  have k: "k = VaultId v" using w(4) locked_id [OF s(1) assms(2)] by simp
  show thesis by (rule that [OF _ s(3,8)]) (use l w e f n u k in \<open>auto simp: state_view_def\<close>)
qed

lemma withdraw_all_positive:
  assumes "withdraw_all om c = Ok r"
  shows "resource_type_of c = TConfidential \<or> 0 < amount_of c"
  using assms withdraw_not_ok(1) [of "amount_of c" om c]
  by (cases c) (auto simp: withdraw_all_def resource_type_of_def not_le [symmetric])

lemma vault_recall_all_spec:
  assumes "vault_recall_all om x = Ok (x', c)" "wf_container (v_container x)"
  shows "address c = address (v_container x) \<and> (\<forall>a. holds_free (v_container x') a = 0) \<and>
    (\<forall>a. holds_free c a = holds_free (v_container x) a)"
proof -
  have p: "resource_type_of (v_container x) = TConfidential \<or> 0 < amount_of (v_container x)"
    using assms(1) by (auto simp: vault_recall_all_def result_simps dest: withdraw_all_positive)
  obtain d r where d: "withdraw_all om (v_container x) = Ok (d, r)" "\<And>a. holds_free d a = 0"
    "\<And>a. holds_free r a = holds_free (v_container x) a" by (rule withdraw_all_ok [OF assms(2) p, of om]) (rule that)
  have "address r = address (v_container x)"
    using d(1) withdraw_address by (cases "v_container x") (auto simp: withdraw_all_def rc_ctor_defs result_simps split: if_splits)
  then show ?thesis using assms(1) d by (auto simp: vault_recall_all_def)
qed

text \<open>C27: A recall takes whatever the named vault holds. Only the resource that is named in the call is authorized;
  where that resource has no authorization hook, a successful recall of everything changes the named vault and no
  other substate, empties it and puts all its free value into a new bucket of the vault's resource. This need not
  be the resource that was authorized, and the vault may be frozen.\<close>

theorem recall_empties_named_vault:
  assumes "resource_recall ri (ResourceRef ra) args t = (t', Ok r)" and "store_inv (store (tk_working t))"
    and "assert_one_arg (de_recall (ri_codec ri)) args = Ok (v, DiscEverything)"
    and "current (store (tk_working t)) (ResourceId ra) = Some (ResourceValue res)" and "r_auth_hook res = None"
    and "current (store (tk_working t)) (VaultId v) = Some (VaultValue x)" and "wf_container (v_container x)"
  shows "\<exists>x' c b. r = IrBucket b \<and> buckets (tk_working t') = fmupd b (bucket_new b c) (buckets (tk_working t)) \<and>
    current (store (tk_working t')) = (current (store (tk_working t)))(VaultId v \<mapsto> VaultValue x') \<and>
    address c = address (v_container x) \<and> (\<forall>a. holds_free (v_container x') a = 0) \<and>
    (\<forall>a. holds_free c a = holds_free (v_container x) a)"
proof -
  obtain ws1 hook caller where au: "authorize_and_unlock ra ActRecall (tk_working t) = Ok (ws1, hook, caller)"
    and h: "act_then (run_hook ri hook caller ActRecall) (\<lambda>_. act_then tx_hash (\<lambda>tx.
      write_with (recall_from_vault ri tx ra v DiscEverything))) (t\<lparr>tk_working := ws1\<rparr>) = (t', Ok r)"
    using assms(1,3) unfolding resource_recall_def
    by (auto simp: resource_ref_address_def act_lift_def elim!: act_then_OkE [of "act_lift _"] act_then_OkE [of "write_with _"] write_with_OkE)
  obtain res' where y: "current (store (tk_working t)) (ResourceId ra) = Some (ResourceValue res')" "hook = r_auth_hook res'"
    "store_inv (store ws1)" "state_view ws1 = state_view (tk_working t)"
    by (rule authorize_and_unlock_step [OF au assms(2)])
  have "hook = None" using y assms(4,5) by simp
  then obtain tx ws' where f: "recall_from_vault ri tx ra v DiscEverything ws1 = Ok (ws', r)" "t' = t\<lparr>tk_working := ws'\<rparr>"
    using h by (auto simp: run_hook_def tx_hash_def elim!: act_then_OkE write_with_OkE)
  obtain z x' c b where s: "current (store ws1) (VaultId v) = Some (VaultValue z)"
    "vault_recall_all (env_overflow (ri_env ri)) z = Ok (x', c)" "r = IrBucket b"
    "state_view ws' = ((current (store ws1))(VaultId v \<mapsto> VaultValue x'), fmupd b (bucket_new b c) (buckets ws1))"
    by (rule recall_from_vault_step [OF f(1) y(3)])
  have "z = x" using s(1) y(4) assms(6) by (simp add: state_view_def)
  then show ?thesis using vault_recall_all_spec [OF s(2)] assms(7) s y(4) f(2)
    by (intro exI [of _ x'] exI [of _ c] exI [of _ b]) (simp add: state_view_def)
qed

section \<open>A sample state\<close>

text \<open>Resource 1 can be recalled by anyone, resource 9 by nobody. Vault 3 holds 100 units of resource 9, vault 2 is
  frozen, and bucket 4 holds 25 units. A function of template 5 is running.\<close>

definition recallable_resource :: resource where
  "recallable_resource = resource_new TFungible None NoOwner
     (resource_access_rules_new\<lparr>recallable := AllowAll\<rparr>) fmempty None None 0 False"

definition plain_resource :: resource where
  "plain_resource = resource_new TFungible None NoOwner resource_access_rules_new fmempty None None 0 False"

definition bank_store :: memory_store where
  "bank_store = fmap_of_list [(ResourceId 1, \<lparr>sub_value = ResourceValue recallable_resource, sub_version = 0\<rparr>),
     (ResourceId 9, \<lparr>sub_value = ResourceValue plain_resource, sub_version = 0\<rparr>),
     (VaultId 3, \<lparr>sub_value = VaultValue \<lparr>v_container = Fungible 9 100 0, v_freeze_flags = 0\<rparr>, sub_version = 0\<rparr>),
     (VaultId 2, \<lparr>sub_value = VaultValue \<lparr>v_container = Fungible 9 50 0, v_freeze_flags = 2\<rparr>, sub_version = 0\<rparr>)]"

definition bank_runtime :: runtime where
  "bank_runtime = \<lparr>tk_working = (working_state_new bank_store None call_scope_new 0)
       \<lparr>call_frames := [\<lparr>frame_scope = call_scope_new\<lparr>bucket_scope := [4]\<rparr>, frame_template = 5, frame_module = ''bank'', frame_entity_id = 0\<rparr>],
        buckets := fmupd 4 \<lparr>b_id = 4, b_container = Fungible 9 25 0\<rparr> fmempty\<rparr>,
     tk_checkpoint = None, tk_weight = 0, rt_entity_ids = entity_id_provider_new 0 1000\<rparr>"

lemma bank_values:
  "store_inv (store (tk_working bank_runtime))"
  "current (store (tk_working bank_runtime)) (ResourceId 1) = Some (ResourceValue recallable_resource)"
  "current (store (tk_working bank_runtime)) (ResourceId 9) = Some (ResourceValue plain_resource)"
  "current (store (tk_working bank_runtime)) (VaultId 3) = Some (VaultValue \<lparr>v_container = Fungible 9 100 0, v_freeze_flags = 0\<rparr>)"
  "current (store (tk_working bank_runtime)) (VaultId 2) = Some (VaultValue \<lparr>v_container = Fungible 9 50 0, v_freeze_flags = 2\<rparr>)"
  using store_reachable_inv [OF store_init [of bank_store]]
  by (simp_all add: bank_runtime_def working_state_new_def current_def store_new_def bank_store_def fmlookup_of_list)

lemma no_modules_metered: "metered_modules []" by unfold_locales simp_all

lemma sample_interface_metered: "metered_modules (ri_modules sample_interface)"
  by (simp add: sample_interface_def no_modules_metered)

lemmas handler_eval = write_with_def read_with_def act_then_def act_lift_def act_return_def tx_hash_def run_hook_def
  assert_one_arg_def args_get_def vault_ref_id_def resource_ref_address_def
  begin_vault_action_def authorize_resource_def authorize_and_unlock_def get_auth_caller_def current_template_def
  current_component_def current_call_scope_def set_current_call_scope_def emit_std_event_def push_event_def
  fresh_bucket_id_def with_id_provider_def next_bucket_id_def new_bucket_def take_bucket_def move_node_to_owned_def
  add_bucket_to_scope_def get_access_rule_def non_fungible_token_ids_def bucket_new_def
  sorted_list_of_fset.rep_eq swap_remove_def

lemmas bank_eval = sample_interface_def sample_codec_def bank_runtime_def working_state_new_def bank_store_def
  fmlookup_of_list plain_resource_def recallable_resource_def sample_env_def object_ids_new_def ENGINE_LIMITS_def
  call_scope_new_def

lemmas amount_eval = amount_add_def amount_sub_def i192_op_def in_i192_def Amount_MAX_def Amount_MIN_def

lemma bank_withdraw:
  "\<exists>t' r. vault_withdraw_action sample_interface (VaultWithId 3) [[0, 0]] bank_runtime = (t', Ok r)"
  by (simp add: vault_withdraw_action_def handler_eval lock_eval value_eval bank_eval
      finish_withdraw_def to_view_key_public_key_def take_from_vault_def vault_withdraw_def withdraw_def amount_eval)

lemma bank_deposit:
  "\<exists>t' r. vault_deposit_action sample_interface (VaultWithId 3) [[0, 0, 0, 0]] bank_runtime = (t', Ok r)"
  by (simp add: vault_deposit_action_def handler_eval lock_eval value_eval bank_eval
      finish_deposit_def vault_deposit_def deposit_def amount_eval is_bucket_in_scope_def locked_amount_of_def is_zero_def)

lemma bank_recall:
  "\<exists>t' r. resource_recall sample_interface (ResourceRef 1) [[0, 0]] bank_runtime = (t', Ok r)"
  by (simp add: resource_recall_def handler_eval lock_eval value_eval bank_eval
      recall_from_vault_def recall_resource_from_vault_def vault_recall_all_def withdraw_all_def withdraw_def amount_eval
      as_vault_id_def)

lemma bank_args:
  "assert_one_arg (de_vault_withdraw (ri_codec sample_interface)) [[0, 0]] = Ok (WithdrawFungible 2)"
  "assert_one_arg (de_bucket_id (ri_codec sample_interface)) [[0, 0, 0, 0]] = Ok 4"
  "assert_one_arg (de_recall (ri_codec sample_interface)) [[0, 0]] = Ok (2, DiscEverything)"
  by (simp_all add: sample_interface_def sample_codec_def assert_one_arg_def args_get_def)

lemma bank_containers:
  "wf_container (v_container \<lparr>v_container = Fungible 9 100 0, v_freeze_flags = 0\<rparr>)" "wf_container (Fungible 9 25 0)"
  "mergeable (v_container \<lparr>v_container = Fungible 9 100 0, v_freeze_flags = 0\<rparr>) (Fungible 9 25 0)"
  "r_auth_hook plain_resource = None" "r_auth_hook recallable_resource = None"
  "fmlookup (buckets (tk_working bank_runtime)) 4 = Some \<lparr>b_id = 4, b_container = Fungible 9 25 0\<rparr>"
  by (simp_all add: wf_container_def mergeable_def in_i192_def Amount_MAX_def Amount_MIN_def plain_resource_def
      recallable_resource_def resource_new_def bank_runtime_def)

lemma free_units: "(\<forall>a. f a = holds_free (Fungible r n l) a) \<Longrightarrow> f Units = n"
  by (simp add: holds_free_def units_def)

theorem withdraw_action_conserves_witness:
  "\<exists>t' x' c b. vault_withdraw_action sample_interface (VaultWithId 3) [[0, 0]] bank_runtime = (t', Ok (IrBucket b)) \<and>
     current (store (tk_working t')) (VaultId 3) = Some (VaultValue x') \<and>
     holds_free (v_container x') Units + holds_free c Units = 100"
proof -
  obtain t' r where w: "vault_withdraw_action sample_interface (VaultWithId 3) [[0, 0]] bank_runtime = (t', Ok r)"
    using bank_withdraw by blast
  have n: "\<not> is_confidential_withdraw (WithdrawFungible 2)" by (simp add: is_confidential_withdraw_def)
  have r9: "current (store (tk_working bank_runtime)) (ResourceId (address (v_container
      \<lparr>v_container = Fungible 9 100 0, v_freeze_flags = 0\<rparr>))) = Some (ResourceValue plain_resource)"
    using bank_values(3) by simp
  obtain x' c b where "r = IrBucket b" "current (store (tk_working t')) (VaultId 3) = Some (VaultValue x')"
    "\<forall>a. holds_free (v_container x') a + holds_free c a = holds_free (Fungible 9 100 0) a"
    using withdraw_action_conserves [OF w bank_values(1,4) bank_containers(1) r9 bank_containers(4) bank_args(1) n]
    by auto
  then show ?thesis using w free_units [of "\<lambda>a. holds_free (v_container x') a + holds_free c a"] by blast
qed

theorem deposit_action_conserves_witness:
  "\<exists>t' x'. vault_deposit_action sample_interface (VaultWithId 3) [[0, 0, 0, 0]] bank_runtime = (t', Ok IrUnit) \<and>
     current (store (tk_working t')) (VaultId 3) = Some (VaultValue x') \<and> holds_free (v_container x') Units = 125"
proof -
  obtain t' r where w: "vault_deposit_action sample_interface (VaultWithId 3) [[0, 0, 0, 0]] bank_runtime = (t', Ok r)"
    using bank_deposit by blast
  show ?thesis
    using deposit_action_conserves [OF w bank_values(1,4) bank_containers(1) _ bank_containers(4) bank_args(2) bank_containers(6)]
      bank_containers(2,3) bank_values(3) w by (auto simp: holds_free_def units_def)
qed

lemma bank_balance:
  "\<exists>t'. vault_invoke sample_interface (VaultWithId 2) VaultGetBalance [] bank_runtime = (t', Ok (IrAmount 50))"
  by (simp add: vault_invoke_def vault_read_def runtime_call_def invoke_modules_def requires_write_access_def
      assert_no_args_def amount_of_def handler_eval lock_eval value_eval bank_eval)

lemma frozen_vault: "flags_contains (v_freeze_flags \<lparr>v_container = Fungible 9 50 0, v_freeze_flags = 2\<rparr>) FreezeWithdrawals"
  by (simp add: flags_contains_def)

text \<open>No outcome of a withdrawal or a fee payment from vault 2 is a success; its balance can still be read.\<close>

theorem frozen_vault_keeps_value_witness:
  "\<not> (\<exists>t' r. vault_invoke sample_interface (VaultWithId 2) VaultWithdraw [[0]] bank_runtime = (t', Ok r)) \<and>
   \<not> (\<exists>t' r. vault_invoke sample_interface (VaultWithId 2) VaultPayFee [[0]] bank_runtime = (t', Ok r)) \<and>
   (\<exists>t'. vault_invoke sample_interface (VaultWithId 2) VaultGetBalance [] bank_runtime = (t', Ok (IrAmount 50)) \<and>
      current (store (tk_working t')) (VaultId 2) = Some (VaultValue \<lparr>v_container = Fungible 9 50 0, v_freeze_flags = 2\<rparr>))"
proof -
  note k = frozen_vault_keeps_value [OF sample_interface_metered bank_values(1,5) frozen_vault]
  show ?thesis using k bank_balance bank_values(5) by fastforce
qed

text \<open>Resource 1 is authorized; vault 2 is frozen and holds resource 9, whose own rules deny recalls.\<close>

theorem recall_empties_named_vault_witness:
  "\<exists>t' c b. resource_recall sample_interface (ResourceRef 1) [[0, 0]] bank_runtime = (t', Ok (IrBucket b)) \<and>
     fmlookup (buckets (tk_working t')) b = Some (bucket_new b c) \<and> address c = 9 \<and> holds_free c Units = 50 \<and>
     recallable (r_access_rules plain_resource) = DenyAll"
proof -
  obtain t' r where w: "resource_recall sample_interface (ResourceRef 1) [[0, 0]] bank_runtime = (t', Ok r)"
    using bank_recall by blast
  have p: "wf_container (v_container \<lparr>v_container = Fungible 9 50 0, v_freeze_flags = 2\<rparr>)"
    by (simp add: wf_container_def in_i192_def Amount_MAX_def Amount_MIN_def)
  have d: "recallable (r_access_rules plain_resource) = DenyAll"
    by (simp add: plain_resource_def resource_new_def resource_access_rules_new_def)
  obtain x' c b where "r = IrBucket b" "fmlookup (buckets (tk_working t')) b = Some (bucket_new b c)"
    "address c = 9" "\<forall>a. holds_free c a = holds_free (Fungible 9 50 0) a"
    using recall_empties_named_vault [OF w bank_values(1) bank_args(3) bank_values(2) bank_containers(5) bank_values(5) p]
    by auto
  then show ?thesis using w d free_units by blast
qed

end
