(* ===== verification/EngineAccess.thy ===== *)
theory EngineAccess
  imports ValueFlow
begin

text \<open>
  Who may do what in the engine: when template code is run, how deep calls nest, which proofs authorize,
  which topics events have, and what claims, new vaults and burnt outputs look like afterwards.
\<close>

section \<open>Running template code\<close>

text \<open>A computation that depends on the template code \<open>inv\<close> either ends without success before the code is
  used, or is the run of the code from a state that satisfies \<open>Q\<close>.\<close>

definition stops_before_code :: "('i \<Rightarrow> runtime \<times> ('a, transaction_error) result) \<Rightarrow> bool" where
  "stops_before_code F \<longleftrightarrow> (\<exists>t' e. (\<forall>inv. F inv = (t', e)) \<and> (\<forall>r. e \<noteq> Ok r))"

lemma code_after_step:
  assumes "\<And>t1 a. m t = (t1, Ok a) \<Longrightarrow> stops_before_code (\<lambda>inv. f inv a t1) \<or> (\<exists>G. P G \<and> (\<forall>inv. f inv a t1 = G inv))"
  shows "stops_before_code (\<lambda>inv. act_then m (f inv) t) \<or> (\<exists>G. P G \<and> (\<forall>inv. act_then m (f inv) t = G inv))"
proof (cases "m t")
  case (Pair t1 r)
  show ?thesis
  proof (cases r)
    case (Ok a)
    then show ?thesis using assms [of t1 a] Pair by (simp add: act_then_def)
  qed (auto simp: act_then_def Pair stops_before_code_def)
qed

lemma stops_before_step:
  assumes "\<And>t1 a. m t = (t1, Ok a) \<Longrightarrow> stops_before_code (\<lambda>inv. f inv a t1)"
  shows "stops_before_code (\<lambda>inv. act_then m (f inv) t)"
  using code_after_step [where P = "\<lambda>_. False"] assms by blast

lemma act_map_err_Ok_iff [simp]: "act_map_err h m t = (t', Ok a) \<longleftrightarrow> m t = (t', Ok a)"
  by (auto simp: act_map_err_def result_simps split: prod.splits)

lemma update_with_OkE:
  assumes "update_with f t = (t', Ok u)"
  obtains ws where "f (tk_working t) = Ok ws" "t' = t\<lparr>tk_working := ws\<rparr>"
  using assms unfolding update_with_def by (auto elim!: write_with_OkE simp: result_simps)

lemma foldl_keeps: "(\<And>s x. g (f s x) = g s) \<Longrightarrow> g (foldl f s xs) = g s"
  by (induction xs arbitrary: s) simp_all

lemma include_keeps_lock [simp]:
  "component_lock (include_owned_in_scope s vs) = component_lock s"
  "component_lock (include_refs_in_scope s vs) = component_lock s"
proof -
  show "component_lock (include_owned_in_scope s vs) = component_lock s"
    unfolding include_owned_in_scope_def by (rule foldl_keeps) (simp add: add_substate_to_owned_def)
  have "component_lock (foldl (\<lambda>s k. if is_public_key_identity k \<or> is_vault k \<or> is_transaction_receipt k then s
            else add_substate_to_referenced s k) s (referenced_substates vs)) = component_lock s" for s
    by (rule foldl_keeps) (simp add: add_substate_to_referenced_def)
  moreover have "component_lock (foldl add_bucket_to_scope s xs) = component_lock s" for s xs
    by (rule foldl_keeps) (simp add: add_bucket_to_scope_def)
  moreover have "component_lock (foldl add_proof_to_scope s xs) = component_lock s" for s xs
    by (rule foldl_keeps) (simp add: add_proof_to_scope_def)
  ultimately show "component_lock (include_refs_in_scope s vs) = component_lock s"
    by (simp add: include_refs_in_scope_def Let_def)
qed

lemma pushed_frame_lock:
  assumes "push_call_frame (ForComponent ta tn cs l scope e) d t = (t', Ok ())"
  shows "component_lock (current_call_scope (tk_working t')) = Some l"
  using assms unfolding push_call_frame_def
  by (elim update_with_OkE) (auto simp: result_simps push_frame_def Let_def current_call_scope_def
      update_from_parent_def set_auth_scope_def into_new_call_frame_def frame_for_component_def
      call_scope_for_component_def split: if_splits)

text \<open>C5: A component's method is only run when its access rules allow it. A call either ends without success
  and without having run any template code, or the template code is run in the frame of the component, and
  there the check of the access rules for the method has succeeded.\<close>

theorem method_runs_only_if_allowed:
  "stops_before_code (\<lambda>inv. call_method (p\<lparr>pr_invoke := inv\<rparr>) ri call m args t) \<or>
   (\<exists>a l ta fd vs t2. ls_address l = ComponentId a \<and> component_lock (current_call_scope (tk_working t2)) = Some l \<and>
      check_component_access_rules (tk_working t2) m l = Ok () \<and>
      (\<forall>inv. call_method (p\<lparr>pr_invoke := inv\<rparr>) ri call m args t =
         run_and_pop (p\<lparr>pr_invoke := inv\<rparr>) ri ta fd (en_component_address (ri_codec ri) a # vs) t2))"
proof -
  define Q where "Q G \<longleftrightarrow> (\<exists>a l ta fd vs t2. ls_address l = ComponentId a \<and>
      component_lock (current_call_scope (tk_working t2)) = Some l \<and>
      check_component_access_rules (tk_working t2) m l = Ok () \<and>
      G = (\<lambda>inv. run_and_pop (p\<lparr>pr_invoke := inv\<rparr>) ri ta fd (en_component_address (ri_codec ri) a # vs) t2))" for G
  have "stops_before_code (\<lambda>inv. call_method (p\<lparr>pr_invoke := inv\<rparr>) ri call m args t) \<or>
     (\<exists>G. Q G \<and> (\<forall>inv. call_method (p\<lparr>pr_invoke := inv\<rparr>) ri call m args t = G inv))"
    unfolding call_method_def split_def
  proof (intro code_after_step disjI2, goal_cases)
    case (1 t1 ac t2 df t3 l t4 vs t5 sc t6 cs t7 u1 t8 u2)
    have "component_lock (current_call_scope (tk_working t7)) = Some l" using 1(7) pushed_frame_lock by simp
    moreover have "t8 = t7" "check_component_access_rules (tk_working t7) m l = Ok ()" using 1(8) by (auto simp: read_with_def)
    moreover have "ls_address l = ComponentId (fst ac)" using 1(3)
      by (auto simp: lock_component_def lock_substate_Ok_iff elim!: write_with_OkE)
    ultimately have "Q (\<lambda>inv. run_and_pop (p\<lparr>pr_invoke := inv\<rparr>) ri (c_template_address (snd ac)) (snd df)
        (en_component_address (ri_codec ri) (fst ac) # vs) t8)"
      unfolding Q_def by (intro exI [of _ "fst ac"] exI [of _ l] exI [of _ "c_template_address (snd ac)"] exI [of _ "snd df"] exI [of _ vs] exI [of _ t8]) simp
    then show ?case by (intro exI conjI allI) (assumption, rule refl)
  qed
  then show ?thesis
  proof
    assume "\<exists>G. Q G \<and> (\<forall>inv. call_method (p\<lparr>pr_invoke := inv\<rparr>) ri call m args t = G inv)"
    then obtain G where "Q G" and g: "\<And>inv. call_method (p\<lparr>pr_invoke := inv\<rparr>) ri call m args t = G inv" by blast
    then obtain a l ta fd vs t2 where r: "ls_address l = ComponentId a"
        "component_lock (current_call_scope (tk_working t2)) = Some l" "check_component_access_rules (tk_working t2) m l = Ok ()"
        "G = (\<lambda>inv. run_and_pop (p\<lparr>pr_invoke := inv\<rparr>) ri ta fd (en_component_address (ri_codec ri) a # vs) t2)"
      unfolding Q_def by blast
    have "\<forall>inv. G inv = run_and_pop (p\<lparr>pr_invoke := inv\<rparr>) ri ta fd (en_component_address (ri_codec ri) a # vs) t2"
      using r(4) by simp
    with r(1-3) show ?thesis unfolding g by blast
  qed (rule disjI1)
qed


lemma push_at_limit:
  assumes "max_depth \<le> call_frame_depth (tk_working t)"
  shows "push_call_frame f max_depth t \<noteq> (t', Ok ())"
  using assms by (auto simp: push_call_frame_def push_frame_def result_simps elim!: update_with_OkE split: if_splits)

lemma resolve_each_keeps:
  assumes "metered_modules (ri_modules ri)" "resolve_each ri args t = (t', Ok vs)"
  shows "store (tk_working t') = store (tk_working t) \<and> call_frames (tk_working t') = call_frames (tk_working t)"
  using assms(2)
proof (induction args arbitrary: t vs)
  case (Cons a args)
  then obtain t1 v vs1 where s: "(case a of ArgWorkspace oid \<Rightarrow> resolve_workspace_id ri oid
       | ArgLiteral b \<Rightarrow> act_lift (ok_or EncodingError (de_value (ri_codec ri) b))) t = (t1, Ok v)"
    and r: "resolve_each ri args t1 = (t', Ok vs1)"
    by (auto elim!: act_then_OkE simp: act_return_def)
  have "store (tk_working t1) = store (tk_working t) \<and> call_frames (tk_working t1) = call_frames (tk_working t)"
    using s runtime_call_keeps [OF assms(1)]
    by (auto simp: resolve_workspace_id_def read_with_def act_lift_def elim!: act_then_OkE split: instruction_arg.splits)
  then show ?case using Cons.IH [OF r] by simp
qed (simp add: act_return_def)

lemma resolve_args_keeps:
  assumes "metered_modules (ri_modules ri)" "resolve_args ri args t = (t', Ok vs)"
  shows "store (tk_working t') = store (tk_working t)" "call_frames (tk_working t') = call_frames (tk_working t)"
  using assms resolve_each_keeps [OF assms(1)] by (auto simp: resolve_args_def act_lift_def split: if_splits)

lemma load_and_cache_component_keeps:
  "load_and_cache_component ws a = Ok (ws', c) \<Longrightarrow> call_frames ws' = call_frames ws"
  by (auto simp: load_and_cache_component_def result_simps)

lemma load_component_id_keeps:
  assumes "(case k of ComponentId a \<Rightarrow> and_then (load_and_cache_component ws a) (\<lambda>(ws', c). Ok (ws', a, c))
     | _ \<Rightarrow> Err InvalidArgument) = Ok (ws', ac)"
  shows "call_frames ws' = call_frames ws"
  using assms load_and_cache_component_keeps by (cases k) (auto simp: result_simps)

lemma load_component_keeps:
  assumes "metered_modules (ri_modules ri)" "load_component ri call t = (t', Ok ac)"
  shows "call_frames (tk_working t') = call_frames (tk_working t)"
proof -
  from assms(2) obtain t1 ws where c: "runtime_call ri ''load_component'' t = (t1, Ok ())"
    and t': "t' = t1\<lparr>tk_working := ws\<rparr>"
    and g: "(case call of
     CallAddress a \<Rightarrow> and_then (load_and_cache_component (tk_working t1) a) (\<lambda>(ws', c). Ok (ws', a, c))
   | CallWorkspace i \<Rightarrow>
       and_then (ok_or (ItemNotOnWorkspace i) (workspace_get (workspace_of (tk_working t1)) \<lparr>wo_id = i, wo_offset = None\<rparr>)) (\<lambda>v.
       and_then (ok_or InvalidArgument (de_component_allocation (ri_codec ri) v)) (\<lambda>alloc.
       and_then (get_used_address (tk_working t1) alloc) (\<lambda>k. case k of
         ComponentId a \<Rightarrow> and_then (load_and_cache_component (tk_working t1) a) (\<lambda>(ws', c). Ok (ws', a, c))
       | _ \<Rightarrow> Err InvalidArgument)))) = Ok (ws, ac)"
    unfolding load_component_def by (elim act_then_OkE write_with_OkE) simp
  have "call_frames ws = call_frames (tk_working t1)"
  proof (cases call)
    case (CallAddress a)
    then show ?thesis using g load_and_cache_component_keeps by (auto simp: result_simps)
  next
    case (CallWorkspace i)
    then show ?thesis using g by (simp add: result_simps) (elim exE conjE, erule load_component_id_keeps)
  qed
  then show ?thesis using runtime_call_keeps(2) [OF assms(1) c] t' by simp
qed

lemma lock_component_keeps:
  "lock_component a flag t = (t', Ok l) \<Longrightarrow> call_frames (tk_working t') = call_frames (tk_working t)"
  by (auto simp: lock_component_def lock_substate_Ok_iff elim!: write_with_OkE)

lemma act_lift_keeps: "act_lift r t = (t', Ok a) \<Longrightarrow> t' = t" by (simp add: act_lift_def)

text \<open>C30: Calls nest to a bounded depth. In a state with as many frames as the limit allows, a call of a function or
  of a method ends without success and without having run any template code.\<close>

theorem call_depth_bounded:
  assumes "metered_modules (ri_modules ri)" and "ri_max_call_depth ri \<le> call_frame_depth (tk_working t)"
  shows "stops_before_code (\<lambda>inv. call_function (p\<lparr>pr_invoke := inv\<rparr>) ri a f args t) \<and>
    stops_before_code (\<lambda>inv. call_method (p\<lparr>pr_invoke := inv\<rparr>) ri call m args t)"
proof
  show "stops_before_code (\<lambda>inv. call_function (p\<lparr>pr_invoke := inv\<rparr>) ri a f args t)"
    unfolding call_function_def split_def
  proof (intro stops_before_step, goal_cases)
    case (1 t1 df t2 vs t3 sc t4 e t5 u)
    have "call_frame_depth (tk_working t4) = call_frame_depth (tk_working t)"
      using 1(1,3) [THEN act_lift_keeps] resolve_args_keeps(2) [OF assms(1)] 1(2,4)
      by (auto simp: rt_next_entity_id_def call_frame_depth_def split: prod.splits)
    then have "push_call_frame (Static a (template_name (fst df)) sc e) (ri_max_call_depth ri) t4 \<noteq> (t5, Ok ())"
      using assms(2) by (intro push_at_limit) simp
    then show ?case using 1(5) by simp
  qed
  show "stops_before_code (\<lambda>inv. call_method (p\<lparr>pr_invoke := inv\<rparr>) ri call m args t)"
    unfolding call_method_def split_def
  proof (intro stops_before_step, goal_cases)
    case (1 t1 ac t2 df t3 l t4 vs t5 sc t6 cs t7 u t8 u2)
    have "call_frame_depth (tk_working t6) = call_frame_depth (tk_working t)"
      using 1(2,5,6) [THEN act_lift_keeps] resolve_args_keeps(2) [OF assms(1), of args t3 t4 vs] 1(4)
        load_component_keeps [OF assms(1), of call t t1 ac] 1(1) lock_component_keeps [of "fst ac" _ t2 t3 l] 1(3)
      by (simp add: call_frame_depth_def)
    then have "push_call_frame (ForComponent (c_template_address (snd ac)) (template_name (fst df)) cs l sc
        (c_entity_id (snd ac))) (ri_max_call_depth ri) t6 \<noteq> (t7, Ok ())"
      using assms(2) by (intro push_at_limit) simp
    then show ?case using 1(7) by simp
  qed
qed

definition deep_runtime :: runtime where
  "deep_runtime = bank_runtime\<lparr>tk_working := (tk_working bank_runtime)\<lparr>call_frames :=
     replicate 10 (last (call_frames (tk_working bank_runtime)))\<rparr>\<rparr>"

theorem call_depth_bounded_witness:
  "ri_max_call_depth sample_interface = call_frame_depth (tk_working deep_runtime) \<and>
   stops_before_code (\<lambda>inv. call_function (sample_processor\<lparr>pr_invoke := inv\<rparr>) sample_interface 5 ''f'' [] deep_runtime)"
proof -
  have "ri_max_call_depth sample_interface = call_frame_depth (tk_working deep_runtime)"
    by (simp add: sample_interface_def deep_runtime_def call_frame_depth_def)
  then show ?thesis using call_depth_bounded [OF sample_interface_metered, of deep_runtime] by simp
qed

section \<open>Proofs and claims\<close>

lemma current_scope_change [simp]: "current_call_scope (change_auth_scope f p ws) =
    (current_call_scope ws)\<lparr>auth_scope := f (auth_scope (current_call_scope ws)) p\<rparr>"
  by (simp add: change_auth_scope_def Let_def)

lemma change_auth_keeps [simp]: "proofs (change_auth_scope f p ws) = proofs ws" "store (change_auth_scope f p ws) = store ws"
  by (simp_all add: change_auth_scope_def Let_def)

definition foreign_frame :: call_frame where
  "foreign_frame = \<lparr>frame_scope = call_scope_new, frame_template = 5, frame_module = ''m'', frame_entity_id = 0\<rparr>"

definition foreign_proof :: resource_proof where
  "foreign_proof = proof_new \<lparr>lr_container = BucketRef 4, lr_locked = Fungible 9 5 0\<rparr>"

text \<open>Any existing proof can be used for authorization. Authorizing a proof asks only that it exists somewhere in
  the transaction, not that it is in the scope of the running call; afterwards a rule that requires the proof's
  resource is met.\<close>

theorem authorize_ignores_proof_scope:
  assumes "fmlookup (proofs ws) p = Some x" and "call_frames ws \<noteq> []"
    and "proofs_alive ws (auth_scope (current_call_scope ws))"
  shows "\<exists>ws'. proof_authorize p ws = Ok (ws', IrAuthorized True) \<and>
    check_access_rule ws' (auth_scope (current_call_scope ws'))
      (Restricted (Require (RequireOne (RequireResource (proof_resource_address x))))) = Ok True"
proof -
  let ?ws = "change_auth_scope add_proof p ws"
  have pe: "proof_exists ws p" using assms(1) by (simp add: proof_exists_def fmdomI)
  have f: "call_frames ?ws \<noteq> []" using assms(2) by (simp add: change_auth_scope_def Let_def set_current_call_scope_def)
  have al: "proofs_alive ?ws (auth_scope (current_call_scope ?ws))"
    using assms(3) pe by (simp add: proofs_alive_def list_all_iff add_proof_def proof_exists_def)
  have "rule_holds (auth_context_of ?ws (auth_scope (current_call_scope ?ws)))
      (Restricted (Require (RequireOne (RequireResource (proof_resource_address x)))))"
    using assms(1) by (simp add: auth_context_of_def add_proof_def)
  then show ?thesis using pe check_access_rule_decides [OF al f]
    by (intro exI [of _ ?ws]) (simp add: proof_authorize_def)
qed

theorem authorize_ignores_proof_scope_witness:
  "\<exists>ws'. proof_authorize 8 (proof_state\<lparr>call_frames := [foreign_frame], proofs := fmupd 8 foreign_proof fmempty\<rparr>)
       = Ok (ws', IrAuthorized True) \<and>
     \<not> is_proof_in_scope (frame_scope foreign_frame) 8 \<and>
     check_access_rule ws' (auth_scope (current_call_scope ws'))
       (Restricted (Require (RequireOne (RequireResource 9)))) = Ok True"
proof -
  let ?ws = "proof_state\<lparr>call_frames := [foreign_frame], proofs := fmupd 8 foreign_proof fmempty\<rparr>"
  have "fmlookup (proofs ?ws) 8 = Some foreign_proof" "call_frames ?ws \<noteq> []"
    "proofs_alive ?ws (auth_scope (current_call_scope ?ws))" "proof_resource_address foreign_proof = 9"
    "\<not> is_proof_in_scope (frame_scope foreign_frame) 8"
    by (simp_all add: foreign_frame_def foreign_proof_def current_call_scope_def call_scope_new_def proofs_alive_def
        auth_scope_new_def is_proof_in_scope_def proof_new_def proof_resource_address_def)
  then show ?thesis using authorize_ignores_proof_scope [of ?ws 8 foreign_proof] by auto
qed

lemmas new_substate_eval = new_substate_def enforce_substate_size_limit_def add_substate_to_scope_def
  add_substate_to_scope_unchecked_def is_substate_in_scope_def is_root_def store_insert_def store_exists_eq
  current_def store_new_def put_new_def index_set_insert_def as_non_fungible_address_def current_call_scope_def

section \<open>Events\<close>

lemma dotted_std:
  assumes "CHR ''.'' \<notin> set m"
  shows "m @ ''.'' @ topic = std_event obj action \<longleftrightarrow> m = ''std'' \<and> topic = obj @ ''.'' @ action"
proof
  assume eq: "m @ ''.'' @ topic = std_event obj action"
  have "takeWhile (\<lambda>x. x \<noteq> CHR ''.'') (m @ ''.'' @ topic) = m" using assms by (subst takeWhile_append2) auto
  moreover have "takeWhile (\<lambda>x. x \<noteq> CHR ''.'') (std_event obj action) = ''std''"
    by (simp add: std_event_def STANDARD_TOPIC_PREFIX_def)
  ultimately have "m = ''std''" unfolding eq by simp
  then show "m = ''std'' \<and> topic = obj @ ''.'' @ action" using eq by (simp add: std_event_def STANDARD_TOPIC_PREFIX_def)
qed (simp add: std_event_def STANDARD_TOPIC_PREFIX_def)

text \<open>A custom event can look like a standard event only when the template is called \<open>std\<close>. For a template whose
  name has no dot, an emitted event has the topic of a standard event of some object exactly when the name is \<open>std\<close>
  and the given topic is that object and action; the check of the given topic alone does not rule this out.\<close>

theorem custom_event_topic:
  assumes "emit_event ri topic payload t = (t', Ok ())" and "metered_modules (ri_modules ri)"
    and "call_frames (tk_working t) \<noteq> []" and "CHR ''.'' \<notin> set (frame_module (last (call_frames (tk_working t))))"
  shows "\<exists>e. events (tk_working t') = events (tk_working t) @ [e] \<and>
    (ev_topic e = std_event obj action \<longleftrightarrow>
      frame_module (last (call_frames (tk_working t))) = ''std'' \<and> topic = obj @ ''.'' @ action)"
proof -
  obtain t1 where c: "runtime_call ri ''emit_event'' t = (t1, Ok ())"
    and u: "act_then tx_hash (\<lambda>tx. update_with (\<lambda>ws.
       let k = (case component_lock (current_call_scope ws) of
                  None \<Rightarrow> None | Some l \<Rightarrow> map_option ComponentId (as_component_address (ls_address l))) in
       and_then (current_template ws) (\<lambda>(a, m).
       push_event ws \<lparr>ev_substate_id = k, ev_template_address = a, ev_tx_hash = tx,
         ev_topic = m @ ''.'' @ topic, ev_payload = payload\<rparr>))) t1 = (t', Ok ())"
    using assms(1) unfolding emit_event_def by (auto simp: act_lift_def elim!: act_then_OkE [of "act_lift _"] elim: act_then_OkE)
  have co: "charges_only (runtime_call ri ''emit_event'')"
    unfolding runtime_call_def using assms(2) by (rule metered_modules.calls_metered)
  obtain b where t1: "t1 = t\<lparr>tk_working := (tk_working t)\<lparr>fee_state_of := (fee_state_of (tk_working t))\<lparr>fee_charges := b\<rparr>\<rparr>\<rparr>"
    using charges_only_keeps(1) [OF co c] by blast
  let ?m = "frame_module (last (call_frames (tk_working t)))"
  obtain e where e: "events (tk_working t') = events (tk_working t) @ [e]" "ev_topic e = ?m @ ''.'' @ topic"
    using u assms(3) unfolding t1
    by (auto simp: Let_def current_template_def push_event_def result_simps tx_hash_def elim!: act_then_OkE update_with_OkE
        split: if_splits)
  show ?thesis using e dotted_std [OF assms(4)] by (intro exI [of _ e]) simp
qed

section \<open>Claims\<close>

lemma new_substate_step:
  assumes "new_substate env ws k v = Ok ws'" "store_inv (store ws)"
  shows "current (store ws) k = None" "store_inv (store ws')"
    "state_view ws' = ((current (store ws))(k \<mapsto> v), buckets ws)"
  using assms by (auto simp: new_substate_def Let_def result_simps store_insert_Ok_iff state_view_def store_inv_put_new)

text \<open>C29: A burn is claimed at most once. A claim succeeds only when the commitment has no tombstone and no output; it
  leaves a tombstone and an unspent output of the claimed commitment and changes no other substate, and in the
  state that it leaves no claim of that commitment succeeds, whatever its proof, value and data.\<close>

theorem burn_claimed_once:
  assumes "claim_burn ri claim data t = (t1, Ok ())" and "store_inv (store (tk_working t))"
    and "bc_commitment claim' = bc_commitment claim"
  shows "current (store (tk_working t)) (ClaimedOutputTombstoneId (bc_commitment claim)) = None \<and>
    current (store (tk_working t)) (UtxoId \<lparr>utxo_resource_address = XTR, utxo_id = bc_commitment claim\<rparr>) = None \<and>
    current (store (tk_working t1)) = (current (store (tk_working t)))
      (ClaimedOutputTombstoneId (bc_commitment claim) \<mapsto> ClaimedOutputTombstoneValue (bc_value claim),
       UtxoId \<lparr>utxo_resource_address = XTR, utxo_id = bc_commitment claim\<rparr> \<mapsto> UtxoValue (claimed_utxo (ri_seal_signer ri) claim data)) \<and>
    claim_burn ri' claim' data' t1 \<noteq> (t2, Ok ())"
proof -
  obtain ws1 ws2 where s: "new_substate (ri_env ri) (tk_working t) (ClaimedOutputTombstoneId (bc_commitment claim))
       (ClaimedOutputTombstoneValue (bc_value claim)) = Ok ws1"
    "new_substate (ri_env ri) ws1 (UtxoId \<lparr>utxo_resource_address = XTR, utxo_id = bc_commitment claim\<rparr>)
       (UtxoValue (claimed_utxo (ri_seal_signer ri) claim data)) = Ok ws2" "t1 = t\<lparr>tk_working := ws2\<rparr>"
    using assms(1) by (auto simp: claim_burn_def claim_burn_state_def read_with_def act_lift_def result_simps
        elim!: act_then_OkE update_with_OkE)
  note n1 = new_substate_step [OF s(1) assms(2)]
  note n2 = new_substate_step [OF s(2) n1(2)]
  have "claim_burn ri' claim' data' t1 \<noteq> (t2, Ok ())"
  proof
    assume "claim_burn ri' claim' data' t1 = (t2, Ok ())"
    then obtain ws3 where "new_substate (ri_env ri') ws2 (ClaimedOutputTombstoneId (bc_commitment claim))
       (ClaimedOutputTombstoneValue (bc_value claim')) = Ok ws3"
      using s(3) assms(3) by (auto simp: claim_burn_def claim_burn_state_def read_with_def act_lift_def result_simps
        elim!: act_then_OkE update_with_OkE)
    from new_substate_step(1) [OF this n2(2)] show False using n1(3) n2(3) by (simp add: state_view_def)
  qed
  then show ?thesis using n1 n2 s(3) by (simp add: state_view_def)
qed

section \<open>Creating vaults\<close>

lemma empty_container_spec:
  "(empty_container ty ra :: resource_container rc_result) = Ok c \<Longrightarrow>
     resource_type_of c = ty \<and> address c = ra \<and> wf_container c \<and> (\<forall>a. holds_free c a = 0 \<and> holds_locked c a = 0)"
  by (cases ty) (auto simp: empty_container_def rc_ctor_defs resource_type_of_def wf_container_def in_i192_def
      Amount_MAX_def Amount_MIN_def holding_defs fcard_fempty split: asset.splits)

text \<open>A new vault has the type of its resource. When a vault is created for a resource, the resource exists, the
  vault did not exist before, its container is empty, well formed, of the resource's address and of the resource's
  type, and no other substate changes.\<close>

theorem created_vault_type:
  assumes "vault_create ri (VaultOf ra) args t = (t', Ok r)" and "store_inv (store (tk_working t))"
  shows "\<exists>res v x. r = IrVault v \<and> current (store (tk_working t)) (ResourceId ra) = Some (ResourceValue res) \<and>
    current (store (tk_working t)) (VaultId v) = None \<and>
    current (store (tk_working t')) = (current (store (tk_working t)))(VaultId v \<mapsto> VaultValue x) \<and>
    resource_type_of (v_container x) = r_resource_type res \<and> address (v_container x) = ra \<and>
    wf_container (v_container x) \<and> v_freeze_flags x = 0 \<and>
    (\<forall>a. holds_free (v_container x) a = 0 \<and> holds_locked (v_container x) a = 0)"
proof -
  obtain ws1 l res ws2 v c ws3 ws4 s where
    l: "lock_substate (tk_working t) (ResourceId ra) Read = Ok (ws1, l)" "get_resource ws1 l = Ok res"
    and i: "fallible_id ws1 (new_vault_id (env_hasher (ri_env ri))) = Ok (ws2, v)"
    and c: "(empty_container (r_resource_type res) ra :: resource_container rc_result) = Ok c"
    and n: "new_substate (ri_env ri) ws2 (VaultId v) (VaultValue (vault_new c)) = Ok ws3"
    and u: "unlock_substate ws3 l = Ok ws4" and t': "tk_working t' = set_current_call_scope ws4 s" "r = IrVault v"
    using assms(1) unfolding vault_create_def
    by (auto simp: vault_ref_resource_def act_lift_def result_simps elim!: act_then_OkE write_with_OkE)
  note s1 = lock_substate_step [OF l(1) assms(2)]
  have w2: "store ws2 = store ws1" "buckets ws2 = buckets ws1"
    using i by (auto simp: fallible_id_def with_id_provider_def Let_def result_simps split: if_splits prod.splits)
  have i2: "store_inv (store ws2)" using s1(1) w2 by simp
  note n1 = new_substate_step [OF n i2]
  note u1 = unlock_step [OF u n1(2)]
  show ?thesis
    using read_step(2) [OF l(1) assms(2), of res] l(2) empty_container_spec [OF c] s1(2) w2 n1 u1(2) t'
    by (intro exI [of _ res] exI [of _ v] exI [of _ "vault_new c"])
      (simp add: state_view_def vault_new_def)
qed

section \<open>Burning outputs\<close>

text \<open>An output of a resource with a tracked supply cannot be burnt with an El Gamal value proof. The output is
  burnt before its viewable balance is read, so the proof never has a balance to be checked against.\<close>

theorem elgamal_burn_never_succeeds:
  assumes "svp_knowledge_proof proof = ElgamalEncrypted key"
  shows "burn_utxo env ra True u (Some proof) ws \<noteq> Ok ws'"
  using assms by (auto simp: burn_utxo_def Let_def result_simps utxo_burn_def validate_value_proof_def split: if_splits)

definition std_runtime :: runtime where
  "std_runtime = bank_runtime\<lparr>tk_working := (tk_working bank_runtime)\<lparr>call_frames :=
     [\<lparr>frame_scope = call_scope_new, frame_template = 5, frame_module = ''std'', frame_entity_id = 0\<rparr>], virtual_epoch := Some 1\<rparr>\<rparr>"

theorem custom_event_topic_witness:
  "\<exists>t' e. emit_event sample_interface ''vault.deposit'' fmempty std_runtime = (t', Ok ()) \<and>
     events (tk_working t') = events (tk_working std_runtime) @ [e] \<and> ev_topic e = std_event ''vault'' ''deposit''"
proof -
  obtain t' where w: "emit_event sample_interface ''vault.deposit'' fmempty std_runtime = (t', Ok ())"
    by (simp add: emit_event_def handler_eval validate_custom_topic_def STANDARD_TOPIC_PREFIX_def is_ascii_alphanumeric_def
        runtime_call_def update_with_def std_runtime_def bank_eval)
  have "call_frames (tk_working std_runtime) \<noteq> []" "frame_module (last (call_frames (tk_working std_runtime))) = ''std''"
    by (simp_all add: std_runtime_def)
  then show ?thesis
    using custom_event_topic [OF w sample_interface_metered, of "''vault''" "''deposit''"] w by auto
qed

definition sample_claim :: burn_claim where
  "sample_claim = \<lparr>bc_burn_public_key = 1, bc_commitment = 6, bc_evidence = [], bc_value = 10\<rparr>"

theorem burn_claimed_once_witness:
  "\<exists>t1. claim_burn sample_interface sample_claim [] std_runtime = (t1, Ok ()) \<and>
     current (store (tk_working t1)) (ClaimedOutputTombstoneId 6) = Some (ClaimedOutputTombstoneValue 10) \<and>
     \<not> (\<exists>t2. claim_burn sample_interface sample_claim [1] t1 = (t2, Ok ()))"
proof -
  obtain t1 where w: "claim_burn sample_interface sample_claim [] std_runtime = (t1, Ok ())"
    by (simp add: claim_burn_def claim_burn_state_def handler_eval std_runtime_def bank_eval update_with_def get_current_epoch_def
        new_substate_eval sample_claim_def)
  have i: "store_inv (store (tk_working std_runtime))" using bank_values(1) by (simp add: std_runtime_def)
  show ?thesis using burn_claimed_once [OF w i refl, of sample_interface "[1]"] w by (auto simp: sample_claim_def)
qed

theorem created_vault_type_witness:
  "\<exists>t' v x. vault_create sample_interface (VaultOf 9) [] bank_runtime = (t', Ok (IrVault v)) \<and>
     current (store (tk_working t')) (VaultId v) = Some (VaultValue x) \<and> resource_type_of (v_container x) = TFungible"
proof -
  obtain t' r where w: "vault_create sample_interface (VaultOf 9) [] bank_runtime = (t', Ok r)"
    by (simp add: vault_create_def handler_eval lock_eval value_eval bank_eval vault_ref_resource_def assert_no_args_def
        fallible_id_def new_vault_id_def empty_container_def new_substate_eval next_object_key_def ids_next_id_def
        generate_output_id_def object_key_new_def)
  show ?thesis using created_vault_type [OF w bank_values(1)] w bank_values(3)
    by (auto simp: plain_resource_def resource_new_def)
qed

theorem elgamal_burn_never_succeeds_witness:
  "burn_utxo sample_env 9 True 6 (Some \<lparr>svp_value = 1, svp_knowledge_proof = ElgamalEncrypted 2\<rparr>) (tk_working bank_runtime)
     \<noteq> Ok (tk_working bank_runtime)"
  using elgamal_burn_never_succeeds [of "\<lparr>svp_value = 1, svp_knowledge_proof = ElgamalEncrypted 2\<rparr>" 2] by simp

end
