(* ===== verification/Sharding.thy ===== *)
theory Sharding
  imports Prelude
begin

text \<open>
  The division of the address space among validators: crates/common_types/src (shard.rs,
  num_preshards.rs, shard_group.rs, substate_address.rs, vote_power.rs, committee.rs). 256 bit unsigned
  integers are natural numbers: for shards up to the number of shards no operation below leaves the
  256 bit range (\<open>shard_size_eq\<close>). A substate address is the 32 byte object key followed by the four
  bytes of the version, ordered as bytes, that is by key and then by version.
\<close>

section \<open>Shards\<close>

datatype num_preshards = P1 | P2 | P4 | P8 | P16 | P32 | P64 | P128 | P256

primrec preshards_as_u32 :: "num_preshards \<Rightarrow> nat" where
  "preshards_as_u32 P1 = 1" | "preshards_as_u32 P2 = 2" | "preshards_as_u32 P4 = 4"
| "preshards_as_u32 P8 = 8" | "preshards_as_u32 P16 = 16" | "preshards_as_u32 P32 = 32"
| "preshards_as_u32 P64 = 64" | "preshards_as_u32 P128 = 128" | "preshards_as_u32 P256 = 256"

definition preshards_try_from :: "nat \<Rightarrow> num_preshards option" where
  "preshards_try_from v =
     (if v = 1 then Some P1 else if v = 2 then Some P2 else if v = 4 then Some P4
      else if v = 8 then Some P8 else if v = 16 then Some P16 else if v = 32 then Some P32
      else if v = 64 then Some P64 else if v = 128 then Some P128 else if v = 256 then Some P256 else None)"

definition shard_first :: nat where "shard_first = 1"
definition shard_global :: nat where "shard_global = 0"

definition all_shards_iter :: "num_preshards \<Rightarrow> nat list" where
  "all_shards_iter ns = [1..<preshards_as_u32 ns + 1]"

text \<open>\<open>u32::trailing_zeros\<close> and the shift of the largest 256 bit integer by it.\<close>

fun trailing_zeros :: "nat \<Rightarrow> nat" where
  "trailing_zeros n = (if n = 0 then 32 else if even n then Suc (trailing_zeros (n div 2)) else 0)"

declare trailing_zeros.simps [simp del]

definition shard_size :: "num_preshards \<Rightarrow> nat" where
  "shard_size ns = (2 ^ 256 - 1) div 2 ^ trailing_zeros (preshards_as_u32 ns)"

section \<open>Substate addresses\<close>

record substate_address =
  sa_key :: bytes32
  sa_version :: "32 word"

definition addr_zero :: substate_address where "addr_zero = \<lparr>sa_key = 0, sa_version = 0\<rparr>"
definition addr_max :: substate_address where "addr_max = \<lparr>sa_key = - 1, sa_version = - 1\<rparr>"

definition addr_is_zero :: "substate_address \<Rightarrow> bool" where
  "addr_is_zero a \<longleftrightarrow> sa_key a = 0 \<and> sa_version a = 0"

definition from_u256 :: "nat \<Rightarrow> 32 word \<Rightarrow> substate_address" where
  "from_u256 n v = \<lparr>sa_key = of_nat n, sa_version = v\<rparr>"

definition from_u256_zero_version :: "nat \<Rightarrow> substate_address" where
  "from_u256_zero_version n = from_u256 n 0"

definition to_u256 :: "substate_address \<Rightarrow> nat" where
  "to_u256 a = unat (sa_key a)"

definition addr_le :: "substate_address \<Rightarrow> substate_address \<Rightarrow> bool" where
  "addr_le a b \<longleftrightarrow> sa_key a < sa_key b \<or> sa_key a = sa_key b \<and> sa_version a \<le> sa_version b"

type_synonym address_range = "substate_address \<times> substate_address"

definition in_address_range :: "substate_address \<Rightarrow> address_range \<Rightarrow> bool" where
  "in_address_range a r \<longleftrightarrow> addr_le (fst r) a \<and> addr_le a (snd r)"

definition to_shard :: "substate_address \<Rightarrow> num_preshards \<Rightarrow> (nat, 'e) result" where
  "to_shard a ns =
     (if preshards_as_u32 ns = 1 \<or> addr_is_zero a then Ok shard_first
      else
        let q = to_u256 a div shard_size ns in
        and_then (expect ''to_shard: num_shards is a u32, so this cannot fail''
          (if q \<le> u32_max then Some q else None)) (\<lambda>q'.
        and_then (expect ''to_shard: num_shards overflow. num_shards is u32 so this cannot fail''
          (if q' + 1 \<le> u32_max then Some (q' + 1) else None)) (\<lambda>m.
        Ok (min m (preshards_as_u32 ns)))))"

definition shard_to_substate_address_range :: "nat \<Rightarrow> num_preshards \<Rightarrow> address_range" where
  "shard_to_substate_address_range s ns =
     (if ns = P1 \<or> s = shard_global then (addr_zero, addr_max)
      else
        let shard_index = s - 1; size = shard_size ns in
        if shard_index = 0 then (addr_zero, from_u256_zero_version (size - 1))
        else
          let start = shard_index * size in
          if shard_index = preshards_as_u32 ns - 1
          then (from_u256_zero_version (start + shard_index - 1), addr_max)
          else
            let stop = start + size in
            (from_u256_zero_version (start + shard_index - 1), from_u256_zero_version (stop + shard_index - 1)))"

section \<open>Shard groups\<close>

record shard_group =
  sg_start :: nat
  sg_end_inclusive :: nat

definition sg_new_unchecked :: "nat \<Rightarrow> nat \<Rightarrow> shard_group" where
  "sg_new_unchecked s e = \<lparr>sg_start = s, sg_end_inclusive = e\<rparr>"

definition sg_new_checked :: "nat \<Rightarrow> nat \<Rightarrow> shard_group option" where
  "sg_new_checked s e = (if s > e then None else Some (sg_new_unchecked s e))"

definition sg_new :: "nat \<Rightarrow> nat \<Rightarrow> (shard_group, 'e) result" where
  "sg_new s e = expect ''INVARIANT: start shard must be less than or equal to end_inclusive'' (sg_new_checked s e)"

definition sg_all_shards :: "num_preshards \<Rightarrow> (shard_group, 'e) result" where
  "sg_all_shards ns = sg_new shard_first (preshards_as_u32 ns)"

definition sg_len :: "shard_group \<Rightarrow> (nat, 'e) result" where
  "sg_len g = and_then (u32_add (sg_end_inclusive g) 1) (\<lambda>n. u32_sub n (sg_start g))"

definition sg_checked_len :: "shard_group \<Rightarrow> nat option" where
  "sg_checked_len g =
     (if sg_end_inclusive g + 1 > u32_max \<or> sg_end_inclusive g + 1 < sg_start g then None
      else let len = sg_end_inclusive g + 1 - sg_start g in if len > 0 then Some len else None)"

unbundle bit_operations_syntax

text \<open>The shift drops what leaves the 32 bits.\<close>

definition encode_as_u32 :: "shard_group \<Rightarrow> 32 word" where
  "encode_as_u32 g = push_bit 16 (of_nat (sg_start g)) OR of_nat (sg_end_inclusive g)"

definition MAX_ENCODED_VALUE :: "32 word" where
  "MAX_ENCODED_VALUE = push_bit 16 256 + 256"

definition decode_from_u32 :: "32 word \<Rightarrow> shard_group option" where
  "decode_from_u32 n =
     (if n > MAX_ENCODED_VALUE then None
      else sg_new_checked (unat (drop_bit 16 n)) (unat (n AND 0xFFFF)))"

definition sg_contains :: "shard_group \<Rightarrow> nat \<Rightarrow> bool" where
  "sg_contains g s \<longleftrightarrow> sg_start g \<le> s \<and> s \<le> sg_end_inclusive g"

definition contains_or_global :: "shard_group \<Rightarrow> nat \<Rightarrow> bool" where
  "contains_or_global g s \<longleftrightarrow> s = shard_global \<or> sg_contains g s"

definition overlaps_shard_group :: "shard_group \<Rightarrow> shard_group \<Rightarrow> bool" where
  "overlaps_shard_group a b \<longleftrightarrow> sg_start a \<le> sg_end_inclusive b \<and> sg_end_inclusive a \<ge> sg_start b"

definition intersection :: "shard_group \<Rightarrow> shard_group \<Rightarrow> shard_group option" where
  "intersection a b =
     (if overlaps_shard_group a b
      then Some (sg_new_unchecked (max (sg_start a) (sg_start b)) (min (sg_end_inclusive a) (sg_end_inclusive b)))
      else None)"

definition relative_to_shard_group_start :: "nat \<Rightarrow> shard_group \<Rightarrow> nat option" where
  "relative_to_shard_group_start s g =
     (if \<not> sg_contains g s then None else if s < sg_start g then None else Some (s - sg_start g))"

definition group_to_substate_address_range :: "shard_group \<Rightarrow> num_preshards \<Rightarrow> (address_range, 'e) result" where
  "group_to_substate_address_range g ns =
     (if ns = P1 then Ok (addr_zero, addr_max)
      else
        let size = shard_size ns in
        and_then (if sg_start g = shard_first then Ok 0
          else and_then (u32_sub (sg_start g) 1) (\<lambda>p. Ok (size * sg_start g + p))) (\<lambda>start.
        if sg_end_inclusive g = preshards_as_u32 ns then Ok (from_u256_zero_version start, addr_max)
        else
          let stop = size * sg_end_inclusive g + size + sg_end_inclusive g in
          Ok (from_u256_zero_version start, from_u256_zero_version (stop - 1))))"

text \<open>The loop of \<open>SubstateAddress::to_shard_group\<close>. It may not end, so not returning is \<open>None\<close>.\<close>

partial_function (option) group_loop :: "nat \<Rightarrow> nat \<Rightarrow> nat \<Rightarrow> nat \<Rightarrow> nat \<Rightarrow> (nat \<times> nat) option" where
  "group_loop per_committee shard_index rem start stop =
     (if stop > shard_index then Some (start, stop)
      else
        let start1 = start + per_committee;
            start2 = (if rem > 0 then start1 + 1 else start1);
            rem' = (if rem > 0 then rem - 1 else rem);
            stop1 = start2 + per_committee
        in group_loop per_committee shard_index rem' start2 (if rem' > 0 then stop1 + 1 else stop1))"

definition to_shard_group :: "substate_address \<Rightarrow> num_preshards \<Rightarrow> nat \<Rightarrow> (shard_group, 'e) result option" where
  "to_shard_group a ns committees =
     (let n = preshards_as_u32 ns; c = min committees n in
      if c \<le> 1 then Some (sg_new shard_first n)
      else case to_shard a ns of
        Ok shard \<Rightarrow>
          map_option (\<lambda>(start, stop). sg_new (start + 1) stop)
            (group_loop (n div c) (shard - 1) (n mod c) 0 (if n mod c > 0 then n div c + 1 else n div c))
      | Err e \<Rightarrow> Some (Err e)
      | Panic m \<Rightarrow> Some (Panic m))"

text \<open>The iterator of \<open>NumPreshards::all_shard_groups_iter\<close>, run to its end.\<close>

partial_function (option) shard_groups_from ::
  "nat \<Rightarrow> nat \<Rightarrow> nat \<Rightarrow> nat \<Rightarrow> nat \<Rightarrow> (shard_group list, 'e) result option" where
  "shard_groups_from n per_committee rem start stop =
     (if start \<ge> n then Some (Ok [])
      else
        let stop' = (if rem > 0 then stop + 1 else stop);
            rem' = (if rem > 0 then rem - 1 else rem);
            start' = stop' + 1
        in Option.bind (shard_groups_from n per_committee rem' start' (start' + per_committee - 1)) (\<lambda>rest.
           Some (and_then (sg_new (start + 1) (stop' + 1)) (\<lambda>g. and_then rest (\<lambda>gs. Ok (g # gs))))))"

definition all_shard_groups_iter :: "num_preshards \<Rightarrow> nat \<Rightarrow> (shard_group list, 'e) result option" where
  "all_shard_groups_iter ns committees =
     (let n = preshards_as_u32 ns in
      if committees = 0 then Some (Panic ''attempt to divide by zero'')
      else case u32_sub (n div committees) 1 of
        Ok stop \<Rightarrow> shard_groups_from n (n div committees) (n mod committees) 0 stop
      | Err e \<Rightarrow> Some (Err e)
      | Panic m \<Rightarrow> Some (Panic m))"

section \<open>Committees\<close>

record 'a committee_member =
  member_address :: 'a
  member_public_key :: public_key
  member_vote_power :: nat

type_synonym 'a committee = "'a committee_member list"

definition committee_total_power :: "'a committee \<Rightarrow> (nat, 'e) result" where
  "committee_total_power ms = try_fold (\<lambda>acc m. u64_add acc (member_vote_power m)) 0 ms"

definition committee_max_failures :: "'a committee \<Rightarrow> (nat, 'e) result" where
  "committee_max_failures ms = and_then (committee_total_power ms) (\<lambda>p.
     if p = 0 then Ok 0 else and_then (u64_sub p 1) (\<lambda>q. Ok (q div 3)))"

definition committee_quorum_threshold :: "'a committee \<Rightarrow> (nat, 'e) result" where
  "committee_quorum_threshold ms =
     and_then (committee_total_power ms) (\<lambda>p. and_then (committee_max_failures ms) (\<lambda>f. u64_sub p f))"

definition max_node_failures :: "'a committee \<Rightarrow> nat" where
  "max_node_failures ms = (if ms = [] then 0 else (length ms + 1) div 3)"

definition committee_contains :: "'a committee \<Rightarrow> 'a \<Rightarrow> bool" where
  "committee_contains ms a \<longleftrightarrow> list_ex (\<lambda>m. member_address m = a) ms"

definition contains_public_key :: "'a committee \<Rightarrow> public_key \<Rightarrow> bool" where
  "contains_public_key ms k \<longleftrightarrow> list_ex (\<lambda>m. member_public_key m = k) ms"

definition get_power_by_public_key :: "'a committee \<Rightarrow> public_key \<Rightarrow> nat option" where
  "get_power_by_public_key ms k = map_option member_vote_power (find (\<lambda>m. member_public_key m = k) ms)"

primrec position :: "('a \<Rightarrow> bool) \<Rightarrow> 'a list \<Rightarrow> nat option" where
  "position P [] = None"
| "position P (x # xs) = (if P x then Some 0 else map_option Suc (position P xs))"

definition index_of :: "'a committee \<Rightarrow> 'a \<Rightarrow> nat option" where
  "index_of ms a = position (\<lambda>m. member_address m = a) ms"

text \<open>\<open>cycle\<close>, \<open>skip\<close> and \<open>take\<close> on the addresses; a cycle of no members is empty.\<close>

definition select_n_starting_from :: "'a committee \<Rightarrow> nat \<Rightarrow> nat \<Rightarrow> 'a list" where
  "select_n_starting_from ms n start =
     (let n' = min n (length ms); start' = (if ms = [] then 0 else start mod length ms) in
      if ms = [] then []
      else map (\<lambda>i. member_address (ms ! ((start' + i) mod length ms))) [0..<n'])"

definition calculate_steps_between :: "'a committee \<Rightarrow> 'a \<Rightarrow> 'a \<Rightarrow> nat option" where
  "calculate_steps_between ms a b = (case index_of ms a of
     None \<Rightarrow> None
   | Some i \<Rightarrow> (case index_of ms b of
       None \<Rightarrow> None
     | Some j \<Rightarrow>
         let steps = int i - int j in
         if steps < 0 then Some (nat (int (length ms) + steps)) else Some (nat steps)))"

record committee_info =
  ci_num_shards :: num_preshards
  ci_num_shard_group_members :: nat
  ci_num_committees :: nat
  ci_shard_group :: shard_group
  ci_epoch :: nat
  ci_total_power :: nat

definition info_max_failures :: "committee_info \<Rightarrow> (nat, 'e) result" where
  "info_max_failures ci =
     (if ci_total_power ci = 0 then Ok 0 else and_then (u64_sub (ci_total_power ci) 1) (\<lambda>q. Ok (q div 3)))"

definition info_quorum_threshold :: "committee_info \<Rightarrow> (nat, 'e) result" where
  "info_quorum_threshold ci = and_then (info_max_failures ci) (\<lambda>f. u64_sub (ci_total_power ci) f)"

definition max_failure_shard_group_members :: "committee_info \<Rightarrow> (nat, 'e) result" where
  "max_failure_shard_group_members ci =
     and_then (u32_add (ci_num_shard_group_members ci) 1) (\<lambda>n. Ok (n div 3))"

definition info_to_substate_address_range :: "committee_info \<Rightarrow> (address_range, 'e) result" where
  "info_to_substate_address_range ci = group_to_substate_address_range (ci_shard_group ci) (ci_num_shards ci)"

definition includes_substate_address :: "committee_info \<Rightarrow> substate_address \<Rightarrow> (bool, 'e) result" where
  "includes_substate_address ci a =
     and_then (to_shard a (ci_num_shards ci)) (\<lambda>s. Ok (sg_contains (ci_shard_group ci) s))"

section \<open>Laws\<close>

lemma preshards_pos [simp]: "0 < preshards_as_u32 ns"
  by (cases ns) simp_all

lemma preshards_ge1 [simp]: "Suc 0 \<le> preshards_as_u32 ns"
  by (simp add: Suc_le_eq)

lemma preshards_le: "preshards_as_u32 ns \<le> 256"
  by (cases ns) simp_all

lemma shard_size_eq: "preshards_as_u32 ns * (shard_size ns + 1) = 2 ^ 256"
  by (cases ns) (simp_all add: shard_size_def trailing_zeros.simps)

lemma shard_size_big: "2 ^ 247 < shard_size ns"
  by (cases ns) (simp_all add: shard_size_def trailing_zeros.simps)

lemma to_u256_lt: "to_u256 a < 2 ^ 256"
  using unsigned_less [of "sa_key a"] by (simp add: to_u256_def)

lemma quotient_le: "to_u256 a div shard_size ns \<le> preshards_as_u32 ns"
proof -
  have "to_u256 a < preshards_as_u32 ns * shard_size ns + preshards_as_u32 ns"
    using to_u256_lt [of a] shard_size_eq [of ns] by (simp add: algebra_simps)
  also have "\<dots> \<le> (preshards_as_u32 ns + 1) * shard_size ns"
    using preshards_le [of ns] shard_size_big [of ns] by simp
  finally have "to_u256 a div shard_size ns < preshards_as_u32 ns + 1" by (rule less_mult_imp_div_less)
  then show ?thesis by simp
qed

definition shard_of :: "substate_address \<Rightarrow> num_preshards \<Rightarrow> nat" where
  "shard_of a ns = min (to_u256 a div shard_size ns + 1) (preshards_as_u32 ns)"

lemma shard_of_bounds: "1 \<le> shard_of a ns" "shard_of a ns \<le> preshards_as_u32 ns"
  by (simp_all add: shard_of_def)

lemma to_shard_eq: "to_shard a ns = Ok (shard_of a ns)"
proof (cases "preshards_as_u32 ns = 1 \<or> addr_is_zero a")
  case True
  then show ?thesis
    by (auto simp: to_shard_def shard_first_def addr_is_zero_def to_u256_def shard_of_def min_absorb1)
next
  case False
  then show ?thesis using quotient_le [of a ns] preshards_le [of ns]
    by (simp add: to_shard_def Let_def u32_max_def shard_of_def)
qed

text \<open>The first shard index of committee \<open>j\<close> when \<open>n\<close> shards are dealt to \<open>c\<close> committees, the first
  \<open>n mod c\<close> of which get one more.\<close>

definition committee_bound :: "nat \<Rightarrow> nat \<Rightarrow> nat \<Rightarrow> nat" where
  "committee_bound n c j = j * (n div c) + min j (n mod c)"

lemma committee_bound_0 [simp]: "committee_bound n c 0 = 0"
  by (simp add: committee_bound_def)

lemma committee_bound_last: "0 < c \<Longrightarrow> committee_bound n c c = n"
proof -
  assume "0 < c"
  then have "min c (n mod c) = n mod c" by (simp add: min_absorb2 less_imp_le)
  then show "committee_bound n c c = n" by (simp add: committee_bound_def)
qed

lemma committee_bound_Suc:
  "committee_bound n c (Suc j) = committee_bound n c j + n div c + (if j < n mod c then 1 else 0)"
  by (auto simp: committee_bound_def)

lemma committee_bound_less: "\<lbrakk>0 < c; c \<le> n\<rbrakk> \<Longrightarrow> committee_bound n c j < committee_bound n c (Suc j)"
  by (simp add: committee_bound_Suc div_greater_zero_iff)

lemma committee_bound_mono: "i \<le> j \<Longrightarrow> committee_bound n c i \<le> committee_bound n c j"
  by (rule lift_Suc_mono_le) (auto simp: committee_bound_Suc)

lemma group_loop_bound:
  assumes "0 < c" "c \<le> n" "k < n" "committee_bound n c j \<le> k"
  shows "\<exists>i < c. group_loop (n div c) k (n mod c - j) (committee_bound n c j) (committee_bound n c (Suc j)) =
     Some (committee_bound n c i, committee_bound n c (Suc i)) \<and>
     committee_bound n c i \<le> k \<and> k < committee_bound n c (Suc i)"
  using assms(4)
proof (induction "n - committee_bound n c j" arbitrary: j rule: less_induct)
  case less
  have j: "j < c"
    using committee_bound_mono [of c j n c] less.prems assms(3) committee_bound_last [OF assms(1), of n] by linarith
  show ?case
  proof (cases "k < committee_bound n c (Suc j)")
    case True
    then show ?thesis using j less.prems by (subst group_loop.simps) auto
  next
    case False
    have "n - committee_bound n c (Suc j) < n - committee_bound n c j"
      using committee_bound_less [OF assms(1,2), of j] False less.prems assms(3) by linarith
    note ih = less.hyps [OF this]
    have "group_loop (n div c) k (n mod c - j) (committee_bound n c j) (committee_bound n c (Suc j)) =
       group_loop (n div c) k (n mod c - Suc j) (committee_bound n c (Suc j)) (committee_bound n c (Suc (Suc j)))"
      using False by (subst group_loop.simps) (auto simp: Let_def committee_bound_Suc)
    then show ?thesis using ih False by simp
  qed
qed

lemma to_shard_group_bound:
  assumes "1 < c" "c \<le> preshards_as_u32 ns"
  shows "\<exists>i < c. to_shard_group a ns c = Some (Ok (sg_new_unchecked (committee_bound (preshards_as_u32 ns) c i + 1)
      (committee_bound (preshards_as_u32 ns) c (Suc i)))) \<and>
     committee_bound (preshards_as_u32 ns) c i < shard_of a ns \<and>
     shard_of a ns \<le> committee_bound (preshards_as_u32 ns) c (Suc i)"
proof -
  let ?n = "preshards_as_u32 ns" and ?s = "shard_of a ns"
  have s: "1 \<le> ?s" "?s - 1 < ?n" using shard_of_bounds [of a ns] by auto
  have stop: "(if ?n mod c > 0 then ?n div c + 1 else ?n div c) = committee_bound ?n c (Suc 0)"
    by (simp add: committee_bound_Suc)
  obtain i where i: "i < c" "group_loop (?n div c) (?s - 1) (?n mod c) 0 (committee_bound ?n c (Suc 0)) =
      Some (committee_bound ?n c i, committee_bound ?n c (Suc i))"
      "committee_bound ?n c i \<le> ?s - 1" "?s - 1 < committee_bound ?n c (Suc i)"
    using group_loop_bound [of c ?n "?s - 1" 0] assms s by auto
  have m: "min c ?n = c" using assms(2) by simp
  have "to_shard_group a ns c = Some (sg_new (committee_bound ?n c i + 1) (committee_bound ?n c (Suc i)))"
    using assms(1) i(2) unfolding to_shard_group_def Let_def m to_shard_eq stop by simp
  then show ?thesis using i s by (intro exI [of _ i]) (auto simp: sg_new_def sg_new_checked_def)
qed

lemma shard_groups_from_bound:
  assumes "0 < c" "c \<le> n" "j \<le> c"
  shows "shard_groups_from n (n div c) (n mod c - j) (committee_bound n c j) (committee_bound n c j + n div c - 1) =
    (Some (Ok (map (\<lambda>i. sg_new_unchecked (committee_bound n c i + 1) (committee_bound n c (Suc i))) [j..<c]))
      :: (_, 'e) result option)"
  using assms(3)
proof (induction "c - j" arbitrary: j)
  case 0
  then show ?case using committee_bound_last [OF assms(1), of n] by (subst shard_groups_from.simps) simp
next
  case (Suc d)
  then have j: "j < c" "Suc j \<le> c" "d = c - Suc j" by auto
  have pos: "0 < n div c" using assms(1,2) by (simp add: div_greater_zero_iff)
  have lt: "committee_bound n c j < n"
    using committee_bound_less [OF assms(1,2), of j] committee_bound_mono [OF j(2), of n c]
      committee_bound_last [OF assms(1), of n] by linarith
  define stop where "stop = (if n mod c - j > 0 then committee_bound n c j + n div c - 1 + 1
     else committee_bound n c j + n div c - 1)"
  have e: "stop + 1 = committee_bound n c (Suc j)" using pos by (auto simp: stop_def committee_bound_Suc)
  have r: "(if n mod c - j > 0 then n mod c - j - 1 else n mod c - j) = n mod c - Suc j" by auto
  have m: "map f [j..<c] = f j # map f [Suc j..<c]" for f :: "nat \<Rightarrow> shard_group" using j by (simp add: upt_rec)
  have "committee_bound n c j < committee_bound n c (Suc j)" by (rule committee_bound_less [OF assms(1,2)])
  moreover have "shard_groups_from n (n div c) (n mod c - j) (committee_bound n c j) (committee_bound n c j + n div c - 1) =
     (Option.bind (shard_groups_from n (n div c) (if n mod c - j > 0 then n mod c - j - 1 else n mod c - j)
       (stop + 1) (stop + 1 + n div c - 1)) (\<lambda>rest. Some (and_then (sg_new (committee_bound n c j + 1) (stop + 1))
         (\<lambda>g. and_then rest (\<lambda>gs. Ok (g # gs))))) :: (_, 'e) result option)"
    unfolding stop_def using lt by (subst shard_groups_from.simps) (simp only: Let_def not_le [symmetric] if_False)
  ultimately show ?case
    using Suc.hyps(1) [OF j(3,2)] unfolding r e m by (simp add: sg_new_def sg_new_checked_def)
qed

lemma all_shard_groups_eq:
  assumes "0 < c" "c \<le> preshards_as_u32 ns"
  shows "all_shard_groups_iter ns c = Some (Ok (map (\<lambda>i. sg_new_unchecked
      (committee_bound (preshards_as_u32 ns) c i + 1) (committee_bound (preshards_as_u32 ns) c (Suc i))) [0..<c]))"
  using shard_groups_from_bound [OF assms, of 0] assms
  by (simp add: all_shard_groups_iter_def Let_def u32_sub_def div_greater_zero_iff Suc_le_eq)

definition sg_shards :: "shard_group \<Rightarrow> nat list" where
  "sg_shards g = [sg_start g..<sg_end_inclusive g + 1]"

lemma concat_bounds:
  "(\<And>j. f j \<le> f (Suc j)) \<Longrightarrow> concat (map (\<lambda>i. [f i + 1..<f (Suc i) + 1]) [0..<c]) = [f 0 + 1..<f c + 1]"
proof (induction c)
  case (Suc c)
  have "f 0 \<le> f c" using Suc.prems by (rule lift_Suc_mono_le) simp
  moreover obtain k where "f (Suc c) = f c + k" using Suc.prems [of c] le_Suc_ex by blast
  ultimately show ?case using Suc upt_add_eq_append [of "f 0 + 1" "f c + 1" k] by simp
qed simp

text \<open>C32: Every substate address belongs to a shard, and the search for its shard group always ends: for any
  number of shards and committees it returns a group that contains the address's shard.\<close>

theorem to_shard_group_returns:
  "\<exists>s g. to_shard a ns = Ok s \<and> 1 \<le> s \<and> s \<le> preshards_as_u32 ns \<and>
     to_shard_group a ns committees = (Some (Ok g) :: (_, 'e) result option) \<and> sg_contains g s"
proof -
  let ?n = "preshards_as_u32 ns"
  let ?c = "min committees ?n"
  have s: "to_shard a ns = Ok (shard_of a ns)" "1 \<le> shard_of a ns" "shard_of a ns \<le> ?n"
    using to_shard_eq shard_of_bounds by blast+
  have "\<exists>g. to_shard_group a ns committees = (Some (Ok g) :: (_, 'e) result option) \<and> sg_contains g (shard_of a ns)"
  proof (cases "?c \<le> 1")
    case True
    then show ?thesis using s(2,3) by (auto simp: to_shard_group_def Let_def sg_new_def sg_new_checked_def
          shard_first_def sg_contains_def sg_new_unchecked_def)
  next
    case False
    then have c: "1 < ?c" "?c \<le> ?n" by auto
    have "to_shard_group a ns committees = (to_shard_group a ns ?c :: (_, 'e) result option)" by (simp add: to_shard_group_def)
    then show ?thesis using to_shard_group_bound [OF c, of a]
      by (auto simp: sg_contains_def sg_new_unchecked_def)
  qed
  then show ?thesis using s by blast
qed

text \<open>C33: The shard groups of the committees partition the shards. For one to as many committees as shards, the
  iterator ends with one group per committee, their shards in order are all the shards exactly once,
  and the group of every address is one of them.\<close>

theorem shard_groups_partition:
  assumes "0 < c" and "c \<le> preshards_as_u32 ns"
  shows "\<exists>gs. all_shard_groups_iter ns c = Some (Ok gs) \<and> length gs = c \<and>
     concat (map sg_shards gs) = all_shards_iter ns \<and>
     (\<exists>g \<in> set gs. to_shard_group a ns c = Some (Ok g))"
proof -
  let ?n = "preshards_as_u32 ns"
  let ?g = "\<lambda>i. sg_new_unchecked (committee_bound ?n c i + 1) (committee_bound ?n c (Suc i))"
  have p: "concat (map sg_shards (map ?g [0..<c])) = all_shards_iter ns"
    using concat_bounds [of "committee_bound ?n c" c] committee_bound_mono [of _ _ ?n c] committee_bound_last [OF assms(1), of ?n]
    by (simp add: sg_shards_def sg_new_unchecked_def comp_def all_shards_iter_def)
  have "\<exists>i<c. to_shard_group a ns c = Some (Ok (?g i))"
  proof (cases "c = 1")
    case True
    then show ?thesis using committee_bound_last [of 1 ?n]
      by (auto simp: to_shard_group_def Let_def sg_new_def sg_new_checked_def shard_first_def)
  next
    case False
    then show ?thesis using to_shard_group_bound [of c ns a] assms by auto
  qed
  then show ?thesis using all_shard_groups_eq [OF assms] p by (intro exI [of _ "map ?g [0..<c]"]) auto
qed

theorem shard_groups_partition_witness:
  "\<exists>gs. all_shard_groups_iter P8 3 = Some (Ok gs) \<and> length gs = 3 \<and>
     concat (map sg_shards gs) = all_shards_iter P8"
  using shard_groups_partition [of 3 P8] by auto

subsection \<open>Encoding\<close>

lemma encode_as_u32_eq:
  assumes "sg_start g \<le> 256" "sg_end_inclusive g \<le> 256"
  shows "encode_as_u32 g = of_nat (sg_start g * 65536 + sg_end_inclusive g)"
proof -
  let ?a = "push_bit 16 (of_nat (sg_start g)) :: 32 word" and ?b = "of_nat (sg_end_inclusive g) :: 32 word"
  have "sg_end_inclusive g div 2 ^ i = 0" if "16 \<le> i" for i
  proof -
    have "(2 :: nat) ^ 16 \<le> 2 ^ i" using that by (rule power_increasing) simp
    then show ?thesis using assms(2) by (intro div_less) simp
  qed
  then have "\<not> bit (sg_end_inclusive g) i" if "16 \<le> i" for i using that by (simp add: bit_iff_odd)
  then have "?a AND ?b = 0"
    by (intro bit_word_eqI) (auto simp: bit_and_iff bit_push_bit_iff bit_of_nat_iff)
  then have "encode_as_u32 g = ?a + ?b" by (simp add: encode_as_u32_def disjunctive_add_eq_or)
  then show ?thesis by (simp add: push_bit_eq_mult)
qed

lemma unat_and_0xFFFF: "unat (w AND 0xFFFF) = unat w mod 2 ^ 16" for w :: "32 word"
proof -
  have "w AND 0xFFFF = take_bit 16 w" by (simp add: take_bit_eq_mask mask_eq_exp_minus_1)
  then have "unat (w AND 0xFFFF) = take_bit 16 (unat w)" by (simp only: unsigned_take_bit_eq)
  then show ?thesis by (simp only: take_bit_eq_mod)
qed

lemma decode_encode:
  assumes "sg_start g \<le> sg_end_inclusive g" "sg_end_inclusive g \<le> 256"
  shows "decode_from_u32 (encode_as_u32 g) = Some g"
proof -
  let ?n = "sg_start g * 65536 + sg_end_inclusive g"
  let ?w = "of_nat ?n :: 32 word"
  have "?n < 2 ^ 32" using assms by simp
  then have n: "unat ?w = ?n" unfolding unat_of_nat by simp
  have m: "unat MAX_ENCODED_VALUE = 16777472" by (simp add: MAX_ENCODED_VALUE_def push_bit_eq_mult)
  have "\<not> MAX_ENCODED_VALUE < ?w" unfolding word_less_nat_alt n m using assms by simp
  moreover have "unat (drop_bit 16 ?w) = sg_start g"
    unfolding unat_drop_bit_eq n using assms by (simp add: drop_bit_eq_div)
  moreover have "unat (?w AND 0xFFFF) = sg_end_inclusive g"
    unfolding unat_and_0xFFFF n using assms by simp
  ultimately show ?thesis using assms encode_as_u32_eq [of g]
    by (simp add: decode_from_u32_def sg_new_checked_def sg_new_unchecked_def)
qed

subsection \<open>Quorums\<close>

definition power_of :: "'a committee \<Rightarrow> nat set \<Rightarrow> nat" where
  "power_of ms A = (\<Sum>i\<in>A. member_vote_power (ms ! i))"

lemma fold_power:
  "try_fold (\<lambda>acc m. u64_add acc (member_vote_power m)) acc xs = (Ok p :: (nat, 'e) result) \<Longrightarrow>
     p = acc + sum_list (map member_vote_power xs)"
proof (induction xs arbitrary: acc)
  case (Cons x xs)
  then have "try_fold (\<lambda>acc m. u64_add acc (member_vote_power m)) (acc + member_vote_power x) xs = (Ok p :: (nat, 'e) result)"
    by (simp add: result_simps)
  from Cons.IH [OF this] show ?case by simp
qed simp

lemma total_power_sum:
  "committee_total_power ms = (Ok p :: (nat, 'e) result) \<Longrightarrow> p = power_of ms {..<length ms}"
  unfolding committee_total_power_def power_of_def
  by (drule fold_power) (simp add: sum_list_sum_nth atLeast0LessThan)

lemma quorum_threshold_eq:
  assumes "committee_quorum_threshold ms = (Ok q :: (nat, 'e) result)"
  shows "\<exists>f. committee_max_failures ms = (Ok f :: (nat, 'e) result) \<and> q + f = power_of ms {..<length ms} \<and>
    (0 < power_of ms {..<length ms} \<longrightarrow> 3 * f < power_of ms {..<length ms})"
proof -
  obtain p f where p: "committee_total_power ms = (Ok p :: (nat, 'e) result)"
    and f: "committee_max_failures ms = (Ok f :: (nat, 'e) result)" and q: "q = p - f" "f \<le> p"
    using assms by (auto simp: committee_quorum_threshold_def result_simps)
  have "f = (p - 1) div 3" using f p by (cases "p = 0") (simp_all add: committee_max_failures_def u64_sub_def)
  then have "0 < p \<longrightarrow> 3 * f < p" by linarith
  then show ?thesis using f q unfolding total_power_sum [OF p, symmetric] by (intro exI [of _ f]) simp
qed

lemma power_of_Un_Int:
  "finite A \<Longrightarrow> finite B \<Longrightarrow> power_of ms A + power_of ms B = power_of ms (A \<union> B) + power_of ms (A \<inter> B)"
  unfolding power_of_def by (rule sum.union_inter [symmetric])

lemma power_of_mono: "A \<subseteq> B \<Longrightarrow> finite B \<Longrightarrow> power_of ms A \<le> power_of ms B"
  unfolding power_of_def by (rule sum_mono2) simp_all

lemma quorum_overlap:
  assumes "committee_quorum_threshold ms = (Ok q :: (nat, 'e) result)" "0 < q"
    "A \<subseteq> {..<length ms}" "B \<subseteq> {..<length ms}" "q \<le> power_of ms A" "q \<le> power_of ms B"
  shows "\<exists>f. committee_max_failures ms = (Ok f :: (nat, 'e) result) \<and> f < power_of ms (A \<inter> B)"
proof -
  obtain f where f: "committee_max_failures ms = (Ok f :: (nat, 'e) result)" "q + f = power_of ms {..<length ms}"
      "0 < power_of ms {..<length ms} \<longrightarrow> 3 * f < power_of ms {..<length ms}"
    using quorum_threshold_eq [OF assms(1)] by (elim exE conjE)
  have fin: "finite A" "finite B" by (rule finite_subset [OF assms(3)], simp) (rule finite_subset [OF assms(4)], simp)
  have u: "power_of ms (A \<union> B) \<le> power_of ms {..<length ms}" by (rule power_of_mono) (use assms(3,4) in auto)
  have "0 < power_of ms {..<length ms}" using f(2) assms(2) by linarith
  with f(3) have "3 * f < power_of ms {..<length ms}" by (rule mp)
  with u power_of_Un_Int [OF fin, of ms] assms(5,6) f(2) have "f < power_of ms (A \<inter> B)" by linarith
  then show ?thesis using f(1) by blast
qed

subsection \<open>Properties\<close>

text \<open>A committee of four members with one vote each.\<close>

definition sample_committee :: "nat committee" where
  "sample_committee = map (\<lambda>i. \<lparr>member_address = i, member_public_key = of_nat i, member_vote_power = 1\<rparr>) [0, 1, 2, 3]"

text \<open>C15: Two quorums always share an honest validator. In a committee with voting power, any two sets of members
  that each reach the quorum threshold overlap in members whose power exceeds the failures the
  committee tolerates.\<close>

theorem quorums_intersect:
  assumes "committee_quorum_threshold ms = (Ok q :: (nat, 'e) result)" and "0 < q"
    and "A \<subseteq> {..<length ms}" and "B \<subseteq> {..<length ms}" and "q \<le> power_of ms A" and "q \<le> power_of ms B"
  shows "\<exists>f. committee_max_failures ms = (Ok f :: (nat, 'e) result) \<and> f < power_of ms (A \<inter> B)"
  by (rule quorum_overlap [OF assms])

theorem quorums_intersect_witness:
  "committee_quorum_threshold sample_committee = (Ok 3 :: (nat, unit) result) \<and>
   (\<exists>f. committee_max_failures sample_committee = (Ok f :: (nat, unit) result) \<and>
      f < power_of sample_committee ({0, 1, 2} \<inter> {1, 2, 3}))"
proof -
  have q: "committee_quorum_threshold sample_committee = (Ok 3 :: (nat, unit) result)"
    by (simp add: committee_quorum_threshold_def committee_max_failures_def committee_total_power_def
        sample_committee_def u64_add_def u64_sub_def u64_max_def)
  have p: "3 \<le> power_of sample_committee {0, 1, 2}" "3 \<le> power_of sample_committee {1, 2, 3}"
    by (simp_all add: power_of_def sample_committee_def)
  show ?thesis using quorums_intersect [OF q _ _ _ p] q by (auto simp: sample_committee_def)
qed

text \<open>A committee can always make progress: if the members that fail have at most the tolerated power, the
  others reach the quorum threshold.\<close>

theorem quorum_reachable:
  assumes "committee_quorum_threshold ms = (Ok q :: (nat, 'e) result)"
    and "committee_max_failures ms = (Ok f :: (nat, 'e) result)"
    and "F \<subseteq> {..<length ms}" and "power_of ms F \<le> f"
  shows "q \<le> power_of ms ({..<length ms} - F)"
proof -
  have "power_of ms {..<length ms} = power_of ms F + power_of ms ({..<length ms} - F)"
    unfolding power_of_def using sum.subset_diff [OF assms(3) finite_lessThan] by (simp only: add.commute)
  moreover obtain f' where "committee_max_failures ms = (Ok f' :: (nat, 'e) result)" "q + f' = power_of ms {..<length ms}"
    using quorum_threshold_eq [OF assms(1)] by (elim exE conjE)
  ultimately show ?thesis using assms(2,4) by simp
qed

theorem quorum_reachable_witness:
  "committee_max_failures sample_committee = (Ok 1 :: (nat, unit) result) \<and>
   3 \<le> power_of sample_committee ({..<length sample_committee} - {2})"
proof -
  have q: "committee_quorum_threshold sample_committee = (Ok 3 :: (nat, unit) result)"
    "committee_max_failures sample_committee = (Ok 1 :: (nat, unit) result)"
    by (simp_all add: committee_quorum_threshold_def committee_max_failures_def committee_total_power_def
        sample_committee_def u64_add_def u64_sub_def u64_max_def)
  have p: "power_of sample_committee {2} \<le> 1" "{2} \<subseteq> {..<length sample_committee}"
    by (simp_all add: power_of_def sample_committee_def)
  show ?thesis using quorum_reachable [OF q p(2,1)] q by simp
qed

text \<open>A shard group survives its encoding as a 32 bit integer whenever its shards are among the 256 that
  exist.\<close>

theorem shard_group_code_roundtrip:
  assumes "sg_start g \<le> sg_end_inclusive g" and "sg_end_inclusive g \<le> 256"
  shows "decode_from_u32 (encode_as_u32 g) = Some g"
  by (rule decode_encode [OF assms])

theorem shard_group_code_roundtrip_witness:
  "decode_from_u32 (encode_as_u32 \<lparr>sg_start = 123, sg_end_inclusive = 234\<rparr>) =
     Some \<lparr>sg_start = 123, sg_end_inclusive = 234\<rparr>"
  by (rule shard_group_code_roundtrip) simp_all

lemma less_times_Suc_div: "0 < z \<Longrightarrow> u div z + 1 = s \<Longrightarrow> u < z * s" for u z s :: nat
  using dividend_less_times_div [of z u] by auto

text \<open>The address range of a shard group misses the group's own first shard. When a group starts at a shard
  other than the first and the last, no address of that shard is in the range computed for the group,
  although the group contains the shard.\<close>

theorem shard_group_range_misses_first_shard:
  assumes "1 < sg_start g" and "sg_start g \<le> sg_end_inclusive g" and "sg_start g < preshards_as_u32 ns"
    and "to_shard a ns = (Ok (sg_start g) :: (nat, 'e) result)"
    and "group_to_substate_address_range g ns = (Ok r :: (address_range, 'e) result)"
  shows "sg_contains g (sg_start g) \<and> \<not> in_address_range a r"
proof -
  let ?s = "sg_start g" and ?z = "shard_size ns"
  let ?start = "?z * ?s + (?s - 1)"
  have "to_u256 a div ?z + 1 = ?s" using assms(3,4) by (simp add: to_shard_eq shard_of_def min_def split: if_splits)
  then have "to_u256 a < ?z * ?s" by (rule less_times_Suc_div [rotated]) (use shard_size_big [of ns] in linarith)
  moreover have "?start < 2 ^ 256"
  proof -
    have "(?z + 1) * ?s \<le> (?z + 1) * preshards_as_u32 ns" using assms(3) by (intro mult_le_mono2) simp
    then have "?z * ?s + ?s \<le> 2 ^ 256" using shard_size_eq [of ns] by (simp add: algebra_simps)
    then show ?thesis using assms(1) by linarith
  qed
  then have "unat (of_nat ?start :: 256 word) = ?start" unfolding unat_of_nat by simp
  moreover have "sa_key (fst r) = of_nat ?start"
    using assms(1,3,5) by (auto simp: group_to_substate_address_range_def Let_def shard_first_def result_simps
        from_u256_zero_version_def from_u256_def split: if_splits)
  ultimately have "sa_key a < sa_key (fst r)" by (simp add: word_less_nat_alt to_u256_def)
  then show ?thesis using assms(2) by (auto simp: in_address_range_def addr_le_def sg_contains_def)
qed

theorem shard_group_range_misses_first_shard_witness:
  "to_shard (from_u256 (2 ^ 254 + 5) 0) P4 = (Ok 2 :: (nat, unit) result) \<and>
   (\<exists>r. group_to_substate_address_range (sg_new_unchecked 2 3) P4 = (Ok r :: (address_range, unit) result) \<and>
     \<not> in_address_range (from_u256 (2 ^ 254 + 5) 0) r)"
proof -
  let ?g = "sg_new_unchecked 2 3"
  have g: "sg_start ?g = 2" "sg_end_inclusive ?g = 3" by (simp_all add: sg_new_unchecked_def)
  have s: "to_shard (from_u256 (2 ^ 254 + 5) 0) P4 = (Ok (sg_start ?g) :: (nat, unit) result)"
    unfolding to_shard_eq g
    by (simp add: shard_of_def from_u256_def to_u256_def shard_size_def trailing_zeros.simps)
  obtain r where r: "group_to_substate_address_range ?g P4 = (Ok r :: (address_range, unit) result)"
    by (simp add: group_to_substate_address_range_def g shard_first_def u32_sub_def Let_def)
  have "\<not> in_address_range (from_u256 (2 ^ 254 + 5) 0) r"
    using shard_group_range_misses_first_shard [OF _ _ _ s r] by (simp add: g)
  then show ?thesis using s r by (auto simp: g)
qed

end
