(* ===== verification/ConsensusTypes.thy ===== *)
theory ConsensusTypes
  imports Tracker Sharding
begin

text \<open>
  The data that consensus decides on: decisions (crates/consensus_types/src/decision.rs), versioned
  substate ids (crates/common_types/src/versioned_substate_id.rs), lock types and lock intents
  (crates/common_types/src/lock_intent.rs, crates/storage/src/consensus_models/lock_intent.rs), leader fees
  (leader_fee.rs), certificates and votes (crates/consensus_types/src/certificates). The hash functions
  and the signature scheme are parameters.
\<close>

type_synonym block_id = bytes32
type_synonym transaction_id = bytes32
type_synonym qc_id = bytes32
type_synonym tc_id = bytes32
type_synonym fixed_hash = bytes32
type_synonym epoch = nat
type_synonym node_height = nat

section \<open>Decisions\<close>

datatype decision = DecisionCommit | DecisionAbort abort_reason

definition is_same_outcome :: "decision \<Rightarrow> decision \<Rightarrow> bool" where
  "is_same_outcome a b = (case (a, b) of
     (DecisionCommit, DecisionCommit) \<Rightarrow> True | (DecisionAbort _, DecisionAbort _) \<Rightarrow> True | _ \<Rightarrow> False)"

primrec is_commit :: "decision \<Rightarrow> bool" where
  "is_commit DecisionCommit = True"
| "is_commit (DecisionAbort _) = False"

primrec is_abort :: "decision \<Rightarrow> bool" where
  "is_abort DecisionCommit = False"
| "is_abort (DecisionAbort _) = True"

primrec decision_and :: "decision \<Rightarrow> decision \<Rightarrow> decision" where
  "decision_and DecisionCommit other = other"
| "decision_and (DecisionAbort reason) other = DecisionAbort reason"

primrec decision_abort_reason :: "decision \<Rightarrow> abort_reason option" where
  "decision_abort_reason DecisionCommit = None"
| "decision_abort_reason (DecisionAbort reason) = Some reason"

primrec decision_from_result :: "transaction_result \<Rightarrow> decision" where
  "decision_from_result (Accept _) = DecisionCommit"
| "decision_from_result (AcceptFeeRejectRest _ _) = DecisionCommit"
| "decision_from_result (Reject reason) = DecisionAbort (abort_reason_from reason)"

section \<open>Addresses of substates\<close>

text \<open>The two hashes of \<open>SubstateId::to_object_key\<close>.\<close>

record id_hasher =
  ih_non_fungible :: "resource_address \<Rightarrow> non_fungible_id \<Rightarrow> bytes32"
  ih_utxo :: "resource_address \<Rightarrow> commitment \<Rightarrow> bytes32"

unbundle bit_operations_syntax

text \<open>The key of a token is the 20 byte entity id of its resource followed by the last 12 bytes of the hash.\<close>

primrec to_object_key :: "id_hasher \<Rightarrow> substate_id \<Rightarrow> bytes32" where
  "to_object_key h (ComponentId a) = a"
| "to_object_key h (ResourceId a) = a"
| "to_object_key h (VaultId a) = a"
| "to_object_key h (NonFungibleId a) =
     (nf_resource_address a AND push_bit 96 (mask 160)) OR
     (ih_non_fungible h (nf_resource_address a) (nf_id a) AND mask 96)"
| "to_object_key h (ClaimedOutputTombstoneId a) = a"
| "to_object_key h (TransactionReceiptId a) = a"
| "to_object_key h (TemplateId a) = a"
| "to_object_key h (ValidatorFeePoolId a) = a"
| "to_object_key h (UtxoId a) = ih_utxo h (utxo_resource_address a) (utxo_id a)"

definition from_substate_id :: "id_hasher \<Rightarrow> substate_id \<Rightarrow> nat \<Rightarrow> substate_address" where
  "from_substate_id h i v = \<lparr>sa_key = to_object_key h i, sa_version = of_nat v\<rparr>"

definition is_global :: "substate_id \<Rightarrow> bool" where
  "is_global i \<longleftrightarrow> is_template i"

record versioned_substate_id =
  vsi_substate_id :: substate_id
  vsi_version :: nat

abbreviation versioned :: "substate_id \<Rightarrow> nat \<Rightarrow> versioned_substate_id" where
  "versioned i v \<equiv> \<lparr>vsi_substate_id = i, vsi_version = v\<rparr>"

definition vsi_to_substate_address :: "id_hasher \<Rightarrow> versioned_substate_id \<Rightarrow> substate_address" where
  "vsi_to_substate_address h i = from_substate_id h (vsi_substate_id i) (vsi_version i)"

definition vsi_to_shard :: "id_hasher \<Rightarrow> versioned_substate_id \<Rightarrow> num_preshards \<Rightarrow> (nat, 'e) result" where
  "vsi_to_shard h i ns =
     (if is_global (vsi_substate_id i) then Ok shard_global else to_shard (vsi_to_substate_address h i) ns)"

definition to_previous_version :: "versioned_substate_id \<Rightarrow> versioned_substate_id option" where
  "to_previous_version i =
     (if vsi_version i = 0 then None else Some (versioned (vsi_substate_id i) (vsi_version i - 1)))"

definition to_next_version :: "versioned_substate_id \<Rightarrow> (versioned_substate_id, 'e) result" where
  "to_next_version i = and_then (u32_add (vsi_version i) 1) (\<lambda>v. Ok (versioned (vsi_substate_id i) v))"

definition is_validator_fee_pool_id :: "substate_id \<Rightarrow> bool" where
  "is_validator_fee_pool_id i = (case i of ValidatorFeePoolId _ \<Rightarrow> True | _ \<Rightarrow> False)"

definition is_resource_id :: "substate_id \<Rightarrow> bool" where
  "is_resource_id i = (case i of ResourceId _ \<Rightarrow> True | _ \<Rightarrow> False)"

definition is_read_only :: "substate_id \<Rightarrow> bool" where
  "is_read_only i = (case i of TransactionReceiptId _ \<Rightarrow> True | TemplateId _ \<Rightarrow> True | _ \<Rightarrow> False)"

text \<open>The shard of an address always exists (\<open>to_shard_eq\<close>), so these two are plain predicates.\<close>

definition includes_substate_id :: "id_hasher \<Rightarrow> committee_info \<Rightarrow> substate_id \<Rightarrow> bool" where
  "includes_substate_id h ci i =
     (if is_global i then True
      else case (vsi_to_shard h (versioned i 0) (ci_num_shards ci) :: (nat, unit) result) of
        Ok s \<Rightarrow> sg_contains (ci_shard_group ci) s | _ \<Rightarrow> False)"

definition is_all_local :: "id_hasher \<Rightarrow> committee_info \<Rightarrow> substate_id list \<Rightarrow> bool" where
  "is_all_local h ci ids \<longleftrightarrow>
     list_all (\<lambda>i. if is_global i \<and> ci_num_committees ci > 1 then False else includes_substate_id h ci i) ids"

record substate_requirement =
  req_substate_id :: substate_id
  req_version :: "nat option"

definition req_or_zero_version :: "substate_requirement \<Rightarrow> versioned_substate_id" where
  "req_or_zero_version r =
     versioned (req_substate_id r) (case req_version r of None \<Rightarrow> 0 | Some v \<Rightarrow> v)"

definition req_to_versioned :: "substate_requirement \<Rightarrow> versioned_substate_id option" where
  "req_to_versioned r = map_option (versioned (req_substate_id r)) (req_version r)"

section \<open>Locks\<close>

datatype substate_lock_type = LockRead | LockWrite | LockOutput

definition lock_is_write :: "substate_lock_type \<Rightarrow> bool" where "lock_is_write t \<longleftrightarrow> t = LockWrite"
definition lock_is_read :: "substate_lock_type \<Rightarrow> bool" where "lock_is_read t \<longleftrightarrow> t = LockRead"
definition lock_is_output :: "substate_lock_type \<Rightarrow> bool" where "lock_is_output t \<longleftrightarrow> t = LockOutput"
definition lock_is_input :: "substate_lock_type \<Rightarrow> bool" where "lock_is_input t \<longleftrightarrow> \<not> lock_is_output t"

primrec lock_allows :: "substate_lock_type \<Rightarrow> substate_lock_type \<Rightarrow> bool" where
  "lock_allows LockRead other \<longleftrightarrow> other = LockRead"
| "lock_allows LockWrite other \<longleftrightarrow> other = LockRead \<or> other = LockWrite"
| "lock_allows LockOutput other \<longleftrightarrow> other = LockOutput"

text \<open>
  A lock intent is anything with the four methods of the trait; the three types that implement it are
  converted to the record of their answers.
\<close>

record lock_intent =
  li_substate_id :: substate_id
  li_lock_type :: substate_lock_type
  li_version_to_lock :: nat
  li_requested_version :: "nat option"

definition to_versioned_substate_id_ref :: "lock_intent \<Rightarrow> versioned_substate_id" where
  "to_versioned_substate_id_ref l = versioned (li_substate_id l) (li_version_to_lock l)"

record versioned_lock_intent =
  vli_versioned_substate_id :: versioned_substate_id
  vli_lock_type :: substate_lock_type
  vli_require_version :: bool

definition vli_from_requirement :: "substate_requirement \<Rightarrow> substate_lock_type \<Rightarrow> versioned_lock_intent" where
  "vli_from_requirement r t = \<lparr>vli_versioned_substate_id = req_or_zero_version r, vli_lock_type = t,
     vli_require_version = (req_version r \<noteq> None)\<rparr>"

definition vli_output :: "versioned_substate_id \<Rightarrow> versioned_lock_intent" where
  "vli_output i = \<lparr>vli_versioned_substate_id = i, vli_lock_type = LockOutput, vli_require_version = True\<rparr>"

definition vli_to_substate_requirement :: "versioned_lock_intent \<Rightarrow> substate_requirement" where
  "vli_to_substate_requirement l = \<lparr>req_substate_id = vsi_substate_id (vli_versioned_substate_id l),
     req_version = (if vli_require_version l then Some (vsi_version (vli_versioned_substate_id l)) else None)\<rparr>"

definition vli_intent :: "versioned_lock_intent \<Rightarrow> lock_intent" where
  "vli_intent l = \<lparr>li_substate_id = vsi_substate_id (vli_versioned_substate_id l), li_lock_type = vli_lock_type l,
     li_version_to_lock = vsi_version (vli_versioned_substate_id l),
     li_requested_version = (if vli_require_version l then Some (vsi_version (vli_versioned_substate_id l)) else None)\<rparr>"

definition require_lock_intent :: "substate_id \<Rightarrow> nat \<Rightarrow> substate_lock_type \<Rightarrow> lock_intent" where
  "require_lock_intent i v t =
     \<lparr>li_substate_id = i, li_lock_type = t, li_version_to_lock = v, li_requested_version = Some v\<rparr>"

record requirement_lock_intent =
  rli_substate_requirement :: substate_requirement
  rli_version_to_lock :: nat
  rli_lock_type :: substate_lock_type

definition rli_intent :: "requirement_lock_intent \<Rightarrow> lock_intent" where
  "rli_intent l = \<lparr>li_substate_id = req_substate_id (rli_substate_requirement l), li_lock_type = rli_lock_type l,
     li_version_to_lock = rli_version_to_lock l, li_requested_version = req_version (rli_substate_requirement l)\<rparr>"

definition to_versioned_lock_intent :: "requirement_lock_intent \<Rightarrow> versioned_lock_intent" where
  "to_versioned_lock_intent l =
     \<lparr>vli_versioned_substate_id = versioned (req_substate_id (rli_substate_requirement l)) (rli_version_to_lock l),
      vli_lock_type = rli_lock_type l, vli_require_version = (req_version (rli_substate_requirement l) \<noteq> None)\<rparr>"

definition rli_from_versioned :: "versioned_lock_intent \<Rightarrow> requirement_lock_intent" where
  "rli_from_versioned l = \<lparr>rli_substate_requirement = vli_to_substate_requirement l,
     rli_version_to_lock = vsi_version (vli_versioned_substate_id l), rli_lock_type = vli_lock_type l\<rparr>"

record substate_lock =
  sl_lock_type :: substate_lock_type
  sl_transaction_id :: transaction_id
  sl_version :: nat
  sl_is_local_only :: bool

definition substate_lock_new ::
  "transaction_id \<Rightarrow> nat \<Rightarrow> substate_lock_type \<Rightarrow> bool \<Rightarrow> substate_lock" where
  "substate_lock_new tx v t local =
     \<lparr>sl_lock_type = t, sl_transaction_id = tx, sl_version = v, sl_is_local_only = local\<rparr>"

record locked_substate_value =
  lsv_substate_id :: substate_id
  lsv_lock :: substate_lock
  lsv_value :: "substate_value option"

definition lsv_satisfies_requirements :: "locked_substate_value \<Rightarrow> substate_requirement \<Rightarrow> bool" where
  "lsv_satisfies_requirements l r \<longleftrightarrow>
     (case req_version r of None \<Rightarrow> True | Some v \<Rightarrow> v = sl_version (lsv_lock l)) \<and>
     req_substate_id r = lsv_substate_id l"

definition lsv_satisfies_lock_intent :: "locked_substate_value \<Rightarrow> lock_intent \<Rightarrow> bool" where
  "lsv_satisfies_lock_intent l i \<longleftrightarrow> li_version_to_lock i = sl_version (lsv_lock l) \<and>
     lock_allows (sl_lock_type (lsv_lock l)) (li_lock_type i) \<and> li_substate_id i = lsv_substate_id l"

record lock_conflict =
  lc_transaction_id :: transaction_id
  lc_existing_lock :: substate_lock_type
  lc_requested_lock :: substate_lock_type
  lc_is_local_only :: bool

section \<open>Leader fees\<close>

record leader_fee =
  lf_fee :: nat
  lf_global_exhaust_burn :: nat

definition calculate_leader_fee :: "nat \<Rightarrow> nat \<Rightarrow> nat \<Rightarrow> (leader_fee, 'e) result" where
  "calculate_leader_fee transaction_fee shards exhaust_divisor =
     (let target_burn = (if exhaust_divisor = 0 then 0 else transaction_fee div exhaust_divisor) in
      and_then (u64_sub transaction_fee target_burn) (\<lambda>after_burn.
      let fee = after_burn div shards; excess = after_burn mod shards in
      and_then
        (if excess > 0 \<and> excess \<ge> shards div 2
         then and_then (u64_add fee 1) (\<lambda>more. and_then (u64_mul more shards) (\<lambda>paid. Ok (paid \<le> transaction_fee)))
         else Ok False) (\<lambda>pay_more.
      if pay_more
      then Ok \<lparr>lf_fee = fee + 1, lf_global_exhaust_burn = target_burn - (shards - excess)\<rparr>
      else and_then (u64_add target_burn excess) (\<lambda>burn. Ok \<lparr>lf_fee = fee, lf_global_exhaust_burn = burn\<rparr>))))"

section \<open>Certificates and votes\<close>

datatype quorum_decision = QuorumAccept | QuorumReject

record validator_signature =
  vs_public_key :: public_key
  vs_signature :: string

record proposal_certificate =
  pc_height :: node_height
  pc_header_hash :: fixed_hash
  pc_parent_id :: block_id
  pc_epoch :: epoch
  pc_shard_group :: shard_group
  pc_signatures :: "validator_signature list"
  pc_decision :: quorum_decision

record timeout_certificate =
  tc_epoch :: epoch
  tc_height :: node_height
  tc_signatures :: "validator_signature list"

record proposal_vote =
  pv_epoch :: epoch
  pv_block_id :: block_id
  pv_block_height :: node_height
  pv_decision :: quorum_decision
  pv_signature :: validator_signature

record timeout_vote =
  tv_epoch :: epoch
  tv_height :: node_height
  tv_signature :: validator_signature

text \<open>
  The hashes, and the verification of a signature over the fields of a proposal vote, which are the block
  id and the decision, and of a timeout vote.
\<close>

record consensus_crypto =
  cc_block_hash :: "block_id \<Rightarrow> fixed_hash \<Rightarrow> block_id"
  cc_qc_hash :: "fixed_hash \<Rightarrow> block_id \<Rightarrow> validator_signature list \<Rightarrow> quorum_decision \<Rightarrow> qc_id"
  cc_tc_hash :: "timeout_certificate \<Rightarrow> tc_id"
  cc_verify_proposal_vote :: "block_id \<Rightarrow> quorum_decision \<Rightarrow> validator_signature \<Rightarrow> bool"
  cc_verify_timeout_vote :: "epoch \<Rightarrow> node_height \<Rightarrow> validator_signature \<Rightarrow> bool"

definition from_parent_and_header_hash :: "consensus_crypto \<Rightarrow> block_id \<Rightarrow> fixed_hash \<Rightarrow> block_id" where
  "from_parent_and_header_hash cc parent h = (if h = 0 \<and> parent = 0 then 0 else cc_block_hash cc parent h)"

definition pc_genesis :: "epoch \<Rightarrow> shard_group \<Rightarrow> proposal_certificate" where
  "pc_genesis e g = \<lparr>pc_height = 0, pc_header_hash = 0, pc_parent_id = 0, pc_epoch = e, pc_shard_group = g,
     pc_signatures = [], pc_decision = QuorumAccept\<rparr>"

definition pc_calculate_id :: "consensus_crypto \<Rightarrow> proposal_certificate \<Rightarrow> qc_id" where
  "pc_calculate_id cc qc = cc_qc_hash cc (pc_header_hash qc) (pc_parent_id qc) (pc_signatures qc) (pc_decision qc)"

definition justifies_zero_block :: "proposal_certificate \<Rightarrow> bool" where
  "justifies_zero_block qc \<longleftrightarrow> pc_header_hash qc = 0"

definition pc_calculate_block_id :: "consensus_crypto \<Rightarrow> proposal_certificate \<Rightarrow> block_id" where
  "pc_calculate_block_id cc qc = from_parent_and_header_hash cc (pc_parent_id qc) (pc_header_hash qc)"

record high_pc =
  hp_block_id :: block_id
  hp_block_height :: node_height
  hp_epoch :: epoch
  hp_qc_id :: qc_id

record high_tc =
  ht_epoch :: epoch
  ht_height :: node_height
  ht_tc_id :: tc_id

definition as_high_pc :: "consensus_crypto \<Rightarrow> proposal_certificate \<Rightarrow> high_pc" where
  "as_high_pc cc qc = \<lparr>hp_block_id = pc_calculate_block_id cc qc, hp_block_height = pc_height qc,
     hp_epoch = pc_epoch qc, hp_qc_id = pc_calculate_id cc qc\<rparr>"

definition as_high_tc :: "consensus_crypto \<Rightarrow> timeout_certificate \<Rightarrow> high_tc" where
  "as_high_tc cc tc = \<lparr>ht_epoch = tc_epoch tc, ht_height = tc_height tc, ht_tc_id = cc_tc_hash cc tc\<rparr>"

section \<open>Laws\<close>

lemmas lock_type_simps = lock_is_write_def lock_is_read_def lock_is_output_def lock_is_input_def

lemma is_abort_iff [simp]: "is_abort d \<longleftrightarrow> \<not> is_commit d"
  by (cases d) simp_all

lemma decision_and_commit_iff [simp]: "is_commit (decision_and a b) \<longleftrightarrow> is_commit a \<and> is_commit b"
  by (cases a) simp_all

lemma is_same_outcome_iff: "is_same_outcome a b \<longleftrightarrow> is_commit a = is_commit b"
  by (cases a; cases b) (simp_all add: is_same_outcome_def)

lemma rli_from_versioned_intent [simp]: "rli_intent (rli_from_versioned l) = vli_intent l"
  by (simp add: rli_intent_def rli_from_versioned_def vli_intent_def vli_to_substate_requirement_def)

lemma to_versioned_from_versioned [simp]: "to_versioned_lock_intent (rli_from_versioned l) = l"
  by (simp add: to_versioned_lock_intent_def rli_from_versioned_def vli_to_substate_requirement_def)

end
