(* ===== verification/Evidence.thy ===== *)
theory Evidence
  imports ConsensusTypes "HOL-Library.Product_Lexorder" "HOL-Library.Option_ord"
begin

text \<open>
  Evidence and pledges: crates/storage/src/consensus_models/evidence.rs and block_pledges.rs. Evidence says, for
  every shard group a transaction involves, which inputs and outputs the group locks and which certificates
  justify that it prepared and accepted. The code keeps its index maps sorted by key, so they are finite
  maps here and a loop over one visits the keys in ascending order.
\<close>

section \<open>The order of the keys\<close>

text \<open>Substate ids are ordered by variant and then by content, shard groups by start and then by end.\<close>

primrec substate_id_key ::
  "substate_id \<Rightarrow> nat \<times> bytes32 \<times> non_fungible_id option \<times> bytes32" where
  "substate_id_key (ComponentId a) = (0, a, None, 0)"
| "substate_id_key (ResourceId a) = (1, a, None, 0)"
| "substate_id_key (VaultId a) = (2, a, None, 0)"
| "substate_id_key (ClaimedOutputTombstoneId a) = (3, a, None, 0)"
| "substate_id_key (NonFungibleId a) = (4, nf_resource_address a, Some (nf_id a), 0)"
| "substate_id_key (TransactionReceiptId a) = (5, a, None, 0)"
| "substate_id_key (TemplateId a) = (6, a, None, 0)"
| "substate_id_key (ValidatorFeePoolId a) = (7, a, None, 0)"
| "substate_id_key (UtxoId a) = (8, utxo_resource_address a, None, utxo_id a)"

lemma substate_id_key_inj: "substate_id_key a = substate_id_key b \<Longrightarrow> a = b"
  by (cases a; cases b) simp_all

instantiation substate_id :: linorder
begin

definition less_eq_substate_id :: "substate_id \<Rightarrow> substate_id \<Rightarrow> bool" where
  "less_eq_substate_id a b \<longleftrightarrow> substate_id_key a \<le> substate_id_key b"

definition less_substate_id :: "substate_id \<Rightarrow> substate_id \<Rightarrow> bool" where
  "less_substate_id a b \<longleftrightarrow> substate_id_key a < substate_id_key b"

instance
  by standard
    (auto simp: less_eq_substate_id_def less_substate_id_def intro: substate_id_key_inj)

end

instantiation shard_group_ext :: (linorder) linorder
begin

definition less_eq_shard_group_ext :: "'a shard_group_scheme \<Rightarrow> 'a shard_group_scheme \<Rightarrow> bool" where
  "less_eq_shard_group_ext a b \<longleftrightarrow>
     (sg_start a, sg_end_inclusive a, shard_group.more a) \<le> (sg_start b, sg_end_inclusive b, shard_group.more b)"

definition less_shard_group_ext :: "'a shard_group_scheme \<Rightarrow> 'a shard_group_scheme \<Rightarrow> bool" where
  "less_shard_group_ext a b \<longleftrightarrow>
     (sg_start a, sg_end_inclusive a, shard_group.more a) < (sg_start b, sg_end_inclusive b, shard_group.more b)"

instance
  by standard (auto simp: less_eq_shard_group_ext_def less_shard_group_ext_def)

end

section \<open>Merging maps\<close>

text \<open>A loop over the entries of one map that sets each key of another.\<close>

definition fmmerge :: "('v option \<Rightarrow> 'w \<Rightarrow> 'v) \<Rightarrow> ('k::linorder, 'v) fmap \<Rightarrow> ('k, 'w) fmap \<Rightarrow> ('k, 'v) fmap" where
  "fmmerge f m n = foldl (\<lambda>m (k, w). fmupd k (f (fmlookup m k) w) m) m (sorted_list_of_fmap n)"

lemma foldl_fmupd_lookup:
  "distinct (map fst xs) \<Longrightarrow> fmlookup (foldl (\<lambda>m (k, w). fmupd k (f (fmlookup m k) w) m) m xs) k =
     (case map_of xs k of None \<Rightarrow> fmlookup m k | Some w \<Rightarrow> Some (f (fmlookup m k) w))"
proof (induction xs arbitrary: m)
  case (Cons x xs)
  then show ?case by (cases x) (auto simp: map_of_eq_None_iff[symmetric] split: option.splits)
qed simp

lemma distinct_fst_sorted_list_of_fmap [simp]: "distinct (map fst (sorted_list_of_fmap m))"
  by (simp add: sorted_list_of_fmap_def comp_def)

lemma map_of_sorted_list_of_fmap [simp]: "map_of (sorted_list_of_fmap m) = fmlookup m"
  using fmap_of_sorted_list[of m] by (metis fmap_of_list.rep_eq)

lemma fmlookup_fmmerge [simp]:
  "fmlookup (fmmerge f m n) k =
     (case fmlookup n k of None \<Rightarrow> fmlookup m k | Some w \<Rightarrow> Some (f (fmlookup m k) w))"
  by (simp add: fmmerge_def foldl_fmupd_lookup)

section \<open>Evidence of one shard group\<close>

record evidence_input_lock =
  eil_is_write :: bool
  eil_version :: nat

definition as_lock_type :: "evidence_input_lock \<Rightarrow> substate_lock_type" where
  "as_lock_type l = (if eil_is_write l then LockWrite else LockRead)"

record shard_group_evidence =
  sge_inputs :: "(substate_id, evidence_input_lock option) fmap"
  sge_outputs :: "(substate_id, nat) fmap"
  sge_prepare_qc :: "qc_id option"
  sge_accept_qc :: "qc_id option"

definition sge_default :: shard_group_evidence where
  "sge_default = \<lparr>sge_inputs = fmempty, sge_outputs = fmempty, sge_prepare_qc = None, sge_accept_qc = None\<rparr>"

definition sge_insert ::
  "shard_group_evidence \<Rightarrow> substate_id \<Rightarrow> nat \<Rightarrow> substate_lock_type \<Rightarrow> shard_group_evidence" where
  "sge_insert e i v t =
     (if lock_is_input t
      then e\<lparr>sge_inputs := fmupd i (Some \<lparr>eil_is_write = lock_is_write t, eil_version = v\<rparr>) (sge_inputs e)\<rparr>
      else e\<lparr>sge_outputs := fmupd i v (sge_outputs e)\<rparr>)"

definition sge_insert_from_lock_intent :: "shard_group_evidence \<Rightarrow> lock_intent \<Rightarrow> shard_group_evidence" where
  "sge_insert_from_lock_intent e l = sge_insert e (li_substate_id l) (li_version_to_lock l) (li_lock_type l)"

definition insert_unpledged_input :: "shard_group_evidence \<Rightarrow> substate_id \<Rightarrow> shard_group_evidence" where
  "insert_unpledged_input e i = e\<lparr>sge_inputs := fmupd i None (sge_inputs e)\<rparr>"

definition insert_output :: "shard_group_evidence \<Rightarrow> substate_id \<Rightarrow> nat \<Rightarrow> shard_group_evidence" where
  "insert_output e i v = e\<lparr>sge_outputs := fmupd i v (sge_outputs e)\<rparr>"

definition is_prepare_justified :: "shard_group_evidence \<Rightarrow> bool" where
  "is_prepare_justified e \<longleftrightarrow> sge_prepare_qc e \<noteq> None"

definition is_accept_justified :: "shard_group_evidence \<Rightarrow> bool" where
  "is_accept_justified e \<longleftrightarrow> sge_accept_qc e \<noteq> None"

definition is_all_inputs_pledged :: "shard_group_evidence \<Rightarrow> bool" where
  "is_all_inputs_pledged e \<longleftrightarrow> list_all (\<lambda>(_, l). l \<noteq> None) (sorted_list_of_fmap (sge_inputs e))"

definition all_pledged_inputs_iter :: "shard_group_evidence \<Rightarrow> (substate_id \<times> evidence_input_lock) list" where
  "all_pledged_inputs_iter e =
     List.map_filter (\<lambda>(i, l). map_option (Pair i) l) (sorted_list_of_fmap (sge_inputs e))"

definition input_lock_intents :: "shard_group_evidence \<Rightarrow> lock_intent list" where
  "input_lock_intents e = map (\<lambda>(i, l). require_lock_intent i (eil_version l) (as_lock_type l)) (all_pledged_inputs_iter e)"

definition sge_abort :: "shard_group_evidence \<Rightarrow> shard_group_evidence" where
  "sge_abort e = e\<lparr>sge_inputs := fmmap (\<lambda>_. None) (sge_inputs e), sge_outputs := fmempty\<rparr>"

definition contains_pledge :: "shard_group_evidence \<Rightarrow> substate_id \<Rightarrow> nat \<Rightarrow> bool \<Rightarrow> bool" where
  "contains_pledge e i v is_input \<longleftrightarrow>
     (if is_input
      then (case fmlookup (sge_inputs e) i of Some (Some l) \<Rightarrow> eil_version l = v | _ \<Rightarrow> False)
      else fmlookup (sge_outputs e) i = Some v)"

text \<open>The two loops of \<open>ShardGroupEvidence::update\<close>.\<close>

definition sge_update :: "shard_group_evidence \<Rightarrow> shard_group_evidence \<Rightarrow> shard_group_evidence" where
  "sge_update e other = e\<lparr>
     sge_inputs := fmmerge (\<lambda>mine l. case l of
         Some x \<Rightarrow> Some x
       | None \<Rightarrow> (case mine of None \<Rightarrow> None | Some old \<Rightarrow> old)) (sge_inputs e) (sge_inputs other),
     sge_outputs := fmmerge (\<lambda>_ v. v) (sge_outputs e) (sge_outputs other)\<rparr>"

definition set_prepare_qc :: "shard_group_evidence \<Rightarrow> qc_id \<Rightarrow> shard_group_evidence" where
  "set_prepare_qc e q = e\<lparr>sge_prepare_qc := Some q\<rparr>"

definition set_accept_qc :: "shard_group_evidence \<Rightarrow> qc_id \<Rightarrow> shard_group_evidence" where
  "set_accept_qc e q = e\<lparr>sge_accept_qc := Some q\<rparr>"

section \<open>Evidence of a transaction\<close>

type_synonym evidence = "(shard_group, shard_group_evidence) fmap"

definition evidence_empty :: evidence where "evidence_empty = fmempty"

definition add_shard_group ::
  "evidence \<Rightarrow> shard_group \<Rightarrow> (shard_group_evidence \<Rightarrow> shard_group_evidence) \<Rightarrow> evidence" where
  "add_shard_group ev g f =
     (let ev' = (if g |\<in>| fmdom ev then ev else fmupd g sge_default ev) in
      case fmlookup ev' g of Some e \<Rightarrow> fmupd g (f e) ev' | None \<Rightarrow> ev')"

text \<open>The search for the shard group always returns (\<open>address_shard_group_returns\<close>).\<close>

definition address_shard_group :: "substate_address \<Rightarrow> num_preshards \<Rightarrow> nat \<Rightarrow> (shard_group, 'e) result" where
  "address_shard_group a ns committees =
     (case to_shard_group a ns committees of Some r \<Rightarrow> r | None \<Rightarrow> Panic ''does not return'')"

definition all_shard_groups :: "num_preshards \<Rightarrow> nat \<Rightarrow> (shard_group list, 'e) result" where
  "all_shard_groups ns committees =
     (case all_shard_groups_iter ns committees of Some r \<Rightarrow> r | None \<Rightarrow> Panic ''does not return'')"

definition from_inputs_and_outputs ::
  "id_hasher \<Rightarrow> num_preshards \<Rightarrow> nat \<Rightarrow> substate_requirement list \<Rightarrow> versioned_substate_id list \<Rightarrow>
    (evidence, 'e) result" where
  "from_inputs_and_outputs h ns committees inputs outputs =
     and_then (try_fold (\<lambda>ev r.
       and_then (address_shard_group (vsi_to_substate_address h (req_or_zero_version r)) ns committees) (\<lambda>g.
       Ok (add_shard_group ev g (\<lambda>e. insert_unpledged_input e (req_substate_id r))))) evidence_empty inputs) (\<lambda>ev1.
     try_fold (\<lambda>ev i.
       and_then (address_shard_group (vsi_to_substate_address h i) ns committees) (\<lambda>g.
       Ok (add_shard_group ev g (\<lambda>e. insert_output e (vsi_substate_id i) (vsi_version i))))) ev1 outputs)"

definition insert_from_lock_intent ::
  "id_hasher \<Rightarrow> num_preshards \<Rightarrow> nat \<Rightarrow> evidence \<Rightarrow> lock_intent \<Rightarrow> (evidence, 'e) result" where
  "insert_from_lock_intent h ns committees ev l =
     (if is_global (li_substate_id l)
      then and_then (all_shard_groups ns committees) (\<lambda>gs.
        Ok (foldl (\<lambda>ev g. add_shard_group ev g (\<lambda>e. sge_insert_from_lock_intent e l)) ev gs))
      else and_then (address_shard_group (from_substate_id h (li_substate_id l) (li_version_to_lock l)) ns committees)
        (\<lambda>g. Ok (add_shard_group ev g (\<lambda>e. sge_insert_from_lock_intent e l))))"

definition from_lock_intents ::
  "id_hasher \<Rightarrow> num_preshards \<Rightarrow> nat \<Rightarrow> lock_intent list \<Rightarrow> (evidence, 'e) result" where
  "from_lock_intents h ns committees intents =
     try_fold (insert_from_lock_intent h ns committees) evidence_empty intents"

definition insert_unpledged_from_substate_id ::
  "id_hasher \<Rightarrow> num_preshards \<Rightarrow> nat \<Rightarrow> evidence \<Rightarrow> substate_id \<Rightarrow> (evidence, 'e) result" where
  "insert_unpledged_from_substate_id h ns committees ev i =
     (if is_global i
      then and_then (all_shard_groups ns committees) (\<lambda>gs.
        Ok (foldl (\<lambda>ev g. add_shard_group ev g (\<lambda>e. insert_unpledged_input e i)) ev gs))
      else and_then (address_shard_group (from_substate_id h i 0) ns committees)
        (\<lambda>g. Ok (add_shard_group ev g (\<lambda>e. insert_unpledged_input e i))))"

definition all_inputs_iter :: "evidence \<Rightarrow> (shard_group \<times> substate_id \<times> evidence_input_lock option) list" where
  "all_inputs_iter ev =
     concat (map (\<lambda>(g, e). map (\<lambda>(i, l). (g, i, l)) (sorted_list_of_fmap (sge_inputs e))) (sorted_list_of_fmap ev))"

definition all_outputs_iter :: "evidence \<Rightarrow> (shard_group \<times> substate_id \<times> nat) list" where
  "all_outputs_iter ev =
     concat (map (\<lambda>(g, e). map (\<lambda>(i, v). (g, i, v)) (sorted_list_of_fmap (sge_outputs e))) (sorted_list_of_fmap ev))"

abbreviation evidence_values :: "evidence \<Rightarrow> shard_group_evidence list" where
  "evidence_values ev \<equiv> map snd (sorted_list_of_fmap ev)"

definition all_shard_groups_accepted :: "evidence \<Rightarrow> bool" where
  "all_shard_groups_accepted ev \<longleftrightarrow> list_all is_accept_justified (evidence_values ev)"

definition all_shard_groups_prepared :: "evidence \<Rightarrow> bool" where
  "all_shard_groups_prepared ev \<longleftrightarrow>
     list_all (\<lambda>e. is_prepare_justified e \<or> is_accept_justified e) (evidence_values ev)"

definition some_shard_groups_prepared :: "evidence \<Rightarrow> bool" where
  "some_shard_groups_prepared ev \<longleftrightarrow>
     list_ex (\<lambda>e. is_prepare_justified e \<or> is_accept_justified e) (evidence_values ev)"

definition has_inputs :: "evidence \<Rightarrow> shard_group \<Rightarrow> bool" where
  "has_inputs ev g \<longleftrightarrow> (case fmlookup ev g of Some e \<Rightarrow> sge_inputs e \<noteq> fmempty | None \<Rightarrow> False)"

definition all_input_shard_groups_prepared :: "evidence \<Rightarrow> shard_group \<Rightarrow> bool" where
  "all_input_shard_groups_prepared ev local \<longleftrightarrow>
     (let local_has_inputs = has_inputs ev local in
      list_all (\<lambda>e. if local_has_inputs then is_prepare_justified e
          else is_prepare_justified e \<or> is_accept_justified e)
        (filter (\<lambda>e. sge_inputs e \<noteq> fmempty) (evidence_values ev)))"

definition is_committee_output_only :: "evidence \<Rightarrow> shard_group \<Rightarrow> bool" where
  "is_committee_output_only ev g \<longleftrightarrow> (case fmlookup ev g of Some e \<Rightarrow> sge_inputs e = fmempty | None \<Rightarrow> True)"

definition is_committee_input_only :: "evidence \<Rightarrow> shard_group \<Rightarrow> bool" where
  "is_committee_input_only ev g \<longleftrightarrow> (case fmlookup ev g of Some e \<Rightarrow> sge_outputs e = fmempty | None \<Rightarrow> True)"

definition has_and_not_empty :: "evidence \<Rightarrow> shard_group \<Rightarrow> bool" where
  "has_and_not_empty ev g \<longleftrightarrow> (case fmlookup ev g of
     Some e \<Rightarrow> sge_inputs e \<noteq> fmempty \<or> sge_outputs e \<noteq> fmempty | None \<Rightarrow> False)"

definition evidence_abort :: "evidence \<Rightarrow> evidence" where
  "evidence_abort ev = fmmap sge_abort ev"

definition qc_ids_iter :: "evidence \<Rightarrow> qc_id list" where
  "qc_ids_iter ev = concat (map (\<lambda>e.
     (case sge_prepare_qc e of None \<Rightarrow> [] | Some q \<Rightarrow> [q]) @ (case sge_accept_qc e of None \<Rightarrow> [] | Some q \<Rightarrow> [q]))
     (evidence_values ev))"

definition input_shard_groups_iter :: "evidence \<Rightarrow> shard_group list" where
  "input_shard_groups_iter ev =
     List.map_filter (\<lambda>(g, e). if sge_inputs e = fmempty then None else Some g) (sorted_list_of_fmap ev)"

text \<open>The body of the loop of \<open>Evidence::merge\<close> for one shard group, and the loop.\<close>

definition merge_input :: "evidence_input_lock option option \<Rightarrow> evidence_input_lock option \<Rightarrow> evidence_input_lock option" where
  "merge_input mine other = (case mine of
     Some e \<Rightarrow> (case other of
         Some l \<Rightarrow> (case e of
             Some x \<Rightarrow> Some (x\<lparr>eil_is_write := eil_is_write l, eil_version := eil_version l\<rparr>)
           | None \<Rightarrow> Some l)
       | None \<Rightarrow> e)
   | None \<Rightarrow> other)"

definition merge_group :: "shard_group_evidence \<Rightarrow> shard_group_evidence \<Rightarrow> shard_group_evidence" where
  "merge_group e other = e\<lparr>
     sge_inputs := fmmerge merge_input (sge_inputs e) (sge_inputs other),
     sge_outputs := fmmerge (\<lambda>_ v. v) (sge_outputs e) (sge_outputs other)\<rparr>"

definition merge :: "evidence \<Rightarrow> evidence \<Rightarrow> evidence" where
  "merge ev other = fmmerge (\<lambda>mine e. merge_group (case mine of None \<Rightarrow> sge_default | Some m \<Rightarrow> m) e) ev other"

definition eq_pledges :: "evidence \<Rightarrow> evidence \<Rightarrow> bool" where
  "eq_pledges ev other \<longleftrightarrow>
     fcard (fmdom ev) = fcard (fmdom other) \<and>
     list_all (\<lambda>(g, e). case fmlookup other g of
         Some f \<Rightarrow> sge_inputs e = sge_inputs f \<and> sge_outputs e = sge_outputs f
       | None \<Rightarrow> False) (sorted_list_of_fmap ev)"

section \<open>Pledges\<close>

datatype substate_pledge =
    InputPledge (pledge_id: versioned_substate_id) bool substate_value
  | OutputPledge (pledge_id: versioned_substate_id)

definition output_pledge_iter :: "shard_group_evidence \<Rightarrow> substate_pledge list" where
  "output_pledge_iter e = map (\<lambda>(i, v). OutputPledge (versioned i v)) (sorted_list_of_fmap (sge_outputs e))"

definition pledge_try_create :: "lock_intent \<Rightarrow> substate_value option \<Rightarrow> substate_pledge option" where
  "pledge_try_create l value =
     (if li_lock_type l = LockOutput then Some (OutputPledge (to_versioned_substate_id_ref l))
      else map_option (InputPledge (to_versioned_substate_id_ref l) (lock_is_write (li_lock_type l))) value)"

primrec as_substate_lock_type :: "substate_pledge \<Rightarrow> substate_lock_type" where
  "as_substate_lock_type (InputPledge _ w _) = (if w then LockWrite else LockRead)"
| "as_substate_lock_type (OutputPledge _) = LockOutput"

definition pledge_satisfies_requirement :: "substate_pledge \<Rightarrow> substate_requirement \<Rightarrow> bool" where
  "pledge_satisfies_requirement p r \<longleftrightarrow>
     (case req_version r of None \<Rightarrow> True | Some v \<Rightarrow> v = vsi_version (pledge_id p)) \<and>
     vsi_substate_id (pledge_id p) = req_substate_id r"

definition pledge_satisfies_lock_intent :: "substate_pledge \<Rightarrow> lock_intent \<Rightarrow> bool" where
  "pledge_satisfies_lock_intent p l \<longleftrightarrow>
     (if li_version_to_lock l \<noteq> vsi_version (pledge_id p) then False
      else if \<not> lock_allows (as_substate_lock_type p) (li_lock_type l) then False
      else if li_substate_id l \<noteq> vsi_substate_id (pledge_id p) then False
      else True)"

type_synonym block_pledge = "(substate_id, substate) fmap"

definition add_substate_pledge :: "block_pledge \<Rightarrow> substate_id \<Rightarrow> nat \<Rightarrow> substate_value \<Rightarrow> block_pledge" where
  "add_substate_pledge p i v value = fmupd i \<lparr>sub_value = value, sub_version = v\<rparr> p"

fun pledges_for :: "block_pledge \<Rightarrow> (substate_id \<times> evidence_input_lock) list \<Rightarrow> substate_pledge list option" where
  "pledges_for p [] = Some []"
| "pledges_for p ((i, l) # rest) = (case fmlookup p i of
     None \<Rightarrow> None
   | Some s \<Rightarrow> map_option (Cons (InputPledge (versioned i (sub_version s)) (eil_is_write l) (sub_value s)))
       (pledges_for p rest))"

definition get_all_pledges_for_evidence :: "block_pledge \<Rightarrow> shard_group_evidence \<Rightarrow> substate_pledge list option" where
  "get_all_pledges_for_evidence p e = pledges_for p (all_pledged_inputs_iter e)"

definition has_all_input_substate_values_for :: "block_pledge \<Rightarrow> shard_group_evidence \<Rightarrow> bool" where
  "has_all_input_substate_values_for p e \<longleftrightarrow>
     find (\<lambda>(i, l). case fmlookup p i of None \<Rightarrow> True | Some s \<Rightarrow> sub_version s \<noteq> eil_version l)
       (all_pledged_inputs_iter e) = None"

definition has_some_input_substate_values_for :: "block_pledge \<Rightarrow> shard_group_evidence \<Rightarrow> bool" where
  "has_some_input_substate_values_for p e \<longleftrightarrow>
     list_ex (\<lambda>(i, l). case fmlookup p i of None \<Rightarrow> False | Some s \<Rightarrow> sub_version s = eil_version l)
       (all_pledged_inputs_iter e)"

section \<open>Laws\<close>

lemma set_sorted_list_of_fmap [simp]: "(k, v) \<in> set (sorted_list_of_fmap m) \<longleftrightarrow> fmlookup m k = Some v"
  using map_of_eq_Some_iff[OF distinct_fst_sorted_list_of_fmap, of m k v] by simp

lemma address_shard_group_returns:
  "\<exists>g. address_shard_group a ns committees = (Ok g :: (_, 'e) result) \<and> sg_contains g (shard_of a ns)"
proof (cases "min committees (preshards_as_u32 ns) \<le> 1")
  case True
  then show ?thesis using shard_of_bounds[of a ns]
    by (auto simp: address_shard_group_def to_shard_group_def Let_def sg_new_def sg_new_checked_def
        shard_first_def sg_contains_def sg_new_unchecked_def)
next
  case False
  let ?c = "min committees (preshards_as_u32 ns)"
  have c: "1 < ?c" "?c \<le> preshards_as_u32 ns" using False by auto
  have "to_shard_group a ns committees = (to_shard_group a ns ?c :: (_, 'e) result option)"
    by (simp add: to_shard_group_def)
  moreover have "\<exists>g. to_shard_group a ns ?c = (Some (Ok g) :: (_, 'e) result option) \<and> sg_contains g (shard_of a ns)"
    using to_shard_group_bound [OF c, where 'a = 'e, of a] by (auto simp: sg_contains_def sg_new_unchecked_def)
  ultimately show ?thesis by (auto simp: address_shard_group_def)
qed

lemma fmlookup_add_shard_group:
  "fmlookup (add_shard_group ev g f) k =
     (if k = g then Some (f (case fmlookup ev g of None \<Rightarrow> sge_default | Some e \<Rightarrow> e)) else fmlookup ev k)"
  by (auto simp: add_shard_group_def Let_def fmlookup_dom_iff split: option.splits)

lemma merge_input_eq: "merge_input mine other = (case other of
    Some x \<Rightarrow> Some x | None \<Rightarrow> (case mine of None \<Rightarrow> None | Some old \<Rightarrow> old))"
  by (auto simp: merge_input_def split: option.splits)

text \<open>Merging and updating treat the substates of a shard group alike.\<close>

lemma merge_group_eq_update: "merge_group e other = sge_update e other"
  by (simp add: merge_group_def sge_update_def merge_input_eq[abs_def])

lemma set_evidence_values: "set (evidence_values ev) = {e. \<exists>g. fmlookup ev g = Some e}"
  by (auto simp: image_iff Bex_def)

lemma list_all_evidence_values: "list_all P (evidence_values ev) \<longleftrightarrow> (\<forall>g e. fmlookup ev g = Some e \<longrightarrow> P e)"
  unfolding list_all_iff set_evidence_values by blast

lemma list_ex_evidence_values: "list_ex P (evidence_values ev) \<longleftrightarrow> (\<exists>g e. fmlookup ev g = Some e \<and> P e)"
  unfolding list_ex_iff set_evidence_values by blast

section \<open>Properties\<close>

lemma eq_pledges_iff:
  "eq_pledges ev other \<longleftrightarrow> fmdom ev = fmdom other \<and>
     (\<forall>g e f. fmlookup ev g = Some e \<longrightarrow> fmlookup other g = Some f \<longrightarrow>
        sge_inputs e = sge_inputs f \<and> sge_outputs e = sge_outputs f)" (is "?l \<longleftrightarrow> ?r")
proof -
  let ?same = "\<lambda>g e. case fmlookup other g of
      Some f \<Rightarrow> sge_inputs e = sge_inputs f \<and> sge_outputs e = sge_outputs f | None \<Rightarrow> False"
  have l: "?l \<longleftrightarrow> fcard (fmdom ev) = fcard (fmdom other) \<and> (\<forall>g e. fmlookup ev g = Some e \<longrightarrow> ?same g e)"
    by (simp add: eq_pledges_def list_all_iff split_paired_all) (simp add: Ball_def)
  have sub: "fmdom ev |\<subseteq>| fmdom other" if "\<forall>g e. fmlookup ev g = Some e \<longrightarrow> ?same g e"
  proof (rule fsubsetI)
    fix g assume "g |\<in>| fmdom ev"
    then obtain e where "fmlookup ev g = Some e" by (auto simp: fmlookup_dom_iff)
    then have "?same g e" using that by blast
    then show "g |\<in>| fmdom other" by (auto simp: fmlookup_dom_iff split: option.splits)
  qed
  have "fmdom ev = fmdom other" if ?l
    using that sub unfolding l by (metis fcard_seteq order_refl)
  moreover have "?same g e" if "fmdom ev = fmdom other" "fmlookup ev g = Some e"
    "\<forall>f. fmlookup other g = Some f \<longrightarrow> sge_inputs e = sge_inputs f \<and> sge_outputs e = sge_outputs f" for g e
    using that by (cases "fmlookup other g") (auto dest: fmdomI fmdom_notI)
  ultimately show ?thesis unfolding l by (fastforce split: option.splits)
qed

end
