(* ===== verification/TransactionPool.thy ===== *)
theory TransactionPool
  imports Evidence
begin

text \<open>
  The record of a transaction in the pool of a validator and its stages:
  crates/storage/src/consensus_models/transaction_pool.rs, with the executions of
  transaction_execution.rs. The foreign pledges that were received are looked up in the database; the
  lookup is an argument.
\<close>

section \<open>Executions\<close>

record transaction_execution =
  te_result :: finalize_result
  te_resolved_inputs :: "versioned_lock_intent list"
  te_resulting_outputs :: "versioned_lock_intent list"

definition execution_abort :: "transaction_id \<Rightarrow> reject_reason \<Rightarrow> transaction_execution" where
  "execution_abort tx reason = \<lparr>te_result = finalize_result_rejected tx reason,
     te_resolved_inputs = [], te_resulting_outputs = []\<rparr>"

definition te_decision :: "transaction_execution \<Rightarrow> decision" where
  "te_decision x = decision_from_result (fin_result (te_result x))"

definition te_transaction_fee :: "transaction_execution \<Rightarrow> nat" where
  "te_transaction_fee x = (if is_abort (te_decision x) then 0 else total_fees_paid (fin_fee_receipt (te_result x)))"

definition te_locks :: "transaction_execution \<Rightarrow> lock_intent list" where
  "te_locks x = map vli_intent (te_resolved_inputs x @ te_resulting_outputs x)"

definition to_evidence ::
  "id_hasher \<Rightarrow> num_preshards \<Rightarrow> nat \<Rightarrow> transaction_execution \<Rightarrow> (evidence, 'e) result" where
  "to_evidence h ns committees x =
     and_then (from_lock_intents h ns committees (te_locks x)) (\<lambda>ev.
     Ok (if is_abort (te_decision x) then evidence_abort ev else ev))"

section \<open>Stages\<close>

datatype transaction_pool_stage =
    StageNew | StageLocalPrepared | StageLocalAccepted | StageAllAccepted | StageSomeAccepted | StageLocalOnly

definition is_finalising :: "transaction_pool_stage \<Rightarrow> bool" where
  "is_finalising s \<longleftrightarrow> s = StageLocalOnly \<or> s = StageAllAccepted \<or> s = StageSomeAccepted"

datatype transaction_pool_error =
    InvalidTransactionTransition transaction_pool_stage transaction_pool_stage bool

record transaction_pool_record =
  tp_transaction_id :: transaction_id
  tp_evidence :: evidence
  tp_is_global :: bool
  tp_transaction_fee :: nat
  tp_leader_fee :: "leader_fee option"
  tp_stage :: transaction_pool_stage
  tp_pending_stage :: "transaction_pool_stage option"
  tp_original_decision :: decision
  tp_local_decision :: "decision option"
  tp_remote_decision :: "decision option"
  tp_is_ready :: bool

definition new_from_transaction :: "transaction_id \<Rightarrow> bool \<Rightarrow> evidence \<Rightarrow> transaction_pool_record" where
  "new_from_transaction tx global initial_evidence = \<lparr>tp_transaction_id = tx, tp_evidence = initial_evidence,
     tp_is_global = global, tp_transaction_fee = 0, tp_leader_fee = None, tp_stage = StageNew,
     tp_pending_stage = None, tp_original_decision = DecisionCommit, tp_local_decision = None,
     tp_remote_decision = None, tp_is_ready = False\<rparr>"

definition current_local_decision :: "transaction_pool_record \<Rightarrow> decision" where
  "current_local_decision r = (case tp_local_decision r of None \<Rightarrow> tp_original_decision r | Some d \<Rightarrow> d)"

definition current_decision :: "transaction_pool_record \<Rightarrow> decision" where
  "current_decision r = (case tp_remote_decision r of
     Some d \<Rightarrow> if is_abort d then d else current_local_decision r
   | None \<Rightarrow> current_local_decision r)"

definition current_stage :: "transaction_pool_record \<Rightarrow> transaction_pool_stage" where
  "current_stage r = (case tp_pending_stage r of None \<Rightarrow> tp_stage r | Some s \<Rightarrow> s)"

definition can_continue_to :: "transaction_pool_record \<Rightarrow> transaction_pool_stage \<Rightarrow> shard_group \<Rightarrow> bool" where
  "can_continue_to r s local = (case s of
     StageNew \<Rightarrow> tp_is_ready r
   | StageLocalPrepared \<Rightarrow> (case current_decision r of
         DecisionCommit \<Rightarrow> all_input_shard_groups_prepared (tp_evidence r) local
       | DecisionAbort _ \<Rightarrow> some_shard_groups_prepared (tp_evidence r))
   | StageLocalAccepted \<Rightarrow> (case current_decision r of
         DecisionCommit \<Rightarrow> all_shard_groups_accepted (tp_evidence r)
       | DecisionAbort _ \<Rightarrow> some_shard_groups_prepared (tp_evidence r))
   | StageAllAccepted \<Rightarrow> False
   | StageSomeAccepted \<Rightarrow> False
   | StageLocalOnly \<Rightarrow> False)"

definition is_ready_for_pending_stage :: "transaction_pool_record \<Rightarrow> shard_group \<Rightarrow> bool" where
  "is_ready_for_pending_stage r local = can_continue_to r (current_stage r) local"

definition record_leader_fee :: "transaction_pool_record \<Rightarrow> leader_fee option" where
  "record_leader_fee r = (if is_abort (current_decision r) then None else tp_leader_fee r)"

record transaction_atom =
  ta_id :: transaction_id
  ta_decision :: decision
  ta_evidence :: evidence
  ta_transaction_fee :: nat
  ta_leader_fee :: "leader_fee option"

definition get_current_transaction_atom :: "transaction_pool_record \<Rightarrow> transaction_atom" where
  "get_current_transaction_atom r = \<lparr>ta_id = tp_transaction_id r, ta_decision = current_decision r,
     ta_evidence = tp_evidence r, ta_transaction_fee = tp_transaction_fee r, ta_leader_fee = record_leader_fee r\<rparr>"

definition get_local_transaction_atom :: "transaction_pool_record \<Rightarrow> transaction_atom" where
  "get_local_transaction_atom r = \<lparr>ta_id = tp_transaction_id r, ta_decision = current_local_decision r,
     ta_evidence = tp_evidence r, ta_transaction_fee = tp_transaction_fee r, ta_leader_fee = record_leader_fee r\<rparr>"

section \<open>Updates\<close>

definition set_remote_decision :: "transaction_pool_record \<Rightarrow> decision \<Rightarrow> transaction_pool_record" where
  "set_remote_decision r d =
     (let d' = (case tp_remote_decision r of None \<Rightarrow> d | Some old \<Rightarrow> decision_and old d);
          r' = r\<lparr>tp_remote_decision := Some d'\<rparr>
      in if is_abort d' then r'\<lparr>tp_evidence := evidence_abort (tp_evidence r')\<rparr> else r')"

definition set_local_decision :: "transaction_pool_record \<Rightarrow> decision \<Rightarrow> transaction_pool_record" where
  "set_local_decision r d =
     (let r' = r\<lparr>tp_local_decision := Some d\<rparr>
      in if is_abort d then r'\<lparr>tp_evidence := evidence_abort (tp_evidence r')\<rparr> else r')"

definition update_from_execution ::
  "id_hasher \<Rightarrow> num_preshards \<Rightarrow> nat \<Rightarrow> transaction_pool_record \<Rightarrow> transaction_execution \<Rightarrow>
    (transaction_pool_record, 'e) result" where
  "update_from_execution h ns committees r x =
     (let r1 = (if (case tp_local_decision r of None \<Rightarrow> True | Some d \<Rightarrow> is_commit d)
                then set_local_decision r (te_decision x) else r) in
      and_then
        (if is_commit (current_decision r1)
         then and_then (try_fold (insert_from_lock_intent h ns committees) (tp_evidence r1) (te_locks x))
           (\<lambda>ev. Ok (r1\<lparr>tp_evidence := ev\<rparr>))
         else Ok (r1\<lparr>tp_evidence := evidence_abort (tp_evidence r1)\<rparr>)) (\<lambda>r2.
      Ok (r2\<lparr>tp_transaction_fee := te_transaction_fee x\<rparr>)))"

definition check_pending_status_update ::
  "transaction_pool_record \<Rightarrow> transaction_pool_stage \<Rightarrow> bool \<Rightarrow> (unit, transaction_pool_error) result" where
  "check_pending_status_update r pending is_ready = (case ((current_stage r, pending), is_ready) of
     ((StageNew, StageNew), True) \<Rightarrow> Ok ()
   | ((StageNew, StageLocalPrepared), _) \<Rightarrow> Ok ()
   | ((StageNew, StageLocalOnly), False) \<Rightarrow> Ok ()
   | ((StageNew, StageLocalAccepted), _) \<Rightarrow> Ok ()
   | ((StageLocalPrepared, StageLocalPrepared), _) \<Rightarrow> Ok ()
   | ((StageLocalPrepared, StageLocalAccepted), _) \<Rightarrow> Ok ()
   | ((StageLocalAccepted, StageLocalAccepted), _) \<Rightarrow> Ok ()
   | ((StageLocalAccepted, StageAllAccepted), False) \<Rightarrow> Ok ()
   | ((StageLocalAccepted, StageSomeAccepted), False) \<Rightarrow> Ok ()
   | ((StageAllAccepted, StageAllAccepted), False) \<Rightarrow> Ok ()
   | _ \<Rightarrow> Err (InvalidTransactionTransition (current_stage r) pending is_ready))"

definition set_next_stage_and_readiness ::
  "transaction_pool_record \<Rightarrow> transaction_pool_stage \<Rightarrow> shard_group \<Rightarrow>
    (transaction_pool_record, transaction_pool_error) result" where
  "set_next_stage_and_readiness r next local =
     (let is_ready = can_continue_to r next local in
      and_then (check_pending_status_update r next is_ready) (\<lambda>_.
      Ok (r\<lparr>tp_pending_stage := Some next, tp_is_ready := is_ready\<rparr>)))"

definition merge_evidence :: "transaction_pool_record \<Rightarrow> evidence \<Rightarrow> transaction_pool_record" where
  "merge_evidence r ev = r\<lparr>tp_evidence := merge (tp_evidence r) ev\<rparr>"

definition record_calculate_leader_fee :: "transaction_pool_record \<Rightarrow> nat \<Rightarrow> nat \<Rightarrow> (leader_fee, 'e) result" where
  "record_calculate_leader_fee r shards exhaust_divisor = calculate_leader_fee (tp_transaction_fee r) shards exhaust_divisor"

section \<open>Involvement and pledges\<close>

definition involves_committee :: "transaction_pool_record \<Rightarrow> committee_info \<Rightarrow> bool" where
  "involves_committee r ci \<longleftrightarrow> ci_shard_group ci |\<in>| fmdom (tp_evidence r)"

definition committee_involves_inputs :: "transaction_pool_record \<Rightarrow> committee_info \<Rightarrow> bool" where
  "committee_involves_inputs r ci \<longleftrightarrow> has_inputs (tp_evidence r) (ci_shard_group ci)"

fun has_foreign_pledges_for_objects ::
  "id_hasher \<Rightarrow> (transaction_id \<Rightarrow> substate_address \<Rightarrow> bool) \<Rightarrow> transaction_id \<Rightarrow>
    (substate_id \<times> (nat \<times> substate_lock_type) option) list \<Rightarrow> bool" where
  "has_foreign_pledges_for_objects h pledged tx [] = True"
| "has_foreign_pledges_for_objects h pledged tx ((i, data) # rest) = (case data of
     None \<Rightarrow> False
   | Some (version, lock_type) \<Rightarrow>
       if pledged tx (from_substate_id h i version) then has_foreign_pledges_for_objects h pledged tx rest
       else False)"

definition input_objects :: "evidence \<Rightarrow> (substate_id \<times> (nat \<times> substate_lock_type) option) list" where
  "input_objects ev = map (\<lambda>(_, i, l). (i, map_option (\<lambda>l. (eil_version l, as_lock_type l)) l)) (all_inputs_iter ev)"

definition output_objects :: "evidence \<Rightarrow> (substate_id \<times> (nat \<times> substate_lock_type) option) list" where
  "output_objects ev = map (\<lambda>(_, i, v). (i, Some (v, LockOutput))) (all_outputs_iter ev)"

definition has_all_required_foreign_pledges ::
  "id_hasher \<Rightarrow> (transaction_id \<Rightarrow> substate_address \<Rightarrow> bool) \<Rightarrow> committee_info \<Rightarrow> transaction_pool_record \<Rightarrow> bool" where
  "has_all_required_foreign_pledges h pledged ci r =
     has_foreign_pledges_for_objects h pledged (tp_transaction_id r)
       (filter (\<lambda>(i, _). \<not> includes_substate_id h ci i) (input_objects (tp_evidence r) @ output_objects (tp_evidence r)))"

definition has_all_required_foreign_input_pledges ::
  "id_hasher \<Rightarrow> (transaction_id \<Rightarrow> substate_address \<Rightarrow> bool) \<Rightarrow> committee_info \<Rightarrow> transaction_pool_record \<Rightarrow> bool" where
  "has_all_required_foreign_input_pledges h pledged ci r =
     has_foreign_pledges_for_objects h pledged (tp_transaction_id r)
       (filter (\<lambda>(i, _). \<not> includes_substate_id h ci i) (input_objects (tp_evidence r)))"

section \<open>Steps of a record\<close>

text \<open>The methods that update a record while the transaction is in the pool.\<close>

inductive pool_step :: "id_hasher \<Rightarrow> num_preshards \<Rightarrow> nat \<Rightarrow> transaction_pool_record \<Rightarrow> transaction_pool_record \<Rightarrow> bool"
  for h ns committees where
  step_remote: "pool_step h ns committees r (set_remote_decision r d)"
| step_local: "pool_step h ns committees r (set_local_decision r d)"
| step_execution: "update_from_execution h ns committees r x = (Ok r' :: (_, unit) result) \<Longrightarrow> pool_step h ns committees r r'"
| step_stage: "set_next_stage_and_readiness r s g = Ok r' \<Longrightarrow> pool_step h ns committees r r'"
| step_merge: "pool_step h ns committees r (merge_evidence r ev)"
| step_evidence: "pool_step h ns committees r (r\<lparr>tp_evidence := ev\<rparr>)"
| step_fee: "pool_step h ns committees r (r\<lparr>tp_transaction_fee := fee\<rparr>)"
| step_leader_fee: "pool_step h ns committees r (r\<lparr>tp_leader_fee := lf\<rparr>)"
| step_ready: "pool_step h ns committees r (r\<lparr>tp_is_ready := b\<rparr>)"

primrec stage_rank :: "transaction_pool_stage \<Rightarrow> nat" where
  "stage_rank StageNew = 0" | "stage_rank StageLocalPrepared = 1" | "stage_rank StageLocalAccepted = 2"
| "stage_rank StageAllAccepted = 3" | "stage_rank StageSomeAccepted = 3" | "stage_rank StageLocalOnly = 3"

definition remote_aborted :: "transaction_pool_record \<Rightarrow> bool" where
  "remote_aborted r \<longleftrightarrow> (case tp_remote_decision r of Some d \<Rightarrow> is_abort d | None \<Rightarrow> False)"

lemma set_next_stage_Ok:
  assumes "set_next_stage_and_readiness r s g = Ok r'"
  shows "r' = r\<lparr>tp_pending_stage := Some s, tp_is_ready := can_continue_to r s g\<rparr>"
    and "stage_rank (current_stage r) \<le> stage_rank s"
    and "is_finalising (current_stage r) \<Longrightarrow> s = current_stage r"
proof -
  have "check_pending_status_update r s (can_continue_to r s g) = Ok ()"
    and "r' = r\<lparr>tp_pending_stage := Some s, tp_is_ready := can_continue_to r s g\<rparr>"
    using assms by (simp_all add: set_next_stage_and_readiness_def Let_def result_simps)
  then show "r' = r\<lparr>tp_pending_stage := Some s, tp_is_ready := can_continue_to r s g\<rparr>"
    and "stage_rank (current_stage r) \<le> stage_rank s"
    and "is_finalising (current_stage r) \<Longrightarrow> s = current_stage r"
    by (auto simp: check_pending_status_update_def is_finalising_def
        split: transaction_pool_stage.splits bool.splits)
qed

lemma update_from_execution_Ok:
  assumes "update_from_execution h ns committees r x = Ok r'"
  shows "tp_stage r' = tp_stage r" "tp_pending_stage r' = tp_pending_stage r"
    "tp_remote_decision r' = tp_remote_decision r"
  using assms
  by (auto simp: update_from_execution_def set_local_decision_def Let_def result_simps split: if_splits)

lemma pool_step_progress:
  assumes "pool_step h ns committees r r'"
  shows "stage_rank (current_stage r) \<le> stage_rank (current_stage r') \<and>
    (is_finalising (current_stage r) \<longrightarrow> current_stage r' = current_stage r) \<and>
    (remote_aborted r \<longrightarrow> remote_aborted r')"
  using assms
proof cases
  case (step_execution x)
  then show ?thesis using update_from_execution_Ok [OF step_execution(1)]
    by (simp add: current_stage_def remote_aborted_def split: option.split)
next
  case (step_stage s g)
  then show ?thesis using set_next_stage_Ok [OF step_stage(1)]
    by (simp add: current_stage_def remote_aborted_def)
qed (auto simp: set_remote_decision_def set_local_decision_def merge_evidence_def current_stage_def
    remote_aborted_def Let_def split: option.splits)

end
