(* ===== verification/PendingStore.thy ===== *)
theory PendingStore
  imports TransactionPool
begin

text \<open>
  The substate store of a block that is being proposed or voted on:
  crates/consensus/src/hotstuff/substate_store/pending_store.rs, with the leader fee and the committee
  filter of crates/consensus/src/hotstuff/common.rs and the fee pool addresses of
  crates/common_types/src/fee_pool.rs. Changes and locks collect in memory over what the database holds for
  the chain up to the parent block; the database reads are the fields of \<open>store_reads\<close>.
\<close>

section \<open>Changes and records\<close>

datatype substate_change =
    ChangeUp substate_id nat substate
  | ChangeDown versioned_substate_id nat

primrec change_id :: "substate_change \<Rightarrow> versioned_substate_id" where
  "change_id (ChangeUp i _ s) = versioned i (sub_version s)"
| "change_id (ChangeDown i _) = i"

primrec change_shard :: "substate_change \<Rightarrow> nat" where
  "change_shard (ChangeUp _ shard _) = shard"
| "change_shard (ChangeDown _ shard) = shard"

primrec up_substate :: "substate_change \<Rightarrow> substate option" where
  "up_substate (ChangeUp _ _ s) = Some s"
| "up_substate (ChangeDown _ _) = None"

definition is_up_change :: "substate_change \<Rightarrow> bool" where
  "is_up_change c \<longleftrightarrow> up_substate c \<noteq> None"

record substate_record =
  sr_substate_id :: substate_id
  sr_version :: nat
  sr_substate_value :: "substate_value option"
  sr_shard :: nat
  sr_is_destroyed :: bool

definition sr_into_substate :: "substate_record \<Rightarrow> substate option" where
  "sr_into_substate r = map_option (\<lambda>v. \<lparr>sub_value = v, sub_version = sr_version r\<rparr>) (sr_substate_value r)"

record store_reads =
  db_last_change :: "substate_id \<Rightarrow> substate_change option"
  db_change_for :: "versioned_substate_id \<Rightarrow> substate_change option"
  db_substate :: "substate_address \<Rightarrow> substate_record option"
  db_max_version :: "substate_id \<Rightarrow> (nat \<times> bool) option"
  db_exists :: "versioned_substate_id \<Rightarrow> bool"
  db_latest_lock :: "substate_id \<Rightarrow> substate_lock option"
  db_foreign_write_pledges :: "transaction_id \<Rightarrow> substate_id list \<Rightarrow> substate_pledge list"

datatype lock_failed_error =
    LockSubstateNotFound versioned_substate_id
  | LockSubstateIsDown versioned_substate_id
  | LockConflictError versioned_substate_id lock_conflict
  | LockSubstateIsUp versioned_substate_id

datatype substate_store_error =
    LockFailed lock_failed_error
  | StoreSubstateNotFound versioned_substate_id
  | StoreSubstateIsDown versioned_substate_id
  | ExpectedSubstateDown versioned_substate_id
  | InvariantError

type_synonym 'a st_result = "('a, substate_store_error) result"

definition st_is_not_found_error :: "substate_store_error \<Rightarrow> bool" where
  "st_is_not_found_error e = (case e of
     LockFailed (LockSubstateNotFound _) \<Rightarrow> True | StoreSubstateNotFound _ \<Rightarrow> True | _ \<Rightarrow> False)"

definition st_optional :: "'a st_result \<Rightarrow> 'a option st_result" where
  "st_optional r = (case r of
     Ok x \<Rightarrow> Ok (Some x) | Err e \<Rightarrow> if st_is_not_found_error e then Ok None else Err e | Panic m \<Rightarrow> Panic m)"

section \<open>The store\<close>

record store_env =
  se_hasher :: id_hasher
  se_db :: store_reads
  se_num_preshards :: num_preshards
  se_shard_group :: shard_group

record pending_store =
  ps_pending :: "(substate_address, nat) fmap"
  ps_head :: "(substate_id, nat) fmap"
  ps_changes :: "substate_change list"
  ps_new_locks :: "(substate_id \<times> substate_lock list) list"

definition ps_new :: pending_store where
  "ps_new = \<lparr>ps_pending = fmempty, ps_head = fmempty, ps_changes = [], ps_new_locks = []\<rparr>"

definition change_at :: "pending_store \<Rightarrow> nat \<Rightarrow> (substate_change, 'e) result" where
  "change_at ps pos = expect ''diff and head are not in sync''
     (if pos < length (ps_changes ps) then Some (ps_changes ps ! pos) else None)"

definition change_address :: "store_env \<Rightarrow> substate_change \<Rightarrow> substate_address" where
  "change_address env c = vsi_to_substate_address (se_hasher env) (change_id c)"

definition get_pending :: "pending_store \<Rightarrow> substate_address \<Rightarrow> (substate_change option, 'e) result" where
  "get_pending ps a = (case fmlookup (ps_pending ps) a of
     None \<Rightarrow> Ok None | Some pos \<Rightarrow> and_then (change_at ps pos) (\<lambda>c. Ok (Some c)))"

definition get_head_change :: "pending_store \<Rightarrow> substate_id \<Rightarrow> (substate_change option, 'e) result" where
  "get_head_change ps i = (case fmlookup (ps_head ps) i of
     None \<Rightarrow> Ok None | Some pos \<Rightarrow> and_then (change_at ps pos) (\<lambda>c. Ok (Some c)))"

definition ps_insert :: "store_env \<Rightarrow> pending_store \<Rightarrow> substate_change \<Rightarrow> pending_store" where
  "ps_insert env ps c = (let index = length (ps_changes ps) in
     ps\<lparr>ps_pending := fmupd (change_address env c) index (ps_pending ps),
        ps_head := fmupd (vsi_substate_id (change_id c)) index (ps_head ps),
        ps_changes := ps_changes ps @ [c]\<rparr>)"

definition record_is_up :: "store_env \<Rightarrow> versioned_substate_id \<Rightarrow> bool option" where
  "record_is_up env i = map_option (\<lambda>r. \<not> sr_is_destroyed r)
     (db_substate (se_db env) (vsi_to_substate_address (se_hasher env) i))"

definition get_latest_record :: "store_env \<Rightarrow> substate_id \<Rightarrow> substate_record option" where
  "get_latest_record env i = (case db_max_version (se_db env) i of
     None \<Rightarrow> None
   | Some (v, _) \<Rightarrow> db_substate (se_db env) (from_substate_id (se_hasher env) i v))"

definition get_latest_change_from_store :: "store_env \<Rightarrow> substate_id \<Rightarrow> substate_change st_result" where
  "get_latest_change_from_store env i = (case db_last_change (se_db env) i of
     Some c \<Rightarrow> Ok c
   | None \<Rightarrow>
       and_then (ok_or (StoreSubstateNotFound (versioned i 0)) (get_latest_record env i)) (\<lambda>r.
       if sr_is_destroyed r then Ok (ChangeDown (versioned i (sr_version r)) (sr_shard r))
       else and_then (expect ''PendingSubstateStore::get_latest_change: UP substate has no value'' (sr_into_substate r))
         (\<lambda>s. Ok (ChangeUp i (sr_shard r) s))))"

definition get_latest_change :: "store_env \<Rightarrow> pending_store \<Rightarrow> substate_id \<Rightarrow> substate_change st_result" where
  "get_latest_change env ps i = and_then (get_head_change ps i) (\<lambda>head. case head of
     Some c \<Rightarrow> Ok c | None \<Rightarrow> get_latest_change_from_store env i)"

definition ps_get :: "store_env \<Rightarrow> pending_store \<Rightarrow> versioned_substate_id \<Rightarrow> substate st_result" where
  "ps_get env ps i =
     and_then (get_pending ps (vsi_to_substate_address (se_hasher env) i)) (\<lambda>p. case p of
       Some c \<Rightarrow> ok_or (StoreSubstateIsDown (change_id c)) (up_substate c)
     | None \<Rightarrow> (case db_change_for (se_db env) i of
         Some c \<Rightarrow> ok_or (StoreSubstateIsDown i) (up_substate c)
       | None \<Rightarrow> (case db_substate (se_db env) (vsi_to_substate_address (se_hasher env) i) of
           None \<Rightarrow> Err (StoreSubstateNotFound i)
         | Some r \<Rightarrow>
             if sr_is_destroyed r then Err (StoreSubstateIsDown i)
             else expect ''PendingSubstateStore::get UP substate has no value'' (sr_into_substate r))))"

definition get_latest_version :: "store_env \<Rightarrow> pending_store \<Rightarrow> substate_id \<Rightarrow> (nat \<times> bool) st_result" where
  "get_latest_version env ps i = and_then (get_head_change ps i) (\<lambda>head. case head of
     Some c \<Rightarrow> Ok (vsi_version (change_id c), is_up_change c)
   | None \<Rightarrow> (case db_last_change (se_db env) i of
       Some c \<Rightarrow> Ok (vsi_version (change_id c), is_up_change c)
     | None \<Rightarrow> ok_or (StoreSubstateNotFound (versioned i 0)) (db_max_version (se_db env) i)))"

definition ps_exists :: "store_env \<Rightarrow> pending_store \<Rightarrow> substate_id \<Rightarrow> bool st_result" where
  "ps_exists env ps i = and_then (st_optional (get_latest_version env ps i)) (\<lambda>l. Ok (l \<noteq> None))"

definition get_many ::
  "store_env \<Rightarrow> pending_store \<Rightarrow> (substate_requirement \<times> nat) list \<Rightarrow> (substate_requirement \<times> substate) list st_result" where
  "get_many env ps ids = try_fold (\<lambda>acc (req, version).
     and_then (ps_get env ps (versioned (req_substate_id req) version)) (\<lambda>s. Ok (acc @ [(req, s)]))) [] ids"

definition has_any_conflicting_pledges :: "store_env \<Rightarrow> transaction_id \<Rightarrow> substate_id list \<Rightarrow> bool" where
  "has_any_conflicting_pledges env tx ids \<longleftrightarrow> db_foreign_write_pledges (se_db env) tx ids \<noteq> []"

section \<open>State checks\<close>

definition assert_is_up :: "store_env \<Rightarrow> pending_store \<Rightarrow> versioned_substate_id \<Rightarrow> unit st_result" where
  "assert_is_up env ps i =
     and_then (get_pending ps (vsi_to_substate_address (se_hasher env) i)) (\<lambda>p. case p of
       Some c \<Rightarrow> if is_up_change c then Ok () else Err (StoreSubstateIsDown i)
     | None \<Rightarrow> (case db_change_for (se_db env) i of
         Some c \<Rightarrow> if is_up_change c then Ok () else Err (StoreSubstateIsDown i)
       | None \<Rightarrow> (case record_is_up env i of
           Some True \<Rightarrow> Ok ()
         | Some False \<Rightarrow> Err (StoreSubstateIsDown i)
         | None \<Rightarrow> Err (StoreSubstateNotFound i))))"

definition lock_assert_is_up :: "store_env \<Rightarrow> pending_store \<Rightarrow> versioned_substate_id \<Rightarrow> unit st_result" where
  "lock_assert_is_up env ps i = (case assert_is_up env ps i of
     Ok _ \<Rightarrow> Ok ()
   | Err (StoreSubstateIsDown j) \<Rightarrow> Err (LockFailed (LockSubstateIsDown j))
   | Err (StoreSubstateNotFound j) \<Rightarrow> Err (LockFailed (LockSubstateNotFound j))
   | Err e \<Rightarrow> Err e
   | Panic m \<Rightarrow> Panic m)"

definition assert_is_down :: "store_env \<Rightarrow> pending_store \<Rightarrow> versioned_substate_id \<Rightarrow> unit st_result" where
  "assert_is_down env ps i =
     and_then (get_pending ps (vsi_to_substate_address (se_hasher env) i)) (\<lambda>p. case p of
       Some c \<Rightarrow> if is_up_change c then Err (ExpectedSubstateDown i) else Ok ()
     | None \<Rightarrow> (case db_change_for (se_db env) i of
         Some c \<Rightarrow> if is_up_change c then Err (ExpectedSubstateDown i) else Ok ()
       | None \<Rightarrow> (case record_is_up env i of
           None \<Rightarrow> Err (StoreSubstateNotFound i)
         | Some up \<Rightarrow> if up then Err (ExpectedSubstateDown i) else Ok ())))"

definition lock_assert_not_exist :: "store_env \<Rightarrow> pending_store \<Rightarrow> versioned_substate_id \<Rightarrow> unit st_result" where
  "lock_assert_not_exist env ps i =
     and_then (get_pending ps (vsi_to_substate_address (se_hasher env) i)) (\<lambda>p. case p of
       Some c \<Rightarrow> if is_up_change c then Err (LockFailed (LockSubstateIsUp i)) else Ok ()
     | None \<Rightarrow> (case db_change_for (se_db env) i of
         Some c \<Rightarrow> if is_up_change c then Err (LockFailed (LockSubstateIsUp i)) else Ok ()
       | None \<Rightarrow> if db_exists (se_db env) i then Err (LockFailed (LockSubstateIsUp i)) else Ok ()))"

section \<open>Writing\<close>

definition ps_put :: "store_env \<Rightarrow> pending_store \<Rightarrow> substate_change \<Rightarrow> pending_store st_result" where
  "ps_put env ps c =
     and_then (case c of
         ChangeUp i _ s \<Rightarrow> (case previous_version s of
             Some v \<Rightarrow> assert_is_down env ps (versioned i v) | None \<Rightarrow> Ok ())
       | ChangeDown i _ \<Rightarrow> assert_is_up env ps i) (\<lambda>_.
     Ok (ps_insert env ps c))"

text \<open>
  \<open>update_in_place\<close>. Its error type is the caller's, into which \<open>from_err\<close> takes an error of the store. An up
  substate that this block already changed is changed again without a new version. A down substate gets its
  next version; the shard is computed from the id of the old version in the one branch and from the id of
  the new one in the other.
\<close>

definition create_next ::
  "(versioned_substate_id \<Rightarrow> versioned_substate_id \<Rightarrow> versioned_substate_id) \<Rightarrow> store_env \<Rightarrow> pending_store \<Rightarrow>
    versioned_substate_id \<Rightarrow> (versioned_substate_id option \<Rightarrow> (substate_value, 'e) result) \<Rightarrow>
    (pending_store, 'e) result" where
  "create_next shard_id env ps i creator =
     and_then (creator (Some i)) (\<lambda>value.
     and_then (to_next_version i) (\<lambda>next.
     and_then (vsi_to_shard (se_hasher env) (shard_id i next) (se_num_preshards env)) (\<lambda>shard.
     Ok (ps_insert env ps (ChangeUp (vsi_substate_id next) shard \<lparr>sub_value = value, sub_version = vsi_version next\<rparr>)))))"

definition update_in_place ::
  "(substate_store_error \<Rightarrow> 'e) \<Rightarrow> store_env \<Rightarrow> pending_store \<Rightarrow> substate_id \<Rightarrow>
    (substate_value \<Rightarrow> (substate_value, 'e) result) \<Rightarrow>
    (versioned_substate_id option \<Rightarrow> (substate_value, 'e) result) \<Rightarrow> (pending_store, 'e) result" where
  "update_in_place from_err env ps i updater creator = (case fmlookup (ps_head ps) i of
     Some pos \<Rightarrow>
       and_then (change_at ps pos) (\<lambda>c. case c of
         ChangeUp j shard s \<Rightarrow> and_then (updater (sub_value s)) (\<lambda>value.
           Ok (ps\<lparr>ps_changes := (ps_changes ps)[pos := ChangeUp j shard (s\<lparr>sub_value := value\<rparr>)]\<rparr>))
       | ChangeDown j _ \<Rightarrow> create_next (\<lambda>i next. i) env ps j creator)
   | None \<Rightarrow>
       and_then (map_err from_err (st_optional (get_latest_change_from_store env i))) (\<lambda>latest. case latest of
         None \<Rightarrow>
           and_then (creator None) (\<lambda>value.
           and_then (vsi_to_shard (se_hasher env) (versioned i 0) (se_num_preshards env)) (\<lambda>shard.
           Ok (ps_insert env ps (ChangeUp i shard \<lparr>sub_value = value, sub_version = 0\<rparr>))))
       | Some (ChangeUp j shard s) \<Rightarrow>
           let ps1 = ps_insert env ps (ChangeDown (versioned j (sub_version s)) shard) in
           and_then (u32_add (sub_version s) 1) (\<lambda>next.
           and_then (updater (sub_value s)) (\<lambda>value.
           Ok (ps_insert env ps1 (ChangeUp j shard \<lparr>sub_value = value, sub_version = next\<rparr>))))
       | Some (ChangeDown j _) \<Rightarrow> create_next (\<lambda>i next. next) env ps j creator))"

definition withdraw_from_pool :: "nat \<Rightarrow> substate_value \<Rightarrow> substate_value st_result" where
  "withdraw_from_pool amt v = (case as_validator_fee_pool v of
     None \<Rightarrow> Err InvariantError
   | Some pool \<Rightarrow> (case withdraw_direct pool amt of
       (pool', ok) \<Rightarrow> if \<not> ok then Err InvariantError else Ok (ValidatorFeePoolValue pool')))"

definition put_downs :: "store_env \<Rightarrow> pending_store \<Rightarrow> (substate_id \<times> nat) list \<Rightarrow> pending_store st_result" where
  "put_downs env ps downs = try_fold (\<lambda>ps (i, v).
     if is_validator_fee_pool_id i then Ok ps
     else and_then (vsi_to_shard (se_hasher env) (versioned i v) (se_num_preshards env)) (\<lambda>shard.
       ps_put env ps (ChangeDown (versioned i v) shard))) ps downs"

definition put_ups :: "store_env \<Rightarrow> pending_store \<Rightarrow> (substate_id \<times> substate) list \<Rightarrow> pending_store st_result" where
  "put_ups env ps ups = try_fold (\<lambda>ps (i, s).
     if is_validator_fee_pool_id i then Ok ps
     else and_then (vsi_to_shard (se_hasher env) (versioned i (sub_version s)) (se_num_preshards env)) (\<lambda>shard.
       ps_put env ps (ChangeUp i shard s))) ps ups"

definition put_fee_withdrawals ::
  "store_env \<Rightarrow> pending_store \<Rightarrow> validator_fee_withdrawal list \<Rightarrow> pending_store st_result" where
  "put_fee_withdrawals env ps ws = try_fold (\<lambda>ps w.
     let i = ValidatorFeePoolId (vfw_address w) in
     update_in_place id env ps i (withdraw_from_pool (vfw_amount w))
       (\<lambda>maybe_id. case maybe_id of
          Some j \<Rightarrow> Err (StoreSubstateIsDown j) | None \<Rightarrow> Err (StoreSubstateNotFound (versioned i 0)))) ps ws"

definition put_diff :: "store_env \<Rightarrow> pending_store \<Rightarrow> substate_diff \<Rightarrow> pending_store st_result" where
  "put_diff env ps d =
     and_then (put_downs env ps (down_substates d)) (\<lambda>ps1.
     and_then (put_ups env ps1 (up_substates d)) (\<lambda>ps2.
     put_fee_withdrawals env ps2 (fee_withdrawals d)))"

section \<open>Locking\<close>

definition locks_of :: "pending_store \<Rightarrow> substate_id \<Rightarrow> substate_lock list" where
  "locks_of ps i = (case map_of (ps_new_locks ps) i of None \<Rightarrow> [] | Some ls \<Rightarrow> ls)"

definition get_latest_lock_by_id :: "store_env \<Rightarrow> pending_store \<Rightarrow> substate_id \<Rightarrow> substate_lock option" where
  "get_latest_lock_by_id env ps i =
     (if locks_of ps i \<noteq> [] then Some (last (locks_of ps i)) else db_latest_lock (se_db env) i)"

definition add_new_lock :: "pending_store \<Rightarrow> substate_id \<Rightarrow> substate_lock \<Rightarrow> pending_store" where
  "add_new_lock ps i l = ps\<lparr>ps_new_locks := AList.update i (locks_of ps i @ [l]) (ps_new_locks ps)\<rparr>"

definition lock_conflict_with :: "versioned_substate_id \<Rightarrow> substate_lock \<Rightarrow> substate_lock_type \<Rightarrow> bool \<Rightarrow> substate_store_error" where
  "lock_conflict_with i existing requested local = LockFailed (LockConflictError i
     \<lparr>lc_transaction_id = sl_transaction_id existing, lc_existing_lock = sl_lock_type existing,
      lc_requested_lock = requested, lc_is_local_only = local\<rparr>)"

definition try_lock ::
  "store_env \<Rightarrow> pending_store \<Rightarrow> transaction_id \<Rightarrow> lock_intent \<Rightarrow> bool \<Rightarrow> pending_store st_result" where
  "try_lock env ps tx l is_local_only =
     (let requested = li_lock_type l; i = to_versioned_substate_id_ref l in
      case get_latest_lock_by_id env ps (vsi_substate_id i) of
        None \<Rightarrow>
          and_then (if lock_is_output requested then lock_assert_not_exist env ps i else lock_assert_is_up env ps i) (\<lambda>_.
          Ok (add_new_lock ps (vsi_substate_id i) (substate_lock_new tx (vsi_version i) requested is_local_only)))
      | Some existing \<Rightarrow>
          let local_rules = sl_is_local_only existing \<and> is_local_only;
              same_transaction = (sl_transaction_id existing = tx);
              conflict = lock_conflict_with i existing requested
          in
          if same_transaction \<and> sl_lock_type existing = requested then Ok ps
          else (case sl_lock_type existing of
            LockRead \<Rightarrow>
              if local_rules \<and> lock_is_write requested then Err (conflict local_rules)
              else if \<not> local_rules \<and> \<not> same_transaction \<and> \<not> lock_is_read requested then Err (conflict local_rules)
              else if \<not> local_rules \<and> same_transaction \<and> \<not> lock_is_output requested then Err (conflict local_rules)
              else Ok (add_new_lock ps (vsi_substate_id i) (substate_lock_new tx (vsi_version i) requested is_local_only))
          | LockWrite \<Rightarrow>
              if \<not> same_transaction \<and> \<not> local_rules then Err (conflict False)
              else if \<not> lock_is_output requested then Err (conflict local_rules)
              else Ok (add_new_lock ps (vsi_substate_id i) (substate_lock_new tx (vsi_version i) LockOutput is_local_only))
          | LockOutput \<Rightarrow>
              if \<not> local_rules then Err (conflict local_rules)
              else if lock_is_output requested then Err (conflict local_rules)
              else Ok (add_new_lock ps (vsi_substate_id i) (substate_lock_new tx (vsi_version i) requested is_local_only))))"

record lock_status =
  ls_lock_failures :: "lock_failed_error list"
  ls_hard_conflict_idx :: "nat option"
  ls_conflicts :: "lock_conflict list"

definition lock_status_new :: lock_status where
  "lock_status_new = \<lparr>ls_lock_failures = [], ls_hard_conflict_idx = None, ls_conflicts = []\<rparr>"

definition add_failed :: "lock_status \<Rightarrow> lock_failed_error \<Rightarrow> lock_status \<times> nat" where
  "add_failed st e =
     (let st1 = (case e of LockConflictError _ c \<Rightarrow> st\<lparr>ls_conflicts := ls_conflicts st @ [c]\<rparr> | _ \<Rightarrow> st);
          index = length (ls_lock_failures st1)
      in (st1\<lparr>ls_lock_failures := ls_lock_failures st1 @ [e]\<rparr>, index))"

definition is_any_failed :: "lock_status \<Rightarrow> bool" where
  "is_any_failed st \<longleftrightarrow> ls_lock_failures st \<noteq> []"

definition is_hard_conflict :: "lock_status \<Rightarrow> bool" where
  "is_hard_conflict st \<longleftrightarrow> ls_hard_conflict_idx st \<noteq> None"

definition hard_conflict :: "lock_status \<Rightarrow> (lock_failed_error option, 'e) result" where
  "hard_conflict st = (case ls_hard_conflict_idx st of
     None \<Rightarrow> Ok None
   | Some i \<Rightarrow> and_then (expect ''hard conflict index is out of bounds''
       (if i < length (ls_lock_failures st) then Some (ls_lock_failures st ! i) else None)) (\<lambda>e. Ok (Some e)))"

definition record_lock_failure :: "lock_intent \<Rightarrow> lock_status \<Rightarrow> lock_failed_error \<Rightarrow> lock_status" where
  "record_lock_failure l st e = (case add_failed st e of (st', index) \<Rightarrow>
     (case e of
        LockConflictError _ _ \<Rightarrow>
          if li_requested_version l \<noteq> None then st'\<lparr>ls_hard_conflict_idx := Some index\<rparr> else st'
      | _ \<Rightarrow> st'\<lparr>ls_hard_conflict_idx := Some index\<rparr>))"

fun try_lock_loop ::
  "store_env \<Rightarrow> transaction_id \<Rightarrow> bool \<Rightarrow> pending_store \<Rightarrow> lock_status \<Rightarrow> lock_intent list \<Rightarrow>
    (pending_store \<times> lock_status) st_result" where
  "try_lock_loop env tx local ps st [] = Ok (ps, st)"
| "try_lock_loop env tx local ps st (l # ls) = (case try_lock env ps tx l local of
     Ok ps' \<Rightarrow> try_lock_loop env tx local ps' st ls
   | Err (LockFailed e) \<Rightarrow>
       let st' = record_lock_failure l st e in
       if is_hard_conflict st' then Ok (ps, st') else try_lock_loop env tx local ps st' ls
   | Err e \<Rightarrow> Err e
   | Panic m \<Rightarrow> Panic m)"

definition try_lock_all ::
  "store_env \<Rightarrow> pending_store \<Rightarrow> transaction_id \<Rightarrow> lock_intent list \<Rightarrow> bool \<Rightarrow> (pending_store \<times> lock_status) st_result" where
  "try_lock_all env ps tx ls local = try_lock_loop env tx local ps lock_status_new ls"

section \<open>The state change bitmap\<close>

definition set_shard_bit :: "store_env \<Rightarrow> bool list \<Rightarrow> substate_change \<Rightarrow> (bool list, 'e) result" where
  "set_shard_bit env bitmap c =
     (let shard = change_shard c; g = se_shard_group env in
      if \<not> contains_or_global g shard then Ok bitmap
      else if shard = shard_global
      then and_then (assert_or_panic (0 < length bitmap) ''index out of bounds'') (\<lambda>_. Ok (bitmap[0 := True]))
      else and_then (expect ''BUG(to_partial_shard_state_versions): Shard less than shard group start''
          (if sg_start g \<le> shard then Some (shard - sg_start g) else None)) (\<lambda>index.
        and_then (assert_or_panic (index + 1 < length bitmap) ''BUG(to_partial_shard_state_versions)'') (\<lambda>_.
        Ok (bitmap[index + 1 := True]))))"

definition generate_shard_state_change_bitmap :: "store_env \<Rightarrow> pending_store \<Rightarrow> (bool list, 'e) result" where
  "generate_shard_state_change_bitmap env ps =
     and_then (sg_len (se_shard_group env)) (\<lambda>len.
     try_fold (set_shard_bit env) (replicate (len + 1) False) (ps_changes ps))"

section \<open>Leader fees and the committee's part of a diff\<close>

definition derive_fee_pool_address :: "public_key \<Rightarrow> num_preshards \<Rightarrow> nat \<Rightarrow> bytes32" where
  "derive_fee_pool_address pk ns shard =
     of_nat (to_u256 (fst (shard_to_substate_address_range shard ns))) + drop_bit 128 pk"

definition deposit_into_pool :: "nat \<Rightarrow> substate_value \<Rightarrow> substate_value st_result" where
  "deposit_into_pool fee v = (case as_validator_fee_pool v of
     None \<Rightarrow> Err InvariantError
   | Some pool \<Rightarrow> (case deposit_direct pool fee of
       (pool', ok) \<Rightarrow> if \<not> ok then Err InvariantError else Ok (ValidatorFeePoolValue pool')))"

definition apply_leader_fee_to_substate_store ::
  "store_env \<Rightarrow> pending_store \<Rightarrow> public_key \<Rightarrow> nat \<Rightarrow> num_preshards \<Rightarrow> nat \<Rightarrow> pending_store st_result" where
  "apply_leader_fee_to_substate_store env ps claim_key shard ns fee =
     (if fee = 0 then Ok ps
      else update_in_place id env ps
        (ValidatorFeePoolId (derive_fee_pool_address claim_key ns shard))
        (deposit_into_pool fee)
        (\<lambda>_. Ok (ValidatorFeePoolValue \<lparr>vfp_claim_public_key = claim_key, vfp_amount = fee\<rparr>)))"

definition filter_diff_for_committee :: "id_hasher \<Rightarrow> committee_info \<Rightarrow> substate_diff \<Rightarrow> substate_diff" where
  "filter_diff_for_committee h ci d = \<lparr>
     up_substates = filter (\<lambda>(i, _). includes_substate_id h ci i) (up_substates d),
     down_substates = filter (\<lambda>(i, _). includes_substate_id h ci i) (down_substates d),
     fee_withdrawals = filter (\<lambda>w. includes_substate_id h ci (ValidatorFeePoolId (vfw_address w))) (fee_withdrawals d)\<rparr>"

section \<open>Laws of the locks\<close>

text \<open>The locks that \<open>try_lock\<close> looks at: of the stored locks of a substate the latest one, and every lock that
  this block adds.\<close>

definition held :: "store_env \<Rightarrow> pending_store \<Rightarrow> substate_id \<Rightarrow> substate_lock list" where
  "held env ps i = (case db_latest_lock (se_db env) i of None \<Rightarrow> [] | Some b \<Rightarrow> [b]) @ locks_of ps i"

text \<open>Which lock may follow which on a substate.\<close>

definition lock_may_follow :: "substate_lock \<Rightarrow> substate_lock \<Rightarrow> bool" where
  "lock_may_follow x y = (case sl_lock_type x of
     LockRead \<Rightarrow>
       if sl_is_local_only x \<and> sl_is_local_only y then sl_lock_type y \<noteq> LockWrite
       else if sl_transaction_id x = sl_transaction_id y then sl_lock_type y = LockOutput
       else sl_lock_type y = LockRead
   | LockWrite \<Rightarrow> sl_lock_type y = LockOutput \<and>
       (sl_transaction_id x = sl_transaction_id y \<or> sl_is_local_only x \<and> sl_is_local_only y)
   | LockOutput \<Rightarrow> sl_lock_type y \<noteq> LockOutput \<and> sl_is_local_only x \<and> sl_is_local_only y)"

lemma latest_lock_held:
  "get_latest_lock_by_id env ps i = (if held env ps i = [] then None else Some (last (held env ps i)))"
  by (auto simp: get_latest_lock_by_id_def held_def split: option.splits)

lemma locks_of_add_new_lock [simp]:
  "locks_of (add_new_lock ps i l) j = (if j = i then locks_of ps i @ [l] else locks_of ps j)"
  by (simp add: add_new_lock_def locks_of_def)

lemma held_add_new_lock [simp]:
  "held env (add_new_lock ps i l) j = (if j = i then held env ps i @ [l] else held env ps j)"
  by (simp add: held_def)

text \<open>A request that is granted either finds its lock or adds one that may follow the latest.\<close>

lemma try_lock_Ok:
  assumes "try_lock env ps tx l local = Ok ps'"
  defines "y \<equiv> substate_lock_new tx (li_version_to_lock l) (li_lock_type l) local"
  shows "(ps' = ps \<and> held env ps (li_substate_id l) \<noteq> [] \<and>
      sl_transaction_id (last (held env ps (li_substate_id l))) = tx \<and>
      sl_lock_type (last (held env ps (li_substate_id l))) = li_lock_type l) \<or>
    (ps' = add_new_lock ps (li_substate_id l) y \<and>
      (held env ps (li_substate_id l) = [] \<or> lock_may_follow (last (held env ps (li_substate_id l))) y))"
  using assms
  by (cases "li_lock_type l"; cases "sl_lock_type (last (held env ps (li_substate_id l)))")
    (auto simp: try_lock_def latest_lock_held to_versioned_substate_id_ref_def Let_def lock_type_simps
      result_simps substate_lock_new_def lock_may_follow_def split: if_splits)

text \<open>The stores a block can reach by granted lock requests; whether a transaction is local only is \<open>loc\<close>.\<close>

inductive lock_run :: "store_env \<Rightarrow> (transaction_id \<Rightarrow> bool) \<Rightarrow> pending_store \<Rightarrow> bool" for env loc where
  run_new: "lock_run env loc ps_new"
| run_lock: "\<lbrakk>lock_run env loc ps; try_lock env ps tx l (loc tx) = Ok ps'\<rbrakk> \<Longrightarrow> lock_run env loc ps'"

lemma lock_run_chain: "lock_run env loc ps \<Longrightarrow> successively lock_may_follow (held env ps i)"
proof (induction rule: lock_run.induct)
  case run_new
  then show ?case by (simp add: held_def ps_new_def locks_of_def split: option.split)
next
  case (run_lock ps tx l ps')
  then show ?case using try_lock_Ok [OF run_lock(2)]
    by (auto simp: successively_append_iff)
qed

lemma lock_run_local:
  assumes "lock_run env loc ps"
    and "\<And>i b. db_latest_lock (se_db env) i = Some b \<Longrightarrow> sl_is_local_only b = loc (sl_transaction_id b)"
  shows "x \<in> set (held env ps i) \<Longrightarrow> sl_is_local_only x = loc (sl_transaction_id x)"
  using assms(1)
proof (induction arbitrary: x rule: lock_run.induct)
  case run_new
  then show ?case using assms(2) by (auto simp: held_def ps_new_def locks_of_def split: option.splits)
next
  case (run_lock ps tx l ps')
  then show ?case using try_lock_Ok [OF run_lock(2)]
    by (auto simp: substate_lock_new_def split: if_splits)
qed

lemma write_lock_alone:
  assumes "successively lock_may_follow ls" and "\<And>x. x \<in> set ls \<Longrightarrow> sl_is_local_only x = loc (sl_transaction_id x)"
    and "w \<in> set ls" "sl_lock_type w = LockWrite" "\<not> loc (sl_transaction_id w)" "x \<in> set ls"
  shows "sl_transaction_id x = sl_transaction_id w"
proof -
  obtain pre post where ls: "ls = pre @ w # post" using assms(3) by (meson split_list)
  have nl: "\<not> sl_is_local_only w" using assms(2) [of w] assms(5) ls by simp
  have pre: "pre = []"
  proof (rule ccontr)
    assume "pre \<noteq> []"
    then have "lock_may_follow (last pre) w" using assms(1) ls by (simp add: successively_append_iff)
    then show False using nl assms(4)
      by (auto simp: lock_may_follow_def split: substate_lock_type.splits if_splits)
  qed
  show ?thesis
  proof (cases post)
    case Nil
    then show ?thesis using assms(6) ls pre by simp
  next
    case (Cons p rest)
    have p: "sl_lock_type p = LockOutput" "sl_transaction_id p = sl_transaction_id w"
      using assms(1,4) nl ls pre Cons by (auto simp: lock_may_follow_def)
    then have "\<not> sl_is_local_only p" using assms(2) [of p] assms(5) ls Cons by simp
    then have "rest = []" using assms(1) p(1) ls pre Cons by (cases rest) (auto simp: lock_may_follow_def)
    then show ?thesis using assms(6) p(2) ls pre Cons by auto
  qed
qed

section \<open>Properties of the locks\<close>

text \<open>C7: A multishard write lock is exclusive. After any sequence of granted lock requests in a block, if a
  transaction that is not local only holds a write lock on a substate, every lock held on that substate
  belongs to that transaction.\<close>

theorem multishard_write_lock_exclusive:
  assumes "lock_run env loc ps"
    and "\<forall>i b. db_latest_lock (se_db env) i = Some b \<longrightarrow> sl_is_local_only b = loc (sl_transaction_id b)"
    and "w \<in> set (held env ps i)" and "sl_lock_type w = LockWrite" and "\<not> loc (sl_transaction_id w)"
    and "x \<in> set (held env ps i)"
  shows "sl_transaction_id x = sl_transaction_id w"
proof -
  have "sl_is_local_only y = loc (sl_transaction_id y)" if "y \<in> set (held env ps i)" for y
    using lock_run_local [OF assms(1) _ that] assms(2) by blast
  from write_lock_alone [OF lock_run_chain [OF assms(1)] this assms(3-6)] show ?thesis .
qed

text \<open>A database with one vault at version zero and no locks.\<close>

definition sample_store_env :: store_env where
  "sample_store_env = \<lparr>se_hasher = \<lparr>ih_non_fungible = \<lambda>r n. 0, ih_utxo = \<lambda>r c. 0\<rparr>,
     se_db = \<lparr>db_last_change = \<lambda>i. None, db_change_for = \<lambda>i. None,
       db_substate = \<lambda>a. if a = \<lparr>sa_key = 7, sa_version = 0\<rparr> then Some \<lparr>sr_substate_id = VaultId 7, sr_version = 0,
         sr_substate_value = None, sr_shard = 1, sr_is_destroyed = False\<rparr> else None,
       db_max_version = \<lambda>i. None, db_exists = \<lambda>i. False, db_latest_lock = \<lambda>i. None,
       db_foreign_write_pledges = \<lambda>tx ids. []\<rparr>,
     se_num_preshards = P4, se_shard_group = \<lparr>sg_start = 1, sg_end_inclusive = 4\<rparr>\<rparr>"

abbreviation sample_write :: lock_intent where
  "sample_write \<equiv> require_lock_intent (VaultId 7) 0 LockWrite"

lemmas lock_eval = sample_store_env_def require_lock_intent_def to_versioned_substate_id_ref_def held_def locks_of_def
  ps_new_def get_latest_lock_by_id_def lock_type_simps lock_assert_is_up_def assert_is_up_def get_pending_def
  record_is_up_def vsi_to_substate_address_def from_substate_id_def substate_lock_new_def

lemma sample_write_granted:
  "try_lock sample_store_env ps_new 1 sample_write False = Ok (add_new_lock ps_new (VaultId 7)
     (substate_lock_new 1 0 LockWrite False))"
  by (simp add: try_lock_def lock_eval Let_def)

lemma sample_held_new [simp]: "held sample_store_env ps_new i = []"
  by (simp add: lock_eval)

theorem multishard_write_lock_exclusive_witness:
  "held sample_store_env (add_new_lock ps_new (VaultId 7) (substate_lock_new 1 0 LockWrite False)) (VaultId 7) =
     [substate_lock_new 1 0 LockWrite False] \<and>
   sl_transaction_id (last (held sample_store_env
     (add_new_lock ps_new (VaultId 7) (substate_lock_new 1 0 LockWrite False)) (VaultId 7))) = 1"
proof -
  let ?ps = "add_new_lock ps_new (VaultId 7) (substate_lock_new 1 0 LockWrite False)"
  have run: "lock_run sample_store_env (\<lambda>_. False) ?ps"
    using run_lock [OF run_new, where env = sample_store_env and loc = "\<lambda>_. False" and tx = 1 and l = sample_write]
      sample_write_granted by simp
  have h: "held sample_store_env ?ps (VaultId 7) = [substate_lock_new 1 0 LockWrite False]"
    by simp
  have "sl_transaction_id (substate_lock_new 1 0 LockWrite False) = sl_transaction_id (substate_lock_new 1 0 LockWrite False)"
    by (rule multishard_write_lock_exclusive [OF run, where i = "VaultId 7"])
      (simp_all add: h, simp_all add: sample_store_env_def substate_lock_new_def)
  then show ?thesis using h by (simp add: substate_lock_new_def)
qed

lemma held_try_lock_mono:
  "try_lock env ps tx l local = Ok ps' \<Longrightarrow> set (held env ps i) \<subseteq> set (held env ps' i)"
  using try_lock_Ok [of env ps tx l local ps'] by auto

lemma record_lock_failure_failed: "is_any_failed (record_lock_failure l st e)"
  by (cases e) (simp_all add: record_lock_failure_def add_failed_def is_any_failed_def Let_def)

lemma try_lock_loop_failed:
  "try_lock_loop env tx local ps st ls = Ok (ps', st') \<Longrightarrow> is_any_failed st \<Longrightarrow> is_any_failed st'"
  by (induction env tx local ps st ls rule: try_lock_loop.induct)
    (auto simp: Let_def record_lock_failure_failed split: result.splits substate_store_error.splits if_splits)

lemma try_lock_loop_held:
  assumes "try_lock_loop env tx local ps st ls = Ok (ps', st')" "\<not> is_any_failed st'"
  shows "(\<forall>i. set (held env ps i) \<subseteq> set (held env ps' i)) \<and> (\<forall>l \<in> set ls.
    \<exists>x \<in> set (held env ps' (li_substate_id l)). sl_transaction_id x = tx \<and> sl_lock_type x = li_lock_type l)"
  using assms
proof (induction ls arbitrary: ps)
  case (Cons l ls)
  show ?case
  proof (cases "try_lock env ps tx l local")
    case (Ok ps1)
    then have rest: "try_lock_loop env tx local ps1 st ls = Ok (ps', st')" using Cons.prems(1) by simp
    have "\<exists>x \<in> set (held env ps1 (li_substate_id l)). sl_transaction_id x = tx \<and> sl_lock_type x = li_lock_type l"
      using try_lock_Ok [OF Ok] by (auto simp: substate_lock_new_def intro: last_in_set)
    then show ?thesis using Cons.IH [OF rest Cons.prems(2)] held_try_lock_mono [OF Ok] by fastforce
  next
    case (Err e)
    then show ?thesis using Cons.prems try_lock_loop_failed [OF _ record_lock_failure_failed]
      by (auto simp: Let_def record_lock_failure_failed split: substate_store_error.splits if_splits)
  next
    case (Panic m)
    then show ?thesis using Cons.prems by simp
  qed
qed simp

text \<open>C24: What is granted is held. If locking a list of substates for a transaction reports no failure, then for
  every substate of the list the transaction holds a lock of the requested type.\<close>

theorem try_lock_all_held:
  assumes "try_lock_all env ps tx ls local = Ok (ps', st)" and "\<not> is_any_failed st" and "l \<in> set ls"
  shows "\<exists>x \<in> set (held env ps' (li_substate_id l)). sl_transaction_id x = tx \<and> sl_lock_type x = li_lock_type l"
  using try_lock_loop_held [of env tx local ps lock_status_new ls ps' st] assms by (simp add: try_lock_all_def)

theorem try_lock_all_held_witness:
  "\<exists>ps st. try_lock_all sample_store_env ps_new 1 [sample_write] False = Ok (ps, st) \<and>
     (\<exists>x \<in> set (held sample_store_env ps (VaultId 7)). sl_transaction_id x = 1 \<and> sl_lock_type x = LockWrite)"
proof -
  have ok: "try_lock_all sample_store_env ps_new 1 [sample_write] False =
      Ok (add_new_lock ps_new (VaultId 7) (substate_lock_new 1 0 LockWrite False), lock_status_new)"
    by (simp add: try_lock_all_def sample_write_granted)
  from try_lock_all_held [OF this, of sample_write] ok show ?thesis
    by (simp add: is_any_failed_def lock_status_new_def require_lock_intent_def)
qed

text \<open>Only the first lock on a substate is checked against the state. Once a transaction holds a read lock, a
  read lock of another transaction is granted for any version of the substate, also one that is down or
  does not exist.\<close>

theorem second_read_lock_unchecked:
  assumes "get_latest_lock_by_id env ps i = Some x" and "sl_lock_type x = LockRead"
    and "sl_transaction_id x \<noteq> tx"
  shows "try_lock env ps tx (require_lock_intent i v LockRead) local =
    Ok (add_new_lock ps i (substate_lock_new tx v LockRead local))"
  using assms by (simp add: try_lock_def require_lock_intent_def to_versioned_substate_id_ref_def lock_type_simps Let_def)

theorem second_read_lock_unchecked_witness:
  "try_lock sample_store_env ps_new 2 (require_lock_intent (VaultId 7) 5 LockRead) False =
     Err (LockFailed (LockSubstateNotFound (versioned (VaultId 7) 5))) \<and>
   is_ok (try_lock sample_store_env (add_new_lock ps_new (VaultId 7) (substate_lock_new 1 0 LockRead False)) 2
     (require_lock_intent (VaultId 7) 5 LockRead) False)"
proof -
  let ?ps = "add_new_lock ps_new (VaultId 7) (substate_lock_new 1 0 LockRead False)"
  have l: "get_latest_lock_by_id sample_store_env ?ps (VaultId 7) = Some (substate_lock_new 1 0 LockRead False)"
    by (simp add: latest_lock_held)
  have "try_lock sample_store_env ps_new 2 (require_lock_intent (VaultId 7) 5 LockRead) False =
     Err (LockFailed (LockSubstateNotFound (versioned (VaultId 7) 5)))"
    by (simp add: try_lock_def lock_eval Let_def)
  then show ?thesis using second_read_lock_unchecked [OF l, of 2 5 False] by (simp add: substate_lock_new_def)
qed

end
