(* ===== verification/PendingStoreLaws.thy ===== *)
theory PendingStoreLaws
  imports PendingStore
begin

text \<open>
  What the pending substate store promises to the block that is being processed: the two indexes stay in
  step with the list of changes, a block reads what it wrote, and the fees of a leader are added to the fee
  pool of the leader in the right shard. Also the laws of the leader fee itself.
\<close>

section \<open>The indexes\<close>

text \<open>An index points to changes of the key it is asked for.\<close>

definition indexed :: "('c \<Rightarrow> 'k) \<Rightarrow> ('k, nat) fmap \<Rightarrow> 'c list \<Rightarrow> bool" where
  "indexed key ix cs \<longleftrightarrow> (\<forall>k pos. fmlookup ix k = Some pos \<longrightarrow> pos < length cs \<and> key (cs ! pos) = k)"

definition entry :: "('k, nat) fmap \<Rightarrow> 'c list \<Rightarrow> 'k \<Rightarrow> 'c option" where
  "entry ix cs k = map_option ((!) cs) (fmlookup ix k)"

lemma indexed_insert: "indexed key ix cs \<Longrightarrow> indexed key (fmupd (key c) (length cs) ix) (cs @ [c])"
  unfolding indexed_def by (auto simp: nth_append less_Suc_eq split: if_splits)

lemma indexed_replace:
  "\<lbrakk>indexed key ix cs; key c = key (cs ! pos)\<rbrakk> \<Longrightarrow> indexed key ix (cs[pos := c])"
proof (unfold indexed_def, intro allI impI)
  fix k p assume a: "\<forall>k p. fmlookup ix k = Some p \<longrightarrow> p < length cs \<and> key (cs ! p) = k"
    "key c = key (cs ! pos)" "fmlookup ix k = Some p"
  then have "p < length cs" "key (cs ! p) = k" by blast+
  then show "p < length (cs[pos := c]) \<and> key (cs[pos := c] ! p) = k" using a(2) by (cases "p = pos") simp_all
qed

lemma entry_insert:
  "indexed key ix cs \<Longrightarrow>
   entry (fmupd (key c) (length cs) ix) (cs @ [c]) k = (if k = key c then Some c else entry ix cs k)"
  by (cases "fmlookup ix k") (auto simp: indexed_def entry_def nth_append)

lemma entry_key: "indexed key ix cs \<Longrightarrow> entry ix cs k = Some c \<Longrightarrow> key c = k"
  by (auto simp: indexed_def entry_def)

abbreviation id_of :: "substate_change \<Rightarrow> substate_id" where
  "id_of c \<equiv> vsi_substate_id (change_id c)"

definition in_sync :: "store_env \<Rightarrow> pending_store \<Rightarrow> bool" where
  "in_sync env ps \<longleftrightarrow>
     indexed (change_address env) (ps_pending ps) (ps_changes ps) \<and> indexed id_of (ps_head ps) (ps_changes ps)"

abbreviation pending_at :: "pending_store \<Rightarrow> substate_address \<Rightarrow> substate_change option" where
  "pending_at ps \<equiv> entry (ps_pending ps) (ps_changes ps)"

abbreviation head_at :: "pending_store \<Rightarrow> substate_id \<Rightarrow> substate_change option" where
  "head_at ps \<equiv> entry (ps_head ps) (ps_changes ps)"

lemma in_sync_new: "in_sync env ps_new"
  by (simp add: in_sync_def ps_new_def indexed_def)

lemma in_sync_insert: "in_sync env ps \<Longrightarrow> in_sync env (ps_insert env ps c)"
  by (simp add: in_sync_def ps_insert_def Let_def indexed_insert indexed_insert [where key = id_of])

lemma get_pending_sync: "in_sync env ps \<Longrightarrow> get_pending ps a = Ok (pending_at ps a)"
  by (cases "fmlookup (ps_pending ps) a")
    (auto simp: in_sync_def indexed_def get_pending_def entry_def change_at_def expect_def)

lemma get_head_sync: "in_sync env ps \<Longrightarrow> get_head_change ps i = Ok (head_at ps i)"
  by (cases "fmlookup (ps_head ps) i")
    (auto simp: in_sync_def indexed_def get_head_change_def entry_def change_at_def expect_def)

lemma pending_at_insert:
  "in_sync env ps \<Longrightarrow>
   pending_at (ps_insert env ps c) a = (if a = change_address env c then Some c else pending_at ps a)"
  by (simp add: in_sync_def ps_insert_def Let_def entry_insert)

lemma head_at_insert:
  "in_sync env ps \<Longrightarrow> head_at (ps_insert env ps c) i = (if i = id_of c then Some c else head_at ps i)"
  by (simp add: in_sync_def ps_insert_def Let_def entry_insert [where key = id_of])

lemmas sync_simps = get_pending_sync get_head_sync pending_at_insert head_at_insert

lemma ps_put_Ok: "ps_put env ps c = Ok ps' \<Longrightarrow> ps' = ps_insert env ps c"
  by (auto simp: ps_put_def result_simps split: substate_change.splits option.splits)

lemma in_sync_put: "in_sync env ps \<Longrightarrow> ps_put env ps c = Ok ps' \<Longrightarrow> in_sync env ps'"
  using ps_put_Ok in_sync_insert by blast

lemma in_sync_create_next: "in_sync env ps \<Longrightarrow> create_next sid env ps i f = Ok ps' \<Longrightarrow> in_sync env ps'"
  by (auto simp: create_next_def result_simps in_sync_insert)

text \<open>A change of the value in place keeps the address and the id.\<close>

lemma in_sync_in_place:
  assumes "in_sync env ps" and "change_id c = change_id (ps_changes ps ! pos)"
  shows "in_sync env (ps\<lparr>ps_changes := (ps_changes ps)[pos := c]\<rparr>)"
  using assms by (simp add: in_sync_def change_address_def indexed_replace)

text \<open>The three ways in which \<open>update_in_place\<close> succeeds.\<close>

lemma update_in_place_cases:
  assumes "in_sync env ps" and "update_in_place from_err env ps i updater creator = Ok ps'"
  obtains (in_place) pos j sh s v where "fmlookup (ps_head ps) i = Some pos" "pos < length (ps_changes ps)"
      "ps_changes ps ! pos = ChangeUp j sh s" "updater (sub_value s) = Ok v"
      "ps' = ps\<lparr>ps_changes := (ps_changes ps)[pos := ChangeUp j sh (s\<lparr>sub_value := v\<rparr>)]\<rparr>"
    | (next_version) j sh s v where "head_at ps i = None"
      "get_latest_change_from_store env i = Ok (ChangeUp j sh s)" "updater (sub_value s) = Ok v"
      "ps' = ps_insert env (ps_insert env ps (ChangeDown (versioned j (sub_version s)) sh))
         (ChangeUp j sh \<lparr>sub_value = v, sub_version = sub_version s + 1\<rparr>)"
    | (revived) j sh sid where "head_at ps i = Some (ChangeDown j sh) \<or>
        head_at ps i = None \<and> get_latest_change_from_store env i = Ok (ChangeDown j sh)"
      "create_next sid env ps j creator = Ok ps'"
    | (created) v sh where "head_at ps i = None" "st_optional (get_latest_change_from_store env i) = Ok None"
      "creator None = Ok v" "ps' = ps_insert env ps (ChangeUp i sh \<lparr>sub_value = v, sub_version = 0\<rparr>)"
proof (cases "fmlookup (ps_head ps) i")
  case None
  then have head: "head_at ps i = None" by (simp add: entry_def)
  show thesis
  proof (cases "get_latest_change_from_store env i")
    case (Ok c)
    show thesis
    proof (cases c)
      case (ChangeUp j sh s)
      then obtain v where "updater (sub_value s) = Ok v"
          "ps' = ps_insert env (ps_insert env ps (ChangeDown (versioned j (sub_version s)) sh))
             (ChangeUp j sh \<lparr>sub_value = v, sub_version = sub_version s + 1\<rparr>)"
        using assms(2) None Ok by (auto simp: update_in_place_def st_optional_def result_simps Let_def)
      then show thesis using next_version [of j sh s v] head Ok ChangeUp by simp
    next
      case (ChangeDown j sh)
      then show thesis using revived [of j sh "\<lambda>i next. next"] assms(2) None head Ok
        by (simp add: update_in_place_def st_optional_def result_simps)
    qed
  next
    case (Err e)
    then obtain v sh where "st_is_not_found_error e" "creator None = Ok v"
        "ps' = ps_insert env ps (ChangeUp i sh \<lparr>sub_value = v, sub_version = 0\<rparr>)"
      using assms(2) None by (auto simp: update_in_place_def st_optional_def result_simps split: if_splits)
    then show thesis using created [of v sh] head Err by (simp add: st_optional_def)
  next
    case (Panic m)
    then show thesis using assms(2) None by (simp add: update_in_place_def st_optional_def result_simps)
  qed
next
  case (Some pos)
  have c: "change_at ps pos = (Ok (ps_changes ps ! pos) :: (substate_change, 'a) result)"
      "head_at ps i = Some (ps_changes ps ! pos)" "pos < length (ps_changes ps)"
    using assms(1) Some by (auto simp: in_sync_def indexed_def entry_def change_at_def expect_def)
  show thesis
  proof (cases "ps_changes ps ! pos")
    case (ChangeUp j sh s)
    then obtain v where "updater (sub_value s) = Ok v"
        "ps' = ps\<lparr>ps_changes := (ps_changes ps)[pos := ChangeUp j sh (s\<lparr>sub_value := v\<rparr>)]\<rparr>"
      using assms(2) Some c(1) by (auto simp: update_in_place_def result_simps)
    then show thesis using in_place Some c(3) ChangeUp by blast
  next
    case (ChangeDown j sh)
    then show thesis using revived [of j sh "\<lambda>i next. i"] assms(2) Some c(1,2) by (simp add: update_in_place_def result_simps)
  qed
qed

lemma in_sync_update_in_place:
  assumes "in_sync env ps" and "update_in_place from_err env ps i updater creator = Ok ps'"
  shows "in_sync env ps'"
  by (cases rule: update_in_place_cases [OF assms])
    (use assms(1) in \<open>simp_all add: in_sync_in_place in_sync_insert in_sync_create_next\<close>)

lemma in_sync_put_diff:
  assumes "in_sync env ps" and "put_diff env ps d = Ok ps'"
  shows "in_sync env ps'"
proof -
  obtain ps1 ps2 where p: "put_downs env ps (down_substates d) = Ok ps1" "put_ups env ps1 (up_substates d) = Ok ps2"
      "put_fee_withdrawals env ps2 (fee_withdrawals d) = Ok ps'"
    using assms(2) by (auto simp: put_diff_def result_simps)
  from p(1) assms(1) have "in_sync env ps1" unfolding put_downs_def
    by (rule try_fold_invariant) (auto simp: result_simps intro: in_sync_put split: prod.splits if_splits)
  with p(2) have "in_sync env ps2" unfolding put_ups_def
    by (rule try_fold_invariant) (auto simp: result_simps intro: in_sync_put split: prod.splits if_splits)
  with p(3) show ?thesis unfolding put_fee_withdrawals_def
    by (rule try_fold_invariant) (auto simp: Let_def intro: in_sync_update_in_place)
qed


section \<open>What a block writes and reads\<close>

text \<open>
  The store as a partial map from versioned ids to whether they are up. The changes of this block come
  first, then those of the blocks before it that are not committed, then the committed state.
\<close>

definition substate_status :: "store_env \<Rightarrow> pending_store \<Rightarrow> versioned_substate_id \<Rightarrow> bool option" where
  "substate_status env ps i = (case pending_at ps (vsi_to_substate_address (se_hasher env) i) of
     Some c \<Rightarrow> Some (is_up_change c)
   | None \<Rightarrow> (case db_change_for (se_db env) i of
       Some c \<Rightarrow> Some (is_up_change c) | None \<Rightarrow> record_is_up env i))"

text \<open>The substate that must exist before a change, and whether it must be up.\<close>

definition put_requires :: "substate_change \<Rightarrow> (versioned_substate_id \<times> bool) option" where
  "put_requires c = (case c of
     ChangeUp i _ s \<Rightarrow> map_option (\<lambda>v. (versioned i v, False)) (previous_version s)
   | ChangeDown i _ \<Rightarrow> Some (i, True))"

definition put_allowed :: "store_env \<Rightarrow> pending_store \<Rightarrow> substate_change \<Rightarrow> unit st_result" where
  "put_allowed env ps c = (case put_requires c of
     None \<Rightarrow> Ok ()
   | Some (i, live) \<Rightarrow> (case substate_status env ps i of
       None \<Rightarrow> Err (StoreSubstateNotFound i)
     | Some found \<Rightarrow>
         if found = live then Ok () else Err (if live then StoreSubstateIsDown i else ExpectedSubstateDown i)))"

lemma assert_is_up_status:
  "in_sync env ps \<Longrightarrow> assert_is_up env ps i = (case substate_status env ps i of
     None \<Rightarrow> Err (StoreSubstateNotFound i) | Some live \<Rightarrow> if live then Ok () else Err (StoreSubstateIsDown i))"
  by (simp add: assert_is_up_def substate_status_def sync_simps split: option.split bool.split)

lemma assert_is_down_status:
  "in_sync env ps \<Longrightarrow> assert_is_down env ps i = (case substate_status env ps i of
     None \<Rightarrow> Err (StoreSubstateNotFound i) | Some live \<Rightarrow> if live then Err (ExpectedSubstateDown i) else Ok ())"
  by (simp add: assert_is_down_def substate_status_def sync_simps split: option.split)

lemma ps_put_spec: "in_sync env ps \<Longrightarrow> ps_put env ps c = and_then (put_allowed env ps c) (\<lambda>_. Ok (ps_insert env ps c))"
  by (simp add: ps_put_def put_allowed_def put_requires_def assert_is_up_status assert_is_down_status
      split: substate_change.split option.split)

lemma substate_status_insert:
  "in_sync env ps \<Longrightarrow> substate_status env (ps_insert env ps c) i =
     (if vsi_to_substate_address (se_hasher env) i = change_address env c then Some (is_up_change c)
      else substate_status env ps i)"
  by (simp add: substate_status_def pending_at_insert)

lemma in_sync_reachable:
  assumes "try_fold (ps_put env) ps_new cs = Ok ps"
  shows "in_sync env ps"
  using assms in_sync_new by (rule try_fold_invariant) (rule in_sync_put)

text \<open>C8: The store of a block refines a map. After any sequence of puts, a further put succeeds exactly when
  the version it replaces is down, or the version it removes is up, and otherwise reports which of the
  two failed. After it, the new version is read back, is the latest, and every other address is as before.\<close>

theorem store_put_get:
  assumes "try_fold (ps_put env) ps_new cs = Ok ps"
  shows "ps_put env ps c = and_then (put_allowed env ps c) (\<lambda>_. Ok (ps_insert env ps c)) \<and>
    substate_status env (ps_insert env ps c) (change_id c) = Some (is_up_change c) \<and>
    ps_get env (ps_insert env ps c) (change_id c) = ok_or (StoreSubstateIsDown (change_id c)) (up_substate c) \<and>
    get_latest_version env (ps_insert env ps c) (id_of c) = Ok (vsi_version (change_id c), is_up_change c) \<and>
    (\<forall>i. vsi_to_substate_address (se_hasher env) i \<noteq> change_address env c \<longrightarrow>
       ps_get env (ps_insert env ps c) i = ps_get env ps i)"
proof -
  have sync: "in_sync env ps" by (rule in_sync_reachable [OF assms])
  show ?thesis
    by (simp add: sync ps_put_spec substate_status_insert ps_get_def get_latest_version_def change_address_def
        get_pending_sync [OF sync] get_pending_sync [OF in_sync_insert [OF sync]]
        get_head_sync [OF in_sync_insert [OF sync]] pending_at_insert [OF sync] head_at_insert [OF sync])
qed

theorem store_put_get_witness:
  "\<exists>ps. try_fold (ps_put sample_store_env) ps_new [ChangeDown (versioned (VaultId 7) 0) 2] = Ok ps \<and>
     ps_put sample_store_env ps (ChangeDown (versioned (VaultId 7) 0) 2) =
       Err (StoreSubstateIsDown (versioned (VaultId 7) 0))"
proof -
  let ?c = "ChangeDown (versioned (VaultId 7) 0) 2"
  have run: "try_fold (ps_put sample_store_env) ps_new [?c] = Ok (ps_insert sample_store_env ps_new ?c)"
    by (simp add: ps_put_def lock_eval result_simps)
  have "try_fold (ps_put sample_store_env) ps_new [] = Ok ps_new" by simp
  from store_put_get [OF this, of ?c]
  have st: "substate_status sample_store_env (ps_insert sample_store_env ps_new ?c) (versioned (VaultId 7) 0) =
      Some False"
    by (simp add: is_up_change_def)
  from store_put_get [OF run, of ?c] run show ?thesis
    by (simp add: put_allowed_def put_requires_def st)
qed

section \<open>Leader fees\<close>

lemma leader_fee_arith:
  fixes fee n burn excess tf :: nat
  assumes "tf = fee * n + excess + burn" "excess < n" "(fee + 1) * n \<le> tf"
  shows "(fee + 1) * n + (burn - (n - excess)) = tf \<and> n - excess \<le> burn"
  using assms by (simp add: algebra_simps)

text \<open>C22: No part of a fee is lost or made. Sharing the fee of a transaction among the leaders of the involved
  shards never overflows for fees with room for one unit per shard, and the shares and the burn add up to the
  fee. The burn is within one unit per shard of its target.\<close>

theorem leader_fee_conserves:
  assumes "0 < n" and "tf + n \<le> u64_max"
  shows "\<exists>lf. calculate_leader_fee tf n d = Ok lf \<and> lf_fee lf * n + lf_global_exhaust_burn lf = tf \<and>
    \<bar>int (lf_global_exhaust_burn lf) - int (tf div d)\<bar> \<le> int n"
proof -
  define t where "t = tf div d"
  define fee where "fee = (tf - t) div n"
  define ex where "ex = (tf - t) mod n"
  have t: "t \<le> tf" by (simp add: t_def)
  have split: "tf = fee * n + ex + t" "ex < n"
    using t assms(1) by (simp_all add: fee_def ex_def)
  have le: "fee * n \<le> tf" using split by simp
  have bounds: "fee + 1 \<le> u64_max" "(fee + 1) * n \<le> u64_max" "t + ex \<le> u64_max"
    using split assms le by (simp_all add: algebra_simps) (cases n; simp)
  have t0: "(if d = 0 then 0 else tf div d) = t" by (simp add: t_def)
  have calc: "calculate_leader_fee tf n d =
      (if ex > 0 \<and> ex \<ge> n div 2 \<and> (fee + 1) * n \<le> tf
       then Ok \<lparr>lf_fee = fee + 1, lf_global_exhaust_burn = t - (n - ex)\<rparr>
       else Ok \<lparr>lf_fee = fee, lf_global_exhaust_burn = t + ex\<rparr>)"
    using t bounds
    by (simp add: calculate_leader_fee_def Let_def t0 fee_def [symmetric] ex_def [symmetric] u64_sub_def u64_add_def u64_mul_def)
  show ?thesis
  proof (cases "ex > 0 \<and> ex \<ge> n div 2 \<and> (fee + 1) * n \<le> tf")
    case True
    then have "(fee + 1) * n + (t - (n - ex)) = tf" "n - ex \<le> t" using leader_fee_arith [OF split] by simp_all
    then show ?thesis using True calc
      by (intro exI [of _ "\<lparr>lf_fee = fee + 1, lf_global_exhaust_burn = t - (n - ex)\<rparr>"])
        (simp add: t_def [symmetric] of_nat_diff)
  next
    case False
    then have "calculate_leader_fee tf n d = Ok \<lparr>lf_fee = fee, lf_global_exhaust_burn = t + ex\<rparr>"
      by (simp only: calc if_not_P [OF False] if_False)
    moreover have "fee * n + (t + ex) = tf" using split(1) by simp
    ultimately show ?thesis using split(2)
      by (intro exI [of _ "\<lparr>lf_fee = fee, lf_global_exhaust_burn = t + ex\<rparr>"]) (simp add: t_def [symmetric])
  qed
qed

theorem leader_fee_conserves_witness:
  "\<exists>lf. calculate_leader_fee 99 10 20 = Ok lf \<and> lf_fee lf * 10 + lf_global_exhaust_burn lf = (99 :: nat) \<and>
     \<bar>int (lf_global_exhaust_burn lf) - 4\<bar> \<le> 10"
  using leader_fee_conserves [of 10 99 20] by (simp add: u64_max_def)

section \<open>Fee pools\<close>

lemma unat_256: "m < 2 ^ 256 \<Longrightarrow> unat (of_nat m :: 256 word) = m"
  by (simp add: unat_of_nat)

lemma unat_add_256: "m + unat w < 2 ^ 256 \<Longrightarrow> unat (of_nat m + w) = m + unat w" for w :: "256 word"
  using unat_256 [of "m + unat w"] by simp

lemma range_start:
  assumes "1 \<le> shard" "shard \<le> preshards_as_u32 ns"
  shows "to_u256 (fst (shard_to_substate_address_range shard ns)) = (shard - 1) * shard_size ns + (shard - 2)"
proof (cases "ns = P1 \<or> shard = 1")
  case True
  then show ?thesis using assms
    by (auto simp: shard_to_substate_address_range_def Let_def addr_zero_def to_u256_def shard_global_def)
next
  case False
  let ?n = "(shard - 1) * shard_size ns + (shard - 2)"
  have "?n < 2 ^ 256"
  proof -
    have "?n < shard * (shard_size ns + 1)" using assms(1) False by (cases shard) (simp_all add: algebra_simps)
    also have "\<dots> \<le> preshards_as_u32 ns * (shard_size ns + 1)" using assms(2) by (rule mult_le_mono1)
    finally show ?thesis by (simp only: shard_size_eq)
  qed
  then have "to_u256 (from_u256_zero_version ?n) = ?n"
    by (simp only: to_u256_def from_u256_zero_version_def from_u256_def substate_address.simps unat_256)
  then show ?thesis using assms False
    by (cases "shard = preshards_as_u32 ns")
      (auto simp: shard_to_substate_address_range_def Let_def shard_global_def numeral_2_eq_2 to_u256_def addr_zero_def)
qed

lemma fee_pool_shard:
  assumes "1 \<le> shard" and "shard \<le> preshards_as_u32 ns"
  shows "vsi_to_shard h (versioned (ValidatorFeePoolId (derive_fee_pool_address pk ns shard)) v) ns = Ok shard"
proof -
  let ?k = "derive_fee_pool_address pk ns shard" and ?size = "shard_size ns"
  let ?x = "(shard - 2) + unat (drop_bit 128 pk)"
  have y: "unat (drop_bit 128 pk) < 2 ^ 128"
  proof -
    have "unat pk < 2 ^ 128 * 2 ^ 128" using to_u256_lt [of "\<lparr>sa_key = pk, sa_version = 0\<rparr>"] by (simp add: to_u256_def)
    then have "unat pk div 2 ^ 128 < 2 ^ 128" by (rule less_mult_imp_div_less)
    then show ?thesis by (simp only: unat_drop_bit_eq) (simp only: drop_bit_eq_div)
  qed
  have small: "?x < ?size" using y assms(2) preshards_le [of ns] shard_size_big [of ns] by simp
  have total: "(shard - 1) * ?size + ?x < 2 ^ 256"
  proof -
    have "(shard - 1) * ?size + ?x < shard * ?size" using small assms(1) by (cases shard) simp_all
    also have "\<dots> \<le> preshards_as_u32 ns * (?size + 1)" using assms(2) by (intro mult_le_mono) simp_all
    finally show ?thesis by (simp only: shard_size_eq)
  qed
  have k: "unat ?k = (shard - 1) * ?size + ?x"
    using unat_add_256 [of "(shard - 1) * ?size + (shard - 2)" "drop_bit 128 pk"] total
    by (simp only: derive_fee_pool_address_def range_start [OF assms] add.assoc)
  have "unat ?k div ?size = shard - 1"
    using small by (simp add: k)
  then have "shard_of (from_substate_id h (ValidatorFeePoolId ?k) v) ns = shard"
    using assms by (simp add: shard_of_def from_substate_id_def to_u256_def)
  then show ?thesis by (simp add: vsi_to_shard_def vsi_to_substate_address_def is_global_def to_shard_eq is_template_def)
qed

text \<open>C34: A fee pool lies in the shard it is derived for, whatever the public key, so the fees that a leader earns in a
  shard are credited to a substate of that shard.\<close>

theorem fee_pool_in_shard:
  assumes "1 \<le> shard" and "shard \<le> preshards_as_u32 ns"
  shows "vsi_to_shard h (versioned (ValidatorFeePoolId (derive_fee_pool_address pk ns shard)) v) ns = Ok shard"
  using assms by (rule fee_pool_shard)

theorem fee_pool_in_shard_witness:
  "(vsi_to_shard (se_hasher sample_store_env) (versioned (ValidatorFeePoolId (derive_fee_pool_address 5 P8 8)) 0) P8
    :: (nat, unit) result) = Ok 8"
  by (rule fee_pool_in_shard) simp_all

text \<open>The amount of the latest version of a fee pool, as the block sees it.\<close>

definition fee_pool_amount :: "store_env \<Rightarrow> pending_store \<Rightarrow> substate_id \<Rightarrow> nat" where
  "fee_pool_amount env ps i = (case get_latest_change env ps i of
     Ok (ChangeUp _ _ s) \<Rightarrow> (case sub_value s of ValidatorFeePoolValue p \<Rightarrow> vfp_amount p | _ \<Rightarrow> 0)
   | _ \<Rightarrow> 0)"

lemma fee_pool_amount_sync:
  "in_sync env ps \<Longrightarrow> fee_pool_amount env ps i = (case (case head_at ps i of
      Some c \<Rightarrow> Ok c | None \<Rightarrow> get_latest_change_from_store env i) of
      Ok (ChangeUp _ _ s) \<Rightarrow> (case sub_value s of ValidatorFeePoolValue p \<Rightarrow> vfp_amount p | _ \<Rightarrow> 0) | _ \<Rightarrow> 0)"
  by (simp add: fee_pool_amount_def get_latest_change_def get_head_sync)

lemma fee_pool_amount_insert:
  "in_sync env ps \<Longrightarrow> fee_pool_amount env (ps_insert env ps (ChangeUp i sh s)) i =
     (case sub_value s of ValidatorFeePoolValue p \<Rightarrow> vfp_amount p | _ \<Rightarrow> 0)"
  by (simp add: fee_pool_amount_def get_latest_change_def head_at_insert get_head_sync [OF in_sync_insert])

lemma deposit_into_pool_Ok:
  "deposit_into_pool fee v = Ok v' \<Longrightarrow>
   \<exists>p. v = ValidatorFeePoolValue p \<and> v' = ValidatorFeePoolValue (p\<lparr>vfp_amount := vfp_amount p + fee\<rparr>)"
  by (cases v) (auto simp: deposit_into_pool_def as_validator_fee_pool_def deposit_direct_def split: if_splits)

text \<open>What the database promises of its answers.\<close>

definition db_keyed :: "store_env \<Rightarrow> bool" where
  "db_keyed env \<longleftrightarrow> (\<forall>i c. db_last_change (se_db env) i = Some c \<longrightarrow> id_of c = i)"

lemma latest_from_store_id:
  "db_keyed env \<Longrightarrow> get_latest_change_from_store env i = Ok c \<Longrightarrow> id_of c = i"
  by (auto simp: get_latest_change_from_store_def db_keyed_def result_simps split: option.splits if_splits)

lemma revived_amount:
  assumes "in_sync env ps" "vsi_substate_id j = i"
    and "create_next sid env ps j (\<lambda>_. Ok (ValidatorFeePoolValue p)) = Ok ps'"
  shows "fee_pool_amount env ps' i = vfp_amount p"
  using assms by (auto simp: create_next_def to_next_version_def result_simps fee_pool_amount_insert)

text \<open>C23: The fee of a leader is credited in full. When a block pays a leader, the fee pool of the leader in that shard
  holds the amount it held before plus the fee, whether the pool was changed by this block already, is taken to
  its next version, is brought up again after it was destroyed, or is created.\<close>

theorem leader_fee_credited:
  assumes "in_sync env ps" and "db_keyed env"
    and "apply_leader_fee_to_substate_store env ps key shard ns fee = Ok ps'"
  defines "pool \<equiv> ValidatorFeePoolId (derive_fee_pool_address key ns shard)"
  shows "fee_pool_amount env ps' pool = fee_pool_amount env ps pool + fee"
proof (cases "fee = 0")
  case True
  then show ?thesis using assms(3) by (simp add: apply_leader_fee_to_substate_store_def)
next
  case False
  let ?new = "\<lparr>vfp_claim_public_key = key, vfp_amount = fee\<rparr>"
  have upd: "update_in_place id env ps pool (deposit_into_pool fee) (\<lambda>_. Ok (ValidatorFeePoolValue ?new)) = Ok ps'"
    using assms(3) False by (simp add: apply_leader_fee_to_substate_store_def pool_def)
  note amount = fee_pool_amount_sync [OF assms(1), of pool]
  from assms(1) upd show ?thesis
  proof (cases rule: update_in_place_cases)
    case (in_place pos j sh s v)
    obtain p where p: "sub_value s = ValidatorFeePoolValue p" "v = ValidatorFeePoolValue (p\<lparr>vfp_amount := vfp_amount p + fee\<rparr>)"
      using deposit_into_pool_Ok [OF in_place(4)] by blast
    have sync: "in_sync env ps'" using in_sync_update_in_place [OF assms(1) upd] .
    have "fee_pool_amount env ps' pool = vfp_amount p + fee"
      unfolding fee_pool_amount_sync [OF sync] using in_place p by (simp add: entry_def)
    then show ?thesis using in_place p by (simp add: amount entry_def)
  next
    case (next_version j sh s v)
    obtain p where p: "sub_value s = ValidatorFeePoolValue p" "v = ValidatorFeePoolValue (p\<lparr>vfp_amount := vfp_amount p + fee\<rparr>)"
      using deposit_into_pool_Ok [OF next_version(3)] by blast
    have "j = pool" using latest_from_store_id [OF assms(2) next_version(2)] by simp
    then show ?thesis using next_version(1,2,4) p
      by (simp add: amount fee_pool_amount_insert in_sync_insert assms(1))
  next
    case (revived j sh)
    have "vsi_substate_id j = pool"
      using revived(1) assms(1) latest_from_store_id [OF assms(2)] entry_key [where key = id_of]
      by (fastforce simp: in_sync_def)
    then show ?thesis using revived(1) revived_amount [OF assms(1) _ revived(2)] by (auto simp: amount)
  next
    case (created v sh)
    have "get_latest_change_from_store env pool \<noteq> Ok c" for c using created(2) by (auto simp: st_optional_def)
    then have "fee_pool_amount env ps pool = 0" using created(1)
      by (auto simp: amount split: result.split)
    then show ?thesis using created(3,4) by (auto simp: fee_pool_amount_insert assms(1))
  qed
qed

theorem leader_fee_credited_witness:
  "\<exists>ps. apply_leader_fee_to_substate_store sample_store_env ps_new 5 2 P4 30 = Ok ps \<and>
     fee_pool_amount sample_store_env ps (ValidatorFeePoolId (derive_fee_pool_address 5 P4 2)) = 30"
proof -
  let ?pool = "ValidatorFeePoolId (derive_fee_pool_address 5 P4 2)"
  let ?v = "ValidatorFeePoolValue \<lparr>vfp_claim_public_key = 5, vfp_amount = 30\<rparr>"
  have sync: "in_sync sample_store_env ps_new" and keyed: "db_keyed sample_store_env"
    by (rule in_sync_new) (simp add: db_keyed_def sample_store_env_def)
  have n: "se_num_preshards sample_store_env = P4" by (simp add: sample_store_env_def)
  have none: "get_latest_change_from_store sample_store_env i = Err (StoreSubstateNotFound (versioned i 0))" for i
    by (simp add: get_latest_change_from_store_def get_latest_record_def sample_store_env_def ok_or_def)
  have run: "apply_leader_fee_to_substate_store sample_store_env ps_new 5 2 P4 30 =
      Ok (ps_insert sample_store_env ps_new (ChangeUp ?pool 2 \<lparr>sub_value = ?v, sub_version = 0\<rparr>))"
    unfolding apply_leader_fee_to_substate_store_def update_in_place_def n none st_optional_def
    by (simp add: st_is_not_found_error_def fee_pool_shard ps_new_def n)
  have "fee_pool_amount sample_store_env ps_new ?pool = 0"
    by (simp add: fee_pool_amount_sync [OF sync]) (simp add: none ps_new_def entry_def)
  with leader_fee_credited [OF sync keyed run] run show ?thesis by (simp add: sample_store_env_def)
qed

end
