(* ===== verification/Blocks.thy ===== *)
theory Blocks
  imports TransactionPool
begin

text \<open>
  Commands, block headers and blocks (crates/storage/src/consensus_models/command.rs, block_header.rs and
  block.rs). The hash functions and the Merkle root of the commands are parameters. The metadata of a block
  that only records when it was stored is left out.
\<close>

section \<open>Commands\<close>

record foreign_proposal_atom =
  fpa_block_id :: block_id
  fpa_shard_group :: shard_group

datatype command =
    CmdLocalOnly transaction_atom
  | CmdLocalPrepare transaction_atom
  | CmdLocalAccept transaction_atom
  | CmdAllAccept transaction_atom
  | CmdSomeAccept transaction_atom
  | CmdForeignProposal foreign_proposal_atom
  | CmdEvictNode public_key
  | CmdEndEpoch

datatype command_ordering =
    OrdEvictNode
  | OrdForeignProposal shard_group block_id
  | OrdTransactionId transaction_id
  | OrdEndEpoch

primrec cmd_transaction :: "command \<Rightarrow> transaction_atom option" where
  "cmd_transaction (CmdLocalOnly t) = Some t"
| "cmd_transaction (CmdLocalPrepare t) = Some t"
| "cmd_transaction (CmdLocalAccept t) = Some t"
| "cmd_transaction (CmdAllAccept t) = Some t"
| "cmd_transaction (CmdSomeAccept t) = Some t"
| "cmd_transaction (CmdForeignProposal _) = None"
| "cmd_transaction (CmdEvictNode _) = None"
| "cmd_transaction CmdEndEpoch = None"

definition as_ordering :: "command \<Rightarrow> command_ordering" where
  "as_ordering c = (case c of
     CmdForeignProposal fp \<Rightarrow> OrdForeignProposal (fpa_shard_group fp) (fpa_block_id fp)
   | CmdEvictNode _ \<Rightarrow> OrdEvictNode
   | CmdEndEpoch \<Rightarrow> OrdEndEpoch
   | CmdLocalOnly t \<Rightarrow> OrdTransactionId (ta_id t)
   | CmdLocalPrepare t \<Rightarrow> OrdTransactionId (ta_id t)
   | CmdLocalAccept t \<Rightarrow> OrdTransactionId (ta_id t)
   | CmdAllAccept t \<Rightarrow> OrdTransactionId (ta_id t)
   | CmdSomeAccept t \<Rightarrow> OrdTransactionId (ta_id t))"

text \<open>The derived order: first the variant, then its fields.\<close>

primrec ordering_key :: "command_ordering \<Rightarrow> nat \<times> nat \<times> nat \<times> bytes32" where
  "ordering_key OrdEvictNode = (0, 0, 0, 0)"
| "ordering_key (OrdForeignProposal g i) = (1, sg_start g, sg_end_inclusive g, i)"
| "ordering_key (OrdTransactionId i) = (2, 0, 0, i)"
| "ordering_key OrdEndEpoch = (3, 0, 0, 0)"

instantiation command_ordering :: linorder
begin

definition less_eq_command_ordering :: "command_ordering \<Rightarrow> command_ordering \<Rightarrow> bool" where
  "a \<le> b \<longleftrightarrow> ordering_key a \<le> ordering_key b"

definition less_command_ordering :: "command_ordering \<Rightarrow> command_ordering \<Rightarrow> bool" where
  "a < b \<longleftrightarrow> ordering_key a < ordering_key b"

instance
proof
  fix a b c :: command_ordering
  show "a < b \<longleftrightarrow> a \<le> b \<and> \<not> b \<le> a"
    by (simp add: less_eq_command_ordering_def less_command_ordering_def less_le_not_le)
  show "a \<le> a" by (simp add: less_eq_command_ordering_def)
  show "a \<le> b \<Longrightarrow> b \<le> c \<Longrightarrow> a \<le> c" unfolding less_eq_command_ordering_def by (rule order_trans)
  show "a \<le> b \<or> b \<le> a" unfolding less_eq_command_ordering_def by (rule linear)
  show "a = b" if "a \<le> b" "b \<le> a"
  proof -
    have "ordering_key a = ordering_key b" using that unfolding less_eq_command_ordering_def by (rule order_antisym)
    then show ?thesis by (cases a; cases b) simp_all
  qed
qed

end

definition local_only :: "command \<Rightarrow> transaction_atom option" where
  "local_only c = (case c of CmdLocalOnly t \<Rightarrow> Some t | _ \<Rightarrow> None)"

definition local_prepare :: "command \<Rightarrow> transaction_atom option" where
  "local_prepare c = (case c of CmdLocalPrepare t \<Rightarrow> Some t | _ \<Rightarrow> None)"

definition local_accept :: "command \<Rightarrow> transaction_atom option" where
  "local_accept c = (case c of CmdLocalAccept t \<Rightarrow> Some t | _ \<Rightarrow> None)"

definition cmd_foreign_proposal :: "command \<Rightarrow> foreign_proposal_atom option" where
  "cmd_foreign_proposal c = (case c of CmdForeignProposal fp \<Rightarrow> Some fp | _ \<Rightarrow> None)"

definition cmd_evict_node :: "command \<Rightarrow> public_key option" where
  "cmd_evict_node c = (case c of CmdEvictNode pk \<Rightarrow> Some pk | _ \<Rightarrow> None)"

definition all_accept :: "command \<Rightarrow> transaction_atom option" where
  "all_accept c = (case c of CmdAllAccept t \<Rightarrow> Some t | _ \<Rightarrow> None)"

definition some_accept :: "command \<Rightarrow> transaction_atom option" where
  "some_accept c = (case c of CmdSomeAccept t \<Rightarrow> Some t | _ \<Rightarrow> None)"

definition or_else :: "'a option \<Rightarrow> 'a option \<Rightarrow> 'a option" where
  "or_else a b = (case a of None \<Rightarrow> b | Some x \<Rightarrow> Some x)"

definition filter_option :: "('a \<Rightarrow> bool) \<Rightarrow> 'a option \<Rightarrow> 'a option" where
  "filter_option p a = (case a of Some x \<Rightarrow> if p x then Some x else None | None \<Rightarrow> None)"

definition finalising :: "command \<Rightarrow> transaction_atom option" where
  "finalising c = or_else (or_else (all_accept c) (some_accept c)) (local_only c)"

definition committing :: "command \<Rightarrow> transaction_atom option" where
  "committing c = filter_option (\<lambda>t. is_commit (ta_decision t)) (or_else (all_accept c) (local_only c))"

definition aborting :: "command \<Rightarrow> transaction_atom option" where
  "aborting c = filter_option (\<lambda>t. is_abort (ta_decision t))
     (or_else (or_else (or_else (some_accept c) (local_prepare c)) (local_accept c)) (local_only c))"

definition cmd_is_epoch_end :: "command \<Rightarrow> bool" where
  "cmd_is_epoch_end c \<longleftrightarrow> c = CmdEndEpoch"

definition is_local_prepare :: "command \<Rightarrow> bool" where
  "is_local_prepare c \<longleftrightarrow> local_prepare c \<noteq> None"

definition is_local_accept :: "command \<Rightarrow> bool" where
  "is_local_accept c \<longleftrightarrow> local_accept c \<noteq> None"

text \<open>
  A \<open>BTreeSet\<close> of commands is a list in the order of \<open>as_ordering\<close>, and two commands with the same ordering are
  the same element. Inserting keeps the element that is there; collecting keeps the last one.
\<close>

type_synonym commands = "command list"

primrec bset_insert :: "command \<Rightarrow> commands \<Rightarrow> commands" where
  "bset_insert c [] = [c]"
| "bset_insert c (d # ds) =
     (if as_ordering c < as_ordering d then c # d # ds
      else if as_ordering c = as_ordering d then d # ds
      else d # bset_insert c ds)"

primrec bset_replace :: "command \<Rightarrow> commands \<Rightarrow> commands" where
  "bset_replace c [] = [c]"
| "bset_replace c (d # ds) =
     (if as_ordering c < as_ordering d then c # d # ds
      else if as_ordering c = as_ordering d then c # ds
      else d # bset_replace c ds)"

definition bset_from_iter :: "command list \<Rightarrow> commands" where
  "bset_from_iter cs = fold bset_replace cs []"

section \<open>Block headers\<close>

type_synonym network = nat
type_synonym extra_data = "string option"

record block_header =
  bh_id :: block_id
  bh_network :: network
  bh_parent :: block_id
  bh_justify_id :: qc_id
  bh_height :: node_height
  bh_epoch :: epoch
  bh_shard_group :: shard_group
  bh_proposed_by :: public_key
  bh_total_leader_fee :: nat
  bh_state_merkle_root :: fixed_hash
  bh_command_merkle_root :: fixed_hash
  bh_signature :: "string option"
  bh_timestamp :: nat
  bh_epoch_hash :: fixed_hash
  bh_extra_data :: extra_data

text \<open>
  The hashes of a header. The header hash covers every field but the id, the parent and the signature; the
  Merkle root of a set of commands can fail.
\<close>

record header_hasher =
  hh_metadata :: "nat \<Rightarrow> nat \<Rightarrow> fixed_hash \<Rightarrow> extra_data \<Rightarrow> fixed_hash"
  hh_header :: "network \<Rightarrow> qc_id \<Rightarrow> node_height \<Rightarrow> epoch \<Rightarrow> shard_group \<Rightarrow> public_key \<Rightarrow> fixed_hash \<Rightarrow> fixed_hash \<Rightarrow>
    fixed_hash \<Rightarrow> fixed_hash"
  hh_commands :: "commands \<Rightarrow> fixed_hash option"
  hh_crypto :: consensus_crypto

datatype block_error = StateTreeError

definition calculate_metadata_hash :: "header_hasher \<Rightarrow> block_header \<Rightarrow> fixed_hash" where
  "calculate_metadata_hash hh h =
     hh_metadata hh (bh_total_leader_fee h) (bh_timestamp h) (bh_epoch_hash h) (bh_extra_data h)"

definition calculate_hash :: "header_hasher \<Rightarrow> block_header \<Rightarrow> fixed_hash" where
  "calculate_hash hh h = hh_header hh (bh_network h) (bh_justify_id h) (bh_height h) (bh_epoch h) (bh_shard_group h)
     (bh_proposed_by h) (bh_state_merkle_root h) (bh_command_merkle_root h) (calculate_metadata_hash hh h)"

definition calculate_block_id :: "header_hasher \<Rightarrow> block_id \<Rightarrow> fixed_hash \<Rightarrow> block_id" where
  "calculate_block_id hh parent hash = (if hash = 0 \<and> parent = 0 then 0 else cc_block_hash (hh_crypto hh) parent hash)"

definition header_calculate_id :: "header_hasher \<Rightarrow> block_header \<Rightarrow> block_id" where
  "header_calculate_id hh h = calculate_block_id hh (bh_parent h) (calculate_hash hh h)"

definition compute_command_merkle_root :: "header_hasher \<Rightarrow> commands \<Rightarrow> (fixed_hash, block_error) result" where
  "compute_command_merkle_root hh cs = ok_or StateTreeError (hh_commands hh cs)"

definition header_create_unsigned ::
  "header_hasher \<Rightarrow> network \<Rightarrow> block_id \<Rightarrow> qc_id \<Rightarrow> node_height \<Rightarrow> epoch \<Rightarrow> shard_group \<Rightarrow> public_key \<Rightarrow> fixed_hash \<Rightarrow>
    commands \<Rightarrow> nat \<Rightarrow> nat \<Rightarrow> fixed_hash \<Rightarrow> extra_data \<Rightarrow> (block_header, block_error) result" where
  "header_create_unsigned hh network parent justify_id height epoch shard_group proposed_by state_merkle_root commands
      total_leader_fee timestamp epoch_hash extra_data =
     and_then (compute_command_merkle_root hh commands) (\<lambda>command_merkle_root.
     let header = \<lparr>bh_id = 0, bh_network = network, bh_parent = parent, bh_justify_id = justify_id, bh_height = height,
       bh_epoch = epoch, bh_shard_group = shard_group, bh_proposed_by = proposed_by,
       bh_total_leader_fee = total_leader_fee, bh_state_merkle_root = state_merkle_root,
       bh_command_merkle_root = command_merkle_root, bh_signature = None, bh_timestamp = timestamp,
       bh_epoch_hash = epoch_hash, bh_extra_data = extra_data\<rparr>
     in Ok (header\<lparr>bh_id := header_calculate_id hh header\<rparr>))"

definition header_create ::
  "header_hasher \<Rightarrow> network \<Rightarrow> block_id \<Rightarrow> qc_id \<Rightarrow> node_height \<Rightarrow> epoch \<Rightarrow> shard_group \<Rightarrow> public_key \<Rightarrow> fixed_hash \<Rightarrow>
    commands \<Rightarrow> nat \<Rightarrow> string \<Rightarrow> nat \<Rightarrow> fixed_hash \<Rightarrow> extra_data \<Rightarrow> (block_header, block_error) result" where
  "header_create hh network parent justify_id height epoch shard_group proposed_by state_merkle_root commands
      total_leader_fee signature timestamp epoch_hash extra_data =
     and_then (header_create_unsigned hh network parent justify_id height epoch shard_group proposed_by state_merkle_root
       commands total_leader_fee timestamp epoch_hash extra_data) (\<lambda>header. Ok (header\<lparr>bh_signature := Some signature\<rparr>))"

definition zero_signature :: string where
  "zero_signature = replicate 64 (CHR 0x00)"

definition header_genesis ::
  "header_hasher \<Rightarrow> network \<Rightarrow> qc_id \<Rightarrow> epoch \<Rightarrow> shard_group \<Rightarrow> fixed_hash \<Rightarrow> fixed_hash \<Rightarrow> extra_data \<Rightarrow>
    (block_header, 'e) result" where
  "header_genesis hh network justify_id epoch shard_group state_merkle_root epoch_hash extra_data =
     (case header_create hh network 0 justify_id 0 epoch shard_group 0 state_merkle_root [] 0 zero_signature 0
        epoch_hash extra_data of
        Ok h \<Rightarrow> Ok h | _ \<Rightarrow> Panic ''Infallible with empty commands'')"

text \<open>The clock of \<open>zero_block\<close> is the parameter \<open>now\<close>.\<close>

definition header_zero_block :: "header_hasher \<Rightarrow> network \<Rightarrow> num_preshards \<Rightarrow> nat \<Rightarrow> (block_header, 'e) result" where
  "header_zero_block hh network ns now = and_then (sg_all_shards ns) (\<lambda>g.
     Ok \<lparr>bh_id = 0, bh_network = network, bh_parent = 0,
       bh_justify_id = pc_calculate_id (hh_crypto hh) (pc_genesis 0 g), bh_height = 0, bh_epoch = 0,
       bh_shard_group = g, bh_proposed_by = 0, bh_total_leader_fee = 0, bh_state_merkle_root = 0,
       bh_command_merkle_root = 0, bh_signature = Some zero_signature, bh_timestamp = now, bh_epoch_hash = 0,
       bh_extra_data = None\<rparr>)"

definition dummy_header ::
  "header_hasher \<Rightarrow> network \<Rightarrow> block_id \<Rightarrow> public_key \<Rightarrow> node_height \<Rightarrow> qc_id \<Rightarrow> epoch \<Rightarrow> shard_group \<Rightarrow> fixed_hash \<Rightarrow> nat \<Rightarrow>
    fixed_hash \<Rightarrow> (block_header, 'e) result" where
  "dummy_header hh network parent proposed_by height justify_id epoch shard_group parent_state_merkle_root
      parent_timestamp parent_epoch_hash =
     and_then (expect ''compute_command_merkle_root is infallible for empty commands'' (hh_commands hh [])) (\<lambda>root.
     let block = \<lparr>bh_id = 0, bh_network = network, bh_parent = parent, bh_justify_id = justify_id, bh_height = height,
       bh_epoch = epoch, bh_shard_group = shard_group, bh_proposed_by = proposed_by, bh_total_leader_fee = 0,
       bh_state_merkle_root = parent_state_merkle_root, bh_command_merkle_root = root, bh_signature = None,
       bh_timestamp = parent_timestamp, bh_epoch_hash = parent_epoch_hash, bh_extra_data = None\<rparr>
     in Ok (block\<lparr>bh_id := header_calculate_id hh block\<rparr>))"

definition header_is_genesis :: "block_header \<Rightarrow> bool" where
  "header_is_genesis h \<longleftrightarrow> bh_height h = 0 \<and> bh_parent h = 0 \<and> bh_timestamp h = 0 \<and> bh_command_merkle_root h = 0 \<and>
     bh_proposed_by h = 0 \<and> bh_signature h = None"

definition header_is_dummy :: "block_header \<Rightarrow> bool" where
  "header_is_dummy h \<longleftrightarrow> bh_signature h = None"

section \<open>Blocks\<close>

record block =
  b_header :: block_header
  b_justify :: proposal_certificate
  b_commands :: commands
  b_timeout_certificate :: "timeout_certificate option"
  b_justify_qc_id :: "qc_id option"
  b_commit_qc_id :: "qc_id option"

abbreviation b_id :: "block \<Rightarrow> block_id" where "b_id b \<equiv> bh_id (b_header b)"
abbreviation b_parent :: "block \<Rightarrow> block_id" where "b_parent b \<equiv> bh_parent (b_header b)"
abbreviation b_height :: "block \<Rightarrow> node_height" where "b_height b \<equiv> bh_height (b_header b)"
abbreviation b_epoch :: "block \<Rightarrow> epoch" where "b_epoch b \<equiv> bh_epoch (b_header b)"
abbreviation b_shard_group :: "block \<Rightarrow> shard_group" where "b_shard_group b \<equiv> bh_shard_group (b_header b)"
abbreviation b_proposed_by :: "block \<Rightarrow> public_key" where "b_proposed_by b \<equiv> bh_proposed_by (b_header b)"

definition block_new :: "block_header \<Rightarrow> proposal_certificate \<Rightarrow> commands \<Rightarrow> timeout_certificate option \<Rightarrow> block" where
  "block_new header justify commands tc = \<lparr>b_header = header, b_justify = justify, b_commands = commands,
     b_timeout_certificate = tc, b_justify_qc_id = None, b_commit_qc_id = None\<rparr>"

definition block_create ::
  "header_hasher \<Rightarrow> network \<Rightarrow> block_id \<Rightarrow> proposal_certificate \<Rightarrow> timeout_certificate option \<Rightarrow> node_height \<Rightarrow> epoch \<Rightarrow>
    shard_group \<Rightarrow> public_key \<Rightarrow> commands \<Rightarrow> fixed_hash \<Rightarrow> nat \<Rightarrow> string \<Rightarrow> nat \<Rightarrow> fixed_hash \<Rightarrow> extra_data \<Rightarrow>
    (block, block_error) result" where
  "block_create hh network parent justify high_tc height epoch shard_group proposed_by commands state_merkle_root
      total_leader_fee signature timestamp epoch_hash extra_data =
     and_then (header_create hh network parent (pc_calculate_id (hh_crypto hh) justify) height epoch shard_group
       proposed_by state_merkle_root commands total_leader_fee signature timestamp epoch_hash extra_data) (\<lambda>header.
     Ok (block_new header justify commands high_tc))"

text \<open>The bytes of a public key are the parameter \<open>pk_bytes\<close>.\<close>

definition block_genesis ::
  "header_hasher \<Rightarrow> (public_key \<Rightarrow> string) \<Rightarrow> network \<Rightarrow> epoch \<Rightarrow> fixed_hash \<Rightarrow> shard_group \<Rightarrow> fixed_hash \<Rightarrow>
    public_key option \<Rightarrow> (block, 'e) result" where
  "block_genesis hh pk_bytes network epoch epoch_hash shard_group state_merkle_root sidechain_id =
     (let justify = pc_genesis epoch shard_group in
      and_then (header_genesis hh network (pc_calculate_id (hh_crypto hh) justify) epoch shard_group state_merkle_root
        epoch_hash (map_option pk_bytes sidechain_id)) (\<lambda>header.
      Ok (block_new header justify [] None)))"

definition is_genesis :: "block \<Rightarrow> bool" where "is_genesis b \<longleftrightarrow> header_is_genesis (b_header b)"
definition is_dummy :: "block \<Rightarrow> bool" where "is_dummy b \<longleftrightarrow> header_is_dummy (b_header b)"
definition is_committed :: "block \<Rightarrow> bool" where "is_committed b \<longleftrightarrow> b_commit_qc_id b \<noteq> None"
definition has_justify_qc :: "block \<Rightarrow> bool" where "has_justify_qc b \<longleftrightarrow> b_justify_qc_id b \<noteq> None"

definition is_epoch_end :: "block \<Rightarrow> bool" where
  "is_epoch_end b = (case b_commands b of [] \<Rightarrow> False | c # _ \<Rightarrow> cmd_is_epoch_end c)"

definition all_transaction_ids :: "block \<Rightarrow> transaction_id list" where
  "all_transaction_ids b = List.map_filter (\<lambda>c. map_option ta_id (cmd_transaction c)) (b_commands b)"

definition all_committing_transactions_ids :: "block \<Rightarrow> transaction_id list" where
  "all_committing_transactions_ids b = List.map_filter (\<lambda>c. map_option ta_id (committing c)) (b_commands b)"

definition all_finalising_transactions_ids :: "block \<Rightarrow> transaction_id list" where
  "all_finalising_transactions_ids b = List.map_filter (\<lambda>c. map_option ta_id (finalising c)) (b_commands b)"

definition all_aborting_transaction_ids :: "block \<Rightarrow> transaction_id list" where
  "all_aborting_transaction_ids b = List.map_filter (\<lambda>c. map_option ta_id (aborting c)) (b_commands b)"

definition all_foreign_proposals :: "block \<Rightarrow> foreign_proposal_atom list" where
  "all_foreign_proposals b = List.map_filter cmd_foreign_proposal (b_commands b)"

definition all_node_evictions :: "block \<Rightarrow> public_key list" where
  "all_node_evictions b = List.map_filter cmd_evict_node (b_commands b)"

definition all_local_accept :: "block \<Rightarrow> transaction_atom list" where
  "all_local_accept b = List.map_filter local_accept (b_commands b)"

definition max_certificate_height :: "block \<Rightarrow> node_height" where
  "max_certificate_height b = max (pc_height (b_justify b))
     (case b_timeout_certificate b of None \<Rightarrow> 0 | Some tc \<Rightarrow> tc_height tc)"

definition justifies_parent :: "consensus_crypto \<Rightarrow> block \<Rightarrow> bool" where
  "justifies_parent cc b \<longleftrightarrow> pc_calculate_block_id cc (b_justify b) = b_parent b"

definition calculate_total_transaction_fee :: "block \<Rightarrow> (nat, 'e) result" where
  "calculate_total_transaction_fee b =
     try_fold (\<lambda>acc t. u64_add acc (ta_transaction_fee t)) 0 (List.map_filter committing (b_commands b))"

record block_ref =
  br_height :: node_height
  br_block_id :: block_id
  br_epoch :: epoch

text \<open>\<open>LockedBlock\<close>, \<open>LastExecuted\<close> and \<open>LastVoted\<close> have the same three fields.\<close>

definition as_block_ref :: "block \<Rightarrow> block_ref" where
  "as_block_ref b = \<lparr>br_height = b_height b, br_block_id = b_id b, br_epoch = b_epoch b\<rparr>"

record leaf_block =
  leaf_block_id :: block_id
  leaf_height :: node_height
  leaf_epoch :: epoch
  leaf_shard_group :: shard_group

definition as_leaf :: "block \<Rightarrow> leaf_block" where
  "as_leaf b = \<lparr>leaf_block_id = b_id b, leaf_height = b_height b, leaf_epoch = b_epoch b, leaf_shard_group = b_shard_group b\<rparr>"

definition as_leaf_block :: "consensus_crypto \<Rightarrow> proposal_certificate \<Rightarrow> leaf_block" where
  "as_leaf_block cc qc = \<lparr>leaf_block_id = pc_calculate_block_id cc qc, leaf_height = pc_height qc, leaf_epoch = pc_epoch qc,
     leaf_shard_group = pc_shard_group qc\<rparr>"

section \<open>Laws of the command set\<close>

definition canonical :: "commands \<Rightarrow> bool" where
  "canonical cs \<longleftrightarrow> sorted_wrt (\<lambda>c d. as_ordering c < as_ordering d) cs"

lemma canonical_Cons: "canonical (c # cs) \<longleftrightarrow> (\<forall>d \<in> set cs. as_ordering c < as_ordering d) \<and> canonical cs"
  by (simp add: canonical_def)

lemma set_bset_replace: "d \<in> set (bset_replace c cs) \<Longrightarrow> d = c \<or> d \<in> set cs"
  by (induction cs) (auto split: if_splits)

lemma set_bset_insert: "d \<in> set (bset_insert c cs) \<Longrightarrow> d = c \<or> d \<in> set cs"
  by (induction cs) (auto split: if_splits)

lemma canonical_replace: "canonical cs \<Longrightarrow> canonical (bset_replace c cs)"
proof (induction cs)
  case (Cons d ds)
  then show ?case
    by (cases "as_ordering c" "as_ordering d" rule: linorder_cases)
      (auto simp: canonical_Cons dest!: set_bset_replace intro: less_trans)
qed (simp add: canonical_def)

lemma canonical_insert: "canonical cs \<Longrightarrow> canonical (bset_insert c cs)"
proof (induction cs)
  case (Cons d ds)
  then show ?case
    by (cases "as_ordering c" "as_ordering d" rule: linorder_cases)
      (auto simp: canonical_Cons dest!: set_bset_insert intro: less_trans)
qed (simp add: canonical_def)

lemma canonical_from_iter: "canonical (bset_from_iter cs)"
proof -
  have "canonical ds \<Longrightarrow> canonical (fold bset_replace cs ds)" for ds
    by (induction cs arbitrary: ds) (simp_all add: canonical_replace)
  then show ?thesis by (simp add: bset_from_iter_def canonical_def)
qed

lemma canonical_distinct: "canonical cs \<Longrightarrow> distinct (map as_ordering cs)"
  by (induction cs) (auto simp: canonical_Cons)

section \<open>Properties\<close>

lemma evict_node_ordering: "cmd_evict_node c = Some pk \<Longrightarrow> as_ordering c = OrdEvictNode"
  by (cases c) (simp_all add: cmd_evict_node_def as_ordering_def)

lemma canonical_evictions: "canonical cs \<Longrightarrow> length (List.map_filter cmd_evict_node cs) \<le> 1"
proof (induction cs)
  case (Cons c cs)
  show ?case
  proof (cases "cmd_evict_node c")
    case (Some pk)
    have "cmd_evict_node d = None" if "d \<in> set cs" for d
      using that Cons.prems evict_node_ordering [OF Some] evict_node_ordering [of d]
      by (cases "cmd_evict_node d") (auto simp: canonical_Cons)
    then have "List.map_filter cmd_evict_node cs = []"
      by (induction cs) (simp_all add: List.map_filter_def)
    then show ?thesis by (simp add: List.map_filter_def split: option.split)
  qed (use Cons in \<open>simp add: canonical_Cons List.map_filter_def\<close>)
qed (simp add: List.map_filter_def)

text \<open>A block evicts at most one validator. All evictions have the same place in the order of commands, so of the
  evictions that a leader proposes the set of commands keeps one.\<close>

theorem one_eviction_per_block: "length (List.map_filter cmd_evict_node (bset_from_iter cs)) \<le> 1"
  by (rule canonical_evictions [OF canonical_from_iter])

text \<open>The genesis block of an epoch is not recognised as one. It is created with a signature of zeros, and
  the test asks for a header without a signature.\<close>

theorem genesis_not_recognised:
  assumes "block_genesis hh pk_bytes network epoch epoch_hash shard_group root sidechain = Ok b"
  shows "\<not> is_genesis b \<and> \<not> is_dummy b \<and> b_height b = 0 \<and> b_parent b = 0 \<and> justifies_zero_block (b_justify b)"
  using assms
  by (auto simp: block_genesis_def header_genesis_def header_create_def header_create_unsigned_def Let_def result_simps
      block_new_def is_genesis_def header_is_genesis_def is_dummy_def header_is_dummy_def justifies_zero_block_def
      pc_genesis_def split: result.splits)

definition sample_consensus_crypto :: consensus_crypto where
  "sample_consensus_crypto = \<lparr>cc_block_hash = \<lambda>p h. p + h, cc_qc_hash = \<lambda>h p s d. h + p, cc_tc_hash = \<lambda>t. of_nat (tc_height t),
     cc_verify_proposal_vote = \<lambda>b d s. True, cc_verify_timeout_vote = \<lambda>e h s. True\<rparr>"

definition sample_hasher :: header_hasher where
  "sample_hasher = \<lparr>hh_metadata = \<lambda>f t e x. 0, hh_header = \<lambda>n j h e g p s c m. of_nat h + 1,
     hh_commands = \<lambda>cs. Some 0, hh_crypto = sample_consensus_crypto\<rparr>"

theorem genesis_not_recognised_witness:
  "\<exists>b. block_genesis sample_hasher (\<lambda>_. []) 0 1 0 \<lparr>sg_start = 1, sg_end_inclusive = 4\<rparr> 0 None = (Ok b :: (block, unit) result) \<and>
     \<not> is_genesis b"
proof -
  obtain b :: block where
    b: "block_genesis sample_hasher (\<lambda>_. []) 0 1 0 \<lparr>sg_start = 1, sg_end_inclusive = 4\<rparr> 0 None = (Ok b :: (block, unit) result)"
    by (simp add: block_genesis_def header_genesis_def header_create_def header_create_unsigned_def Let_def
        compute_command_merkle_root_def sample_hasher_def ok_or_def)
  then show ?thesis using genesis_not_recognised [OF b] by blast
qed

end
