(* ===== verification/ChainStore.thy ===== *)
theory ChainStore
  imports Blocks
begin

text \<open>
  The chain of blocks of a validator: the tables of the state store that hold it
  (crates/state_store_rocksdb/src/reader.rs and writer.rs), the certificates
  (crates/consensus/src/traits/certificate.rs), the rules that lock and commit blocks
  (crates/consensus/src/traits/block_store.rs) and the safe node predicate (block.rs). The recursions over the
  chain follow stored data and may not end; not returning is \<open>None\<close>.
\<close>

section \<open>The tables\<close>

datatype storage_error = NotFound | QueryError | DataInconsistency | GeneralError

text \<open>The store is extensible, as the operations of a block also write to other tables.\<close>

record chain_store =
  cs_blocks :: "block_id \<Rightarrow> block option"
  cs_epoch_height :: "(epoch \<times> node_height \<times> block_id) list"
  cs_pending_chain :: "block_id \<Rightarrow> block_id option"
  cs_pending_children :: "(block_id \<times> block_id) list"
  cs_committed_child :: "block_id \<Rightarrow> block_id option"
  cs_commit_block :: "(node_height \<times> block_id \<times> block_id) option"
  cs_proposal_certificates :: "epoch \<times> qc_id \<Rightarrow> proposal_certificate option"
  cs_timeout_certificates :: "epoch \<times> tc_id \<Rightarrow> timeout_certificate option"
  cs_locked_block :: "block_ref option"
  cs_last_executed :: "block_ref option"
  cs_last_voted :: "block_ref option"
  cs_leaf_block :: "leaf_block option"
  cs_highest_seen :: "leaf_block option"
  cs_high_pc :: "high_pc option"
  cs_high_tc :: "high_tc option"
  cs_last_sent_new_view :: "(epoch \<times> node_height) option"

type_synonym 'a cs_result = "('a, storage_error) result"

text \<open>A bookkeeping table has one row, which is only found in its own epoch.\<close>

definition bookkeeping_get :: "('b \<Rightarrow> epoch) \<Rightarrow> 'b option \<Rightarrow> epoch \<Rightarrow> 'b cs_result" where
  "bookkeeping_get epoch_of row epoch = (case row of
     None \<Rightarrow> Err NotFound | Some x \<Rightarrow> if epoch_of x \<noteq> epoch then Err NotFound else Ok x)"

definition locked_block_get :: "'x chain_store_scheme \<Rightarrow> epoch \<Rightarrow> block_ref cs_result" where
  "locked_block_get s = bookkeeping_get br_epoch (cs_locked_block s)"

definition last_executed_get :: "'x chain_store_scheme \<Rightarrow> epoch \<Rightarrow> block_ref cs_result" where
  "last_executed_get s = bookkeeping_get br_epoch (cs_last_executed s)"

definition last_voted_get :: "'x chain_store_scheme \<Rightarrow> epoch \<Rightarrow> block_ref cs_result" where
  "last_voted_get s = bookkeeping_get br_epoch (cs_last_voted s)"

definition leaf_block_get :: "'x chain_store_scheme \<Rightarrow> epoch \<Rightarrow> leaf_block cs_result" where
  "leaf_block_get s = bookkeeping_get leaf_epoch (cs_leaf_block s)"

definition highest_seen_block_get :: "'x chain_store_scheme \<Rightarrow> epoch \<Rightarrow> leaf_block cs_result" where
  "highest_seen_block_get s = bookkeeping_get leaf_epoch (cs_highest_seen s)"

definition high_pc_get :: "'x chain_store_scheme \<Rightarrow> epoch \<Rightarrow> high_pc cs_result" where
  "high_pc_get s = bookkeeping_get hp_epoch (cs_high_pc s)"

definition high_tc_get :: "'x chain_store_scheme \<Rightarrow> epoch \<Rightarrow> high_tc cs_result" where
  "high_tc_get s = bookkeeping_get ht_epoch (cs_high_tc s)"

definition cs_optional :: "'a cs_result \<Rightarrow> 'a option cs_result" where
  "cs_optional r = (case r of Ok x \<Rightarrow> Ok (Some x) | Err NotFound \<Rightarrow> Ok None | Err e \<Rightarrow> Err e | Panic m \<Rightarrow> Panic m)"

definition blocks_get :: "'x chain_store_scheme \<Rightarrow> block_id \<Rightarrow> block cs_result" where
  "blocks_get s i = ok_or NotFound (cs_blocks s i)"

definition blocks_exists :: "'x chain_store_scheme \<Rightarrow> block_id \<Rightarrow> bool" where
  "blocks_exists s i \<longleftrightarrow> cs_blocks s i \<noteq> None"

definition blocks_insert :: "'x chain_store_scheme \<Rightarrow> block \<Rightarrow> 'x chain_store_scheme cs_result" where
  "blocks_insert s b =
     (if blocks_exists s (b_id b) then Err QueryError
      else
        let s1 = s\<lparr>cs_blocks := (cs_blocks s)(b_id b \<mapsto> b),
                   cs_epoch_height := List.insert (b_epoch b, b_height b, b_id b) (cs_epoch_height s)\<rparr>
        in Ok (if b_id b \<noteq> 0
          then s1\<lparr>cs_pending_chain := (cs_pending_chain s1)(b_id b \<mapsto> b_parent b),
                  cs_pending_children := List.insert (b_parent b, b_id b) (cs_pending_children s1)\<rparr>
          else s1))"

definition blocks_delete :: "'x chain_store_scheme \<Rightarrow> block_id \<Rightarrow> 'x chain_store_scheme cs_result" where
  "blocks_delete s i =
     and_then (blocks_get s i) (\<lambda>b.
     if is_committed b then Err QueryError
     else Ok (s\<lparr>cs_blocks := (cs_blocks s)(i := None),
                cs_epoch_height := removeAll (b_epoch b, b_height b, b_id b) (cs_epoch_height s),
                cs_pending_chain := (cs_pending_chain s)(i := None),
                cs_pending_children := removeAll (b_parent b, b_id b) (cs_pending_children s)\<rparr>))"

definition blocks_set_qcs ::
  "'x chain_store_scheme \<Rightarrow> block_id \<Rightarrow> qc_id option \<Rightarrow> qc_id option \<Rightarrow> 'x chain_store_scheme cs_result" where
  "blocks_set_qcs s i commit_qc_id justify_qc_id =
     (if commit_qc_id = None \<and> justify_qc_id = None then Ok s
      else and_then (blocks_get s i) (\<lambda>b0.
        let (b1, s1) = (case commit_qc_id of
              None \<Rightarrow> (b0, s)
            | Some q \<Rightarrow> (b0\<lparr>b_commit_qc_id := Some q\<rparr>,
                s\<lparr>cs_pending_chain := (cs_pending_chain s)(i := None),
                  cs_pending_children := removeAll (b_parent b0, i) (cs_pending_children s),
                  cs_committed_child := (cs_committed_child s)(b_parent b0 \<mapsto> i),
                  cs_commit_block := Some (b_height b0, b_id b0, b_parent b0)\<rparr>));
            b2 = (case justify_qc_id of None \<Rightarrow> b1 | Some q \<Rightarrow> b1\<lparr>b_justify_qc_id := Some q\<rparr>)
        in Ok (s1\<lparr>cs_blocks := (cs_blocks s1)(i \<mapsto> b2)\<rparr>)))"

definition get_ids_by_epoch_and_height :: "'x chain_store_scheme \<Rightarrow> epoch \<Rightarrow> node_height \<Rightarrow> block_id list" where
  "get_ids_by_epoch_and_height s e h = sort (map (\<lambda>(_, _, i). i) (filter (\<lambda>(e', h', _). e' = e \<and> h' = h) (cs_epoch_height s)))"

definition get_genesis_for_epoch :: "'x chain_store_scheme \<Rightarrow> epoch \<Rightarrow> block cs_result" where
  "get_genesis_for_epoch s e = (case get_ids_by_epoch_and_height s e 0 of
     [] \<Rightarrow> Err DataInconsistency
   | [i] \<Rightarrow> blocks_get s i
   | _ \<Rightarrow> Err DataInconsistency)"

definition block_save :: "'x chain_store_scheme \<Rightarrow> block \<Rightarrow> (bool \<times> 'x chain_store_scheme) cs_result" where
  "block_save s b = (if blocks_exists s (b_id b) then Ok (False, s) else and_then (blocks_insert s b) (\<lambda>s'. Ok (True, s')))"

definition get_parent :: "'x chain_store_scheme \<Rightarrow> block \<Rightarrow> block cs_result" where
  "get_parent s b = (if b_id b = 0 \<and> b_parent b = 0 then Err NotFound else blocks_get s (b_parent b))"

text \<open>The loop of \<open>blocks_is_pending_ancestor\<close>.\<close>

partial_function (option) pending_ancestor_loop ::
  "(block_id \<Rightarrow> block_id option) \<Rightarrow> block_id \<Rightarrow> block_id \<Rightarrow> bool option" where
  "pending_ancestor_loop chain ancestor i = (case chain i of
     None \<Rightarrow> Some False
   | Some parent \<Rightarrow>
       if parent = ancestor then Some True
       else if parent = i then Some False
       else pending_ancestor_loop chain ancestor parent)"

definition blocks_is_pending_ancestor :: "'x chain_store_scheme \<Rightarrow> block_id \<Rightarrow> block_id \<Rightarrow> bool cs_result option" where
  "blocks_is_pending_ancestor s descendant ancestor =
     (if \<not> blocks_exists s descendant then Some (Err QueryError)
      else if \<not> blocks_exists s ancestor then Some (Err QueryError)
      else map_option Ok (pending_ancestor_loop (cs_pending_chain s) ancestor descendant))"

section \<open>The safe node predicate\<close>

definition extends_pending :: "'x chain_store_scheme \<Rightarrow> block \<Rightarrow> block_id \<Rightarrow> bool cs_result option" where
  "extends_pending s b ancestor =
     (if b_id b = ancestor then Some (Ok False)
      else if b_parent b = ancestor then Some (Ok True)
      else if \<not> blocks_exists s (b_parent b) then Some (Ok False)
      else blocks_is_pending_ancestor s (b_parent b) ancestor)"

definition is_safe :: "'x chain_store_scheme \<Rightarrow> block \<Rightarrow> bool cs_result option" where
  "is_safe s b = (case locked_block_get s (b_epoch b) of
     Err e \<Rightarrow> Some (Err e)
   | Panic m \<Rightarrow> Some (Panic m)
   | Ok locked \<Rightarrow>
       if pc_height (b_justify b) > br_height locked then Some (Ok True)
       else extends_pending s b (br_block_id locked))"

section \<open>Certificates\<close>

definition pc_save :: "consensus_crypto \<Rightarrow> 'x chain_store_scheme \<Rightarrow> proposal_certificate \<Rightarrow> 'x chain_store_scheme" where
  "pc_save cc s qc = s\<lparr>cs_proposal_certificates :=
     (cs_proposal_certificates s)((pc_epoch qc, pc_calculate_id cc qc) \<mapsto> qc)\<rparr>"

definition tc_save :: "consensus_crypto \<Rightarrow> 'x chain_store_scheme \<Rightarrow> timeout_certificate \<Rightarrow> 'x chain_store_scheme" where
  "tc_save cc s tc = s\<lparr>cs_timeout_certificates :=
     (cs_timeout_certificates s)((tc_epoch tc, cc_tc_hash cc tc) \<mapsto> tc)\<rparr>"

definition pc_update_highest ::
  "consensus_crypto \<Rightarrow> 'x chain_store_scheme \<Rightarrow> proposal_certificate \<Rightarrow> (high_pc \<times> 'x chain_store_scheme) cs_result" where
  "pc_update_highest cc s qc =
     and_then (cs_optional (high_pc_get s (pc_epoch qc))) (\<lambda>current. case current of
       Some high \<Rightarrow>
         if hp_block_height high \<ge> pc_height qc then Ok (high, s\<lparr>cs_last_sent_new_view := None\<rparr>)
         else Ok (as_high_pc cc qc, (pc_save cc s qc)\<lparr>cs_leaf_block := Some (as_leaf_block cc qc),
           cs_high_pc := Some (as_high_pc cc qc)\<rparr>)
     | None \<Rightarrow> Ok (as_high_pc cc qc, (pc_save cc s qc)\<lparr>cs_leaf_block := Some (as_leaf_block cc qc),
           cs_high_pc := Some (as_high_pc cc qc)\<rparr>))"

definition tc_update_highest ::
  "consensus_crypto \<Rightarrow> 'x chain_store_scheme \<Rightarrow> timeout_certificate \<Rightarrow> (high_tc \<times> 'x chain_store_scheme) cs_result" where
  "tc_update_highest cc s tc =
     and_then (cs_optional (high_tc_get s (tc_epoch tc))) (\<lambda>current.
       if (case current of Some high \<Rightarrow> ht_height high \<ge> tc_height tc | None \<Rightarrow> False)
       then Ok (the current, s)
       else Ok (as_high_tc cc tc, (tc_save cc s tc)\<lparr>cs_high_tc := Some (as_high_tc cc tc)\<rparr>))"

definition get_highest_seen_justified_view :: "'x chain_store_scheme \<Rightarrow> epoch \<Rightarrow> node_height cs_result" where
  "get_highest_seen_justified_view s e =
     and_then (cs_optional (high_pc_get s e)) (\<lambda>pc.
     and_then (cs_optional (high_tc_get s e)) (\<lambda>tc.
     Ok (max (case pc of None \<Rightarrow> 0 | Some p \<Rightarrow> hp_block_height p) (case tc of None \<Rightarrow> 0 | Some t \<Rightarrow> ht_height t))))"

section \<open>Locking and committing\<close>

text \<open>The callbacks change the store and may fail with an error of the caller, into which \<open>from_err\<close> takes ours.\<close>

type_synonym ('x, 'e) on_lock = "'x chain_store_scheme \<Rightarrow> block_ref \<Rightarrow> block \<Rightarrow> proposal_certificate \<Rightarrow> ('x chain_store_scheme, 'e) result"
type_synonym ('x, 'e) on_commit = "'x chain_store_scheme \<Rightarrow> block \<Rightarrow> ('x chain_store_scheme, 'e) result"

partial_function (option) on_locked_block_recurse ::
  "(storage_error \<Rightarrow> 'e) \<Rightarrow> ('x, 'e) on_lock \<Rightarrow> 'x chain_store_scheme \<Rightarrow> block_ref \<Rightarrow> block \<Rightarrow> proposal_certificate \<Rightarrow>
    ('x chain_store_scheme, 'e) result option" where
  "on_locked_block_recurse from_err callback s locked b justify_qc =
     (if br_height locked < b_height b then
        (case get_parent s b of
           Ok parent \<Rightarrow>
             Option.bind (on_locked_block_recurse from_err callback s locked parent (b_justify b)) (\<lambda>r.
             Some (and_then r (\<lambda>s'. callback s' locked b justify_qc)))
         | Err e \<Rightarrow> Some (Err (from_err e))
         | Panic m \<Rightarrow> Some (Panic m))
      else Some (Ok s))"

partial_function (option) on_commit_block_recurse ::
  "(storage_error \<Rightarrow> 'e) \<Rightarrow> ('x, 'e) on_commit \<Rightarrow> 'x chain_store_scheme \<Rightarrow> block_ref \<Rightarrow> block \<Rightarrow>
    ('x chain_store_scheme, 'e) result option" where
  "on_commit_block_recurse from_err callback s last_executed b =
     (if br_height last_executed < b_height b then
        (case get_parent s b of
           Ok parent \<Rightarrow>
             Option.bind (on_commit_block_recurse from_err callback s last_executed parent) (\<lambda>r.
             Some (and_then r (\<lambda>s'. callback s' b)))
         | Err e \<Rightarrow> Some (Err (from_err e))
         | Panic m \<Rightarrow> Some (Panic m))
      else Some (Ok s))"

text \<open>Steps that may not return, and the error of a step.\<close>

definition then_run :: "('a, 'e) result \<Rightarrow> ('a \<Rightarrow> ('b, 'e) result option) \<Rightarrow> ('b, 'e) result option" where
  "then_run r f = (case r of Ok x \<Rightarrow> f x | Err e \<Rightarrow> Some (Err e) | Panic m \<Rightarrow> Some (Panic m))"

definition run_then :: "('a, 'e) result option \<Rightarrow> ('a \<Rightarrow> ('b, 'e) result option) \<Rightarrow> ('b, 'e) result option" where
  "run_then r f = Option.bind r (\<lambda>x. then_run x f)"

definition update_highest_seen :: "'x chain_store_scheme \<Rightarrow> block \<Rightarrow> 'x chain_store_scheme cs_result" where
  "update_highest_seen s b = and_then (cs_optional (highest_seen_block_get s (b_epoch b))) (\<lambda>h.
     Ok (if (case h of None \<Rightarrow> True | Some l \<Rightarrow> leaf_height l < b_height b)
         then s\<lparr>cs_highest_seen := Some (as_leaf b)\<rparr> else s))"

definition lock_node ::
  "(storage_error \<Rightarrow> 'e) \<Rightarrow> ('x, 'e) on_lock \<Rightarrow> 'x chain_store_scheme \<Rightarrow> epoch \<Rightarrow> block \<Rightarrow> block \<Rightarrow>
    ('x chain_store_scheme, 'e) result option" where
  "lock_node from_err on_lock_block s e justified_node new_locked =
     then_run (map_err from_err (locked_block_get s e)) (\<lambda>current_locked.
     if b_height new_locked > br_height current_locked
     then run_then (on_locked_block_recurse from_err on_lock_block s current_locked new_locked (b_justify justified_node)) (\<lambda>s1.
       Some (Ok (s1\<lparr>cs_locked_block := Some (as_block_ref new_locked)\<rparr>)))
     else Some (Ok s))"

definition commit_node_step ::
  "(storage_error \<Rightarrow> 'e) \<Rightarrow> ('x, 'e) on_commit \<Rightarrow> 'x chain_store_scheme \<Rightarrow> epoch \<Rightarrow> block_id \<Rightarrow>
    ('x chain_store_scheme, 'e) result option" where
  "commit_node_step from_err on_commit s e commit_node =
     (if commit_node = 0 then Some (Ok s)
      else
        then_run (map_err from_err (blocks_get s commit_node)) (\<lambda>prepare_node.
        then_run (map_err from_err (last_executed_get s e)) (\<lambda>last_executed.
        run_then (on_commit_block_recurse from_err on_commit s last_executed prepare_node) (\<lambda>s1.
        Some (Ok (s1\<lparr>cs_last_executed := Some (as_block_ref prepare_node)\<rparr>))))))"

definition update_nodes ::
  "consensus_crypto \<Rightarrow> (storage_error \<Rightarrow> 'e) \<Rightarrow> 'x chain_store_scheme \<Rightarrow> block \<Rightarrow> ('x, 'e) on_lock \<Rightarrow> ('x, 'e) on_commit \<Rightarrow>
    (high_pc \<times> 'x chain_store_scheme, 'e) result option" where
  "update_nodes cc from_err s b on_lock_block on_commit =
     then_run (map_err from_err (update_highest_seen s b)) (\<lambda>s1.
     then_run (map_err from_err (pc_update_highest cc s1 (b_justify b))) (\<lambda>(high_qc, s2).
     then_run (map_err from_err (blocks_get s2 (pc_calculate_block_id cc (b_justify b)))) (\<lambda>justified_node.
     then_run (map_err from_err (blocks_get s2 (pc_calculate_block_id cc (b_justify justified_node)))) (\<lambda>new_locked.
     if is_genesis new_locked then Some (Ok (high_qc, s2))
     else
       run_then (lock_node from_err on_lock_block s2 (b_epoch b) justified_node new_locked) (\<lambda>s3.
       let commit_node = pc_calculate_block_id cc (b_justify new_locked) in
       if b_parent justified_node = b_id new_locked \<and> b_parent new_locked = commit_node
       then run_then (commit_node_step from_err on_commit s3 (b_epoch b) commit_node) (\<lambda>s4. Some (Ok (high_qc, s4)))
       else Some (Ok (high_qc, s3)))))))"

end
