(* ===== verification/ChainLaws.thy ===== *)
theory ChainLaws
  imports ChainStore
begin

text \<open>
  Laws of the chain of blocks: the recursions end on a chain whose heights fall towards the parent, blocks are
  locked and committed in chain order, a commit needs three directly linked blocks, and locks and certificates
  only move forward.
\<close>

section \<open>The ancestors of a block\<close>

text \<open>Stored blocks are stored under their id, and above height zero their parent is stored and is lower.\<close>

definition chain_ok :: "'x chain_store_scheme \<Rightarrow> bool" where
  "chain_ok s \<longleftrightarrow> (\<forall>i b. cs_blocks s i = Some b \<longrightarrow> b_id b = i \<and>
     (0 < b_height b \<longrightarrow> (\<exists>p. get_parent s b = Ok p \<and> b_height p < b_height b)))"

definition stored :: "'x chain_store_scheme \<Rightarrow> block \<Rightarrow> bool" where
  "stored s b \<longleftrightarrow> cs_blocks s (b_id b) = Some b"

primrec ancestors :: "nat \<Rightarrow> 'x chain_store_scheme \<Rightarrow> node_height \<Rightarrow> block \<Rightarrow> block list" where
  "ancestors 0 s h b = []"
| "ancestors (Suc n) s h b =
     (if h < b_height b then (case get_parent s b of Ok p \<Rightarrow> ancestors n s h p @ [b] | _ \<Rightarrow> [b]) else [])"

lemma get_parent_stored:
  assumes "chain_ok s" "stored s b" "0 < b_height b"
  obtains p where "get_parent s b = Ok p" "stored s p" "b_height p < b_height b" "b_id p = b_parent b"
proof -
  obtain p where p: "get_parent s b = Ok p" "b_height p < b_height b"
    using assms by (auto simp: chain_ok_def stored_def)
  then have "cs_blocks s (b_parent b) = Some p"
    by (auto simp: get_parent_def blocks_get_def result_simps split: if_splits)
  then show thesis using that p assms(1) by (auto simp: chain_ok_def stored_def)
qed

text \<open>A run of blocks from just above a height up to a block.\<close>

definition run_of :: "'x chain_store_scheme \<Rightarrow> node_height \<Rightarrow> block \<Rightarrow> block list \<Rightarrow> bool" where
  "run_of s h b bs \<longleftrightarrow>
     successively (\<lambda>x y. b_parent y = b_id x \<and> b_height x < b_height y) bs \<and>
     (\<forall>x \<in> set bs. stored s x \<and> h < b_height x) \<and>
     (if h < b_height b then bs \<noteq> [] \<and> last bs = b \<and> (\<exists>p. get_parent s (hd bs) = Ok p \<and> b_height p \<le> h) else bs = [])"

lemma run_of_ancestors:
  "\<lbrakk>chain_ok s; stored s b; b_height b \<le> n\<rbrakk> \<Longrightarrow> run_of s h b (ancestors n s h b)"
proof (induction n arbitrary: b)
  case (Suc n)
  show ?case
  proof (cases "h < b_height b")
    case True
    obtain p where p: "get_parent s b = Ok p" "stored s p" "b_height p < b_height b" "b_id p = b_parent b"
      using get_parent_stored [OF Suc.prems(1,2)] True by auto
    have ih: "run_of s h p (ancestors n s h p)" using Suc p by simp
    show ?thesis
    proof (cases "h < b_height p")
      case True
      then show ?thesis using ih p Suc.prems(2)
        by (auto simp: run_of_def successively_append_iff)
    next
      case False
      then have "ancestors n s h p = []" using ih by (simp add: run_of_def)
      then show ?thesis using \<open>h < b_height b\<close> False p Suc.prems(2) by (auto simp: run_of_def)
    qed
  qed (simp add: run_of_def)
qed (simp add: run_of_def)

lemma and_then_return [simp]: "and_then r Ok = r"
  by (cases r) simp_all

text \<open>All reads of a recursion happen before its first callback, so it is a fold over the ancestors.\<close>

lemma commit_recurse_eq:
  "\<lbrakk>chain_ok s; stored s b; b_height b \<le> n\<rbrakk> \<Longrightarrow>
   on_commit_block_recurse from_err cb s le b = Some (try_fold cb s (ancestors n s (br_height le) b))"
proof (induction n arbitrary: b)
  case 0
  then show ?case by (simp add: on_commit_block_recurse.simps)
next
  case (Suc n)
  show ?case
  proof (cases "br_height le < b_height b")
    case True
    obtain p where p: "get_parent s b = Ok p" "stored s p" "b_height p < b_height b"
      using get_parent_stored [OF Suc.prems(1,2)] True by auto
    have "on_commit_block_recurse from_err cb s le p = Some (try_fold cb s (ancestors n s (br_height le) p))"
      using Suc p by simp
    then show ?thesis using True p by (simp add: on_commit_block_recurse.simps [of _ _ _ _ b] try_fold_append)
  qed (simp add: on_commit_block_recurse.simps)
qed

text \<open>The lock callback also takes the certificate for its block, which is in the next block of the run.\<close>

fun with_justify :: "block list \<Rightarrow> proposal_certificate \<Rightarrow> (block \<times> proposal_certificate) list" where
  "with_justify [] qc = []"
| "with_justify [b] qc = [(b, qc)]"
| "with_justify (b # c # bs) qc = (b, b_justify c) # with_justify (c # bs) qc"

lemma with_justify_snoc:
  "with_justify (bs @ [b]) qc = with_justify bs (b_justify b) @ [(b, qc)]"
  by (induction bs qc rule: with_justify.induct) simp_all

lemma lock_recurse_eq:
  "\<lbrakk>chain_ok s; stored s b; b_height b \<le> n\<rbrakk> \<Longrightarrow>
   on_locked_block_recurse from_err cb s lk b qc =
     Some (try_fold (\<lambda>s (x, q). cb s lk x q) s (with_justify (ancestors n s (br_height lk) b) qc))"
proof (induction n arbitrary: b qc)
  case 0
  then show ?case by (simp add: on_locked_block_recurse.simps)
next
  case (Suc n)
  show ?case
  proof (cases "br_height lk < b_height b")
    case True
    obtain p where p: "get_parent s b = Ok p" "stored s p" "b_height p < b_height b"
      using get_parent_stored [OF Suc.prems(1,2)] True by auto
    have "on_locked_block_recurse from_err cb s lk p (b_justify b) =
        Some (try_fold (\<lambda>s (x, q). cb s lk x q) s (with_justify (ancestors n s (br_height lk) p) (b_justify b)))"
      using Suc p by simp
    then show ?thesis using True p
      by (simp add: on_locked_block_recurse.simps [of _ _ _ _ b] try_fold_append with_justify_snoc)
  qed (simp add: on_locked_block_recurse.simps)
qed

section \<open>Steps that always succeed\<close>

lemma cs_optional_bookkeeping: "\<exists>r. cs_optional (bookkeeping_get f row e) = Ok r"
  by (simp add: cs_optional_def bookkeeping_get_def split: option.split)

lemma update_highest_seen_Ok:
  obtains h where "update_highest_seen s b = Ok (s\<lparr>cs_highest_seen := h\<rparr>)"
proof -
  obtain r where "cs_optional (highest_seen_block_get s (b_epoch b)) = Ok r"
    unfolding highest_seen_block_get_def using cs_optional_bookkeeping by blast
  then have "update_highest_seen s b = Ok (s\<lparr>cs_highest_seen :=
      if (case r of None \<Rightarrow> True | Some l \<Rightarrow> leaf_height l < b_height b) then Some (as_leaf b) else cs_highest_seen s\<rparr>)"
    by (simp add: update_highest_seen_def)
  then show thesis using that by blast
qed

lemma pc_update_highest_Ok:
  obtains hp s' where "pc_update_highest cc s qc = Ok (hp, s')" "cs_blocks s' = cs_blocks s"
    "cs_locked_block s' = cs_locked_block s" "cs_last_executed s' = cs_last_executed s"
    "cs_high_pc s' = cs_high_pc s \<or> cs_high_pc s' = Some (as_high_pc cc qc)" "pc_height qc \<le> hp_block_height hp"
    "high_pc_get s' (pc_epoch qc) = Ok hp"
    "\<And>old. high_pc_get s (pc_epoch qc) = Ok old \<Longrightarrow> hp_block_height old \<le> hp_block_height hp"
proof (cases "high_pc_get s (pc_epoch qc)")
  case (Ok old)
  then show thesis using that
    by (cases "hp_block_height old \<ge> pc_height qc")
      (auto simp: pc_update_highest_def cs_optional_def pc_save_def as_high_pc_def high_pc_get_def bookkeeping_get_def)
next
  case (Err e)
  then have "e = NotFound" by (auto simp: high_pc_get_def bookkeeping_get_def split: option.splits if_splits)
  then show thesis using that Err
    by (auto simp: pc_update_highest_def cs_optional_def pc_save_def as_high_pc_def high_pc_get_def bookkeeping_get_def)
next
  case (Panic m)
  then show thesis by (auto simp: high_pc_get_def bookkeeping_get_def split: option.splits if_splits)
qed

lemma then_run_simps [simp]:
  "then_run (Ok x) f = f x" "then_run (Err e) f = Some (Err e)" "then_run (Panic m) f = Some (Panic m)"
  by (simp_all add: then_run_def)

lemma then_run_Ok_iff: "then_run r f = Some (Ok y) \<longleftrightarrow> (\<exists>x. r = Ok x \<and> f x = Some (Ok y))"
  by (cases r) simp_all

lemma run_then_Ok_iff: "run_then r f = Some (Ok y) \<longleftrightarrow> (\<exists>x. r = Some (Ok x) \<and> f x = Some (Ok y))"
  by (cases r) (simp_all add: run_then_def then_run_Ok_iff)

lemma run_then_Some [simp]: "run_then (Some r) f = then_run r f"
  by (simp add: run_then_def)

lemma blocks_get_Ok_iff: "blocks_get s i = Ok b \<longleftrightarrow> cs_blocks s i = Some b"
  by (simp add: blocks_get_def result_simps)

text \<open>What \<open>update_nodes\<close> does once the two certified blocks are known.\<close>

lemma update_nodes_eq:
  assumes "blocks_get s (pc_calculate_block_id cc (b_justify b)) = Ok j"
    and "blocks_get s (pc_calculate_block_id cc (b_justify j)) = Ok l"
  obtains hp s2 where "cs_blocks s2 = cs_blocks s" "cs_locked_block s2 = cs_locked_block s"
    "cs_last_executed s2 = cs_last_executed s" "high_pc_get s2 (pc_epoch (b_justify b)) = Ok hp"
    "pc_height (b_justify b) \<le> hp_block_height hp"
    "\<And>old. high_pc_get s (pc_epoch (b_justify b)) = Ok old \<Longrightarrow> hp_block_height old \<le> hp_block_height hp"
    "\<And>on_lock on_commit. update_nodes cc from_err s b on_lock on_commit =
       (if is_genesis l then Some (Ok (hp, s2))
        else run_then (lock_node from_err on_lock s2 (b_epoch b) j l) (\<lambda>s3.
          if b_parent j = b_id l \<and> b_parent l = pc_calculate_block_id cc (b_justify l)
          then run_then (commit_node_step from_err on_commit s3 (b_epoch b) (pc_calculate_block_id cc (b_justify l)))
            (\<lambda>s4. Some (Ok (hp, s4)))
          else Some (Ok (hp, s3))))"
proof -
  obtain h where h: "update_highest_seen s b = Ok (s\<lparr>cs_highest_seen := h\<rparr>)" by (rule update_highest_seen_Ok)
  obtain hp s2 where u: "pc_update_highest cc (s\<lparr>cs_highest_seen := h\<rparr>) (b_justify b) = Ok (hp, s2)"
      "cs_blocks s2 = cs_blocks (s\<lparr>cs_highest_seen := h\<rparr>)"
      "cs_locked_block s2 = cs_locked_block (s\<lparr>cs_highest_seen := h\<rparr>)"
      "cs_last_executed s2 = cs_last_executed (s\<lparr>cs_highest_seen := h\<rparr>)"
      "pc_height (b_justify b) \<le> hp_block_height hp" "high_pc_get s2 (pc_epoch (b_justify b)) = Ok hp"
      "\<And>old. high_pc_get (s\<lparr>cs_highest_seen := h\<rparr>) (pc_epoch (b_justify b)) = Ok old \<Longrightarrow>
         hp_block_height old \<le> hp_block_height hp"
    by (rule pc_update_highest_Ok) blast
  have b2: "blocks_get s2 i = blocks_get s i" for i using u(2) by (simp add: blocks_get_def)
  show thesis
  proof (rule that [of s2 hp])
    show "update_nodes cc from_err s b on_lock on_commit =
       (if is_genesis l then Some (Ok (hp, s2))
        else run_then (lock_node from_err on_lock s2 (b_epoch b) j l) (\<lambda>s3.
          if b_parent j = b_id l \<and> b_parent l = pc_calculate_block_id cc (b_justify l)
          then run_then (commit_node_step from_err on_commit s3 (b_epoch b) (pc_calculate_block_id cc (b_justify l)))
            (\<lambda>s4. Some (Ok (hp, s4)))
          else Some (Ok (hp, s3))))" for on_lock on_commit
      using assms by (simp add: update_nodes_def h u(1) b2 Let_def)
  qed (use u in \<open>simp_all add: high_pc_get_def\<close>)
qed

section \<open>Committing\<close>

text \<open>C10: Blocks are committed in chain order and none is skipped. Committing a block runs the commit of exactly the blocks
  above the last executed height up to it, from the lowest to the highest, each the parent of the next, and it
  always returns.\<close>

theorem commit_in_chain_order:
  assumes "chain_ok s" and "stored s b"
  shows "\<exists>bs. on_commit_block_recurse from_err cb s last_executed b = Some (try_fold cb s bs) \<and>
    run_of s (br_height last_executed) b bs"
  using commit_recurse_eq [OF assms order_refl] run_of_ancestors [OF assms order_refl] by blast

text \<open>Blocks are locked in chain order, each with the certificate that its child carries for it.\<close>

theorem lock_in_chain_order:
  assumes "chain_ok s" and "stored s b"
  shows "\<exists>bs. on_locked_block_recurse from_err cb s locked b qc =
      Some (try_fold (\<lambda>s (x, q). cb s locked x q) s (with_justify bs qc)) \<and> run_of s (br_height locked) b bs"
  using lock_recurse_eq [OF assms order_refl] run_of_ancestors [OF assms order_refl] by blast

text \<open>C9: No commit without three linked blocks. Unless the block justified by a new block, the block that one justifies and
  the block that this justifies are parent and child, whatever the commit does is not run.\<close>

theorem commit_needs_three_chain:
  assumes "blocks_get s (pc_calculate_block_id cc (b_justify b)) = Ok j"
    and "blocks_get s (pc_calculate_block_id cc (b_justify j)) = Ok l"
    and "\<not> (b_parent j = b_id l \<and> b_parent l = pc_calculate_block_id cc (b_justify l))"
  shows "update_nodes cc from_err s b on_lock on_commit = update_nodes cc from_err s b on_lock on_commit'"
  by (rule update_nodes_eq [OF assms(1,2), of from_err]) (simp add: assms(3))

section \<open>Progress\<close>

definition keeps_progress :: "'x chain_store_scheme \<Rightarrow> 'x chain_store_scheme \<Rightarrow> bool" where
  "keeps_progress s t \<longleftrightarrow> cs_locked_block t = cs_locked_block s \<and> cs_last_executed t = cs_last_executed s \<and>
     cs_high_pc t = cs_high_pc s"

lemma keeps_progress_refl: "keeps_progress s s" and
  keeps_progress_trans: "keeps_progress s t \<Longrightarrow> keeps_progress t u \<Longrightarrow> keeps_progress s u"
  by (simp_all add: keeps_progress_def)

text \<open>What every callback keeps, a recursion keeps, whether or not the chain is well formed.\<close>

lemma lock_recurse_keeps:
  fixes cb :: "('x, 'e) on_lock"
  assumes "on_locked_block_recurse from_err cb s lk b qc = Some (Ok t)"
    and cb: "\<And>s lk x q t. cb s lk x q = Ok t \<Longrightarrow> keeps_progress s t"
  shows "keeps_progress s t"
proof -
  let ?P = "\<lambda>g f s (lk :: block_ref) (b :: block) (qc :: proposal_certificate) (r :: ('x chain_store_scheme, 'e) result). g = from_err \<and> f = cb \<longrightarrow> (\<forall>t. r = Ok t \<longrightarrow> keeps_progress s t)"
  have "?P from_err cb s lk b qc (Ok t)"
  proof (rule on_locked_block_recurse.raw_induct [OF _ assms(1), where P = ?P], intro impI allI)
    fix rec g f s lk b qc r t
    assume ih: "\<And>g f s lk b qc r. rec g f s lk b qc = Some r \<Longrightarrow> ?P g f s lk b qc r"
      and step: "(if br_height lk < b_height b
        then case get_parent s b of
             Ok parent \<Rightarrow> Option.bind (rec g f s lk parent (b_justify b))
                (\<lambda>r. Some (and_then r (\<lambda>s'. f s' lk b qc)))
             | Err e \<Rightarrow> Some (Err (g e)) | Panic m \<Rightarrow> Some (Panic m)
        else Some (Ok s)) = Some r" and f: "g = from_err \<and> f = cb" and r: "r = Ok t"
    show "keeps_progress s t"
    proof (cases "br_height lk < b_height b")
      case True
      then obtain p r1 s1 where "rec g f s lk p (b_justify b) = Some r1" "r1 = Ok s1" "f s1 lk b qc = Ok t"
        using step r by (cases "get_parent s b") (auto simp: bind_eq_Some_conv and_then_Ok_iff)
      then show ?thesis using ih f cb keeps_progress_trans by blast
    next
      case False
      then show ?thesis using step r by (simp add: keeps_progress_refl)
    qed
  qed
  then show ?thesis by simp
qed

lemma commit_recurse_keeps:
  fixes cb :: "('x, 'e) on_commit"
  assumes "on_commit_block_recurse from_err cb s le b = Some (Ok t)"
    and cb: "\<And>s x t. cb s x = Ok t \<Longrightarrow> keeps_progress s t"
  shows "keeps_progress s t"
proof -
  let ?P = "\<lambda>g f s (le :: block_ref) (b :: block) (r :: ('x chain_store_scheme, 'e) result). g = from_err \<and> f = cb \<longrightarrow> (\<forall>t. r = Ok t \<longrightarrow> keeps_progress s t)"
  have "?P from_err cb s le b (Ok t)"
  proof (rule on_commit_block_recurse.raw_induct [OF _ assms(1), where P = ?P], intro impI allI)
    fix rec g f s le b r t
    assume ih: "\<And>g f s le b r. rec g f s le b = Some r \<Longrightarrow> ?P g f s le b r"
      and step: "(if br_height le < b_height b
        then case get_parent s b of
             Ok parent \<Rightarrow> Option.bind (rec g f s le parent) (\<lambda>r. Some (and_then r (\<lambda>s'. f s' b)))
             | Err e \<Rightarrow> Some (Err (g e)) | Panic m \<Rightarrow> Some (Panic m)
        else Some (Ok s)) = Some r" and f: "g = from_err \<and> f = cb" and r: "r = Ok t"
    show "keeps_progress s t"
    proof (cases "br_height le < b_height b")
      case True
      then obtain p r1 s1 where "rec g f s le p = Some r1" "r1 = Ok s1" "f s1 b = Ok t"
        using step r by (cases "get_parent s b") (auto simp: bind_eq_Some_conv and_then_Ok_iff)
      then show ?thesis using ih f cb keeps_progress_trans by blast
    next
      case False
      then show ?thesis using step r by (simp add: keeps_progress_refl)
    qed
  qed
  then show ?thesis by simp
qed

lemma update_nodes_blocks:
  assumes "update_nodes cc from_err s b on_lock on_commit = Some (Ok r)"
  obtains j l where "blocks_get s (pc_calculate_block_id cc (b_justify b)) = Ok j"
    "blocks_get s (pc_calculate_block_id cc (b_justify j)) = Ok l"
proof -
  obtain h where h: "update_highest_seen s b = Ok (s\<lparr>cs_highest_seen := h\<rparr>)" by (rule update_highest_seen_Ok)
  obtain hp s2 where u: "pc_update_highest cc (s\<lparr>cs_highest_seen := h\<rparr>) (b_justify b) = Ok (hp, s2)"
      "cs_blocks s2 = cs_blocks (s\<lparr>cs_highest_seen := h\<rparr>)"
    by (rule pc_update_highest_Ok) blast
  show thesis using assms that u(2)
    by (auto simp: update_nodes_def h u(1) then_run_Ok_iff map_err_Ok_iff blocks_get_def)
qed

lemma lock_node_forward:
  assumes "lock_node from_err cb s e j l = Some (Ok t)"
    and "\<And>s lk x q t. cb s lk x q = Ok t \<Longrightarrow> keeps_progress s t"
    and "locked_block_get s e = Ok lk"
  shows "cs_high_pc t = cs_high_pc s \<and> (\<exists>lk'. cs_locked_block t = Some lk' \<and> br_height lk \<le> br_height lk')"
proof (cases "b_height l > br_height lk")
  case True
  then obtain s1 where s1: "on_locked_block_recurse from_err cb s lk l (b_justify j) = Some (Ok s1)"
      "t = s1\<lparr>cs_locked_block := Some (as_block_ref l)\<rparr>"
    using assms(1,3) by (auto simp: lock_node_def run_then_Ok_iff)
  then show ?thesis using True lock_recurse_keeps [OF s1(1) assms(2)]
    by (simp add: keeps_progress_def as_block_ref_def)
next
  case False
  then show ?thesis using assms(1,3)
    by (auto simp: lock_node_def locked_block_get_def bookkeeping_get_def split: option.splits if_splits)
qed

lemma commit_node_step_keeps:
  assumes "commit_node_step from_err cb s e i = Some (Ok t)" and "\<And>s x t. cb s x = Ok t \<Longrightarrow> keeps_progress s t"
  shows "cs_high_pc t = cs_high_pc s \<and> cs_locked_block t = cs_locked_block s"
  using assms(1) commit_recurse_keeps [OF _ assms(2)]
  by (fastforce simp: commit_node_step_def then_run_Ok_iff run_then_Ok_iff keeps_progress_def split: if_splits)

text \<open>C16: Locks and certificates only move forward. After a block is processed, with callbacks that leave the progress tables
  alone, the highest certificate is at least as high as before and as the one in the block, and the locked block
  is at least as high as before.\<close>

theorem locks_move_forward:
  assumes "update_nodes cc from_err s b on_lock on_commit = Some (Ok (hp, t))"
    and "\<And>s lk x q t. on_lock s lk x q = Ok t \<Longrightarrow> keeps_progress s t"
    and "\<And>s x t. on_commit s x = Ok t \<Longrightarrow> keeps_progress s t"
    and "locked_block_get s (b_epoch b) = Ok lk" and "high_pc_get s (pc_epoch (b_justify b)) = Ok old"
  shows "hp_block_height old \<le> hp_block_height hp \<and> pc_height (b_justify b) \<le> hp_block_height hp \<and>
    high_pc_get t (pc_epoch (b_justify b)) = Ok hp \<and>
    (\<exists>lk'. cs_locked_block t = Some lk' \<and> br_height lk \<le> br_height lk')"
proof -
  obtain j l where jl: "blocks_get s (pc_calculate_block_id cc (b_justify b)) = Ok j"
      "blocks_get s (pc_calculate_block_id cc (b_justify j)) = Ok l"
    by (rule update_nodes_blocks [OF assms(1)])
  obtain s2 hp' where s2: "cs_locked_block s2 = cs_locked_block s" "high_pc_get s2 (pc_epoch (b_justify b)) = Ok hp'"
      "pc_height (b_justify b) \<le> hp_block_height hp'" "hp_block_height old \<le> hp_block_height hp'"
      "update_nodes cc from_err s b on_lock on_commit =
       (if is_genesis l then Some (Ok (hp', s2))
        else run_then (lock_node from_err on_lock s2 (b_epoch b) j l) (\<lambda>s3.
          if b_parent j = b_id l \<and> b_parent l = pc_calculate_block_id cc (b_justify l)
          then run_then (commit_node_step from_err on_commit s3 (b_epoch b) (pc_calculate_block_id cc (b_justify l)))
            (\<lambda>s4. Some (Ok (hp', s4)))
          else Some (Ok (hp', s3))))"
    by (rule update_nodes_eq [OF jl, of from_err]) (use assms(5) in blast)
  show ?thesis
  proof (cases "is_genesis l")
    case True
    then show ?thesis using assms(1,4) s2 by (auto simp: locked_block_get_def bookkeeping_get_def split: option.splits if_splits)
  next
    case False
    then obtain s3 where s3: "lock_node from_err on_lock s2 (b_epoch b) j l = Some (Ok s3)" and hp: "hp' = hp"
      and t: "t = s3 \<or> commit_node_step from_err on_commit s3 (b_epoch b) (pc_calculate_block_id cc (b_justify l)) = Some (Ok t)"
      using assms(1) s2(5) by (auto simp: run_then_Ok_iff split: if_splits)
    have "cs_high_pc s3 = cs_high_pc s2 \<and> (\<exists>lk'. cs_locked_block s3 = Some lk' \<and> br_height lk \<le> br_height lk')"
      using lock_node_forward [OF s3 assms(2)] assms(4) s2(1) by (simp add: locked_block_get_def)
    moreover have "cs_high_pc t = cs_high_pc s3 \<and> cs_locked_block t = cs_locked_block s3"
    proof (rule disjE [OF t])
      assume "commit_node_step from_err on_commit s3 (b_epoch b) (pc_calculate_block_id cc (b_justify l)) = Some (Ok t)"
      from commit_node_step_keeps [OF this assms(3)] show ?thesis .
    qed simp
    ultimately show ?thesis using s2 hp by (simp add: high_pc_get_def)
  qed
qed

section \<open>The safe node predicate\<close>

definition pending_parent :: "'x chain_store_scheme \<Rightarrow> block_id \<Rightarrow> block_id \<Rightarrow> bool" where
  "pending_parent s i p \<longleftrightarrow> cs_pending_chain s i = Some p"

definition rank_of :: "'x chain_store_scheme \<Rightarrow> block_id \<Rightarrow> nat" where
  "rank_of s i = (if i = 0 then 0 else case cs_blocks s i of None \<Rightarrow> 0 | Some b \<Rightarrow> b_height b + 1)"

text \<open>The index of pending blocks leads to lower blocks.\<close>

definition pending_ok :: "'x chain_store_scheme \<Rightarrow> bool" where
  "pending_ok s \<longleftrightarrow> (\<forall>i p. cs_pending_chain s i = Some p \<longrightarrow> rank_of s p < rank_of s i)"

lemma pending_ancestor_loop_eq:
  assumes "pending_ok s"
  shows "pending_ancestor_loop (cs_pending_chain s) a i = Some ((pending_parent s)\<^sup>+\<^sup>+ i a)"
proof (induction "rank_of s i" arbitrary: i rule: less_induct)
  case less
  show ?case
  proof (cases "cs_pending_chain s i")
    case None
    then have "\<not> (pending_parent s)\<^sup>+\<^sup>+ i a" using tranclpD [of "pending_parent s" i a] by (auto simp: pending_parent_def)
    then show ?thesis using None by (simp add: pending_ancestor_loop.simps)
  next
    case (Some p)
    have lt: "rank_of s p < rank_of s i" using assms Some by (simp add: pending_ok_def)
    then have ih: "pending_ancestor_loop (cs_pending_chain s) a p = Some ((pending_parent s)\<^sup>+\<^sup>+ p a)" by (rule less)
    have iff: "(pending_parent s)\<^sup>+\<^sup>+ i a \<longleftrightarrow> p = a \<or> (pending_parent s)\<^sup>+\<^sup>+ p a"
    proof
      assume "(pending_parent s)\<^sup>+\<^sup>+ i a"
      then obtain q where q: "pending_parent s i q" "(pending_parent s)\<^sup>*\<^sup>* q a" by (meson tranclpD)
      have "q = p" using q(1) Some by (simp add: pending_parent_def)
      then show "p = a \<or> (pending_parent s)\<^sup>+\<^sup>+ p a" using rtranclpD [OF q(2)] by blast
    next
      have step: "pending_parent s i p" using Some by (simp add: pending_parent_def)
      assume "p = a \<or> (pending_parent s)\<^sup>+\<^sup>+ p a"
      then show "(pending_parent s)\<^sup>+\<^sup>+ i a"
      proof
        assume "p = a"
        then show ?thesis using step by (simp add: tranclp.r_into_trancl)
      next
        assume "(pending_parent s)\<^sup>+\<^sup>+ p a"
        with step show ?thesis by (rule tranclp_into_tranclp2)
      qed
    qed
    have "pending_ancestor_loop (cs_pending_chain s) a i = (if p = a then Some True else if p = i then Some False
        else pending_ancestor_loop (cs_pending_chain s) a p)"
      by (subst pending_ancestor_loop.simps) (simp add: Some)
    moreover have "p \<noteq> i" using lt by (cases "p = i") simp_all
    ultimately show ?thesis unfolding iff ih by simp
  qed
qed

text \<open>C17: The safe node predicate decides the rule of the protocol. On a store whose pending chain leads to lower blocks and that
  knows the locked block, it returns, and it accepts a block exactly when its certificate is higher than the lock or
  the block descends from the locked block through pending blocks.\<close>

theorem is_safe_iff:
  assumes "pending_ok s" and "locked_block_get s (b_epoch b) = Ok locked" and "blocks_exists s (br_block_id locked)"
  shows "is_safe s b = Some (Ok (pc_height (b_justify b) > br_height locked \<or>
    b_id b \<noteq> br_block_id locked \<and> (b_parent b = br_block_id locked \<or>
      blocks_exists s (b_parent b) \<and> (pending_parent s)\<^sup>+\<^sup>+ (b_parent b) (br_block_id locked))))"
  using assms
  by (simp add: is_safe_def extends_pending_def blocks_is_pending_ancestor_def pending_ancestor_loop_eq)

section \<open>Stores that stay well formed\<close>

text \<open>A block whose parent is stored and lower, or a block of height zero on top of the zero id. Inserting such a
  block and setting the certificates of a block keep the chain well formed. That a received block is of this
  kind is up to the validation of proposals, and deleting blocks of forks is not considered here.\<close>

definition extends_stored :: "'x chain_store_scheme \<Rightarrow> block \<Rightarrow> bool" where
  "extends_stored s b \<longleftrightarrow>
     (if b_height b = 0 then b_parent b = 0
      else b_id b \<noteq> 0 \<and> (\<exists>p. cs_blocks s (b_parent b) = Some p \<and> b_height p < b_height b))"

text \<open>The invariant: blocks are stored under their id, extend a stored block, and are indexed with their parent.\<close>

definition chain_inv :: "'x chain_store_scheme \<Rightarrow> bool" where
  "chain_inv s \<longleftrightarrow> (\<forall>i b. cs_blocks s i = Some b \<longrightarrow> b_id b = i \<and> extends_stored s b) \<and>
     (\<forall>i p. cs_pending_chain s i = Some p \<longrightarrow> i \<noteq> 0 \<and> (\<exists>b. cs_blocks s i = Some b \<and> b_parent b = p))"

lemma chain_inv_ok: "chain_inv s \<Longrightarrow> chain_ok s"
  unfolding chain_ok_def
proof (intro allI impI)
  fix i b
  assume "chain_inv s" and "cs_blocks s i = Some b"
  then have "b_id b = i" "extends_stored s b" by (simp_all add: chain_inv_def)
  then show "b_id b = i \<and> (0 < b_height b \<longrightarrow> (\<exists>p. get_parent s b = Ok p \<and> b_height p < b_height b))"
    by (cases "b_height b = 0") (auto simp: extends_stored_def get_parent_def blocks_get_Ok_iff)
qed

lemma chain_inv_index:
  assumes "chain_inv s" and "cs_pending_chain s i = Some p"
  obtains b where "i \<noteq> 0" "cs_blocks s i = Some b" "b_parent b = p"
  using assms unfolding chain_inv_def by blast

lemma chain_inv_pending:
  assumes "chain_inv s"
  shows "pending_ok s"
  unfolding pending_ok_def
proof (intro allI impI)
  fix i p
  assume "cs_pending_chain s i = Some p"
  with assms obtain b where b: "i \<noteq> 0" "cs_blocks s i = Some b" "b_parent b = p"
    by (rule chain_inv_index)
  moreover have "extends_stored s b" using assms b(2) by (simp add: chain_inv_def)
  ultimately show "rank_of s p < rank_of s i"
    by (cases "b_height b = 0") (auto simp: rank_of_def extends_stored_def)
qed

lemma extends_stored_mono:
  assumes "extends_stored s x" and "\<And>i p. cs_blocks s i = Some p \<Longrightarrow> \<exists>q. cs_blocks t i = Some q \<and> b_height q = b_height p"
  shows "extends_stored t x"
proof (cases "b_height x = 0")
  case False
  then obtain p where "b_id x \<noteq> 0" "cs_blocks s (b_parent x) = Some p" "b_height p < b_height x"
    using assms(1) by (auto simp: extends_stored_def)
  then show ?thesis using assms(2) [of "b_parent x" p] False by (auto simp: extends_stored_def)
qed (use assms(1) in \<open>simp add: extends_stored_def\<close>)

lemma chain_inv_insert:
  assumes inv: "chain_inv s" and ext: "extends_stored s b" and ins: "blocks_insert s b = Ok t"
  shows "chain_inv t"
proof -
  have fresh: "cs_blocks s (b_id b) = None" and blocks: "cs_blocks t = (cs_blocks s)(b_id b \<mapsto> b)"
    and pending: "cs_pending_chain t = (if b_id b = 0 then cs_pending_chain s
      else (cs_pending_chain s)(b_id b \<mapsto> b_parent b))"
    using ins by (auto simp: blocks_insert_def blocks_exists_def Let_def split: if_splits)
  have mono: "extends_stored t x" if "extends_stored s x" for x
    by (rule extends_stored_mono [OF that]) (use fresh in \<open>auto simp: blocks\<close>)
  show ?thesis using inv mono ext unfolding chain_inv_def
    by (auto simp: blocks pending split: if_splits)
qed

lemma blocks_set_qcs_Ok:
  assumes "blocks_set_qcs s i c j = Ok t" and "\<not> (c = None \<and> j = None)"
  shows "\<exists>b b'. cs_blocks s i = Some b \<and> b_header b' = b_header b \<and> cs_blocks t = (cs_blocks s)(i \<mapsto> b') \<and>
    (cs_pending_chain t = cs_pending_chain s \<or> cs_pending_chain t = (cs_pending_chain s)(i := None))"
proof -
  obtain b where b: "cs_blocks s i = Some b"
    using assms by (auto simp: blocks_set_qcs_def and_then_Ok_iff blocks_get_Ok_iff split: if_splits)
  define b1 where "b1 = (case c of None \<Rightarrow> b | Some q \<Rightarrow> b\<lparr>b_commit_qc_id := Some q\<rparr>)"
  define b2 where "b2 = (case j of None \<Rightarrow> b1 | Some q \<Rightarrow> b1\<lparr>b_justify_qc_id := Some q\<rparr>)"
  have "b_header b2 = b_header b" by (simp add: b1_def b2_def split: option.split)
  moreover have "cs_blocks t = (cs_blocks s)(i \<mapsto> b2) \<and>
      (cs_pending_chain t = cs_pending_chain s \<or> cs_pending_chain t = (cs_pending_chain s)(i := None))"
    using assms b by (cases c; cases j) (auto simp: blocks_set_qcs_def blocks_get_def ok_or_def b1_def b2_def Let_def)
  ultimately show ?thesis using b by blast
qed

lemma chain_inv_set_qcs:
  assumes inv: "chain_inv s" and set: "blocks_set_qcs s i c j = Ok t"
  shows "chain_inv t"
proof (cases "c = None \<and> j = None")
  case True
  then show ?thesis using inv set by (simp add: blocks_set_qcs_def)
next
  case False
  then obtain b b' where b: "cs_blocks s i = Some b" and hd: "b_header b' = b_header b"
    and blocks: "cs_blocks t = (cs_blocks s)(i \<mapsto> b')"
    and pending: "cs_pending_chain t = cs_pending_chain s \<or> cs_pending_chain t = (cs_pending_chain s)(i := None)"
    using blocks_set_qcs_Ok [OF set] by blast
  have mono: "extends_stored t x" if "extends_stored s x" for x
    by (rule extends_stored_mono [OF that]) (use b hd in \<open>auto simp: blocks\<close>)
  have same: "extends_stored t b' = extends_stored t b" by (simp add: extends_stored_def hd)
  have old: "b_id x = k" "extends_stored t x" if "cs_blocks s k = Some x" for k x
    using inv mono that by (simp_all add: chain_inv_def)
  show ?thesis unfolding chain_inv_def
  proof (intro conjI allI impI)
    fix k x
    assume "cs_blocks t k = Some x"
    then have "k = i \<and> x = b' \<or> cs_blocks s k = Some x" by (simp add: blocks split: if_splits)
    then show "b_id x = k" and "extends_stored t x" using old b hd same by auto
  next
    fix k p
    assume "cs_pending_chain t k = Some p"
    then have "cs_pending_chain s k = Some p" using pending by (auto split: if_splits)
    with inv obtain x where "k \<noteq> 0" "cs_blocks s k = Some x" "b_parent x = p" by (rule chain_inv_index)
    then show "k \<noteq> 0" and "\<exists>x. cs_blocks t k = Some x \<and> b_parent x = p" using b hd by (auto simp: blocks)
  qed
qed

section \<open>A stale certificate\<close>

lemma stale_justify_rewinds:
  assumes "blocks_get s (pc_calculate_block_id cc (b_justify b)) = Ok j"
    and "blocks_get s (pc_calculate_block_id cc (b_justify j)) = Ok l" and "\<not> is_genesis l"
    and "b_parent j = b_id l" and "b_parent l = pc_calculate_block_id cc (b_justify l)" and "b_parent l \<noteq> 0"
    and "blocks_get s (b_parent l) = Ok p"
    and "locked_block_get s (b_epoch b) = Ok lk" and "b_height l \<le> br_height lk"
    and "last_executed_get s (b_epoch b) = Ok le" and "b_height p \<le> br_height le"
  shows "\<exists>hp t. update_nodes cc from_err s b on_lock on_commit = Some (Ok (hp, t)) \<and>
    cs_last_executed t = Some (as_block_ref p) \<and> cs_blocks t = cs_blocks s"
proof -
  obtain s2 hp where s2: "cs_blocks s2 = cs_blocks s" "cs_locked_block s2 = cs_locked_block s"
      "cs_last_executed s2 = cs_last_executed s"
      "update_nodes cc from_err s b on_lock on_commit =
       (if is_genesis l then Some (Ok (hp, s2))
        else run_then (lock_node from_err on_lock s2 (b_epoch b) j l) (\<lambda>s3.
          if b_parent j = b_id l \<and> b_parent l = pc_calculate_block_id cc (b_justify l)
          then run_then (commit_node_step from_err on_commit s3 (b_epoch b) (pc_calculate_block_id cc (b_justify l)))
            (\<lambda>s4. Some (Ok (hp, s4)))
          else Some (Ok (hp, s3))))"
    by (rule update_nodes_eq [OF assms(1,2), of from_err]) blast
  have "lock_node from_err on_lock s2 (b_epoch b) j l = Some (Ok s2)"
    using assms(8,9) s2(2) by (simp add: lock_node_def locked_block_get_def)
  moreover have "commit_node_step from_err on_commit s2 (b_epoch b) (b_parent l) =
      Some (Ok (s2\<lparr>cs_last_executed := Some (as_block_ref p)\<rparr>))"
    using assms(6,7,10,11) s2(1,3)
    by (simp add: commit_node_step_def blocks_get_def last_executed_get_def on_commit_block_recurse.simps)
  ultimately show ?thesis using s2 assms(3,4,5) by simp
qed

text \<open>C40: The last executed block can move back. A block whose certificate is for an old block that heads three linked blocks makes
  the lowest of them the last executed block, although it was executed before and nothing is committed.\<close>

theorem stale_justify_rewinds_last_executed:
  assumes "blocks_get s (pc_calculate_block_id cc (b_justify b)) = Ok j"
    and "blocks_get s (pc_calculate_block_id cc (b_justify j)) = Ok l" and "\<not> is_genesis l"
    and "b_parent j = b_id l" and "b_parent l = pc_calculate_block_id cc (b_justify l)" and "b_parent l \<noteq> 0"
    and "blocks_get s (b_parent l) = Ok p"
    and "locked_block_get s (b_epoch b) = Ok lk" and "b_height l \<le> br_height lk"
    and "last_executed_get s (b_epoch b) = Ok le" and "b_height p \<le> br_height le"
  shows "\<exists>hp t. update_nodes cc from_err s b on_lock on_commit = Some (Ok (hp, t)) \<and>
    cs_last_executed t = Some (as_block_ref p) \<and> cs_blocks t = cs_blocks s"
  using assms by (rule stale_justify_rewinds)

section \<open>A sample chain\<close>

definition sample_pc :: "nat \<Rightarrow> proposal_certificate" where
  "sample_pc k = \<lparr>pc_height = k, pc_header_hash = 1, pc_parent_id = of_nat k, pc_epoch = 7,
     pc_shard_group = \<lparr>sg_start = 1, sg_end_inclusive = 4\<rparr>, pc_signatures = [], pc_decision = QuorumAccept\<rparr>"

definition sample_block :: "nat \<Rightarrow> proposal_certificate \<Rightarrow> timeout_certificate option \<Rightarrow> block" where
  "sample_block k qc tc = block_new \<lparr>bh_id = of_nat (k + 1), bh_network = 0, bh_parent = of_nat k, bh_justify_id = 0,
     bh_height = k, bh_epoch = 7, bh_shard_group = \<lparr>sg_start = 1, sg_end_inclusive = 4\<rparr>, bh_proposed_by = 0,
     bh_total_leader_fee = 0, bh_state_merkle_root = 0, bh_command_merkle_root = 0, bh_signature = Some [],
     bh_timestamp = 0, bh_epoch_hash = 0, bh_extra_data = None\<rparr> qc [] tc"

text \<open>The genesis block and four blocks, each with the certificate for its parent.\<close>

definition chain_block :: "nat \<Rightarrow> block" where
  "chain_block k = sample_block k (if k = 0 then pc_genesis 7 \<lparr>sg_start = 1, sg_end_inclusive = 4\<rparr> else sample_pc (k - 1)) None"

text \<open>The store after the fourth block: the second is locked, the first is the last one executed.\<close>

definition sample_chain :: chain_store where
  "sample_chain = \<lparr>cs_blocks = map_of [(1, chain_block 0), (2, chain_block 1), (3, chain_block 2), (4, chain_block 3),
       (5, chain_block 4)],
     cs_epoch_height = [(7, 0, 1), (7, 1, 2), (7, 2, 3), (7, 3, 4), (7, 4, 5)],
     cs_pending_chain = map_of [(3, 2), (4, 3), (5, 4)],
     cs_pending_children = [(2, 3), (3, 4), (4, 5)], cs_committed_child = map_of [(0, 1), (1, 2)],
     cs_commit_block = Some (1, 2, 1), cs_proposal_certificates = (\<lambda>_. None), cs_timeout_certificates = (\<lambda>_. None),
     cs_locked_block = Some (as_block_ref (chain_block 2)), cs_last_executed = Some (as_block_ref (chain_block 1)),
     cs_last_voted = Some (as_block_ref (chain_block 4)), cs_leaf_block = Some (as_leaf_block sample_consensus_crypto (sample_pc 3)),
     cs_highest_seen = Some (as_leaf (chain_block 4)), cs_high_pc = Some (as_high_pc sample_consensus_crypto (sample_pc 3)),
     cs_high_tc = None, cs_last_sent_new_view = None\<rparr>"

text \<open>A fifth block on top of them that justifies the second one.\<close>

definition stale_block :: block where
  "stale_block = sample_block 5 (sample_pc 2) (Some \<lparr>tc_epoch = 7, tc_height = 4, tc_signatures = []\<rparr>)"

lemma chain_block_simps [simp]:
  "b_id (chain_block k) = of_nat (k + 1)" "b_height (chain_block k) = k" "b_parent (chain_block k) = of_nat k"
  "b_epoch (chain_block k) = 7" "\<not> is_genesis (chain_block k)"
  by (simp_all add: chain_block_def sample_block_def block_new_def is_genesis_def header_is_genesis_def)

lemma as_block_ref_chain [simp]:
  "as_block_ref (chain_block k) = \<lparr>br_height = k, br_block_id = of_nat (k + 1), br_epoch = 7\<rparr>"
  by (simp add: as_block_ref_def)

lemma sample_pc_simps [simp]: "pc_height (sample_pc k) = k" "pc_epoch (sample_pc k) = 7"
  by (simp_all add: sample_pc_def)

lemma sample_chain_simps [simp]:
  "cs_pending_chain sample_chain = map_of [(3, 2), (4, 3), (5, 4)]"
  "cs_last_executed sample_chain = Some (as_block_ref (chain_block 1))"
  by (simp_all add: sample_chain_def)

lemma chain_block_justify:
  "b_justify (chain_block k) = (if k = 0 then pc_genesis 7 \<lparr>sg_start = 1, sg_end_inclusive = 4\<rparr> else sample_pc (k - 1))"
  by (simp add: chain_block_def sample_block_def block_new_def)

lemma pc_block_sample [simp]: "pc_calculate_block_id sample_consensus_crypto (sample_pc k) = of_nat k + 1"
  by (simp add: pc_calculate_block_id_def from_parent_and_header_hash_def sample_pc_def sample_consensus_crypto_def)

lemma sample_blocks:
  "cs_blocks sample_chain i = Some b \<longleftrightarrow>
     i = 1 \<and> b = chain_block 0 \<or> i = 2 \<and> b = chain_block 1 \<or> i = 3 \<and> b = chain_block 2 \<or>
     i = 4 \<and> b = chain_block 3 \<or> i = 5 \<and> b = chain_block 4"
  by (auto simp: sample_chain_def split: if_splits)

lemma sample_get [simp]:
  "blocks_get sample_chain 1 = Ok (chain_block 0)" "blocks_get sample_chain 2 = Ok (chain_block 1)"
  "blocks_get sample_chain 3 = Ok (chain_block 2)" "blocks_get sample_chain 4 = Ok (chain_block 3)"
  "blocks_get sample_chain 5 = Ok (chain_block 4)"
  by (simp_all add: blocks_get_Ok_iff sample_blocks)

lemma sample_chain_ok: "chain_ok sample_chain"
  by (auto simp: chain_ok_def sample_blocks get_parent_def)

lemma sample_stored: "stored sample_chain (chain_block 2)"
  by (simp add: stored_def sample_blocks)

lemma sample_pending_ok: "pending_ok sample_chain"
  by (auto simp: pending_ok_def rank_of_def sample_chain_def split: if_splits)

lemma sample_refs:
  "locked_block_get sample_chain 7 = Ok (as_block_ref (chain_block 2))"
  "last_executed_get sample_chain 7 = Ok (as_block_ref (chain_block 1))"
  "high_pc_get sample_chain 7 = Ok (as_high_pc sample_consensus_crypto (sample_pc 3))"
  by (simp_all add: locked_block_get_def last_executed_get_def high_pc_get_def bookkeeping_get_def sample_chain_def
      as_block_ref_def as_high_pc_def sample_pc_def)

lemma stale_block_simps [simp]:
  "b_justify stale_block = sample_pc 2" "b_epoch stale_block = 7" "b_id stale_block = 6" "b_parent stale_block = 5"
  "b_height stale_block = 5"
  by (simp_all add: stale_block_def sample_block_def block_new_def)

theorem commit_in_chain_order_witness:
  "\<exists>bs. on_commit_block_recurse id (\<lambda>s b. Ok s) sample_chain (as_block_ref (chain_block 0)) (chain_block 2) =
      Some (try_fold (\<lambda>s b. Ok s) sample_chain bs) \<and> run_of sample_chain 0 (chain_block 2) bs"
  using commit_in_chain_order [OF sample_chain_ok sample_stored, of id "\<lambda>s b. Ok s" "as_block_ref (chain_block 0)"]
  by (simp add: as_block_ref_def)

theorem lock_in_chain_order_witness:
  "\<exists>bs. on_locked_block_recurse id (\<lambda>s l b q. Ok s) sample_chain (as_block_ref (chain_block 0)) (chain_block 2) (sample_pc 2) =
      Some (try_fold (\<lambda>s (x, q). Ok s) sample_chain (with_justify bs (sample_pc 2))) \<and>
    run_of sample_chain 0 (chain_block 2) bs"
  using lock_in_chain_order [OF sample_chain_ok sample_stored, of id "\<lambda>s l b q. Ok s" "as_block_ref (chain_block 0)" "sample_pc 2"]
  by (simp add: as_block_ref_def)

text \<open>A block that certifies the block three below it does not make three linked blocks.\<close>

definition gap_chain :: chain_store where
  "gap_chain = sample_chain\<lparr>cs_blocks := (cs_blocks sample_chain)(4 \<mapsto> sample_block 3 (sample_pc 1) None)\<rparr>"

theorem commit_needs_three_chain_witness:
  "update_nodes sample_consensus_crypto id gap_chain (chain_block 4) (\<lambda>s l b q. Ok s) (\<lambda>s b. Panic ''commit'') =
   update_nodes sample_consensus_crypto id gap_chain (chain_block 4) (\<lambda>s l b q. Ok s) (\<lambda>s b. Ok s)"
  by (rule commit_needs_three_chain [where j = "sample_block 3 (sample_pc 1) None" and l = "chain_block 1"])
    (simp_all add: chain_block_justify gap_chain_def blocks_get_Ok_iff sample_blocks sample_block_def block_new_def)

theorem is_safe_iff_witness: "is_safe sample_chain stale_block = Some (Ok True)"
proof -
  have "(pending_parent sample_chain)\<^sup>+\<^sup>+ 5 3"
    by (rule tranclp_into_tranclp2 [of _ 5 4]) (simp_all add: pending_parent_def tranclp.r_into_trancl)
  then show ?thesis
    using is_safe_iff [OF sample_pending_ok, of stale_block "as_block_ref (chain_block 2)"]
    by (simp add: sample_refs blocks_exists_def sample_blocks)
qed

theorem stale_justify_rewinds_last_executed_witness:
  "\<exists>hp t. update_nodes sample_consensus_crypto id sample_chain stale_block (\<lambda>s l b q. Ok s) (\<lambda>s b. Ok s) = Some (Ok (hp, t)) \<and>
     cs_last_executed sample_chain = Some (as_block_ref (chain_block 1)) \<and>
     cs_last_executed t = Some (as_block_ref (chain_block 0))"
proof -
  have "\<exists>hp t. update_nodes sample_consensus_crypto id sample_chain stale_block (\<lambda>s l b q. Ok s) (\<lambda>s b. Ok s) = Some (Ok (hp, t)) \<and>
     cs_last_executed t = Some (as_block_ref (chain_block 0)) \<and> cs_blocks t = cs_blocks sample_chain"
    by (rule stale_justify_rewinds_last_executed [where j = "chain_block 2" and l = "chain_block 1"
          and lk = "as_block_ref (chain_block 2)" and le = "as_block_ref (chain_block 1)"])
      (simp_all add: chain_block_justify sample_refs del: One_nat_def)
  then show ?thesis by auto
qed

theorem locks_move_forward_witness:
  "\<exists>hp t. update_nodes sample_consensus_crypto id sample_chain stale_block (\<lambda>s l b q. Ok s) (\<lambda>s b. Ok s) = Some (Ok (hp, t)) \<and>
     3 \<le> hp_block_height hp \<and> (\<exists>lk. cs_locked_block t = Some lk \<and> 2 \<le> br_height lk)"
proof -
  obtain hp t where run: "update_nodes sample_consensus_crypto id sample_chain stale_block (\<lambda>s l b q. Ok s) (\<lambda>s b. Ok s) = Some (Ok (hp, t))"
    using stale_justify_rewinds [where s = sample_chain and b = stale_block and cc = sample_consensus_crypto
        and j = "chain_block 2" and l = "chain_block 1" and p = "chain_block 0"
        and lk = "as_block_ref (chain_block 2)" and le = "as_block_ref (chain_block 1)" and from_err = id
        and on_lock = "\<lambda>s l b q. Ok s" and on_commit = "\<lambda>s b. Ok s"]
    by (auto simp: chain_block_justify sample_refs simp del: One_nat_def)
  have lk: "locked_block_get sample_chain (b_epoch stale_block) = Ok (as_block_ref (chain_block 2))"
    and pc: "high_pc_get sample_chain (pc_epoch (b_justify stale_block)) = Ok (as_high_pc sample_consensus_crypto (sample_pc 3))"
    by (simp_all add: sample_refs)
  have "hp_block_height (as_high_pc sample_consensus_crypto (sample_pc 3)) \<le> hp_block_height hp \<and>
      pc_height (b_justify stale_block) \<le> hp_block_height hp \<and>
      high_pc_get t (pc_epoch (b_justify stale_block)) = Ok hp \<and>
      (\<exists>lk. cs_locked_block t = Some lk \<and> br_height (as_block_ref (chain_block 2)) \<le> br_height lk)"
    by (rule locks_move_forward [OF run _ _ lk pc]) (simp_all add: keeps_progress_refl)
  then show ?thesis using run by (simp add: as_high_pc_def)
qed

end
