(* ===== verification/PoolUpdates.thy ===== *)
theory PoolUpdates
  imports ChainStore
begin

text \<open>
  The transaction pool in the database (crates/state_store_rocksdb/src/reader.rs, writer.rs and
  column_families/transaction_pool_state_update.rs) and the status updates that the processing of a block
  stores in it (crates/storage/src/consensus_models/transaction_pool_status_update.rs). A block that is not yet
  committed does not change the record of a transaction but leaves an update under its id; a record is loaded
  for a block by merging the latest update on the chain of pending blocks that ends in the block. This
  chain, leaf first, is an argument.
\<close>

section \<open>Updates\<close>

record pool_state_update =
  psu_block_id :: block_id
  psu_block_height :: node_height
  psu_transaction_id :: transaction_id
  psu_evidence :: evidence
  psu_transaction_fee :: nat
  psu_leader_fee :: "leader_fee option"
  psu_stage :: transaction_pool_stage
  psu_local_decision :: decision
  psu_remote_decision :: "decision option"
  psu_is_ready :: bool

definition merge_into :: "pool_state_update \<Rightarrow> transaction_pool_record \<Rightarrow> transaction_pool_record" where
  "merge_into u r =
     (let r1 = r\<lparr>tp_evidence := psu_evidence u, tp_transaction_fee := psu_transaction_fee u\<rparr>;
          r2 = (case psu_leader_fee u of Some f \<Rightarrow> r1\<lparr>tp_leader_fee := Some f\<rparr> | None \<Rightarrow> r1);
          r3 = set_local_decision (r2\<lparr>tp_pending_stage := Some (psu_stage u)\<rparr>) (psu_local_decision u);
          r4 = (case psu_remote_decision u of Some d \<Rightarrow> set_remote_decision r3 d | None \<Rightarrow> r3)
      in r4\<lparr>tp_is_ready := psu_is_ready u\<rparr>)"

record pool_status_update =
  su_transaction :: transaction_pool_record
  su_ready_now :: bool

text \<open>The tables: the records of the pool, and the updates by block and transaction.\<close>

record pool_db =
  pd_records :: "(transaction_id, transaction_pool_record) fmap"
  pd_updates :: "(block_id \<times> transaction_id, pool_state_update) fmap"

definition transaction_pool_insert_new ::
  "pool_db \<Rightarrow> transaction_id \<Rightarrow> decision \<Rightarrow> evidence \<Rightarrow> bool \<Rightarrow> bool \<Rightarrow> pool_db cs_result" where
  "transaction_pool_insert_new db tx d initial_evidence is_ready global =
     (if fmlookup (pd_records db) tx \<noteq> None then Err GeneralError
      else Ok (db\<lparr>pd_records := fmupd tx
        \<lparr>tp_transaction_id = tx, tp_evidence = initial_evidence, tp_is_global = global, tp_transaction_fee = 0,
         tp_leader_fee = None, tp_stage = StageNew, tp_pending_stage = None, tp_original_decision = d,
         tp_local_decision = None, tp_remote_decision = None, tp_is_ready = is_ready\<rparr> (pd_records db)\<rparr>))"

definition status_update_data :: "leaf_block \<Rightarrow> pool_status_update \<Rightarrow> pool_state_update" where
  "status_update_data block u = (let r = su_transaction u in
     \<lparr>psu_block_id = leaf_block_id block, psu_block_height = leaf_height block,
      psu_transaction_id = tp_transaction_id r, psu_evidence = tp_evidence r,
      psu_transaction_fee = tp_transaction_fee r, psu_leader_fee = record_leader_fee r, psu_stage = current_stage r,
      psu_local_decision = current_decision r, psu_remote_decision = tp_remote_decision r,
      psu_is_ready = tp_is_ready r\<rparr>)"

definition transaction_pool_add_pending_update ::
  "pool_db \<Rightarrow> leaf_block \<Rightarrow> pool_status_update \<Rightarrow> pool_db cs_result" where
  "transaction_pool_add_pending_update db block u =
     (let tx = tp_transaction_id (su_transaction u);
          db1 = db\<lparr>pd_updates := fmupd (leaf_block_id block, tx) (status_update_data block u) (pd_updates db)\<rparr> in
      and_then (ok_or NotFound (fmlookup (pd_records db1) tx)) (\<lambda>r.
      Ok (db1\<lparr>pd_records := fmupd tx (r\<lparr>tp_is_ready := su_ready_now u,
        tp_pending_stage := Some (current_stage (su_transaction u))\<rparr>) (pd_records db1)\<rparr>)))"

text \<open>What the commit of a block does to the record of a transaction that the block has an update for.\<close>

definition confirm_transition :: "pool_state_update \<Rightarrow> transaction_pool_record \<Rightarrow> transaction_pool_record" where
  "confirm_transition u r =
     (let r1 = set_local_decision (r\<lparr>tp_stage := psu_stage u, tp_pending_stage := None\<rparr>) (psu_local_decision u);
          r2 = r1\<lparr>tp_transaction_fee := psu_transaction_fee u\<rparr>;
          r3 = (case psu_leader_fee u of Some f \<Rightarrow> r2\<lparr>tp_leader_fee := Some f\<rparr> | None \<Rightarrow> r2);
          r4 = r3\<lparr>tp_evidence := psu_evidence u, tp_is_ready := psu_is_ready u\<rparr>
      in (case psu_remote_decision u of Some d \<Rightarrow> set_remote_decision r4 d | None \<Rightarrow> r4))"

definition updates_of_block :: "pool_db \<Rightarrow> block_id \<Rightarrow> ((block_id \<times> transaction_id) \<times> pool_state_update) list" where
  "updates_of_block db b = filter (\<lambda>((b', _), _). b' = b) (sorted_list_of_fmap (pd_updates db))"

definition confirm_update ::
  "pool_db \<Rightarrow> (block_id \<times> transaction_id) \<times> pool_state_update \<Rightarrow> pool_db cs_result" where
  "confirm_update db ku = (case ku of ((b, tx), u) \<Rightarrow>
     and_then (ok_or NotFound (fmlookup (pd_records db) tx)) (\<lambda>r.
     Ok (db\<lparr>pd_updates := fmdrop (b, tx) (pd_updates db),
       pd_records := fmupd tx (confirm_transition u r) (pd_records db)\<rparr>)))"

definition transaction_pool_confirm_all_transitions :: "pool_db \<Rightarrow> block_id \<Rightarrow> pool_db cs_result" where
  "transaction_pool_confirm_all_transitions db b = try_fold confirm_update db (updates_of_block db b)"

definition transaction_pool_state_updates_remove_any_by_block_id :: "pool_db \<Rightarrow> block_id \<Rightarrow> pool_db" where
  "transaction_pool_state_updates_remove_any_by_block_id db b =
     db\<lparr>pd_updates := fmfilter (\<lambda>(b', _). b' \<noteq> b) (pd_updates db)\<rparr>"

section \<open>Loading\<close>

fun latest_update ::
  "(block_id \<times> transaction_id, pool_state_update) fmap \<Rightarrow> transaction_id \<Rightarrow> block_id list \<Rightarrow> pool_state_update option" where
  "latest_update ups tx [] = None"
| "latest_update ups tx (b # bs) = (case fmlookup ups (b, tx) of Some u \<Rightarrow> Some u | None \<Rightarrow> latest_update ups tx bs)"

text \<open>\<open>block_exists\<close> and \<open>pending_chain\<close> are what the store says of the block the record is loaded for.\<close>

definition transaction_pool_get_for_blocks ::
  "pool_db \<Rightarrow> bool \<Rightarrow> block_id list \<Rightarrow> transaction_id \<Rightarrow> transaction_pool_record cs_result" where
  "transaction_pool_get_for_blocks db block_exists pending_chain tx =
     (if \<not> block_exists then Err QueryError
      else and_then (ok_or NotFound (fmlookup (pd_records db) tx)) (\<lambda>r.
        Ok (case latest_update (pd_updates db) tx pending_chain of Some u \<Rightarrow> merge_into u r | None \<Rightarrow> r)))"

section \<open>Runs along a chain\<close>

text \<open>The pool while one chain of pending blocks grows at its leaf and is committed from its root: a block is put
  on top; the record that is loaded for the leaf is updated by its methods and stored as the update of the
  leaf; updates of other transactions are stored; the lowest block is committed.\<close>

inductive pool_chain_step ::
  "id_hasher \<Rightarrow> num_preshards \<Rightarrow> nat \<Rightarrow> transaction_id \<Rightarrow> pool_db \<times> block_id list \<Rightarrow> pool_db \<times> block_id list \<Rightarrow> bool"
  for h ns committees tx where
  chain_extend: "b \<notin> set chain \<Longrightarrow> fmlookup (pd_updates db) (b, tx) = None \<Longrightarrow>
    pool_chain_step h ns committees tx (db, chain) (db, b # chain)"
| chain_update: "transaction_pool_get_for_blocks db True (leaf_block_id block # chain) tx = Ok r \<Longrightarrow>
    (pool_step h ns committees)\<^sup>*\<^sup>* r (su_transaction u) \<Longrightarrow>
    transaction_pool_add_pending_update db block u = Ok db' \<Longrightarrow>
    pool_chain_step h ns committees tx (db, leaf_block_id block # chain) (db', leaf_block_id block # chain)"
| chain_other: "tp_transaction_id (su_transaction u) \<noteq> tx \<Longrightarrow> transaction_pool_add_pending_update db block u = Ok db' \<Longrightarrow>
    pool_chain_step h ns committees tx (db, chain) (db', chain)"
| chain_confirm: "transaction_pool_confirm_all_transitions db b = Ok db' \<Longrightarrow>
    pool_chain_step h ns committees tx (db, chain @ [b]) (db', chain)"

section \<open>Stages along a chain\<close>

definition stage_le :: "transaction_pool_stage \<Rightarrow> transaction_pool_stage \<Rightarrow> bool" where
  "stage_le s s' \<longleftrightarrow> stage_rank s \<le> stage_rank s' \<and> (is_finalising s \<longrightarrow> s' = s)"

lemma stage_le_refl [simp]: "stage_le s s" by (simp add: stage_le_def)

lemma stage_le_trans: "stage_le a b \<Longrightarrow> stage_le b c \<Longrightarrow> stage_le a c"
  by (auto simp: stage_le_def)

lemma pool_step_id:
  assumes "pool_step h ns committees r r'"
  shows "tp_transaction_id r' = tp_transaction_id r"
  using assms
proof cases
  case (step_execution x)
  then show ?thesis
    by (auto simp: update_from_execution_def set_local_decision_def Let_def result_simps split: if_splits)
next
  case (step_stage s g)
  then show ?thesis using set_next_stage_Ok(1) by fastforce
qed (simp_all add: set_remote_decision_def set_local_decision_def merge_evidence_def Let_def)

lemma pool_steps_progress:
  assumes "(pool_step h ns committees)\<^sup>*\<^sup>* r r'"
  shows "stage_le (current_stage r) (current_stage r')" "remote_aborted r \<Longrightarrow> remote_aborted r'"
    "tp_transaction_id r' = tp_transaction_id r"
proof -
  have "stage_le (current_stage r) (current_stage r') \<and> (remote_aborted r \<longrightarrow> remote_aborted r') \<and>
      tp_transaction_id r' = tp_transaction_id r"
    using assms
  proof induction
    case (step y z)
    have "stage_le (current_stage y) (current_stage z)" "remote_aborted y \<longrightarrow> remote_aborted z"
      using pool_step_progress [OF step(2)] by (simp_all add: stage_le_def)
    then show ?case using step(3) pool_step_id [OF step(2)] stage_le_trans [of _ "current_stage y"] by simp
  qed simp
  then show "stage_le (current_stage r) (current_stage r')" "remote_aborted r \<Longrightarrow> remote_aborted r'"
    "tp_transaction_id r' = tp_transaction_id r" by blast+
qed

text \<open>The updates of a transaction along a chain, leaf first, and the record that is loaded from them.\<close>

definition chain_updates :: "pool_db \<Rightarrow> transaction_id \<Rightarrow> block_id list \<Rightarrow> pool_state_update list" where
  "chain_updates db tx chain = List.map_filter (\<lambda>b. fmlookup (pd_updates db) (b, tx)) chain"

definition loaded :: "transaction_pool_record \<Rightarrow> pool_state_update list \<Rightarrow> transaction_pool_record" where
  "loaded r us = (case us of [] \<Rightarrow> r | u # _ \<Rightarrow> merge_into u r)"

lemma latest_update_eq:
  "latest_update (pd_updates db) tx chain = (case chain_updates db tx chain of [] \<Rightarrow> None | u # _ \<Rightarrow> Some u)"
  by (induction chain) (auto simp: chain_updates_def map_filter_simps split: option.split)

lemma get_for_blocks_Ok_iff:
  "transaction_pool_get_for_blocks db True chain tx = Ok r \<longleftrightarrow>
     (\<exists>row. fmlookup (pd_records db) tx = Some row \<and> r = loaded row (chain_updates db tx chain))"
  by (auto simp: transaction_pool_get_for_blocks_def latest_update_eq loaded_def result_simps split: list.split)

lemma merge_into_simps [simp]:
  "tp_stage (merge_into u r) = tp_stage r" "current_stage (merge_into u r) = psu_stage u"
  "tp_transaction_id (merge_into u r) = tp_transaction_id r"
  by (auto simp: merge_into_def set_local_decision_def set_remote_decision_def current_stage_def Let_def split: option.split)

lemma confirm_transition_simps [simp]:
  "tp_stage (confirm_transition u r) = psu_stage u" "tp_pending_stage (confirm_transition u r) = None"
  "tp_transaction_id (confirm_transition u r) = tp_transaction_id r"
  by (auto simp: confirm_transition_def set_local_decision_def set_remote_decision_def Let_def split: option.split)

definition update_aborted :: "pool_state_update \<Rightarrow> bool" where
  "update_aborted u \<longleftrightarrow> (case psu_remote_decision u of Some d \<Rightarrow> is_abort d | None \<Rightarrow> False)"

lemma decision_and_abort: "is_abort (decision_and a b) \<longleftrightarrow> is_abort a \<or> is_abort b"
  by (cases a; cases b) (auto simp: decision_and_def)

lemma remote_aborted_merge [simp]:
  "remote_aborted (merge_into u r) \<longleftrightarrow> remote_aborted r \<or> update_aborted u"
  "remote_aborted (confirm_transition u r) \<longleftrightarrow> remote_aborted r \<or> update_aborted u"
  by (auto simp: merge_into_def confirm_transition_def set_local_decision_def set_remote_decision_def remote_aborted_def
      update_aborted_def Let_def decision_and_abort split: option.splits)

text \<open>Along the chain, from the record to the leaf, stages only move forward; without updates nothing is pending.\<close>

definition updates_ok :: "transaction_pool_record \<Rightarrow> pool_state_update list \<Rightarrow> bool" where
  "updates_ok row us \<longleftrightarrow> sorted_wrt (\<lambda>u v. stage_le (psu_stage v) (psu_stage u)) us \<and>
     (\<forall>u\<in>set us. stage_le (tp_stage row) (psu_stage u)) \<and> (us = [] \<longrightarrow> tp_pending_stage row = None)"

definition pool_inv :: "transaction_id \<Rightarrow> pool_db \<times> block_id list \<Rightarrow> bool" where
  "pool_inv tx s = (case s of (db, chain) \<Rightarrow> \<exists>row. distinct chain \<and> fmlookup (pd_records db) tx = Some row \<and>
     tp_transaction_id row = tx \<and> updates_ok row (chain_updates db tx chain))"

text \<open>How the pool of one transaction may change: the row and its updates before and after a step.\<close>

definition moves_forward ::
  "transaction_pool_record \<Rightarrow> pool_state_update list \<Rightarrow> transaction_pool_record \<Rightarrow> pool_state_update list \<Rightarrow> bool" where
  "moves_forward row us row' us' \<longleftrightarrow> stage_le (current_stage (loaded row us)) (current_stage (loaded row' us')) \<and>
     (remote_aborted (loaded row us) \<longrightarrow> remote_aborted (loaded row' us')) \<and> stage_le (tp_stage row) (tp_stage row')"

lemma chain_updates_Cons:
  "chain_updates db tx (b # bs) = (case fmlookup (pd_updates db) (b, tx) of None \<Rightarrow> [] | Some u \<Rightarrow> [u]) @ chain_updates db tx bs"
  by (simp add: chain_updates_def map_filter_simps split: option.split)

lemma chain_updates_append: "chain_updates db tx (as @ bs) = chain_updates db tx as @ chain_updates db tx bs"
  by (induction as) (simp_all add: chain_updates_Cons, simp add: chain_updates_def map_filter_simps)

lemma chain_updates_cong:
  "(\<And>b. b \<in> set chain \<Longrightarrow> fmlookup (pd_updates db') (b, tx) = fmlookup (pd_updates db) (b, tx)) \<Longrightarrow>
     chain_updates db' tx chain = chain_updates db tx chain"
  by (induction chain) (auto simp: chain_updates_def map_filter_simps split: option.split)

lemma add_pending_update_Ok:
  assumes "transaction_pool_add_pending_update db block u = Ok db'"
  shows "fmlookup (pd_updates db') = (fmlookup (pd_updates db))((leaf_block_id block, tp_transaction_id (su_transaction u)) \<mapsto> status_update_data block u)"
    and "\<exists>row. fmlookup (pd_records db) (tp_transaction_id (su_transaction u)) = Some row \<and>
      fmlookup (pd_records db') = (fmlookup (pd_records db))(tp_transaction_id (su_transaction u) \<mapsto>
        row\<lparr>tp_is_ready := su_ready_now u, tp_pending_stage := Some (current_stage (su_transaction u))\<rparr>)"
  using assms by (auto simp: transaction_pool_add_pending_update_def Let_def result_simps fun_eq_iff)

lemma confirm_fold:
  assumes "try_fold confirm_update db kus = Ok db'" and "distinct (map fst kus)"
    and "\<And>k u. (k, u) \<in> set kus \<Longrightarrow> fst k = b"
  shows "fmlookup (pd_records db') tx = (case map_of kus (b, tx) of None \<Rightarrow> fmlookup (pd_records db) tx
      | Some u \<Rightarrow> map_option (confirm_transition u) (fmlookup (pd_records db) tx)) \<and>
    fmlookup (pd_updates db') (c, tx) = (if c = b \<and> map_of kus (b, tx) \<noteq> None then None else fmlookup (pd_updates db) (c, tx))"
  using assms
proof (induction kus arbitrary: db)
  case (Cons ku kus)
  obtain t u where ku: "ku = ((b, t), u)" using Cons.prems(3) [of "fst ku" "snd ku"] by (cases ku) auto
  from Cons.prems(1) obtain db1 where d: "confirm_update db ku = Ok db1" "try_fold confirm_update db1 kus = Ok db'"
    by (auto simp: result_simps)
  then obtain r where r: "fmlookup (pd_records db) t = Some r" and db1: "db1 = db\<lparr>pd_updates := fmdrop (b, t) (pd_updates db),
      pd_records := fmupd t (confirm_transition u r) (pd_records db)\<rparr>"
    by (auto simp: confirm_update_def ku result_simps)
  have n: "map_of kus (b, t) = None" using Cons.prems(2) by (simp add: ku map_of_eq_None_iff)
  have ih: "fmlookup (pd_records db') tx = (case map_of kus (b, tx) of None \<Rightarrow> fmlookup (pd_records db1) tx
        | Some u \<Rightarrow> map_option (confirm_transition u) (fmlookup (pd_records db1) tx)) \<and>
      fmlookup (pd_updates db') (c, tx) = (if c = b \<and> map_of kus (b, tx) \<noteq> None then None else fmlookup (pd_updates db1) (c, tx))"
    by (rule Cons.IH [OF d(2)]) (use Cons.prems(2) in simp, use Cons.prems(3) in auto)
  show ?case
  proof (cases "t = tx")
    case True
    then show ?thesis using ih n r by (simp add: ku db1)
  next
    case False
    then have "fmlookup (pd_records db1) tx = fmlookup (pd_records db) tx"
      "fmlookup (pd_updates db1) (c, tx) = fmlookup (pd_updates db) (c, tx)" by (auto simp: db1)
    then show ?thesis using ih False by (simp add: ku split: option.splits)
  qed
qed simp

lemma confirm_Ok:
  assumes "transaction_pool_confirm_all_transitions db b = Ok db'"
  shows "fmlookup (pd_records db') tx = (case fmlookup (pd_updates db) (b, tx) of None \<Rightarrow> fmlookup (pd_records db) tx
      | Some u \<Rightarrow> map_option (confirm_transition u) (fmlookup (pd_records db) tx))"
    and "c \<noteq> b \<Longrightarrow> fmlookup (pd_updates db') (c, tx) = fmlookup (pd_updates db) (c, tx)"
proof -
  let ?kus = "updates_of_block db b"
  have d: "distinct (map fst ?kus)" unfolding updates_of_block_def
    by (rule distinct_map_filter) (simp add: sorted_list_of_fmap_def comp_def)
  have m: "map_of ?kus (b, tx) = fmlookup (pd_updates db) (b, tx)"
  proof -
    have "map_of (filter (\<lambda>((b', _), _). b' = b) xs) (b, tx) = map_of xs (b, tx)"
      for xs :: "((block_id \<times> transaction_id) \<times> pool_state_update) list"
      by (induction xs) auto
    then show ?thesis by (simp add: updates_of_block_def)
  qed
  have b: "(k, u) \<in> set ?kus \<Longrightarrow> fst k = b" for k u by (auto simp: updates_of_block_def)
  note f = confirm_fold [OF assms [unfolded transaction_pool_confirm_all_transitions_def] d b]
  show "fmlookup (pd_records db') tx = (case fmlookup (pd_updates db) (b, tx) of None \<Rightarrow> fmlookup (pd_records db) tx
      | Some u \<Rightarrow> map_option (confirm_transition u) (fmlookup (pd_records db) tx))"
    using f [where tx = tx] m by simp
  show "c \<noteq> b \<Longrightarrow> fmlookup (pd_updates db') (c, tx) = fmlookup (pd_updates db) (c, tx)" using f [where tx = tx and c = c] by simp
qed

lemma status_update_data_simps [simp]:
  "psu_stage (status_update_data block u) = current_stage (su_transaction u)"
  "update_aborted (status_update_data block u) = remote_aborted (su_transaction u)"
  by (simp_all add: status_update_data_def Let_def update_aborted_def remote_aborted_def)

lemma updates_ok_loaded:
  assumes "updates_ok row us"
  shows "stage_le (tp_stage row) (current_stage (loaded row us))"
    "v \<in> set us \<Longrightarrow> stage_le (psu_stage v) (current_stage (loaded row us))"
  using assms by (cases us; auto simp: updates_ok_def loaded_def current_stage_def [of row])+

lemma updates_ok_add:
  assumes ok: "updates_ok row us" and us: "us = old @ rest" and u: "stage_le (current_stage (loaded row us)) (psu_stage u)"
    and row': "tp_stage row' = tp_stage row"
  shows "updates_ok row' (u # rest)"
proof -
  have "stage_le (psu_stage v) (psu_stage u)" if "v \<in> set rest" for v
    using updates_ok_loaded(2) [OF ok, of v] that us u stage_le_trans by auto
  moreover have "stage_le (tp_stage row) (psu_stage u)" using updates_ok_loaded(1) [OF ok] u stage_le_trans by blast
  ultimately show ?thesis using ok us row' by (auto simp: updates_ok_def sorted_wrt_append)
qed

lemma updates_ok_confirm:
  assumes "updates_ok row (us @ [u])"
  shows "updates_ok (confirm_transition u row) us" "moves_forward row (us @ [u]) (confirm_transition u row) us"
proof -
  show "updates_ok (confirm_transition u row) us" using assms by (auto simp: updates_ok_def sorted_wrt_append)
  show "moves_forward row (us @ [u]) (confirm_transition u row) us" using assms
    by (cases us) (auto simp: updates_ok_def moves_forward_def loaded_def current_stage_def [of "confirm_transition u row"])
qed

lemma moves_forward_refl [simp]: "moves_forward row us row us" by (simp add: moves_forward_def)

lemma moves_forward_trans:
  "moves_forward row us row' us' \<Longrightarrow> moves_forward row' us' row'' us'' \<Longrightarrow> moves_forward row us row'' us''"
  using stage_le_trans by (auto simp: moves_forward_def)

text \<open>Every step keeps the invariant and moves forward.\<close>

lemma update_step_forward:
  assumes inv: "pool_inv tx (db, leaf_block_id block # chain)"
    and load: "transaction_pool_get_for_blocks db True (leaf_block_id block # chain) tx = Ok r"
    and steps: "(pool_step h ns committees)\<^sup>*\<^sup>* r (su_transaction u)"
    and add: "transaction_pool_add_pending_update db block u = Ok db'"
    and row: "fmlookup (pd_records db) tx = Some row"
  shows "\<exists>row'. fmlookup (pd_records db') tx = Some row' \<and> pool_inv tx (db', leaf_block_id block # chain) \<and>
    moves_forward row (chain_updates db tx (leaf_block_id block # chain)) row' (chain_updates db' tx (leaf_block_id block # chain))"
proof -
  let ?b = "leaf_block_id block" and ?d = "status_update_data block u"
  let ?us = "chain_updates db tx (?b # chain)"
  let ?row' = "row\<lparr>tp_is_ready := su_ready_now u, tp_pending_stage := Some (current_stage (su_transaction u))\<rparr>"
  have i: "distinct (?b # chain)" "tp_transaction_id row = tx" "updates_ok row ?us"
    using inv row by (auto simp: pool_inv_def)
  have r: "r = loaded row ?us" using load row by (simp add: get_for_blocks_Ok_iff)
  have id: "tp_transaction_id (su_transaction u) = tx"
    using pool_steps_progress(3) [OF steps] i(2) by (simp add: r loaded_def split: list.splits)
  have ups: "fmlookup (pd_updates db') = (fmlookup (pd_updates db))((?b, tx) \<mapsto> ?d)"
    and rows: "fmlookup (pd_records db') tx = Some ?row'"
    using add_pending_update_Ok [OF add] row by (auto simp: id)
  have rest: "chain_updates db' tx chain = chain_updates db tx chain"
    by (rule chain_updates_cong) (use i(1) ups in auto)
  have us': "chain_updates db' tx (?b # chain) = ?d # chain_updates db tx chain"
    by (simp add: chain_updates_Cons rest ups)
  have le: "stage_le (current_stage (loaded row ?us)) (psu_stage ?d)" using pool_steps_progress(1) [OF steps] by (simp add: r)
  have ok: "updates_ok ?row' (?d # chain_updates db tx chain)"
    by (rule updates_ok_add [OF i(3) chain_updates_Cons le]) simp
  have "remote_aborted (loaded row ?us) \<Longrightarrow> remote_aborted (su_transaction u)"
    using pool_steps_progress(2) [OF steps] by (simp add: r)
  then have "moves_forward row ?us ?row' (?d # chain_updates db tx chain)"
    using le by (simp add: moves_forward_def loaded_def [of ?row'])
  then show ?thesis using rows ok i us' by (auto simp: pool_inv_def)
qed

lemma confirm_step_forward:
  assumes inv: "pool_inv tx (db, chain @ [b])" and cf: "transaction_pool_confirm_all_transitions db b = Ok db'"
    and row: "fmlookup (pd_records db) tx = Some row"
  shows "\<exists>row'. fmlookup (pd_records db') tx = Some row' \<and> pool_inv tx (db', chain) \<and>
    moves_forward row (chain_updates db tx (chain @ [b])) row' (chain_updates db' tx chain)"
proof -
  have i: "distinct chain" "b \<notin> set chain" "tp_transaction_id row = tx" "updates_ok row (chain_updates db tx (chain @ [b]))"
    using inv row by (auto simp: pool_inv_def)
  have us: "chain_updates db' tx chain = chain_updates db tx chain"
    by (rule chain_updates_cong) (use i(2) confirm_Ok(2) [OF cf] in metis)
  have split: "chain_updates db tx (chain @ [b]) =
      chain_updates db tx chain @ (case fmlookup (pd_updates db) (b, tx) of None \<Rightarrow> [] | Some u \<Rightarrow> [u])"
    by (simp add: chain_updates_append chain_updates_Cons) (simp add: chain_updates_def map_filter_simps)
  show ?thesis
  proof (cases "fmlookup (pd_updates db) (b, tx)")
    case None
    then show ?thesis using confirm_Ok(1) [OF cf, of tx] i us split row by (simp add: pool_inv_def)
  next
    case (Some u)
    then have "updates_ok row (chain_updates db tx chain @ [u])" using i(4) split by simp
    note c = updates_ok_confirm [OF this]
    show ?thesis using confirm_Ok(1) [OF cf, of tx] i us split row Some c by (simp add: pool_inv_def)
  qed
qed

lemma pool_chain_step_forward:
  assumes "pool_chain_step h ns committees tx (db, chain) (db', chain')" "pool_inv tx (db, chain)"
    "fmlookup (pd_records db) tx = Some row"
  shows "\<exists>row'. fmlookup (pd_records db') tx = Some row' \<and> pool_inv tx (db', chain') \<and>
    moves_forward row (chain_updates db tx chain) row' (chain_updates db' tx chain')"
  using assms(1)
proof cases
  case (chain_extend b)
  then show ?thesis using assms(2,3) by (auto simp: pool_inv_def chain_updates_Cons)
next
  case (chain_update block chain1 r u)
  then show ?thesis using update_step_forward assms(2,3) by metis
next
  case (chain_other u block)
  have "chain_updates db' tx chain = chain_updates db tx chain"
    by (rule chain_updates_cong) (use add_pending_update_Ok(1) [OF chain_other(3)] chain_other(2) in auto)
  moreover have "fmlookup (pd_records db') tx = fmlookup (pd_records db) tx"
    using add_pending_update_Ok(2) [OF chain_other(3)] chain_other(2) by auto
  ultimately show ?thesis using assms(2,3) chain_other(1) by (simp add: pool_inv_def)
next
  case (chain_confirm b)
  then show ?thesis using confirm_step_forward assms(2,3) by metis
qed

lemma pool_chain_run_forward:
  assumes "(pool_chain_step h ns committees tx)\<^sup>*\<^sup>* s s'" "pool_inv tx s" "fmlookup (pd_records (fst s)) tx = Some row"
  shows "pool_inv tx s' \<and> (\<exists>row'. fmlookup (pd_records (fst s')) tx = Some row' \<and>
    moves_forward row (chain_updates (fst s) tx (snd s)) row' (chain_updates (fst s') tx (snd s')))"
  using assms(1)
proof induction
  case base
  then show ?case using assms(2,3) by auto
next
  case (step y z)
  then obtain row1 where y: "pool_inv tx y" "fmlookup (pd_records (fst y)) tx = Some row1"
    "moves_forward row (chain_updates (fst s) tx (snd s)) row1 (chain_updates (fst y) tx (snd y))" by blast
  show ?case using pool_chain_step_forward [of h ns committees tx "fst y" "snd y" "fst z" "snd z" row1] step(2) y
      moves_forward_trans [OF y(3)] by (metis prod.collapse)
qed

lemma pool_inv_new:
  assumes "transaction_pool_insert_new db tx d ev is_ready global = Ok db'" "distinct chain"
    "\<And>b. b \<in> set chain \<Longrightarrow> fmlookup (pd_updates db) (b, tx) = None"
  shows "pool_inv tx (db', chain)"
proof -
  have "pd_updates db' = pd_updates db" using assms(1)
    by (auto simp: transaction_pool_insert_new_def split: if_splits)
  then have "chain_updates db' tx chain = []" using assms(3)
    by (induction chain) (simp_all add: chain_updates_def map_filter_simps)
  then show ?thesis using assms(1,2) by (auto simp: pool_inv_def updates_ok_def transaction_pool_insert_new_def split: if_splits)
qed

section \<open>Properties\<close>

text \<open>C18: Transactions only move forward along a chain. From the moment a transaction enters the pool, however one
  chain of pending blocks grows, updates the transaction and is committed, the stage of the record that is loaded
  for the leaf never goes back and a finalising stage is never left for another one; once another shard group has
  aborted the transaction, its decision stays abort; and the committed stage never goes back either. Updates by
  blocks of competing chains are not part of such a run.\<close>

theorem pool_stages_progress:
  assumes "transaction_pool_insert_new db0 tx d ev is_ready global = Ok db" and "distinct chain"
    and "\<And>b. b \<in> set chain \<Longrightarrow> fmlookup (pd_updates db0) (b, tx) = None"
    and "(pool_chain_step h ns committees tx)\<^sup>*\<^sup>* (db, chain) (db1, chain1)"
    and "(pool_chain_step h ns committees tx)\<^sup>*\<^sup>* (db1, chain1) (db2, chain2)"
    and "fmlookup (pd_records db1) tx = Some row1"
  shows "\<exists>row2 r1 r2. fmlookup (pd_records db2) tx = Some row2 \<and>
    transaction_pool_get_for_blocks db1 True chain1 tx = Ok r1 \<and>
    transaction_pool_get_for_blocks db2 True chain2 tx = Ok r2 \<and>
    stage_rank (current_stage r1) \<le> stage_rank (current_stage r2) \<and>
    (is_finalising (current_stage r1) \<longrightarrow> current_stage r2 = current_stage r1) \<and>
    (remote_aborted r1 \<longrightarrow> is_abort (current_decision r2)) \<and>
    stage_rank (tp_stage row1) \<le> stage_rank (tp_stage row2)"
proof -
  obtain row where "fmlookup (pd_records db) tx = Some row"
    using assms(1) by (auto simp: transaction_pool_insert_new_def split: if_splits)
  then have "pool_inv tx (db1, chain1)"
    using pool_chain_run_forward [OF assms(4) pool_inv_new [OF assms(1-3)]] by simp
  then obtain row2 where r2: "fmlookup (pd_records db2) tx = Some row2"
    and m: "moves_forward row1 (chain_updates db1 tx chain1) row2 (chain_updates db2 tx chain2)"
    using pool_chain_run_forward [OF assms(5)] assms(6) by auto
  have "remote_aborted r \<Longrightarrow> is_abort (current_decision r)" for r
    by (auto simp: remote_aborted_def current_decision_def split: option.splits)
  then show ?thesis using r2 m assms(6)
    by (intro exI [of _ row2] exI [of _ "loaded row1 (chain_updates db1 tx chain1)"]
        exI [of _ "loaded row2 (chain_updates db2 tx chain2)"])
      (auto simp: get_for_blocks_Ok_iff moves_forward_def stage_le_def)
qed

text \<open>C28: A stage outlives the block that proposed it. The stage of a pending update is also written to the record of
  the pool, whichever chain the block is on, and removing the updates of an orphaned block leaves it there: a
  record that is loaded for a chain without updates of the transaction then has the stage that the removed
  block proposed.\<close>

theorem orphaned_stage_remains:
  assumes "transaction_pool_add_pending_update db block u = Ok db1"
    and "tp_transaction_id (su_transaction u) = tx" and "leaf_block_id block \<notin> set chain"
    and "\<And>b. b \<in> set chain \<Longrightarrow> fmlookup (pd_updates db) (b, tx) = None"
  shows "\<exists>r. transaction_pool_get_for_blocks
      (transaction_pool_state_updates_remove_any_by_block_id db1 (leaf_block_id block)) True chain tx = Ok r \<and>
    current_stage r = current_stage (su_transaction u)"
proof -
  let ?db2 = "transaction_pool_state_updates_remove_any_by_block_id db1 (leaf_block_id block)"
  obtain row where row: "fmlookup (pd_records db1) tx =
      Some (row\<lparr>tp_is_ready := su_ready_now u, tp_pending_stage := Some (current_stage (su_transaction u))\<rparr>)"
    using add_pending_update_Ok(2) [OF assms(1)] assms(2) by auto
  have "b \<in> set chain \<Longrightarrow> fmlookup (pd_updates ?db2) (b, tx) = None" for b
    using add_pending_update_Ok(1) [OF assms(1)] assms(2-4)
    by (auto simp: transaction_pool_state_updates_remove_any_by_block_id_def)
  then have "chain_updates ?db2 tx chain = []"
    by (induction chain) (simp_all add: chain_updates_def map_filter_simps)
  moreover have "pd_records ?db2 = pd_records db1" by (simp add: transaction_pool_state_updates_remove_any_by_block_id_def)
  ultimately show ?thesis using row by (auto simp: get_for_blocks_Ok_iff loaded_def current_stage_def [of "row\<lparr>tp_is_ready := _, tp_pending_stage := _\<rparr>"])
qed

section \<open>Sample runs\<close>

definition sample_leaf :: "block_id \<Rightarrow> node_height \<Rightarrow> leaf_block" where
  "sample_leaf b n = \<lparr>leaf_block_id = b, leaf_height = n, leaf_epoch = 0, leaf_shard_group = \<lparr>sg_start = 1, sg_end_inclusive = 2\<rparr>\<rparr>"

definition empty_pool :: pool_db where
  "empty_pool = \<lparr>pd_records = fmempty, pd_updates = fmempty\<rparr>"

definition pool_of_5 :: pool_db where
  "pool_of_5 = empty_pool\<lparr>pd_records := fmupd 5 (new_from_transaction 5 False fmempty) fmempty\<rparr>"

definition prepared_5 :: transaction_pool_record where
  "prepared_5 = (new_from_transaction 5 False fmempty)\<lparr>tp_pending_stage := Some StageLocalPrepared, tp_is_ready := True\<rparr>"

definition prepared_pool :: pool_db where
  "prepared_pool = \<lparr>pd_records = fmupd 5 prepared_5 fmempty,
     pd_updates = fmupd (7, 5) (status_update_data (sample_leaf 7 1) \<lparr>su_transaction = prepared_5, su_ready_now = True\<rparr>) fmempty\<rparr>"

lemma sample_insert: "transaction_pool_insert_new empty_pool 5 DecisionCommit fmempty False False = Ok pool_of_5"
  by (simp add: transaction_pool_insert_new_def empty_pool_def pool_of_5_def new_from_transaction_def)

lemma sample_update:
  "transaction_pool_add_pending_update pool_of_5 (sample_leaf 7 1) \<lparr>su_transaction = prepared_5, su_ready_now = True\<rparr> = Ok prepared_pool"
  by (simp add: transaction_pool_add_pending_update_def pool_of_5_def empty_pool_def prepared_pool_def prepared_5_def
      new_from_transaction_def current_stage_def sample_leaf_def Let_def)

lemma sample_prepare: "pool_step h ns committees (new_from_transaction 5 False fmempty) prepared_5"
proof (rule step_stage)
  show "set_next_stage_and_readiness (new_from_transaction 5 False fmempty) StageLocalPrepared
      \<lparr>sg_start = 1, sg_end_inclusive = 2\<rparr> = Ok prepared_5"
    by (simp add: set_next_stage_and_readiness_def can_continue_to_def check_pending_status_update_def current_stage_def
        new_from_transaction_def prepared_5_def current_decision_def current_local_decision_def Let_def
        all_input_shard_groups_prepared_def list_all_iff sorted_list_of_fmap_def sorted_list_of_fset.rep_eq)
qed

text \<open>Block 7 prepares transaction 5 and is committed: the stage that was pending is now the committed one.\<close>

theorem pool_stages_progress_witness:
  "\<exists>db2 row2. transaction_pool_confirm_all_transitions prepared_pool 7 = Ok db2 \<and>
     fmlookup (pd_records db2) 5 = Some row2 \<and> 1 \<le> stage_rank (current_stage row2)"
proof -
  fix h :: id_hasher
  let ?run = "pool_chain_step h P4 2 5"
  have "?run (pool_of_5, []) (pool_of_5, [7])" by (rule chain_extend) (simp_all add: pool_of_5_def empty_pool_def)
  moreover have "?run (pool_of_5, [leaf_block_id (sample_leaf 7 1)]) (prepared_pool, [leaf_block_id (sample_leaf 7 1)])"
    by (rule chain_update [OF _ _ sample_update]) (auto simp: get_for_blocks_Ok_iff pool_of_5_def empty_pool_def
        chain_updates_def map_filter_simps loaded_def intro: r_into_rtranclp sample_prepare)
  then have "?run (pool_of_5, [7]) (prepared_pool, [7])" by (simp add: sample_leaf_def)
  ultimately have a: "?run\<^sup>*\<^sup>* (pool_of_5, []) (prepared_pool, [7])" by (meson converse_rtranclp_into_rtranclp r_into_rtranclp)
  have one: "updates_of_block prepared_pool 7 =
      [((7, 5), status_update_data (sample_leaf 7 1) \<lparr>su_transaction = prepared_5, su_ready_now = True\<rparr>)]"
    by (simp add: updates_of_block_def prepared_pool_def sorted_list_of_fmap_def sorted_list_of_fset.rep_eq)
  obtain db2 where c: "transaction_pool_confirm_all_transitions prepared_pool 7 = Ok db2"
    unfolding transaction_pool_confirm_all_transitions_def one by (simp add: confirm_update_def prepared_pool_def)
  have b: "?run\<^sup>*\<^sup>* (prepared_pool, [7]) (db2, [])"
    by (rule r_into_rtranclp) (use chain_confirm [OF c, of h P4 2 5 "[]"] in simp)
  have row: "fmlookup (pd_records prepared_pool) 5 = Some prepared_5" by (simp add: prepared_pool_def)
  have l: "transaction_pool_get_for_blocks prepared_pool True [7] 5 = Ok r \<Longrightarrow> current_stage r = StageLocalPrepared" for r
    by (auto simp: get_for_blocks_Ok_iff chain_updates_def map_filter_simps prepared_pool_def loaded_def prepared_5_def
        status_update_data_def Let_def current_stage_def [of "_\<lparr>tp_pending_stage := _, tp_is_ready := _\<rparr>"])
  have e: "transaction_pool_get_for_blocks db2 True [] 5 = Ok r \<Longrightarrow> fmlookup (pd_records db2) 5 = Some r" for r
    by (auto simp: get_for_blocks_Ok_iff chain_updates_def map_filter_simps loaded_def)
  show ?thesis using pool_stages_progress [OF sample_insert _ _ a b row] c l e
    by (auto simp: empty_pool_def)
qed

text \<open>Block 7 is orphaned; transaction 5 is still loaded as prepared for block 8.\<close>

theorem orphaned_stage_remains_witness:
  "\<exists>r. transaction_pool_get_for_blocks
      (transaction_pool_state_updates_remove_any_by_block_id prepared_pool 7) True [8] 5 = Ok r \<and>
    current_stage r = StageLocalPrepared"
proof -
  have "current_stage prepared_5 = StageLocalPrepared" "tp_transaction_id prepared_5 = 5"
    by (simp_all add: prepared_5_def new_from_transaction_def current_stage_def)
  then show ?thesis using orphaned_stage_remains [OF sample_update, of 5 "[8]"]
    by (simp add: sample_leaf_def pool_of_5_def empty_pool_def)
qed

end
