(* ===== verification/Voting.thy ===== *)
theory Voting
  imports PoolUpdates PendingStore
begin



section \<open>The change set\<close>




section \<open>Evaluating commands\<close>







section \<open>What a vote means\<close>









section \<open>A sample run\<close>














end
