(* ===== verification/Certificates.thy ===== *)
theory Certificates
  imports Blocks
begin

text \<open>
  The checks of a proposal that need its certificates (crates/consensus/src/validations/common.rs): the height
  of a block, and the votes of a proposal certificate. The verification of a signature is the one of the
  \<open>consensus_crypto\<close> argument.
\<close>

datatype proposal_validation_error =
    InvalidBlockHeight block_id node_height
  | CandidateBlockNotHigherThanJustify node_height node_height
  | ValidatorNotInCommittee public_key
  | QcDuplicateSignature qc_id public_key
  | QcInvalidSignature qc_id
  | QuorumWasNotReached qc_id nat nat

type_synonym 'a pv_result = "('a, proposal_validation_error) result"

text \<open>One signature: the power so far and the keys seen so far.\<close>

definition check_certificate_signature ::
  "consensus_crypto \<Rightarrow> 'a committee \<Rightarrow> proposal_certificate \<Rightarrow> nat \<times> public_key list \<Rightarrow> validator_signature \<Rightarrow>
    (nat \<times> public_key list) pv_result" where
  "check_certificate_signature cc ms qc acc sig = (case acc of (votes, seen) \<Rightarrow>
     and_then (ok_or (ValidatorNotInCommittee (vs_public_key sig)) (get_power_by_public_key ms (vs_public_key sig))) (\<lambda>p.
     and_then (u64_add votes p) (\<lambda>votes'.
     if vs_public_key sig \<in> set seen then Err (QcDuplicateSignature (pc_calculate_id cc qc) (vs_public_key sig))
     else if \<not> cc_verify_proposal_vote cc (pc_calculate_block_id cc qc) (pc_decision qc) sig
     then Err (QcInvalidSignature (pc_calculate_id cc qc))
     else Ok (votes', vs_public_key sig # seen))))"

definition check_quorum_certificate_signatures ::
  "consensus_crypto \<Rightarrow> 'a committee \<Rightarrow> proposal_certificate \<Rightarrow> unit pv_result" where
  "check_quorum_certificate_signatures cc ms qc =
     (if justifies_zero_block qc then Ok ()
      else and_then (try_fold (check_certificate_signature cc ms qc) (0, []) (pc_signatures qc)) (\<lambda>(votes, _).
        and_then (committee_quorum_threshold ms) (\<lambda>threshold.
        if votes < threshold then Err (QuorumWasNotReached (pc_calculate_id cc qc) votes threshold) else Ok ())))"

definition check_quorum_certificate :: "consensus_crypto \<Rightarrow> 'a committee \<Rightarrow> block \<Rightarrow> unit pv_result" where
  "check_quorum_certificate cc ms b =
     (let qc = b_justify b in
      if b_height b \<le> pc_height qc then Err (CandidateBlockNotHigherThanJustify (pc_height qc) (b_height b))
      else check_quorum_certificate_signatures cc ms qc)"

definition check_height :: "block \<Rightarrow> unit pv_result" where
  "check_height b =
     (if b_height b = 0 then Err (InvalidBlockHeight (b_id b) (b_height b))
      else and_then (u64_add (max_certificate_height b) 1) (\<lambda>expected.
        if b_height b \<noteq> expected then Err (InvalidBlockHeight (b_id b) (b_height b)) else Ok ()))"

section \<open>The votes of a certificate\<close>















end
