(* ===== verification/Spec2Isabelle.thy ===== *)
theory Spec2Isabelle
  imports EngineAccess PendingStoreLaws ChainLaws Voting Certificates
begin

text \<open>
  A verification library for the Tari Ootle layer 2: the execution of transactions by the engine, the
  division of the state among validator committees, and the part of consensus that locks and changes
  substates and that locks and commits blocks. All paths are under src/.

  \<^bold>\<open>The program.\<close> A transaction is a fee intent followed by a main intent, each a list of instructions. The
  transaction processor (crates/engine/src/transaction/processor.rs) runs the instructions. Template code
  reaches the ledger only through the handlers of the runtime interface (crates/engine/src/runtime/impl.rs).
  A handler first reports its call to the runtime modules, which charge fees, and then reads or updates the
  state tracker (tracker.rs) and the working state inside it (working_state.rs). The working state holds the
  buckets, proofs, call frames, fees and the store of substates (state_store.rs) with its lock table
  (locking.rs). Value is held by resource containers inside vaults and buckets
  (crates/engine_types/src/resource_container.rs, vault.rs, bucket.rs). The end of a transaction settles the
  fees and turns the working state into a diff of substates with their next versions. Substates are spread
  over shards by address; a shard group is served by a committee that decides by quorum
  (crates/common_types/src). A transaction that touches several groups is prepared and accepted by each of
  them; the evidence of that is kept with the transaction in the pool
  (crates/storage/src/consensus_models). A block locks the substates of its transactions and collects their
  changes in the pending substate store (crates/consensus/src/hotstuff/substate_store), and pays the leaders
  their share of the fees. Blocks form a chain; a block carries a certificate for an earlier one, and
  certificates lock and commit blocks (crates/consensus/src/traits/block_store.rs).

  \<^bold>\<open>Theories, from the bottom up.\<close>
  \<^item> Prelude: results with a panic outcome, fixed width integers, ordered maps.
  \<^item> Amount: template_lib_types/src/amount/amount.rs, a 192 bit signed integer kept as an int with its
    bounds written out and the overflow behaviour of the build as the parameter \<open>om\<close>.
  \<^item> Confidential, ResourceContainer, ContainerLaws, Holders: confidential statements, the containers,
    their two counts per asset (free and locked), and buckets, vaults, proofs and freeze flags. The locale
    \<open>resource_holder\<close> is the contract of a type that holds a container; it is interpreted for buckets and
    vaults, and \<open>holder_transfer\<close> for moving between two vaults.
  \<^item> AccessRules, Authorization: rules as data, the checks that decide them (tracker_auth.rs) and the
    meaning they decide.
  \<^item> Substates, IndexedValues: substate ids, values and diffs; the index of the addresses inside a CBOR
    value.
  \<^item> Locking, Store: the lock table and the working store, which refines a plain map of substates.
  \<^item> Fees, Stealth, Scope, Objects: fee settlement, stealth transfers, call scopes and frames, fresh ids.
  \<^item> RuntimeErrors, WorkingState, RuntimeOps: the working state and its operations.
  \<^item> Tracker: the tracker, the fee checkpoint, the fee module and transaction results.
  \<^item> Interface, ComponentHandlers, ResourceHandlers, VaultHandlers, RuntimeHandlers: every handler of
    impl.rs as an action on the runtime, a function from the runtime to the runtime and a result; the
    runtime is kept when the action fails, since fees stay charged.
  \<^item> Processor: instructions, calls and the execution of a transaction.
  \<^item> EngineLaws: what the modules may do around a call (locale \<open>metered_modules\<close>, interpreted for the fee
    module) and the steps of the working state.
  \<^item> FeeIntents, ValueFlow, EngineAccess: properties of whole handlers and of whole transactions.
  \<^item> Sharding: shards, shard groups, substate addresses and committees.
  \<^item> ConsensusTypes: decisions, versioned substate ids, lock types and intents, leader fees,
    certificates and votes (crates/consensus_types/src, crates/common_types/src).
  \<^item> Evidence, TransactionPool: the locks and certificates of a transaction for every shard group, and
    the stages of a transaction; \<open>pool_step\<close> is the relation of one update of its record.
  \<^item> PoolUpdates, Voting: the tables of the transaction pool, where a pending block leaves updates that are
    merged into a record when it is loaded (\<open>pool_chain_step\<close> are the steps along one chain of blocks), and the
    votes on AllAccept and SomeAccept (on_ready_to_vote_on_local_block.rs).
  \<^item> PendingStore, PendingStoreLaws: the substate store of a block, its locks, and the fee pools;
    \<open>lock_run\<close> are the stores that granted lock requests lead to, and \<open>in_sync\<close> is the invariant of the
    index of the changes.
  \<^item> Blocks, ChainStore, ChainLaws: commands, block headers and blocks, the tables that hold the chain
    (crates/state_store_rocksdb/src), the rules that lock and commit blocks, and the safe node predicate.
  \<^item> Certificates: the checks of heights and certificates of a proposal (crates/consensus/src/validations).

  \<^bold>\<open>What is shown.\<close> Containers: withdraw, deposit, lock and unlock
  against the counts, with the branches that lose or duplicate value stated as they are. Locks: a write lock
  excludes every other lock. Store: each operation is the operation on a map. Rules: the checks decide the
  meaning of the rules. Fees: settlement conserves value, an accepted transaction has paid, and what
  happens when the main intent fails or pays late. Vault actions: withdraw and deposit conserve value across
  the vault, the bucket and the store; of the actions of a frozen vault only deposits and queries succeed; what
  recall reaches, also in a frozen vault. Calls: a method
  is run only if the access rules of the component allow it, and calls nest at most \<open>MAX_CALL_DEPTH\<close> deep.
  Claims and stealth inputs are spent once. Diffs: versions go up by one. Shards: addresses have exactly one
  shard group, the search for it ends, quorums intersect, and an honest quorum exists.
  Consensus: a multishard write lock excludes other transactions, granted locks are held, the store of a block
  refines a map of versions, the stages of a transaction only move forward along a chain, a validator votes at
  most once on a chain to finalise a transaction, a stage outlives an orphaned block, certificates share
  voters, the leader fees and the burn add up to the fee, and a leader's pool is in its shard and is credited in full. Chain: blocks are committed in chain order and
  only below three linked blocks, locks and certificates only move forward, and the safe node predicate decides
  its rule. These assume a well formed chain (\<open>chain_ok\<close>), which inserting a block on top of a stored one keeps.

  \<^bold>\<open>Bounds.\<close> Nested calls are unrolled \<open>Suc MAX_CALL_DEPTH\<close> times (\<open>runtime_at\<close>), which is enough since
  pushing a frame beyond \<open>MAX_CALL_DEPTH\<close> fails. The two loops of the shard groups that may not end are
  partial functions whose not returning is \<open>None\<close>, with a theorem that \<open>to_shard_group\<close> returns; so are the
  recursions over the chain of blocks, which follow stored data and are shown to return on a well formed chain.
  Every other loop is a structural recursion or a fold over a finite collection.

  \<^bold>\<open>Parameters.\<close> Code of other packages is a field of a parameter record: the Ristretto group, hashes,
  signatures and range proofs (\<open>crypto\<close>), the CBOR decoders (\<open>bor_decoder\<close>, \<open>arg_codec\<close>), running compiled
  template code and checking a template binary (\<open>processor\<close>), and the display of values in events
  (\<open>runtime_interface\<close>), the hashes of substate ids and blocks and the signatures of votes (\<open>id_hasher\<close>,
  \<open>consensus_crypto\<close>, \<open>header_hasher\<close>), and what the database of a validator answers (\<open>store_reads\<close>).

  \<^bold>\<open>Abstractions.\<close> A closure on the working state that fails keeps the state from before it (\<open>write_with\<close> in
  Tracker): after an error only the fee state is read again. The chain of pending blocks that a pool record is
  loaded for is an argument, and runs along it leave out the updates of competing chains. The locks that
  \<open>held\<close> counts are the latest stored lock of a substate and the locks of the block.

  \<^bold>\<open>Not modelled.\<close> WebAssembly execution (a third party virtual machine); the databases behind the state
  stores, the global database and the wallet; the asynchronous workers of consensus, networking, RPC and the
  applications around them; the Merkle state tree; the wallet; code generation by macros; text formats,
  serialisation and logging.
\<close>

end
